(* ===== verification/Go_Prelude.thy ===== *)
theory Go_Prelude
  imports Main "HOL-Library.Word" "HOL-Library.Finite_Map"
begin

text \<open>
  What the models of the SDK's components share: the Go types they use (machine integers, decimal
  printing of them), panics as values and the sequencing of operations that may panic, and the
  lemma collections the component theories extend.

  A Go panic unwinds to the handler installed by the event processor, which fails the workflow
  task and drops the state the panicking operation was changing. An operation that may panic
  therefore returns a sum: \<open>Inl\<close> the panic value, or \<open>Inr\<close> the result and the new state.
\<close>

named_theorems res_simps \<open>rewriting of sequenced results\<close>
named_theorems wf_intros \<open>operations keep the invariant of their component\<close>

type_synonym int64 = "64 word"
type_synonym uint32 = "32 word"

section \<open>Panics and results\<close>

datatype go_panic =
    IllegalState string        \<comment> \<open>\<open>stateMachineIllegalStatePanic\<close>, raised by \<open>panicIllegalState\<close>\<close>
  | PanicString string         \<comment> \<open>\<open>panic("...")\<close>\<close>
  | PanicError string          \<comment> \<open>\<open>panic(err)\<close>, with the text of the error\<close>
  | NilDereference             \<comment> \<open>run-time error: method call or field access on a nil pointer\<close>
  | IndexOutOfRange            \<comment> \<open>run-time error: slice index\<close>
  | TypeAssertion              \<comment> \<open>run-time error: failed interface conversion\<close>

type_synonym 'a res = "go_panic + 'a"

fun bind_res :: "'a res \<Rightarrow> ('a \<Rightarrow> 'b res) \<Rightarrow> 'b res" where
  "bind_res (Inl e) f = Inl e"
| "bind_res (Inr a) f = f a"

lemma bind_res_eq_Inr [res_simps]:
  "bind_res r f = Inr b \<longleftrightarrow> (\<exists>a. r = Inr a \<and> f a = Inr b)"
  by (cases r) auto

lemma bind_res_eq_Inl [res_simps]:
  "bind_res r f = Inl e \<longleftrightarrow> r = Inl e \<or> (\<exists>a. r = Inr a \<and> f a = Inl e)"
  by (cases r) auto

lemma bind_res_assoc: "bind_res (bind_res r f) g = bind_res r (\<lambda>a. bind_res (f a) g)"
  by (cases r) auto

lemma bind_res_cong [fundef_cong]:
  "r = r' \<Longrightarrow> (\<And>a. r' = Inr a \<Longrightarrow> f a = g a) \<Longrightarrow> bind_res r f = bind_res r' g"
  by (cases r') auto

definition returns :: "'a res \<Rightarrow> bool" where
  "returns r \<longleftrightarrow> (\<exists>a. r = Inr a)"

lemma returns_simps [simp]: "returns (Inr a)" "\<not> returns (Inl e)"
  by (auto simp: returns_def)

lemma returnsE: "returns r \<Longrightarrow> (\<And>a. r = Inr a \<Longrightarrow> P) \<Longrightarrow> P"
  by (auto simp: returns_def)

section \<open>Decimal printing of integers\<close>

text \<open>
  \<open>strconv.FormatInt(i, 10)\<close> and \<open>fmt.Sprintf("%d", i)\<close>: the decimal digits of the signed value,
  with a minus sign in front of a negative one. Command ids are made this way from event ids, so
  that the printing is injective matters.
\<close>

definition digit_char :: "nat \<Rightarrow> char" where
  "digit_char n = char_of (48 + n)"

fun nat_str :: "nat \<Rightarrow> string" where
  "nat_str n = (if n < 10 then [digit_char n] else nat_str (n div 10) @ [digit_char (n mod 10)])"

declare nat_str.simps [simp del]

definition int_str :: "int \<Rightarrow> string" where
  "int_str i = (if i < 0 then CHR ''-'' # nat_str (nat (- i)) else nat_str (nat i))"

definition formatInt :: "int64 \<Rightarrow> string" where
  "formatInt w = int_str (sint w)"

definition str_nat :: "string \<Rightarrow> nat" where
  "str_nat s = foldl (\<lambda>acc c. 10 * acc + (of_char c - 48)) 0 s"

lemma of_char_digit [simp]: "n < 10 \<Longrightarrow> of_char (digit_char n) = 48 + n"
  by (simp add: digit_char_def)

lemma str_nat_nat_str [simp]: "str_nat (nat_str n) = n"
proof (induction n rule: nat_str.induct)
  case (1 n)
  show ?case
  proof (cases "n < 10")
    case True
    then show ?thesis by (simp add: nat_str.simps [of n] str_nat_def)
  next
    case False
    then have "str_nat (nat_str n) = 10 * str_nat (nat_str (n div 10)) + n mod 10"
      by (simp add: nat_str.simps [of n] str_nat_def)
    with 1 False show ?thesis by simp
  qed
qed

lemma nat_str_inject [simp]: "nat_str m = nat_str n \<longleftrightarrow> m = n"
  by (metis str_nat_nat_str)

lemma digit_char_not_minus: "n < 10 \<Longrightarrow> digit_char n \<noteq> CHR ''-''"
proof
  assume "n < 10" and "digit_char n = CHR ''-''"
  then have "of_char (digit_char n) = (of_char (CHR ''-'') :: nat)" by simp
  with \<open>n < 10\<close> show False by simp
qed

lemma nat_str_no_minus: "CHR ''-'' \<notin> set (nat_str n)"
proof (induction n rule: nat_str.induct)
  case (1 n)
  then show ?case
    by (cases "n < 10") (auto simp: nat_str.simps [of n] digit_char_not_minus [THEN not_sym])
qed

lemma nat_str_not_Nil [simp]: "nat_str n \<noteq> []"
  by (subst nat_str.simps) simp

lemma nat_str_neq_minus: "nat_str n \<noteq> CHR ''-'' # s"
  using nat_str_no_minus [of n] by (metis list.set_intros(1))

lemma int_str_inject [simp]: "int_str i = int_str j \<longleftrightarrow> i = j"
proof
  assume eq: "int_str i = int_str j"
  show "i = j"
  proof (cases "i < 0"; cases "j < 0")
    assume "i < 0" and "j < 0"
    with eq have "nat (- i) = nat (- j)" by (simp add: int_str_def)
    with \<open>i < 0\<close> \<open>j < 0\<close> show ?thesis by simp
  next
    assume "i < 0" and "\<not> j < 0"
    with eq show ?thesis by (simp add: int_str_def nat_str_neq_minus [THEN not_sym])
  next
    assume "\<not> i < 0" and "j < 0"
    with eq show ?thesis by (simp add: int_str_def nat_str_neq_minus)
  next
    assume "\<not> i < 0" and "\<not> j < 0"
    with eq show ?thesis by (simp add: int_str_def)
  qed
qed simp

lemma formatInt_inject [simp]: "formatInt v = formatInt w \<longleftrightarrow> v = w"
  by (auto simp: formatInt_def intro: signed_word_eqI)

lemma formatInt_not_Nil [simp]: "formatInt w \<noteq> []"
  by (simp add: formatInt_def int_str_def)

section \<open>Lists of pointers\<close>

text \<open>
  \<open>container/list\<close> keeps an element until \<open>Remove\<close> unlinks it; removing an element that is no
  longer linked does nothing, as \<open>remove1\<close> does.
\<close>

lemma set_remove1_distinct [simp]: "distinct xs \<Longrightarrow> set (remove1 x xs) = set xs - {x}"
  by (rule set_remove1_eq)

lemma filter_remove1_other:
  "\<not> P x \<Longrightarrow> filter P (remove1 x xs) = filter P xs"
  by (induction xs) auto

lemma remove1_filter_distinct: "distinct xs \<Longrightarrow> remove1 x xs = filter (\<lambda>y. y \<noteq> x) xs"
  by (induction xs) (auto intro!: filter_id_conv [THEN iffD2, symmetric])

end
