(* ===== verification/Command_Data.thy ===== *)
theory Command_Data
  imports Go_Prelude
begin

text \<open>
  The data of \<open>internal/internal_command_state_machine.go\<close>: command ids, the states of a command
  state machine, the commands a workflow task sends to the service, the twelve kinds of state
  machine and the helper that owns them.

  Messages of the Temporal API are protobuf structs generated outside this repository. A message is
  a record of the fields the SDK sets or reads; a message the SDK only passes on is kept as the
  bytes it serialises to (\<open>proto\<close>), with \<open>None\<close> for a nil pointer.
\<close>

section \<open>Values passed through\<close>

type_synonym proto = "string option"

record payload =
  payload_metadata :: "(string \<times> string) list"
  payload_data :: "string option"

type_synonym payloads = "payload list"

text \<open>
  The fields of a memo or of search attributes, \<open>map[string]*commonpb.Payload\<close>. The messages that
  hold them are pointers to a struct with only that map.
\<close>

type_synonym payloadMap = "(string, payload option) fmap"

record userMetadata =
  summary :: "payload option"
  details :: "payload option"

datatype eventGroupMarker =
    LabelMarker string "payload option"   \<comment> \<open>group id and encoded label\<close>
  | InboundUpdateMarker string            \<comment> \<open>update id\<close>

section \<open>Failures\<close>

datatype retryState =
    RETRY_STATE_NON_RETRYABLE_FAILURE
  | RETRY_STATE_OTHER nat

datatype timeoutType =
    TIMEOUT_TYPE_UNSPECIFIED
  | TIMEOUT_TYPE_START_TO_CLOSE
  | TIMEOUT_TYPE_SCHEDULE_TO_START
  | TIMEOUT_TYPE_SCHEDULE_TO_CLOSE
  | TIMEOUT_TYPE_HEARTBEAT

datatype failureInfo =
    NoFailureInfo
  | ApplicationFailureInfo string bool "payloads option" "int64 option" "32 word"
      \<comment> \<open>type, not retryable, details, next retry delay, category\<close>
  | TimeoutFailureInfo timeoutType "payloads option"
  | CanceledFailureInfo "payloads option"
  | TerminatedFailureInfo
  | ServerFailureInfo bool
  | ResetWorkflowFailureInfo "payloads option"
  | ActivityFailureInfo int64 int64 string string string retryState
  | ChildWorkflowExecutionFailureInfo string string string string int64 int64 retryState
  | NexusOperationExecutionFailureInfo int64 string string string string string
      \<comment> \<open>scheduled event id, endpoint, service, operation, operation id, operation token\<close>
  | NexusHandlerFailureInfo string nat   \<comment> \<open>type and retry behavior\<close>

text \<open>\<open>failurepb.Failure\<close>: message, source, stack trace, encoded attributes, info and cause.\<close>

datatype failure =
  Failure (f_Message: string) (f_Source: string) (f_StackTrace: string)
    (f_EncodedAttributes: "payload option") (f_Info: failureInfo) (f_Cause: "failure option")

section \<open>Retry policies\<close>

text \<open>A \<open>float64\<close> is kept as its bits: its arithmetic is a parameter where it is used.\<close>

record retryPolicy =
  rp_InitialInterval :: int64
  rp_BackoffCoefficient :: "64 word"
  rp_MaximumInterval :: int64
  rp_MaximumAttempts :: "32 word"
  rp_NonRetryableErrorTypes :: "string list"

section \<open>Command ids and states\<close>

datatype commandState =
    commandStateCreated
  | commandStateCommandSent
  | commandStateCanceledBeforeInitiated
  | commandStateInitiated
  | commandStateStarted
  | commandStateCanceledAfterInitiated
  | commandStateCanceledAfterStarted
  | commandStateCancellationCommandSent
  | commandStateCompletedAfterCancellationCommandSent
  | commandStateCompleted
  | commandStateCanceledBeforeSent
  | commandStateCancellationCommandAccepted

datatype commandType =
    commandTypeActivity
  | commandTypeChildWorkflow
  | commandTypeCancellation
  | commandTypeMarker
  | commandTypeTimer
  | commandTypeSignal
  | commandTypeUpsertSearchAttributes
  | commandTypeCancelTimer
  | commandTypeRequestCancelActivityTask
  | commandTypeAcceptWorkflowUpdate
  | commandTypeCompleteWorkflowUpdate
  | commandTypeModifyProperties
  | commandTypeRejectWorkflowUpdate
  | commandTypeProtocolMessage
  | commandTypeNexusOperation
  | commandTypeRequestCancelNexusOperation

record commandID =
  id_commandType :: commandType
  id_id :: string

definition makeCommandID :: "commandType \<Rightarrow> string \<Rightarrow> commandID" where
  "makeCommandID t i = \<lparr>id_commandType = t, id_id = i\<rparr>"

lemma makeCommandID_inject [simp]:
  "makeCommandID t i = makeCommandID u j \<longleftrightarrow> t = u \<and> i = j"
  by (simp add: makeCommandID_def)

lemma makeCommandID_sel [simp]:
  "id_commandType (makeCommandID t i) = t" "id_id (makeCommandID t i) = i"
  by (simp_all add: makeCommandID_def)

fun commandState_String :: "commandState \<Rightarrow> string" where
  "commandState_String commandStateCreated = ''Created''"
| "commandState_String commandStateCommandSent = ''CommandSent''"
| "commandState_String commandStateCanceledBeforeInitiated = ''CanceledBeforeInitiated''"
| "commandState_String commandStateInitiated = ''Initiated''"
| "commandState_String commandStateStarted = ''Started''"
| "commandState_String commandStateCanceledAfterInitiated = ''CanceledAfterInitiated''"
| "commandState_String commandStateCanceledAfterStarted = ''CanceledAfterStarted''"
| "commandState_String commandStateCancellationCommandSent = ''CancellationCommandSent''"
| "commandState_String commandStateCompletedAfterCancellationCommandSent =
     ''CompletedAfterCancellationCommandSent''"
| "commandState_String commandStateCompleted = ''Completed''"
| "commandState_String commandStateCanceledBeforeSent = ''CanceledBeforeSent''"
| "commandState_String commandStateCancellationCommandAccepted = ''CancellationCommandAccepted''"

text \<open>
  The switch of \<open>commandType.String\<close> names thirteen of the sixteen types; the other three print as
  \<open>Unknown\<close>.
\<close>

fun commandType_String :: "commandType \<Rightarrow> string" where
  "commandType_String commandTypeActivity = ''Activity''"
| "commandType_String commandTypeChildWorkflow = ''ChildWorkflow''"
| "commandType_String commandTypeCancellation = ''Cancellation''"
| "commandType_String commandTypeMarker = ''Marker''"
| "commandType_String commandTypeTimer = ''Timer''"
| "commandType_String commandTypeSignal = ''Signal''"
| "commandType_String commandTypeCancelTimer = ''CancelTimer''"
| "commandType_String commandTypeRequestCancelActivityTask = ''RequestCancelActivityTask''"
| "commandType_String commandTypeAcceptWorkflowUpdate = ''AcceptWorkflowUpdate''"
| "commandType_String commandTypeCompleteWorkflowUpdate = ''CompleteWorkflowUpdate''"
| "commandType_String commandTypeRejectWorkflowUpdate = ''RejectWorkflowUpdate''"
| "commandType_String commandTypeNexusOperation = ''NexusOperation''"
| "commandType_String commandTypeRequestCancelNexusOperation = ''RequestCancelNexusOperation''"
| "commandType_String _ = ''Unknown''"

definition commandID_String :: "commandID \<Rightarrow> string" where
  "commandID_String d =
     ''CommandType: '' @ commandType_String (id_commandType d) @ '', ID: '' @ id_id d"

text \<open>The event names appended to a machine's history.\<close>

definition eventCancel :: string where "eventCancel = ''cancel''"
definition eventCommandSent :: string where "eventCommandSent = ''handleCommandSent''"
definition eventInitiated :: string where "eventInitiated = ''handleInitiatedEvent''"
definition eventInitiationFailed :: string where
  "eventInitiationFailed = ''handleInitiationFailedEvent''"
definition eventStarted :: string where "eventStarted = ''handleStartedEvent''"
definition eventCompletion :: string where "eventCompletion = ''handleCompletionEvent''"
definition eventCancelInitiated :: string where
  "eventCancelInitiated = ''handleCancelInitiatedEvent''"
definition eventCancelFailed :: string where "eventCancelFailed = ''handleCancelFailedEvent''"
definition eventCanceled :: string where "eventCanceled = ''handleCanceledEvent''"
definition eventExternalWorkflowExecutionCancelRequested :: string where
  "eventExternalWorkflowExecutionCancelRequested =
     ''handleExternalWorkflowExecutionCancelRequested''"

definition sideEffectMarkerName :: string where "sideEffectMarkerName = ''SideEffect''"
definition versionMarkerName :: string where "versionMarkerName = ''Version''"
definition localActivityMarkerName :: string where "localActivityMarkerName = ''LocalActivity''"
definition mutableSideEffectMarkerName :: string where
  "mutableSideEffectMarkerName = ''MutableSideEffect''"
definition sideEffectMarkerIDName :: string where "sideEffectMarkerIDName = ''side-effect-id''"
definition sideEffectMarkerDataName :: string where "sideEffectMarkerDataName = ''data''"
definition versionMarkerChangeIDName :: string where "versionMarkerChangeIDName = ''change-id''"
definition versionMarkerDataName :: string where "versionMarkerDataName = ''version''"
definition versionSearchAttributeUpdatedName :: string where
  "versionSearchAttributeUpdatedName = ''version-search-attribute-updated''"
definition localActivityMarkerDataName :: string where "localActivityMarkerDataName = ''data''"
definition localActivityResultName :: string where "localActivityResultName = ''result''"
definition mutableSideEffectCallCounterName :: string where
  "mutableSideEffectCallCounterName = ''mutable-side-effect-call-counter''"

section \<open>Commands\<close>

datatype enumsCommandType =
    COMMAND_TYPE_SCHEDULE_ACTIVITY_TASK
  | COMMAND_TYPE_REQUEST_CANCEL_ACTIVITY_TASK
  | COMMAND_TYPE_START_TIMER
  | COMMAND_TYPE_CANCEL_TIMER
  | COMMAND_TYPE_START_CHILD_WORKFLOW_EXECUTION
  | COMMAND_TYPE_REQUEST_CANCEL_EXTERNAL_WORKFLOW_EXECUTION
  | COMMAND_TYPE_SIGNAL_EXTERNAL_WORKFLOW_EXECUTION
  | COMMAND_TYPE_RECORD_MARKER
  | COMMAND_TYPE_UPSERT_WORKFLOW_SEARCH_ATTRIBUTES
  | COMMAND_TYPE_MODIFY_WORKFLOW_PROPERTIES
  | COMMAND_TYPE_PROTOCOL_MESSAGE
  | COMMAND_TYPE_SCHEDULE_NEXUS_OPERATION
  | COMMAND_TYPE_REQUEST_CANCEL_NEXUS_OPERATION
  | COMMAND_TYPE_COMPLETE_WORKFLOW_EXECUTION
  | COMMAND_TYPE_FAIL_WORKFLOW_EXECUTION
  | COMMAND_TYPE_CANCEL_WORKFLOW_EXECUTION
  | COMMAND_TYPE_CONTINUE_AS_NEW_WORKFLOW_EXECUTION

text \<open>
  Durations are nanoseconds (\<open>time.Duration\<close>). \<open>act_rest\<close>, \<open>child_rest\<close> and \<open>nexus_rest\<close> stand
  for the fields that are set once from the caller's options and then only sent.
\<close>

record scheduleActivityAttributes =
  act_ActivityId :: string
  act_ActivityType :: string
  act_TaskQueue :: string
  act_Input :: "payloads option"
  act_ScheduleToCloseTimeout :: int64
  act_StartToCloseTimeout :: int64
  act_ScheduleToStartTimeout :: int64
  act_HeartbeatTimeout :: int64
  act_RequestEagerExecution :: bool
  act_UseWorkflowBuildId :: bool
  act_rest :: proto

record startTimerAttributes =
  timer_TimerId :: string
  timer_StartToFireTimeout :: int64

record startChildWorkflowAttributes =
  child_Namespace :: string
  child_WorkflowId :: string
  child_WorkflowType :: string
  child_TaskQueue :: string
  child_Input :: "payloads option"
  child_WorkflowExecutionTimeout :: int64
  child_WorkflowRunTimeout :: int64
  child_WorkflowTaskTimeout :: int64
  child_CronSchedule :: string
  child_Memo :: "payloadMap option"
  child_SearchAttributes :: "payloadMap option"
  child_InheritBuildId :: bool
  child_rest :: proto

record requestCancelExternalAttributes =
  rce_Namespace :: string
  rce_WorkflowId :: string
  rce_RunId :: string
  rce_Control :: string
  rce_ChildWorkflowOnly :: bool

record signalExternalAttributes =
  sig_Namespace :: string
  sig_WorkflowId :: string
  sig_RunId :: string
  sig_SignalName :: string
  sig_Input :: "payloads option"
  sig_Control :: string
  sig_ChildWorkflowOnly :: bool
  sig_Header :: proto

record recordMarkerAttributes =
  marker_MarkerName :: string
  marker_Details :: "(string, payloads option) fmap"
  marker_Failure :: "failure option"

record scheduleNexusOperationAttributes =
  nexus_Endpoint :: string
  nexus_Service :: string
  nexus_Operation :: string
  nexus_Input :: "payload option"
  nexus_rest :: proto

record continueAsNewAttributes =
  cont_WorkflowType :: string
  cont_Input :: "payloads option"
  cont_TaskQueue :: string
  cont_WorkflowRunTimeout :: int64
  cont_WorkflowTaskTimeout :: int64
  cont_BackoffStartInterval :: "int64 option"
  cont_Header :: proto
  cont_Memo :: "payloadMap option"
  cont_SearchAttributes :: "payloadMap option"
  cont_RetryPolicy :: "retryPolicy option"
  cont_InheritBuildId :: bool
  cont_InitialVersioningBehavior :: nat

datatype commandAttributes =
    NoAttributes
  | ScheduleActivityTaskCommandAttributes scheduleActivityAttributes
  | RequestCancelActivityTaskCommandAttributes int64
  | StartTimerCommandAttributes startTimerAttributes
  | CancelTimerCommandAttributes string
  | StartChildWorkflowExecutionCommandAttributes startChildWorkflowAttributes
  | RequestCancelExternalWorkflowExecutionCommandAttributes requestCancelExternalAttributes
  | SignalExternalWorkflowExecutionCommandAttributes signalExternalAttributes
  | RecordMarkerCommandAttributes recordMarkerAttributes
  | UpsertWorkflowSearchAttributesCommandAttributes "payloadMap option"
  | ModifyWorkflowPropertiesCommandAttributes "payloadMap option"
  | ProtocolMessageCommandAttributes string
  | ScheduleNexusOperationCommandAttributes scheduleNexusOperationAttributes
  | RequestCancelNexusOperationCommandAttributes int64
  | CompleteWorkflowExecutionCommandAttributes "payloads option"
  | FailWorkflowExecutionCommandAttributes "failure option"
  | CancelWorkflowExecutionCommandAttributes "payloads option"
  | ContinueAsNewWorkflowExecutionCommandAttributes continueAsNewAttributes

record command =
  cmd_CommandType :: enumsCommandType
  cmd_Attributes :: commandAttributes
  cmd_UserMetadata :: "userMetadata option"
  cmd_EventGroupMarkers :: "eventGroupMarker list"

definition createNewCommandWithMetadata ::
    "enumsCommandType \<Rightarrow> userMetadata option \<Rightarrow> command" where
  "createNewCommandWithMetadata t metadata =
     \<lparr>cmd_CommandType = t, cmd_Attributes = NoAttributes, cmd_UserMetadata = metadata,
      cmd_EventGroupMarkers = []\<rparr>"

definition createNewCommand :: "enumsCommandType \<Rightarrow> command" where
  "createNewCommand t =
     \<lparr>cmd_CommandType = t, cmd_Attributes = NoAttributes, cmd_UserMetadata = None,
      cmd_EventGroupMarkers = []\<rparr>"

section \<open>State machines\<close>

text \<open>
  A machine is the embedded \<open>commandStateMachineBase\<close> (its id, state, history, user data and event
  group markers) with the fields of its own struct, which also say which methods it overrides. The
  pointer from a nexus operation to its cancel-request machine is an address of the machine store.
  The type of the user data (\<open>data any\<close>) is a parameter, fixed by the event handlers.
\<close>

type_synonym ptr = nat

datatype machineKind =
    ActivityMachine int64 scheduleActivityAttributes "userMetadata option"
  | CancelActivityMachine int64
  | TimerMachine startTimerAttributes "userMetadata option"
  | CancelTimerMachine string
  | ChildWorkflowMachine startChildWorkflowAttributes "userMetadata option"
  | CancelExternalWorkflowMachine command
  | SignalExternalWorkflowMachine command
  | MarkerMachine command
  | CompleteOnSendMachine command
  | ModifyPropertiesMachine command
  | NexusOperationMachine int64 int64 scheduleNexusOperationAttributes "ptr option"
      "userMetadata option"
      \<comment> \<open>seq, scheduledEventID, attributes, cancelation, startMetadata\<close>
  | RequestCancelNexusOperationMachine int64

record 'd machine =
  m_id :: commandID
  m_state :: commandState
  m_history :: "string list"
  m_data :: "'d option"
  m_eventGroupMarkers :: "eventGroupMarker list"
  m_kind :: machineKind

section \<open>The helper\<close>

record versionMarker =
  vm_changeID :: string
  vm_searchAttrUpdated :: bool

text \<open>
  A list element of \<open>orderedCommands\<close> is identified with the machine it holds: \<open>addCommand\<close> pushes
  a machine it was just given, and \<open>moveCommandToBack\<close> unlinks the old element before it pushes the
  new one. \<open>machines\<close> and \<open>nextPtr\<close> are the store and its allocator: a machine that left the list
  stays reachable through the pointers its callers hold. The version marker lookup is a finite map,
  as the loop over it ends because the map does.
\<close>

record 'd commandsHelper =
  nextCommandEventID :: int64
  orderedCommands :: "ptr list"
  commands :: "commandID \<rightharpoonup> ptr"
  scheduledEventIDToActivityID :: "int64 \<rightharpoonup> string"
  scheduledEventIDToCancellationID :: "int64 \<rightharpoonup> string"
  scheduledEventIDToSignalID :: "int64 \<rightharpoonup> string"
  versionMarkerLookup :: "(int64, versionMarker) fmap"
  scheduledEventIDToNexusSeq :: "int64 \<rightharpoonup> int64"
  nexusOperationsWithoutScheduledID :: "ptr list"
  machines :: "ptr \<rightharpoonup> 'd machine"
  nextPtr :: ptr

definition newCommandsHelper :: "'d commandsHelper" where
  "newCommandsHelper =
     \<lparr>nextCommandEventID = 0, orderedCommands = [], commands = Map.empty,
      scheduledEventIDToActivityID = Map.empty, scheduledEventIDToCancellationID = Map.empty,
      scheduledEventIDToSignalID = Map.empty, versionMarkerLookup = fmempty,
      scheduledEventIDToNexusSeq = Map.empty, nexusOperationsWithoutScheduledID = [],
      machines = Map.empty, nextPtr = 0\<rparr>"

end
