(* ===== verification/Command_Machines.thy ===== *)
theory Command_Machines
  imports Command_Data
begin

text \<open>
  The methods of the command state machines: the transitions of \<open>commandStateMachineBase\<close>, the
  overrides of each machine type, and the dispatch of a call through the \<open>commandStateMachine\<close>
  interface to the method of the machine's own type. A machine is reached by its address in the
  helper's store; a method changes the machine and, where the code does, the helper.
\<close>

section \<open>The store\<close>

definition deref :: "'d commandsHelper \<Rightarrow> ptr \<Rightarrow> 'd machine res" where
  "deref h p = (case machines h p of None \<Rightarrow> Inl NilDereference | Some d \<Rightarrow> Inr d)"

definition putMachine :: "'d commandsHelper \<Rightarrow> ptr \<Rightarrow> 'd machine \<Rightarrow> 'd commandsHelper" where
  "putMachine h p d = h\<lparr>machines := (machines h)(p \<mapsto> d)\<rparr>"

definition allocMachine :: "'d commandsHelper \<Rightarrow> 'd machine \<Rightarrow> ptr \<times> 'd commandsHelper" where
  "allocMachine h d =
     (nextPtr h, h\<lparr>machines := (machines h)(nextPtr h \<mapsto> d), nextPtr := Suc (nextPtr h)\<rparr>)"

section \<open>The base machine\<close>

definition base_isDone :: "'d machine \<Rightarrow> bool" where
  "base_isDone d \<longleftrightarrow> m_state d = commandStateCompleted \<or>
     m_state d = commandStateCompletedAfterCancellationCommandSent"

definition bool_String :: "bool \<Rightarrow> string" where
  "bool_String b = (if b then ''true'' else ''false'')"

fun history_String :: "string list \<Rightarrow> string" where
  "history_String [] = ''[]''"
| "history_String (s # ss) = ''['' @ s @ concat (map (\<lambda>t. '' '' @ t) ss) @ '']''"

definition machine_String :: "'d machine \<Rightarrow> string" where
  "machine_String d = commandID_String (m_id d) @ '', state='' @ commandState_String (m_state d) @
     '', isDone()='' @ bool_String (base_isDone d) @ '', history='' @ history_String (m_history d)"

definition removeElement :: "'d commandsHelper \<Rightarrow> ptr \<Rightarrow> 'd commandsHelper" where
  "removeElement h e = h\<lparr>orderedCommands := remove1 e (orderedCommands h)\<rparr>"

definition deleteCommand :: "'d commandsHelper \<Rightarrow> commandID \<Rightarrow> 'd commandsHelper" where
  "deleteCommand h i = h\<lparr>commands := (commands h)(i := None)\<rparr>"

definition moveState ::
    "'d commandsHelper \<Rightarrow> ptr \<Rightarrow> commandState \<Rightarrow> string \<Rightarrow> 'd commandsHelper res" where
  "moveState h p newState event =
     bind_res (deref h p) (\<lambda>d.
       let h1 = putMachine h p (d\<lparr>m_history := m_history d @ [event, commandState_String newState],
                                  m_state := newState\<rparr>)
       in Inr (if newState = commandStateCompleted
               then (case commands h1 (m_id d) of
                       Some elem \<Rightarrow> deleteCommand (removeElement h1 elem) (m_id d)
                     | None \<Rightarrow> h1)
               else h1))"

definition panicIllegalState :: "string \<Rightarrow> 'a res" where
  "panicIllegalState message = Inl (IllegalState message)"

definition failStateTransition :: "'d machine \<Rightarrow> string \<Rightarrow> 'a res" where
  "failStateTransition d event = panicIllegalState
     (''[TMPRL1100] invalid state transition: attempt to '' @ event @ '', '' @ machine_String d)"

definition base_handleCommandSent :: "'d commandsHelper \<Rightarrow> ptr \<Rightarrow> 'd commandsHelper res" where
  "base_handleCommandSent h p = bind_res (deref h p) (\<lambda>d.
     case m_state d of
       commandStateCreated \<Rightarrow> moveState h p commandStateCommandSent eventCommandSent
     | _ \<Rightarrow> Inr h)"

definition base_cancel :: "'d commandsHelper \<Rightarrow> ptr \<Rightarrow> 'd commandsHelper res" where
  "base_cancel h p = bind_res (deref h p) (\<lambda>d.
     case m_state d of
       commandStateCompleted \<Rightarrow> Inr h
     | commandStateCompletedAfterCancellationCommandSent \<Rightarrow> Inr h
     | commandStateCanceledAfterInitiated \<Rightarrow> Inr h
     | commandStateCancellationCommandSent \<Rightarrow> Inr h
     | commandStateCreated \<Rightarrow> moveState h p commandStateCanceledBeforeSent eventCancel
     | commandStateCommandSent \<Rightarrow> moveState h p commandStateCancellationCommandSent eventCancel
     | commandStateInitiated \<Rightarrow> moveState h p commandStateCanceledAfterInitiated eventCancel
     | _ \<Rightarrow> failStateTransition d eventCancel)"

definition base_handleInitiatedEvent :: "'d commandsHelper \<Rightarrow> ptr \<Rightarrow> 'd commandsHelper res" where
  "base_handleInitiatedEvent h p = bind_res (deref h p) (\<lambda>d.
     case m_state d of
       commandStateCommandSent \<Rightarrow> moveState h p commandStateInitiated eventInitiated
     | commandStateCanceledBeforeInitiated \<Rightarrow>
         moveState h p commandStateCanceledAfterInitiated eventInitiated
     | commandStateCanceledBeforeSent \<Rightarrow>
         moveState h p commandStateCanceledAfterInitiated eventInitiated
     | commandStateCancellationCommandSent \<Rightarrow>
         moveState h p commandStateCanceledAfterInitiated eventInitiated
     | _ \<Rightarrow> failStateTransition d eventInitiated)"

definition base_handleInitiationFailedEvent ::
    "'d commandsHelper \<Rightarrow> ptr \<Rightarrow> 'd commandsHelper res" where
  "base_handleInitiationFailedEvent h p = bind_res (deref h p) (\<lambda>d.
     case m_state d of
       commandStateInitiated \<Rightarrow> moveState h p commandStateCompleted eventInitiationFailed
     | commandStateCommandSent \<Rightarrow> moveState h p commandStateCompleted eventInitiationFailed
     | commandStateCanceledBeforeInitiated \<Rightarrow>
         moveState h p commandStateCompleted eventInitiationFailed
     | commandStateCancellationCommandSent \<Rightarrow>
         moveState h p commandStateCompleted eventInitiationFailed
     | _ \<Rightarrow> failStateTransition d eventInitiationFailed)"

definition appendHistory :: "'d commandsHelper \<Rightarrow> ptr \<Rightarrow> string \<Rightarrow> 'd commandsHelper res" where
  "appendHistory h p event = bind_res (deref h p) (\<lambda>d.
     Inr (putMachine h p (d\<lparr>m_history := m_history d @ [event]\<rparr>)))"

definition base_handleStartedEvent :: "'d commandsHelper \<Rightarrow> ptr \<Rightarrow> 'd commandsHelper res" where
  "base_handleStartedEvent h p = appendHistory h p eventStarted"

definition base_handleCompletionEvent :: "'d commandsHelper \<Rightarrow> ptr \<Rightarrow> 'd commandsHelper res" where
  "base_handleCompletionEvent h p = bind_res (deref h p) (\<lambda>d.
     case m_state d of
       commandStateCanceledAfterInitiated \<Rightarrow> moveState h p commandStateCompleted eventCompletion
     | commandStateInitiated \<Rightarrow> moveState h p commandStateCompleted eventCompletion
     | commandStateCancellationCommandSent \<Rightarrow>
         moveState h p commandStateCompletedAfterCancellationCommandSent eventCompletion
     | _ \<Rightarrow> failStateTransition d eventCompletion)"

definition base_handleCancelInitiatedEvent ::
    "'d commandsHelper \<Rightarrow> ptr \<Rightarrow> 'd commandsHelper res" where
  "base_handleCancelInitiatedEvent h p =
     bind_res (appendHistory h p eventCancelInitiated) (\<lambda>h.
     bind_res (deref h p) (\<lambda>d.
     case m_state d of
       commandStateCancellationCommandSent \<Rightarrow> Inr h
     | commandStateCanceledAfterInitiated \<Rightarrow> Inr h
     | commandStateInitiated \<Rightarrow>
         moveState h p commandStateCanceledAfterInitiated eventCancelInitiated
     | _ \<Rightarrow> failStateTransition d eventCancelInitiated))"

definition base_handleCancelFailedEvent ::
    "'d commandsHelper \<Rightarrow> ptr \<Rightarrow> 'd commandsHelper res" where
  "base_handleCancelFailedEvent h p = bind_res (deref h p) (\<lambda>d.
     case m_state d of
       commandStateCompletedAfterCancellationCommandSent \<Rightarrow>
         moveState h p commandStateCompleted eventCancelFailed
     | _ \<Rightarrow> failStateTransition d eventCancelFailed)"

definition base_handleCanceledEvent :: "'d commandsHelper \<Rightarrow> ptr \<Rightarrow> 'd commandsHelper res" where
  "base_handleCanceledEvent h p = bind_res (deref h p) (\<lambda>d.
     case m_state d of
       commandStateCancellationCommandSent \<Rightarrow> moveState h p commandStateCompleted eventCanceled
     | commandStateCanceledAfterInitiated \<Rightarrow> moveState h p commandStateCompleted eventCanceled
     | commandStateCanceledAfterStarted \<Rightarrow> moveState h p commandStateCompleted eventCanceled
     | commandStateCancellationCommandAccepted \<Rightarrow> moveState h p commandStateCompleted eventCanceled
     | _ \<Rightarrow> failStateTransition d eventCanceled)"

section \<open>The machine a command adds, and adding it\<close>

definition incrementNextCommandEventID :: "'d commandsHelper \<Rightarrow> 'd commandsHelper" where
  "incrementNextCommandEventID h = h\<lparr>nextCommandEventID := nextCommandEventID h + 1\<rparr>"

text \<open>
  The loop over consecutive version markers, on the counter and the lookup map alone: each round
  deletes the marker it found, so it runs at most once per marker.
\<close>

function skipVersionMarkers ::
    "int64 \<Rightarrow> (int64, versionMarker) fmap \<Rightarrow> int64 \<times> (int64, versionMarker) fmap" where
  "skipVersionMarkers n m =
     (case fmlookup m n of
        None \<Rightarrow> (n, m)
      | Some marker \<Rightarrow>
          skipVersionMarkers (if vm_searchAttrUpdated marker then n + 1 + 1 else n + 1) (fmdrop n m))"
  by pat_completeness auto
termination
proof (relation "measure (\<lambda>(n, m). card (fset (fmdom m)))")
  fix n :: int64 and m and marker :: versionMarker
  assume "fmlookup m n = Some marker"
  then have "n \<in> fset (fmdom m)" by (simp add: fmdomI)
  then have "card (fset (fmdom m) - {n}) < card (fset (fmdom m))"
    by (intro card_Diff1_less) auto
  then have "card (fset (fmdom (fmdrop n m))) < card (fset (fmdom m))"
    by simp
  then show "((if vm_searchAttrUpdated marker then n + 1 + 1 else n + 1, fmdrop n m), n, m)
      \<in> measure (\<lambda>(n, m). card (fset (fmdom m)))" by simp
qed simp

declare skipVersionMarkers.simps [simp del]

definition incrementNextCommandEventIDIfVersionMarker ::
    "'d commandsHelper \<Rightarrow> 'd commandsHelper" where
  "incrementNextCommandEventIDIfVersionMarker h =
     (let (n, m) = skipVersionMarkers (nextCommandEventID h) (versionMarkerLookup h)
      in h\<lparr>nextCommandEventID := n, versionMarkerLookup := m\<rparr>)"

definition addCommand :: "'d commandsHelper \<Rightarrow> ptr \<Rightarrow> 'd commandsHelper res" where
  "addCommand h p = bind_res (deref h p) (\<lambda>d.
     if commands h (m_id d) \<noteq> None
     then panicIllegalState (''[TMPRL1100] adding duplicate command '' @ machine_String d)
     else Inr (incrementNextCommandEventID (incrementNextCommandEventIDIfVersionMarker
            (h\<lparr>orderedCommands := orderedCommands h @ [p],
               commands := (commands h)(m_id d \<mapsto> p)\<rparr>))))"

definition newCommandStateMachineBase ::
    "commandType \<Rightarrow> string \<Rightarrow> machineKind \<Rightarrow> 'd machine" where
  "newCommandStateMachineBase t i k =
     \<lparr>m_id = makeCommandID t i, m_state = commandStateCreated,
      m_history = [commandState_String commandStateCreated], m_data = None,
      m_eventGroupMarkers = [], m_kind = k\<rparr>"

definition newCancelActivityStateMachine :: "int64 \<Rightarrow> 'd machine" where
  "newCancelActivityStateMachine scheduledEventId =
     newCommandStateMachineBase commandTypeRequestCancelActivityTask (formatInt scheduledEventId)
       (CancelActivityMachine scheduledEventId)"

definition newCancelTimerCommandStateMachine :: "string \<Rightarrow> 'd machine" where
  "newCancelTimerCommandStateMachine timerId =
     newCommandStateMachineBase commandTypeCancelTimer timerId (CancelTimerMachine timerId)"

definition newRequestCancelNexusOperationStateMachine :: "int64 \<Rightarrow> 'd machine" where
  "newRequestCancelNexusOperationStateMachine scheduledEventId =
     newCommandStateMachineBase commandTypeRequestCancelNexusOperation (formatInt scheduledEventId)
       (RequestCancelNexusOperationMachine scheduledEventId)"

definition moveCommandToBack :: "'d commandsHelper \<Rightarrow> ptr \<Rightarrow> 'd commandsHelper res" where
  "moveCommandToBack h p = bind_res (deref h p) (\<lambda>d.
     case commands h (m_id d) of
       None \<Rightarrow> panicIllegalState (''[TMPRL1100] moving command not present '' @ machine_String d)
     | Some elem \<Rightarrow>
         Inr (h\<lparr>orderedCommands := remove1 elem (orderedCommands h) @ [p],
                commands := (commands h)(m_id d \<mapsto> p)\<rparr>))"

section \<open>The command each machine type wants sent\<close>

definition activity_getCommand ::
    "scheduleActivityAttributes \<Rightarrow> userMetadata option \<Rightarrow> 'd machine \<Rightarrow> command option" where
  "activity_getCommand attributes startMetadata d =
     (if m_state d = commandStateCreated \<or> m_state d = commandStateCanceledBeforeSent
      then Some ((createNewCommand COMMAND_TYPE_SCHEDULE_ACTIVITY_TASK)
             \<lparr>cmd_Attributes := ScheduleActivityTaskCommandAttributes attributes,
              cmd_UserMetadata := startMetadata,
              cmd_EventGroupMarkers := m_eventGroupMarkers d\<rparr>)
      else None)"

definition cancelActivity_getCommand :: "int64 \<Rightarrow> 'd machine \<Rightarrow> command option" where
  "cancelActivity_getCommand scheduledEventId d =
     (if m_state d = commandStateCreated
      then Some ((createNewCommand COMMAND_TYPE_REQUEST_CANCEL_ACTIVITY_TASK)
             \<lparr>cmd_Attributes := RequestCancelActivityTaskCommandAttributes scheduledEventId,
              cmd_EventGroupMarkers := m_eventGroupMarkers d\<rparr>)
      else None)"

definition timer_getCommand ::
    "startTimerAttributes \<Rightarrow> userMetadata option \<Rightarrow> 'd machine \<Rightarrow> command option" where
  "timer_getCommand attributes startMetadata d =
     (if m_state d = commandStateCreated \<or> m_state d = commandStateCanceledBeforeSent
      then Some ((createNewCommand COMMAND_TYPE_START_TIMER)
             \<lparr>cmd_Attributes := StartTimerCommandAttributes attributes,
              cmd_UserMetadata := startMetadata,
              cmd_EventGroupMarkers := m_eventGroupMarkers d\<rparr>)
      else None)"

definition cancelTimer_getCommand :: "string \<Rightarrow> 'd machine \<Rightarrow> command option" where
  "cancelTimer_getCommand timerId d =
     (if m_state d = commandStateCreated
      then Some ((createNewCommand COMMAND_TYPE_CANCEL_TIMER)
             \<lparr>cmd_Attributes := CancelTimerCommandAttributes timerId,
              cmd_EventGroupMarkers := m_eventGroupMarkers d\<rparr>)
      else None)"

definition childWorkflow_getCommand ::
    "startChildWorkflowAttributes \<Rightarrow> userMetadata option \<Rightarrow> 'd machine \<Rightarrow> command option" where
  "childWorkflow_getCommand attributes startMetadata d =
     (if m_state d = commandStateCreated
      then Some ((createNewCommand COMMAND_TYPE_START_CHILD_WORKFLOW_EXECUTION)
             \<lparr>cmd_Attributes := StartChildWorkflowExecutionCommandAttributes attributes,
              cmd_UserMetadata := startMetadata,
              cmd_EventGroupMarkers := m_eventGroupMarkers d\<rparr>)
      else if m_state d = commandStateCanceledAfterStarted
      then Some ((createNewCommand COMMAND_TYPE_REQUEST_CANCEL_EXTERNAL_WORKFLOW_EXECUTION)
             \<lparr>cmd_Attributes := RequestCancelExternalWorkflowExecutionCommandAttributes
                \<lparr>rce_Namespace = child_Namespace attributes,
                 rce_WorkflowId = child_WorkflowId attributes,
                 rce_RunId = [], rce_Control = [], rce_ChildWorkflowOnly = True\<rparr>,
              cmd_EventGroupMarkers := m_eventGroupMarkers d\<rparr>)
      else None)"

definition naive_getCommand :: "command \<Rightarrow> 'd machine \<Rightarrow> command option" where
  "naive_getCommand cmd d = (if m_state d = commandStateCreated then Some cmd else None)"

definition nexusOperation_getCommand ::
    "scheduleNexusOperationAttributes \<Rightarrow> ptr option \<Rightarrow> userMetadata option \<Rightarrow> 'd machine
      \<Rightarrow> command option" where
  "nexusOperation_getCommand attributes cancelation startMetadata d =
     (if m_state d = commandStateCreated \<and> cancelation = None
      then Some \<lparr>cmd_CommandType = COMMAND_TYPE_SCHEDULE_NEXUS_OPERATION,
                 cmd_Attributes = ScheduleNexusOperationCommandAttributes attributes,
                 cmd_UserMetadata = startMetadata,
                 cmd_EventGroupMarkers = m_eventGroupMarkers d\<rparr>
      else None)"

definition requestCancelNexusOperation_getCommand ::
    "int64 \<Rightarrow> 'd machine \<Rightarrow> command option" where
  "requestCancelNexusOperation_getCommand scheduledEventId d =
     (if m_state d = commandStateCreated
      then Some ((createNewCommand COMMAND_TYPE_REQUEST_CANCEL_NEXUS_OPERATION)
             \<lparr>cmd_Attributes := RequestCancelNexusOperationCommandAttributes scheduledEventId,
              cmd_EventGroupMarkers := m_eventGroupMarkers d\<rparr>)
      else None)"

definition machine_getCommand :: "'d machine \<Rightarrow> command option" where
  "machine_getCommand d =
     (case m_kind d of
        ActivityMachine _ attributes meta \<Rightarrow> activity_getCommand attributes meta d
      | CancelActivityMachine i \<Rightarrow> cancelActivity_getCommand i d
      | TimerMachine attributes meta \<Rightarrow> timer_getCommand attributes meta d
      | CancelTimerMachine i \<Rightarrow> cancelTimer_getCommand i d
      | ChildWorkflowMachine attributes meta \<Rightarrow> childWorkflow_getCommand attributes meta d
      | CancelExternalWorkflowMachine c \<Rightarrow> naive_getCommand c d
      | SignalExternalWorkflowMachine c \<Rightarrow> naive_getCommand c d
      | MarkerMachine c \<Rightarrow> naive_getCommand c d
      | CompleteOnSendMachine c \<Rightarrow> naive_getCommand c d
      | ModifyPropertiesMachine c \<Rightarrow> naive_getCommand c d
      | NexusOperationMachine _ _ attributes c meta \<Rightarrow> nexusOperation_getCommand attributes c meta d
      | RequestCancelNexusOperationMachine i \<Rightarrow> requestCancelNexusOperation_getCommand i d)"

definition timer_isDone :: "'d machine \<Rightarrow> bool" where
  "timer_isDone d \<longleftrightarrow> m_state d = commandStateCompleted"

definition machine_isDone :: "'d machine \<Rightarrow> bool" where
  "machine_isDone d = (case m_kind d of TimerMachine _ _ \<Rightarrow> timer_isDone d | _ \<Rightarrow> base_isDone d)"

section \<open>Overridden transitions\<close>

definition activity_handleCommandSent :: "'d commandsHelper \<Rightarrow> ptr \<Rightarrow> 'd commandsHelper res" where
  "activity_handleCommandSent h p = bind_res (deref h p) (\<lambda>d.
     case m_state d of
       commandStateCanceledAfterInitiated \<Rightarrow>
         moveState h p commandStateCancellationCommandSent eventCommandSent
     | _ \<Rightarrow> base_handleCommandSent h p)"

definition activity_handleCancelFailedEvent ::
    "'d commandsHelper \<Rightarrow> ptr \<Rightarrow> 'd commandsHelper res" where
  "activity_handleCancelFailedEvent h p = bind_res (deref h p) (\<lambda>d.
     failStateTransition d eventCancelFailed)"

definition setEagerFalse :: "'d machine \<Rightarrow> 'd machine" where
  "setEagerFalse d =
     (case m_kind d of
        ActivityMachine i attributes meta \<Rightarrow>
          d\<lparr>m_kind := ActivityMachine i (attributes\<lparr>act_RequestEagerExecution := False\<rparr>) meta\<rparr>
      | _ \<Rightarrow> d)"

definition activity_cancel ::
    "int64 \<Rightarrow> 'd commandsHelper \<Rightarrow> ptr \<Rightarrow> 'd commandsHelper res" where
  "activity_cancel scheduleID h p = bind_res (deref h p) (\<lambda>d.
     if m_state d \<in> {commandStateCreated, commandStateCommandSent, commandStateInitiated}
     then
       (let (c, h1) = allocMachine h ((newCancelActivityStateMachine scheduleID)
              \<lparr>m_eventGroupMarkers := m_eventGroupMarkers d\<rparr>)
        in bind_res (addCommand h1 c) (\<lambda>h2.
             base_cancel (if m_state d \<noteq> commandStateCommandSent
                          then putMachine h2 p (setEagerFalse d) else h2) p))
     else base_cancel h p)"

definition timer_cancel ::
    "string \<Rightarrow> 'd commandsHelper \<Rightarrow> ptr \<Rightarrow> 'd commandsHelper res" where
  "timer_cancel timerId h p = bind_res (deref h p) (\<lambda>d.
     if m_state d \<in> {commandStateCreated, commandStateCommandSent, commandStateInitiated}
     then
       (let (c, h1) = allocMachine h ((newCancelTimerCommandStateMachine timerId)
              \<lparr>m_eventGroupMarkers := m_eventGroupMarkers d\<rparr>)
        in bind_res (addCommand h1 c) (\<lambda>h2. base_cancel h2 p))
     else base_cancel h p)"

definition timer_handleCommandSent :: "'d commandsHelper \<Rightarrow> ptr \<Rightarrow> 'd commandsHelper res" where
  "timer_handleCommandSent h p = bind_res (deref h p) (\<lambda>d.
     case m_state d of
       commandStateCanceledAfterInitiated \<Rightarrow>
         moveState h p commandStateCancellationCommandSent eventCommandSent
     | _ \<Rightarrow> base_handleCommandSent h p)"

definition childWorkflow_handleCommandSent ::
    "'d commandsHelper \<Rightarrow> ptr \<Rightarrow> 'd commandsHelper res" where
  "childWorkflow_handleCommandSent h p = bind_res (deref h p) (\<lambda>d.
     case m_state d of
       commandStateCanceledAfterStarted \<Rightarrow>
         moveState h p commandStateCancellationCommandSent eventCommandSent
     | _ \<Rightarrow> base_handleCommandSent h p)"

definition childWorkflow_handleStartedEvent ::
    "'d commandsHelper \<Rightarrow> ptr \<Rightarrow> 'd commandsHelper res" where
  "childWorkflow_handleStartedEvent h p = bind_res (deref h p) (\<lambda>d.
     case m_state d of
       commandStateInitiated \<Rightarrow> moveState h p commandStateStarted eventStarted
     | commandStateCanceledAfterInitiated \<Rightarrow>
         moveState h p commandStateCanceledAfterStarted eventStarted
     | _ \<Rightarrow> base_handleStartedEvent h p)"

definition childWorkflow_handleInitiatedEvent ::
    "'d commandsHelper \<Rightarrow> ptr \<Rightarrow> 'd commandsHelper res" where
  "childWorkflow_handleInitiatedEvent h p = bind_res (deref h p) (\<lambda>d.
     case m_state d of
       commandStateCancellationCommandSent \<Rightarrow> failStateTransition d eventInitiated
     | _ \<Rightarrow> base_handleInitiatedEvent h p)"

definition childWorkflow_handleCancelFailedEvent ::
    "'d commandsHelper \<Rightarrow> ptr \<Rightarrow> 'd commandsHelper res" where
  "childWorkflow_handleCancelFailedEvent h p = bind_res (deref h p) (\<lambda>d.
     case m_state d of
       commandStateCancellationCommandSent \<Rightarrow> moveState h p commandStateStarted eventCancelFailed
     | _ \<Rightarrow> base_handleCancelFailedEvent h p)"

definition childWorkflow_cancel :: "'d commandsHelper \<Rightarrow> ptr \<Rightarrow> 'd commandsHelper res" where
  "childWorkflow_cancel h p = bind_res (deref h p) (\<lambda>d.
     case m_state d of
       commandStateStarted \<Rightarrow>
         bind_res (moveState h p commandStateCanceledAfterStarted eventCancel) (\<lambda>h1.
         bind_res (moveCommandToBack h1 p) (\<lambda>h2.
         Inr (incrementNextCommandEventID h2)))
     | _ \<Rightarrow> base_cancel h p)"

definition childWorkflow_handleCanceledEvent ::
    "'d commandsHelper \<Rightarrow> ptr \<Rightarrow> 'd commandsHelper res" where
  "childWorkflow_handleCanceledEvent h p = bind_res (deref h p) (\<lambda>d.
     case m_state d of
       commandStateStarted \<Rightarrow> moveState h p commandStateCompleted eventCanceled
     | commandStateCancellationCommandSent \<Rightarrow>
         moveState h p commandStateCompletedAfterCancellationCommandSent eventCanceled
     | _ \<Rightarrow> base_handleCanceledEvent h p)"

definition childWorkflow_handleCompletionEvent ::
    "'d commandsHelper \<Rightarrow> ptr \<Rightarrow> 'd commandsHelper res" where
  "childWorkflow_handleCompletionEvent h p = bind_res (deref h p) (\<lambda>d.
     case m_state d of
       commandStateStarted \<Rightarrow> moveState h p commandStateCompleted eventCompletion
     | commandStateCanceledAfterStarted \<Rightarrow> moveState h p commandStateCompleted eventCompletion
     | commandStateCompletedAfterCancellationCommandSent \<Rightarrow>
         moveState h p commandStateCompleted eventCompletion
     | commandStateCancellationCommandAccepted \<Rightarrow>
         moveState h p commandStateCompleted eventCompletion
     | _ \<Rightarrow> base_handleCompletionEvent h p)"

definition childWorkflow_handleExternalWorkflowExecutionCancelRequested ::
    "'d commandsHelper \<Rightarrow> ptr \<Rightarrow> 'd commandsHelper res" where
  "childWorkflow_handleExternalWorkflowExecutionCancelRequested h p = bind_res (deref h p) (\<lambda>d.
     if m_state d = commandStateCompletedAfterCancellationCommandSent
     then childWorkflow_handleCompletionEvent h p
     else moveState h p commandStateCancellationCommandAccepted
            eventExternalWorkflowExecutionCancelRequested)"

definition naive_unsupported :: "'d commandsHelper \<Rightarrow> ptr \<Rightarrow> 'd commandsHelper res" where
  "naive_unsupported h p = Inl (PanicString ''unsupported operation'')"

definition cancelExternalWorkflow_handleInitiatedEvent ::
    "'d commandsHelper \<Rightarrow> ptr \<Rightarrow> 'd commandsHelper res" where
  "cancelExternalWorkflow_handleInitiatedEvent h p = bind_res (deref h p) (\<lambda>d.
     case m_state d of
       commandStateCommandSent \<Rightarrow> moveState h p commandStateInitiated eventInitiated
     | _ \<Rightarrow> failStateTransition d eventInitiated)"

definition cancelExternalWorkflow_handleCompletionEvent ::
    "'d commandsHelper \<Rightarrow> ptr \<Rightarrow> 'd commandsHelper res" where
  "cancelExternalWorkflow_handleCompletionEvent h p = bind_res (deref h p) (\<lambda>d.
     case m_state d of
       commandStateInitiated \<Rightarrow> moveState h p commandStateCompleted eventCompletion
     | _ \<Rightarrow> failStateTransition d eventCompletion)"

definition signalExternalWorkflow_handleInitiatedEvent ::
    "'d commandsHelper \<Rightarrow> ptr \<Rightarrow> 'd commandsHelper res" where
  "signalExternalWorkflow_handleInitiatedEvent h p = bind_res (deref h p) (\<lambda>d.
     case m_state d of
       commandStateCommandSent \<Rightarrow> moveState h p commandStateInitiated eventInitiated
     | _ \<Rightarrow> failStateTransition d eventInitiated)"

definition signalExternalWorkflow_handleCompletionEvent ::
    "'d commandsHelper \<Rightarrow> ptr \<Rightarrow> 'd commandsHelper res" where
  "signalExternalWorkflow_handleCompletionEvent h p = bind_res (deref h p) (\<lambda>d.
     case m_state d of
       commandStateInitiated \<Rightarrow> moveState h p commandStateCompleted eventCompletion
     | _ \<Rightarrow> failStateTransition d eventCompletion)"

definition marker_handleCommandSent :: "'d commandsHelper \<Rightarrow> ptr \<Rightarrow> 'd commandsHelper res" where
  "marker_handleCommandSent h p = bind_res (deref h p) (\<lambda>d.
     case m_state d of
       commandStateCreated \<Rightarrow> moveState h p commandStateCompleted eventCommandSent
     | _ \<Rightarrow> Inr h)"

definition completeOnSend_handleCommandSent ::
    "'d commandsHelper \<Rightarrow> ptr \<Rightarrow> 'd commandsHelper res" where
  "completeOnSend_handleCommandSent h p = bind_res (deref h p) (\<lambda>d.
     case m_state d of
       commandStateCreated \<Rightarrow> moveState h p commandStateCompleted eventCommandSent
     | _ \<Rightarrow> Inr h)"

definition modifyProperties_handleCommandSent ::
    "'d commandsHelper \<Rightarrow> ptr \<Rightarrow> 'd commandsHelper res" where
  "modifyProperties_handleCommandSent h p = bind_res (deref h p) (\<lambda>d.
     case m_state d of
       commandStateCreated \<Rightarrow> moveState h p commandStateCompleted eventCommandSent
     | _ \<Rightarrow> Inr h)"

definition nexusOperation_handleStartedEvent ::
    "'d commandsHelper \<Rightarrow> ptr \<Rightarrow> 'd commandsHelper res" where
  "nexusOperation_handleStartedEvent h p = bind_res (deref h p) (\<lambda>d.
     case m_state d of
       commandStateInitiated \<Rightarrow> moveState h p commandStateStarted eventStarted
     | _ \<Rightarrow> failStateTransition d eventStarted)"

definition nexusOperation_handleCompletionEvent ::
    "'d commandsHelper \<Rightarrow> ptr \<Rightarrow> 'd commandsHelper res" where
  "nexusOperation_handleCompletionEvent h p = bind_res (deref h p) (\<lambda>d.
     case m_state d of
       commandStateInitiated \<Rightarrow> moveState h p commandStateCompleted eventCompletion
     | commandStateStarted \<Rightarrow> moveState h p commandStateCompleted eventCompletion
     | _ \<Rightarrow> failStateTransition d eventCompletion)"

definition requestCancelNexusOperation_handleInitiatedEvent ::
    "'d commandsHelper \<Rightarrow> ptr \<Rightarrow> 'd commandsHelper res" where
  "requestCancelNexusOperation_handleInitiatedEvent h p = bind_res (deref h p) (\<lambda>d.
     case m_state d of
       commandStateCommandSent \<Rightarrow> moveState h p commandStateInitiated eventInitiated
     | _ \<Rightarrow> failStateTransition d eventInitiated)"

definition requestCancelNexusOperation_handleCompletionEvent ::
    "'d commandsHelper \<Rightarrow> ptr \<Rightarrow> 'd commandsHelper res" where
  "requestCancelNexusOperation_handleCompletionEvent h p = bind_res (deref h p) (\<lambda>d.
     case m_state d of
       commandStateCreated \<Rightarrow> moveState h p commandStateCompleted eventCompletion
     | commandStateInitiated \<Rightarrow> moveState h p commandStateCompleted eventCompletion
     | _ \<Rightarrow> failStateTransition d eventCompletion)"

definition setCancelation :: "'d machine \<Rightarrow> ptr \<Rightarrow> 'd machine" where
  "setCancelation d c =
     (case m_kind d of
        NexusOperationMachine seq sched attributes _ meta \<Rightarrow>
          d\<lparr>m_kind := NexusOperationMachine seq sched attributes (Some c) meta\<rparr>
      | _ \<Rightarrow> d)"

definition nexusOperation_cancel ::
    "int64 \<Rightarrow> ptr option \<Rightarrow> 'd commandsHelper \<Rightarrow> ptr \<Rightarrow> 'd commandsHelper res" where
  "nexusOperation_cancel scheduledEventID cancelation h p = bind_res (deref h p) (\<lambda>sm.
     if cancelation \<noteq> None \<or> m_state sm = commandStateCompleted then Inr h
     else
       (let (c, h1) = allocMachine h ((newRequestCancelNexusOperationStateMachine scheduledEventID)
              \<lparr>m_eventGroupMarkers := m_eventGroupMarkers sm\<rparr>);
            h2 = putMachine h1 p (setCancelation sm c)
        in bind_res (addCommand h2 c) (\<lambda>h3.
             if m_state sm = commandStateCreated
             then requestCancelNexusOperation_handleCompletionEvent h3 c
             else Inr h3)))"

section \<open>Dispatch through the interface\<close>

text \<open>
  A call on a \<open>commandStateMachine\<close> runs the method of the machine's dynamic type; a type that does
  not declare the method inherits it from the struct it embeds.
\<close>

definition is_naive :: "machineKind \<Rightarrow> bool" where
  "is_naive k = (case k of
       CancelExternalWorkflowMachine _ \<Rightarrow> True | SignalExternalWorkflowMachine _ \<Rightarrow> True
     | MarkerMachine _ \<Rightarrow> True | CompleteOnSendMachine _ \<Rightarrow> True
     | ModifyPropertiesMachine _ \<Rightarrow> True | _ \<Rightarrow> False)"

definition cancel :: "'d commandsHelper \<Rightarrow> ptr \<Rightarrow> 'd commandsHelper res" where
  "cancel h p = bind_res (deref h p) (\<lambda>d.
     case m_kind d of
       ActivityMachine scheduleID _ _ \<Rightarrow> activity_cancel scheduleID h p
     | TimerMachine attributes _ \<Rightarrow> timer_cancel (timer_TimerId attributes) h p
     | ChildWorkflowMachine _ _ \<Rightarrow> childWorkflow_cancel h p
     | NexusOperationMachine _ sched _ c _ \<Rightarrow> nexusOperation_cancel sched c h p
     | k \<Rightarrow> if is_naive k then naive_unsupported h p else base_cancel h p)"

definition handleCommandSent :: "'d commandsHelper \<Rightarrow> ptr \<Rightarrow> 'd commandsHelper res" where
  "handleCommandSent h p = bind_res (deref h p) (\<lambda>d.
     case m_kind d of
       ActivityMachine _ _ _ \<Rightarrow> activity_handleCommandSent h p
     | TimerMachine _ _ \<Rightarrow> timer_handleCommandSent h p
     | ChildWorkflowMachine _ _ \<Rightarrow> childWorkflow_handleCommandSent h p
     | MarkerMachine _ \<Rightarrow> marker_handleCommandSent h p
     | CompleteOnSendMachine _ \<Rightarrow> completeOnSend_handleCommandSent h p
     | ModifyPropertiesMachine _ \<Rightarrow> modifyProperties_handleCommandSent h p
     | _ \<Rightarrow> base_handleCommandSent h p)"

definition handleInitiatedEvent :: "'d commandsHelper \<Rightarrow> ptr \<Rightarrow> 'd commandsHelper res" where
  "handleInitiatedEvent h p = bind_res (deref h p) (\<lambda>d.
     case m_kind d of
       ChildWorkflowMachine _ _ \<Rightarrow> childWorkflow_handleInitiatedEvent h p
     | CancelExternalWorkflowMachine _ \<Rightarrow> cancelExternalWorkflow_handleInitiatedEvent h p
     | SignalExternalWorkflowMachine _ \<Rightarrow> signalExternalWorkflow_handleInitiatedEvent h p
     | RequestCancelNexusOperationMachine _ \<Rightarrow> requestCancelNexusOperation_handleInitiatedEvent h p
     | k \<Rightarrow> if is_naive k then naive_unsupported h p else base_handleInitiatedEvent h p)"

definition handleInitiationFailedEvent :: "'d commandsHelper \<Rightarrow> ptr \<Rightarrow> 'd commandsHelper res" where
  "handleInitiationFailedEvent h p = bind_res (deref h p) (\<lambda>d.
     if is_naive (m_kind d) then naive_unsupported h p else base_handleInitiationFailedEvent h p)"

definition handleStartedEvent :: "'d commandsHelper \<Rightarrow> ptr \<Rightarrow> 'd commandsHelper res" where
  "handleStartedEvent h p = bind_res (deref h p) (\<lambda>d.
     case m_kind d of
       ChildWorkflowMachine _ _ \<Rightarrow> childWorkflow_handleStartedEvent h p
     | NexusOperationMachine _ _ _ _ _ \<Rightarrow> nexusOperation_handleStartedEvent h p
     | k \<Rightarrow> if is_naive k then naive_unsupported h p else base_handleStartedEvent h p)"

definition handleCompletionEvent :: "'d commandsHelper \<Rightarrow> ptr \<Rightarrow> 'd commandsHelper res" where
  "handleCompletionEvent h p = bind_res (deref h p) (\<lambda>d.
     case m_kind d of
       ChildWorkflowMachine _ _ \<Rightarrow> childWorkflow_handleCompletionEvent h p
     | CancelExternalWorkflowMachine _ \<Rightarrow> cancelExternalWorkflow_handleCompletionEvent h p
     | SignalExternalWorkflowMachine _ \<Rightarrow> signalExternalWorkflow_handleCompletionEvent h p
     | NexusOperationMachine _ _ _ _ _ \<Rightarrow> nexusOperation_handleCompletionEvent h p
     | RequestCancelNexusOperationMachine _ \<Rightarrow> requestCancelNexusOperation_handleCompletionEvent h p
     | k \<Rightarrow> if is_naive k then naive_unsupported h p else base_handleCompletionEvent h p)"

definition handleCancelInitiatedEvent :: "'d commandsHelper \<Rightarrow> ptr \<Rightarrow> 'd commandsHelper res" where
  "handleCancelInitiatedEvent h p = bind_res (deref h p) (\<lambda>d.
     if is_naive (m_kind d) then naive_unsupported h p else base_handleCancelInitiatedEvent h p)"

definition handleCancelFailedEvent :: "'d commandsHelper \<Rightarrow> ptr \<Rightarrow> 'd commandsHelper res" where
  "handleCancelFailedEvent h p = bind_res (deref h p) (\<lambda>d.
     case m_kind d of
       ActivityMachine _ _ _ \<Rightarrow> activity_handleCancelFailedEvent h p
     | ChildWorkflowMachine _ _ \<Rightarrow> childWorkflow_handleCancelFailedEvent h p
     | k \<Rightarrow> if is_naive k then naive_unsupported h p else base_handleCancelFailedEvent h p)"

definition handleCanceledEvent :: "'d commandsHelper \<Rightarrow> ptr \<Rightarrow> 'd commandsHelper res" where
  "handleCanceledEvent h p = bind_res (deref h p) (\<lambda>d.
     case m_kind d of
       ChildWorkflowMachine _ _ \<Rightarrow> childWorkflow_handleCanceledEvent h p
     | k \<Rightarrow> if is_naive k then naive_unsupported h p else base_handleCanceledEvent h p)"

end
