(* ===== verification/Commands_Helper.thy ===== *)
theory Commands_Helper
  imports Command_Machines
begin

text \<open>
  The operations of \<open>commandsHelper\<close>: what workflow code asks for (schedule, cancel, record), what
  history events report (initiated, started, closed, canceled), and the collection of the commands
  of a workflow task. Each operation returns the address of the machine it worked on, as the code
  returns the machine, with the new helper.
\<close>

section \<open>The data converter\<close>

text \<open>
  \<open>converter.DataConverter\<close> is an interface that users implement: a parameter. An encoding error is
  its text. The Go values the SDK itself encodes are listed. \<open>FromPayloads\<close> decodes into the
  variables it is given pointers to: it takes the values they have, which also say their types, and
  returns the values they get.
\<close>

record localActivityMarkerData =
  lamd_ActivityID :: string
  lamd_ActivityType :: string
  lamd_ReplayTime :: int
  lamd_Attempt :: "32 word"
  lamd_Backoff :: int64

datatype goValue =
    GoNil
  | GoString string
  | GoInt64 int64
  | GoBool bool
  | GoPayload "payload option"
  | GoPayloads "payloads option"
  | GoStrings "string list"
  | GoMarkerData localActivityMarkerData
  | GoEncodedFailure string string   \<comment> \<open>\<open>encodedFailure\<close>: message and stack trace\<close>
  | GoStruct string            \<comment> \<open>a struct of the SDK or of the user, by its printed form\<close>

record dataConverter =
  dc_ToPayload :: "goValue \<Rightarrow> string + payload option"
  dc_ToPayloads :: "goValue list \<Rightarrow> string + payloads option"
  dc_FromPayload :: "payload \<Rightarrow> goValue \<Rightarrow> string + goValue"
  dc_FromPayloads :: "payloads option \<Rightarrow> goValue list \<Rightarrow> string + goValue list"

definition panicOnError :: "string + 'a \<Rightarrow> 'a res" where
  "panicOnError r = (case r of Inl e \<Rightarrow> Inl (PanicError e) | Inr a \<Rightarrow> Inr a)"

definition BuildUserMetadata ::
    "string \<Rightarrow> string \<Rightarrow> dataConverter \<Rightarrow> string + userMetadata option" where
  "BuildUserMetadata summ dets dc =
     (if summ = [] \<and> dets = [] then Inr None
      else
        (case (if summ \<noteq> [] then dc_ToPayload dc (GoString summ) else Inr None) of
           Inl err \<Rightarrow> Inl (''failed converting summary to payload: '' @ err)
         | Inr s \<Rightarrow>
            (case (if dets \<noteq> [] then dc_ToPayload dc (GoString dets) else Inr None) of
               Inl err \<Rightarrow> Inl (''failed converting details to payload: '' @ err)
             | Inr d \<Rightarrow> Inr (Some \<lparr>summary = s, details = d\<rparr>))))"

section \<open>Creating machines\<close>

definition newActivityCommandStateMachine ::
    "int64 \<Rightarrow> scheduleActivityAttributes \<Rightarrow> userMetadata option \<Rightarrow> 'd machine" where
  "newActivityCommandStateMachine scheduleID attributes startMetadata =
     newCommandStateMachineBase commandTypeActivity (act_ActivityId attributes)
       (ActivityMachine scheduleID attributes startMetadata)"

definition newNexusOperationStateMachine ::
    "'d commandsHelper \<Rightarrow> int64 \<Rightarrow> scheduleNexusOperationAttributes \<Rightarrow> userMetadata option
      \<Rightarrow> eventGroupMarker list \<Rightarrow> ptr \<times> 'd commandsHelper" where
  "newNexusOperationStateMachine h seq attributes startMetadata markers =
     (let (p, h1) = allocMachine h
            ((newCommandStateMachineBase commandTypeNexusOperation (formatInt seq)
               (NexusOperationMachine seq 0 attributes None startMetadata))
             \<lparr>m_eventGroupMarkers := markers\<rparr>)
      in (p, h1\<lparr>nexusOperationsWithoutScheduledID :=
                 nexusOperationsWithoutScheduledID h1 @ [p]\<rparr>))"

definition newTimerCommandStateMachine ::
    "startTimerAttributes \<Rightarrow> userMetadata option \<Rightarrow> 'd machine" where
  "newTimerCommandStateMachine attributes startMetadata =
     newCommandStateMachineBase commandTypeTimer (timer_TimerId attributes)
       (TimerMachine attributes startMetadata)"

definition newChildWorkflowCommandStateMachine ::
    "startChildWorkflowAttributes \<Rightarrow> userMetadata option \<Rightarrow> 'd machine" where
  "newChildWorkflowCommandStateMachine attributes startMetadata =
     newCommandStateMachineBase commandTypeChildWorkflow (child_WorkflowId attributes)
       (ChildWorkflowMachine attributes startMetadata)"

definition newNaiveCommandStateMachine ::
    "commandType \<Rightarrow> string \<Rightarrow> (command \<Rightarrow> machineKind) \<Rightarrow> command \<Rightarrow> 'd machine" where
  "newNaiveCommandStateMachine t i kind cmd = newCommandStateMachineBase t i (kind cmd)"

definition newMarkerCommandStateMachine ::
    "string \<Rightarrow> recordMarkerAttributes \<Rightarrow> userMetadata option \<Rightarrow> eventGroupMarker list
      \<Rightarrow> 'd machine" where
  "newMarkerCommandStateMachine i attributes metadata markers =
     newNaiveCommandStateMachine commandTypeMarker i MarkerMachine
       ((createNewCommandWithMetadata COMMAND_TYPE_RECORD_MARKER metadata)
        \<lparr>cmd_Attributes := RecordMarkerCommandAttributes attributes,
         cmd_EventGroupMarkers := markers\<rparr>)"

definition newCancelExternalWorkflowStateMachine ::
    "requestCancelExternalAttributes \<Rightarrow> string \<Rightarrow> eventGroupMarker list \<Rightarrow> 'd machine" where
  "newCancelExternalWorkflowStateMachine attributes cancellationID markers =
     newNaiveCommandStateMachine commandTypeCancellation cancellationID CancelExternalWorkflowMachine
       ((createNewCommand COMMAND_TYPE_REQUEST_CANCEL_EXTERNAL_WORKFLOW_EXECUTION)
        \<lparr>cmd_Attributes := RequestCancelExternalWorkflowExecutionCommandAttributes attributes,
         cmd_EventGroupMarkers := markers\<rparr>)"

definition newSignalExternalWorkflowStateMachine ::
    "signalExternalAttributes \<Rightarrow> string \<Rightarrow> eventGroupMarker list \<Rightarrow> 'd machine" where
  "newSignalExternalWorkflowStateMachine attributes signalID markers =
     newNaiveCommandStateMachine commandTypeSignal signalID SignalExternalWorkflowMachine
       ((createNewCommand COMMAND_TYPE_SIGNAL_EXTERNAL_WORKFLOW_EXECUTION)
        \<lparr>cmd_Attributes := SignalExternalWorkflowExecutionCommandAttributes attributes,
         cmd_EventGroupMarkers := markers\<rparr>)"

definition newUpsertSearchAttributesStateMachine ::
    "payloadMap option \<Rightarrow> string \<Rightarrow> eventGroupMarker list \<Rightarrow> 'd machine" where
  "newUpsertSearchAttributesStateMachine searchAttr upsertID markers =
     newNaiveCommandStateMachine commandTypeUpsertSearchAttributes upsertID CompleteOnSendMachine
       ((createNewCommand COMMAND_TYPE_UPSERT_WORKFLOW_SEARCH_ATTRIBUTES)
        \<lparr>cmd_Attributes := UpsertWorkflowSearchAttributesCommandAttributes searchAttr,
         cmd_EventGroupMarkers := markers\<rparr>)"

definition newModifyPropertiesStateMachine ::
    "payloadMap option \<Rightarrow> string \<Rightarrow> eventGroupMarker list \<Rightarrow> 'd machine" where
  "newModifyPropertiesStateMachine memo changeID markers =
     newNaiveCommandStateMachine commandTypeModifyProperties changeID ModifyPropertiesMachine
       ((createNewCommand COMMAND_TYPE_MODIFY_WORKFLOW_PROPERTIES)
        \<lparr>cmd_Attributes := ModifyWorkflowPropertiesCommandAttributes memo,
         cmd_EventGroupMarkers := markers\<rparr>)"

section \<open>Ids and lookup\<close>

definition addNew :: "'d commandsHelper \<Rightarrow> 'd machine \<Rightarrow> (ptr \<times> 'd commandsHelper) res" where
  "addNew h d = (let (p, h1) = allocMachine h d in
     bind_res (addCommand h1 p) (\<lambda>h2. Inr (p, h2)))"

fun countCommands :: "'d commandsHelper \<Rightarrow> ptr list \<Rightarrow> int64 res" where
  "countCommands h [] = Inr 0"
| "countCommands h (p # ps) = bind_res (deref h p) (\<lambda>d.
     bind_res (countCommands h ps) (\<lambda>n.
       Inr (if machine_getCommand d \<noteq> None then n + 1 else n)))"

definition setCurrentWorkflowTaskStartedEventID ::
    "'d commandsHelper \<Rightarrow> int64 \<Rightarrow> 'd commandsHelper res" where
  "setCurrentWorkflowTaskStartedEventID h workflowTaskStartedEventID =
     bind_res (countCommands h (orderedCommands h)) (\<lambda>uncountedCommands.
       Inr (h\<lparr>nextCommandEventID := workflowTaskStartedEventID + 2 + uncountedCommands\<rparr>))"

definition getNextID :: "'d commandsHelper \<Rightarrow> (int64 \<times> 'd commandsHelper) res" where
  "getNextID h =
     (let h1 = incrementNextCommandEventIDIfVersionMarker h in
      if nextCommandEventID h1 = 0
      then Inl (PanicString
             ''Attempt to generate a command before processing WorkflowTaskStarted event'')
      else Inr (nextCommandEventID h1, h1))"

definition getCommand :: "'d commandsHelper \<Rightarrow> commandID \<Rightarrow> ptr res" where
  "getCommand h i =
     (case commands h i of
        None \<Rightarrow> panicIllegalState
          (''[TMPRL1100] During replay, a matching '' @ commandType_String (id_commandType i) @
           '' command was expected in history event position '' @ id_id i @
           ''. However, the replayed code did not produce that. Possible causes are nondeterministic'' @
           '' workflow definition code, or an incompatible change in the workflow definition.'')
      | Some p \<Rightarrow> Inr p)"

text \<open>Most operations look a machine up by its id, send it one event and return it.\<close>

definition onCommand ::
    "('d commandsHelper \<Rightarrow> ptr \<Rightarrow> 'd commandsHelper res) \<Rightarrow> 'd commandsHelper \<Rightarrow> commandID
      \<Rightarrow> (ptr \<times> 'd commandsHelper) res" where
  "onCommand f h i = bind_res (getCommand h i) (\<lambda>p. bind_res (f h p) (\<lambda>h1. Inr (p, h1)))"

definition removeCancelOfResolvedCommand ::
    "'d commandsHelper \<Rightarrow> commandID \<Rightarrow> 'd commandsHelper res" where
  "removeCancelOfResolvedCommand h i =
     (if id_commandType i \<noteq> commandTypeCancelTimer \<and>
         id_commandType i \<noteq> commandTypeRequestCancelActivityTask
      then Inl (PanicString
        ''removeCancelOfResolvedCommand should only be called for cancel timer / activity'')
      else Inr (case commands h i of
                  Some orderedCmdEl \<Rightarrow> removeElement (deleteCommand h i) orderedCmdEl
                | None \<Rightarrow> h))"

section \<open>Activities\<close>

definition scheduleActivityTask ::
    "'d commandsHelper \<Rightarrow> int64 \<Rightarrow> scheduleActivityAttributes \<Rightarrow> userMetadata option
      \<Rightarrow> eventGroupMarker list \<Rightarrow> (ptr \<times> 'd commandsHelper) res" where
  "scheduleActivityTask h scheduleID attributes metadata markers =
     addNew (h\<lparr>scheduledEventIDToActivityID :=
                (scheduledEventIDToActivityID h)(scheduleID \<mapsto> act_ActivityId attributes)\<rparr>)
       ((newActivityCommandStateMachine scheduleID attributes metadata)
        \<lparr>m_eventGroupMarkers := markers\<rparr>)"

definition requestCancelActivityTask ::
    "'d commandsHelper \<Rightarrow> string \<Rightarrow> (ptr \<times> 'd commandsHelper) res" where
  "requestCancelActivityTask h activityID =
     onCommand cancel h (makeCommandID commandTypeActivity activityID)"

definition forgetActivity :: "'d commandsHelper \<Rightarrow> int64 \<Rightarrow> 'd commandsHelper" where
  "forgetActivity h scheduledEventID =
     h\<lparr>scheduledEventIDToActivityID := (scheduledEventIDToActivityID h)(scheduledEventID := None)\<rparr>"

definition handleActivityTaskClosed ::
    "'d commandsHelper \<Rightarrow> string \<Rightarrow> int64 \<Rightarrow> (ptr \<times> 'd commandsHelper) res" where
  "handleActivityTaskClosed h activityID scheduledEventID =
     bind_res (getCommand h (makeCommandID commandTypeActivity activityID)) (\<lambda>p.
     bind_res (removeCancelOfResolvedCommand h
       (makeCommandID commandTypeRequestCancelActivityTask (formatInt scheduledEventID))) (\<lambda>h1.
     bind_res (handleCompletionEvent h1 p) (\<lambda>h2.
     Inr (p, forgetActivity h2 scheduledEventID))))"

definition handleActivityTaskScheduled ::
    "'d commandsHelper \<Rightarrow> string \<Rightarrow> int64 \<Rightarrow> (ptr \<times> 'd commandsHelper) res" where
  "handleActivityTaskScheduled h activityID scheduledEventID =
     (if scheduledEventIDToActivityID h scheduledEventID = None
      then panicIllegalState
        (''[TMPRL1100] lookup failed for scheduledEventID to activityID: scheduleEventID: '' @
         formatInt scheduledEventID @ '', activityID: '' @ activityID)
      else onCommand handleInitiatedEvent h (makeCommandID commandTypeActivity activityID))"

definition handleActivityTaskCancelRequested ::
    "'d commandsHelper \<Rightarrow> int64 \<Rightarrow> (ptr \<times> 'd commandsHelper) res" where
  "handleActivityTaskCancelRequested h scheduledEventID =
     (case scheduledEventIDToActivityID h scheduledEventID of
        None \<Rightarrow> panicIllegalState
          (''[TMPRL1100] unable to find activityID for the scheduledEventID: '' @
           formatInt scheduledEventID)
      | Some activityID \<Rightarrow>
          onCommand handleCancelInitiatedEvent h (makeCommandID commandTypeActivity activityID))"

definition handleActivityTaskCanceled ::
    "'d commandsHelper \<Rightarrow> string \<Rightarrow> int64 \<Rightarrow> (ptr \<times> 'd commandsHelper) res" where
  "handleActivityTaskCanceled h activityID scheduledEventID =
     bind_res (onCommand handleCanceledEvent h (makeCommandID commandTypeActivity activityID))
       (\<lambda>(p, h1). Inr (p, forgetActivity h1 scheduledEventID))"

section \<open>Nexus operations\<close>

definition scheduleNexusOperation ::
    "'d commandsHelper \<Rightarrow> int64 \<Rightarrow> scheduleNexusOperationAttributes \<Rightarrow> userMetadata option
      \<Rightarrow> eventGroupMarker list \<Rightarrow> (ptr \<times> 'd commandsHelper) res" where
  "scheduleNexusOperation h seq attributes startMetadata markers =
     (let (p, h1) = newNexusOperationStateMachine h seq attributes startMetadata markers
      in bind_res (addCommand h1 p) (\<lambda>h2. Inr (p, h2)))"

definition setScheduledEventID :: "'d machine \<Rightarrow> int64 \<Rightarrow> 'd machine" where
  "setScheduledEventID d eventId =
     (case m_kind d of
        NexusOperationMachine seq _ attributes c meta \<Rightarrow>
          d\<lparr>m_kind := NexusOperationMachine seq eventId attributes c meta\<rparr>
      | _ \<Rightarrow> d)"

definition nexusSeq :: "'d machine \<Rightarrow> int64 res" where
  "nexusSeq d = (case m_kind d of NexusOperationMachine seq _ _ _ _ \<Rightarrow> Inr seq | _ \<Rightarrow> Inl TypeAssertion)"

definition handleNexusOperationScheduled ::
    "'d commandsHelper \<Rightarrow> int64 \<Rightarrow> string \<Rightarrow> 'd commandsHelper res" where
  "handleNexusOperationScheduled h eventId eventText =
     (case nexusOperationsWithoutScheduledID h of
        [] \<Rightarrow> panicIllegalState
          (''[TMPRL1100] unable to find nexus operation state machine for event: '' @ eventText)
      | p # rest \<Rightarrow>
          bind_res (deref h p) (\<lambda>d.
          bind_res (nexusSeq d) (\<lambda>seq.
            handleInitiatedEvent
              ((putMachine (h\<lparr>nexusOperationsWithoutScheduledID := rest\<rparr>) p
                 (setScheduledEventID d eventId))
               \<lparr>scheduledEventIDToNexusSeq := (scheduledEventIDToNexusSeq h)(eventId \<mapsto> seq)\<rparr>) p)))"

definition getNexusOperationCommand :: "'d commandsHelper \<Rightarrow> int64 \<Rightarrow> ptr res" where
  "getNexusOperationCommand h seq =
     getCommand h (makeCommandID commandTypeNexusOperation (formatInt seq))"

definition lookupNexusSeq :: "'d commandsHelper \<Rightarrow> int64 \<Rightarrow> int64 res" where
  "lookupNexusSeq h scheduledEventID =
     (case scheduledEventIDToNexusSeq h scheduledEventID of
        None \<Rightarrow> panicIllegalState
          (''[TMPRL1100] unable to find nexus operation state machine for event ID: '' @
           formatInt scheduledEventID)
      | Some seq \<Rightarrow> Inr seq)"

definition handleNexusOperationStarted ::
    "'d commandsHelper \<Rightarrow> int64 \<Rightarrow> (ptr \<times> 'd commandsHelper) res" where
  "handleNexusOperationStarted h scheduledEventID =
     bind_res (lookupNexusSeq h scheduledEventID) (\<lambda>seq.
     bind_res (getNexusOperationCommand h seq) (\<lambda>p.
     bind_res (handleStartedEvent h p) (\<lambda>h1. Inr (p, h1))))"

definition handleNexusOperationCompleted ::
    "'d commandsHelper \<Rightarrow> int64 \<Rightarrow> (ptr \<times> 'd commandsHelper) res" where
  "handleNexusOperationCompleted h scheduledEventID =
     bind_res (lookupNexusSeq h scheduledEventID) (\<lambda>seq.
       let h1 = h\<lparr>scheduledEventIDToNexusSeq :=
                    (scheduledEventIDToNexusSeq h)(scheduledEventID := None)\<rparr>
       in bind_res (getNexusOperationCommand h1 seq) (\<lambda>p.
          bind_res (handleCompletionEvent h1 p) (\<lambda>h2. Inr (p, h2))))"

text \<open>
  \<open>sm.cancelation\<close> is nil until the operation was canceled; calling a method on it then is a nil
  dereference.
\<close>

definition nexusCancelation :: "'d commandsHelper \<Rightarrow> ptr \<Rightarrow> ptr res" where
  "nexusCancelation h p = bind_res (deref h p) (\<lambda>d.
     case m_kind d of
       NexusOperationMachine _ _ _ c _ \<Rightarrow>
         (case c of None \<Rightarrow> Inl NilDereference | Some q \<Rightarrow> Inr q)
     | _ \<Rightarrow> Inl TypeAssertion)"

definition handleNexusOperationCancelRequested ::
    "'d commandsHelper \<Rightarrow> int64 \<Rightarrow> (ptr \<times> 'd commandsHelper) res" where
  "handleNexusOperationCancelRequested h scheduledEventID =
     bind_res (lookupNexusSeq h scheduledEventID) (\<lambda>seq.
     bind_res (getNexusOperationCommand h seq) (\<lambda>p.
     bind_res (nexusCancelation h p) (\<lambda>q.
     bind_res (requestCancelNexusOperation_handleInitiatedEvent h q) (\<lambda>h1. Inr (p, h1)))))"

definition handleNexusOperationCancelRequestDelivered ::
    "'d commandsHelper \<Rightarrow> int64 \<Rightarrow> (ptr \<times> 'd commandsHelper) res" where
  "handleNexusOperationCancelRequestDelivered h scheduledEventID =
     bind_res (lookupNexusSeq h scheduledEventID) (\<lambda>seq.
     bind_res (getNexusOperationCommand h seq) (\<lambda>p.
     bind_res (nexusCancelation h p) (\<lambda>q.
     bind_res (requestCancelNexusOperation_handleCompletionEvent h q) (\<lambda>h1. Inr (p, h1)))))"

text \<open>The scan for the machine with a sequence number, which drops the first match.\<close>

fun removeSeq :: "'d commandsHelper \<Rightarrow> int64 \<Rightarrow> ptr list \<Rightarrow> ptr list res" where
  "removeSeq h seq [] = Inr []"
| "removeSeq h seq (p # ps) =
     bind_res (deref h p) (\<lambda>d. bind_res (nexusSeq d) (\<lambda>s.
       if s = seq then Inr ps
       else bind_res (removeSeq h seq ps) (\<lambda>qs. Inr (p # qs))))"

definition requestCancelNexusOperation ::
    "'d commandsHelper \<Rightarrow> int64 \<Rightarrow> (ptr \<times> 'd commandsHelper) res" where
  "requestCancelNexusOperation h seq =
     bind_res (getNexusOperationCommand h seq) (\<lambda>p.
     bind_res (cancel h p) (\<lambda>h1.
     bind_res (deref h1 p) (\<lambda>d.
       if m_state d \<noteq> commandStateCanceledBeforeSent then Inr (p, h1)
       else bind_res (removeSeq h1 seq (nexusOperationsWithoutScheduledID h1)) (\<lambda>ps.
              Inr (p, h1\<lparr>nexusOperationsWithoutScheduledID := ps\<rparr>)))))"

section \<open>Markers\<close>

definition recordVersionMarker ::
    "'d commandsHelper \<Rightarrow> string \<Rightarrow> int64 \<Rightarrow> dataConverter \<Rightarrow> bool \<Rightarrow> eventGroupMarker list
      \<Rightarrow> (ptr \<times> 'd commandsHelper) res" where
  "recordVersionMarker h changeID version dc searchAttributeWasUpdated markers =
     (let markerID = versionMarkerName @ ''_'' @ changeID in
      bind_res (panicOnError (dc_ToPayloads dc [GoString changeID])) (\<lambda>changeIDPayload.
      bind_res (panicOnError (dc_ToPayloads dc [GoInt64 version])) (\<lambda>versionPayload.
      let details = fmap_of_list [(versionMarkerChangeIDName, changeIDPayload),
                                  (versionMarkerDataName, versionPayload)] in
      bind_res
        (if searchAttributeWasUpdated then Inr details
         else bind_res (panicOnError (dc_ToPayloads dc [GoBool searchAttributeWasUpdated]))
                (\<lambda>pl. Inr (fmupd versionSearchAttributeUpdatedName pl details))) (\<lambda>details.
      addNew h (newMarkerCommandStateMachine markerID
        \<lparr>marker_MarkerName = versionMarkerName, marker_Details = details, marker_Failure = None\<rparr>
        None markers)))))"

definition handleVersionMarker ::
    "'d commandsHelper \<Rightarrow> int64 \<Rightarrow> string \<Rightarrow> bool \<Rightarrow> 'd commandsHelper res" where
  "handleVersionMarker h eventID changeID searchAttrUpdated =
     (if fmlookup (versionMarkerLookup h) eventID \<noteq> None
      then panicIllegalState
        (''[TMPRL1100] marker event already exists for eventID in lookup: eventID: '' @
         formatInt eventID @ '', changeID: '' @ changeID)
      else Inr (h\<lparr>versionMarkerLookup := fmupd eventID
             \<lparr>vm_changeID = changeID, vm_searchAttrUpdated = searchAttrUpdated\<rparr>
             (versionMarkerLookup h)\<rparr>))"

definition recordSideEffectMarker ::
    "'d commandsHelper \<Rightarrow> int64 \<Rightarrow> payloads option \<Rightarrow> dataConverter \<Rightarrow> userMetadata option
      \<Rightarrow> eventGroupMarker list \<Rightarrow> (ptr \<times> 'd commandsHelper) res" where
  "recordSideEffectMarker h sideEffectID data dc metadata markers =
     (let markerID = sideEffectMarkerName @ ''_'' @ formatInt sideEffectID in
      bind_res (panicOnError (dc_ToPayloads dc [GoInt64 sideEffectID])) (\<lambda>sideEffectIDPayload.
      addNew h (newMarkerCommandStateMachine markerID
        \<lparr>marker_MarkerName = sideEffectMarkerName,
         marker_Details = fmap_of_list [(sideEffectMarkerIDName, sideEffectIDPayload),
                                        (sideEffectMarkerDataName, data)],
         marker_Failure = None\<rparr> metadata markers)))"

definition recordLocalActivityMarker ::
    "'d commandsHelper \<Rightarrow> string \<Rightarrow> (string, payloads option) fmap \<Rightarrow> failure option \<Rightarrow> userMetadata option
      \<Rightarrow> eventGroupMarker list \<Rightarrow> (ptr \<times> 'd commandsHelper) res" where
  "recordLocalActivityMarker h activityID dets failure metadata markers =
     (let markerID = localActivityMarkerName @ ''_'' @ activityID in
      bind_res (getNextID h) (\<lambda>(_, h1).
      addNew h1 (newMarkerCommandStateMachine markerID
        \<lparr>marker_MarkerName = localActivityMarkerName, marker_Details = dets,
         marker_Failure = failure\<rparr> metadata markers)))"

definition recordMutableSideEffectMarker ::
    "'d commandsHelper \<Rightarrow> string \<Rightarrow> int64 \<Rightarrow> payloads option \<Rightarrow> dataConverter
      \<Rightarrow> userMetadata option \<Rightarrow> eventGroupMarker list \<Rightarrow> (ptr \<times> 'd commandsHelper) res" where
  "recordMutableSideEffectMarker h userID callCountHint data dc metadata markers =
     bind_res (getNextID h) (\<lambda>(n, h1).
       let mutableSideEffectID = userID @ ''_'' @ formatInt n;
           markerID = mutableSideEffectMarkerName @ ''_'' @ mutableSideEffectID in
       bind_res (panicOnError (dc_ToPayloads dc [GoString mutableSideEffectID])) (\<lambda>idPayload.
       bind_res (panicOnError (dc_ToPayloads dc [GoInt64 callCountHint])) (\<lambda>counterPayload.
       addNew h1 (newMarkerCommandStateMachine markerID
         \<lparr>marker_MarkerName = mutableSideEffectMarkerName,
          marker_Details = fmap_of_list [(sideEffectMarkerIDName, idPayload),
                                         (sideEffectMarkerDataName, data),
                                         (mutableSideEffectCallCounterName, counterPayload)],
          marker_Failure = None\<rparr> metadata markers))))"

section \<open>Child and external workflows\<close>

text \<open>The error \<open>childWorkflowExistsWithId\<close> is returned, not raised: the inner \<open>Inl\<close>.\<close>

definition startChildWorkflowExecution ::
    "'d commandsHelper \<Rightarrow> startChildWorkflowAttributes \<Rightarrow> userMetadata option
      \<Rightarrow> eventGroupMarker list \<Rightarrow> ((string + ptr) \<times> 'd commandsHelper) res" where
  "startChildWorkflowExecution h attributes startMetadata markers =
     (let d = (newChildWorkflowCommandStateMachine attributes startMetadata)
                \<lparr>m_eventGroupMarkers := markers\<rparr> in
      if commands h (m_id d) \<noteq> None then Inr (Inl (child_WorkflowId attributes), h)
      else bind_res (addNew h d) (\<lambda>(p, h1). Inr (Inr p, h1)))"

definition handleStartChildWorkflowExecutionInitiated ::
    "'d commandsHelper \<Rightarrow> string \<Rightarrow> (ptr \<times> 'd commandsHelper) res" where
  "handleStartChildWorkflowExecutionInitiated h workflowID =
     onCommand handleInitiatedEvent h (makeCommandID commandTypeChildWorkflow workflowID)"

definition handleStartChildWorkflowExecutionFailed ::
    "'d commandsHelper \<Rightarrow> string \<Rightarrow> (ptr \<times> 'd commandsHelper) res" where
  "handleStartChildWorkflowExecutionFailed h workflowID =
     onCommand handleInitiationFailedEvent h (makeCommandID commandTypeChildWorkflow workflowID)"

definition requestCancelExternalWorkflowExecution ::
    "'d commandsHelper \<Rightarrow> string \<Rightarrow> string \<Rightarrow> string \<Rightarrow> string \<Rightarrow> bool \<Rightarrow> eventGroupMarker list
      \<Rightarrow> (ptr \<times> 'd commandsHelper) res" where
  "requestCancelExternalWorkflowExecution h namespace workflowID runID cancellationID
       childWorkflowOnly markers =
     (if childWorkflowOnly then
        (if cancellationID \<noteq> [] then
           Inl (PanicString ''cancellation on child workflow should not use cancellation ID'')
         else if runID \<noteq> [] then
           Inl (PanicString ''cancellation on child workflow should not use run ID'')
         else onCommand cancel h (makeCommandID commandTypeChildWorkflow workflowID))
      else if cancellationID = [] then
        Inl (PanicString ''cancellation on external workflow should use cancellation ID'')
      else
        addNew h (newCancelExternalWorkflowStateMachine
          \<lparr>rce_Namespace = namespace, rce_WorkflowId = workflowID, rce_RunId = runID,
           rce_Control = cancellationID, rce_ChildWorkflowOnly = False\<rparr> cancellationID markers))"

definition isCancelExternalWorkflowEventForChildWorkflow :: "string \<Rightarrow> bool" where
  "isCancelExternalWorkflowEventForChildWorkflow cancellationID \<longleftrightarrow> length cancellationID = 0"

definition handleRequestCancelExternalWorkflowExecutionInitiated ::
    "'d commandsHelper \<Rightarrow> int64 \<Rightarrow> string \<Rightarrow> string \<Rightarrow> (ptr \<times> 'd commandsHelper) res" where
  "handleRequestCancelExternalWorkflowExecutionInitiated h initiatedeventID workflowID
       cancellationID =
     (if isCancelExternalWorkflowEventForChildWorkflow cancellationID
      then onCommand handleCancelInitiatedEvent h (makeCommandID commandTypeChildWorkflow workflowID)
      else onCommand handleInitiatedEvent
        (h\<lparr>scheduledEventIDToCancellationID :=
             (scheduledEventIDToCancellationID h)(initiatedeventID \<mapsto> cancellationID)\<rparr>)
        (makeCommandID commandTypeCancellation cancellationID))"

definition asChildWorkflow :: "'d commandsHelper \<Rightarrow> ptr \<Rightarrow> ptr res" where
  "asChildWorkflow h p = bind_res (deref h p) (\<lambda>d.
     case m_kind d of ChildWorkflowMachine _ _ \<Rightarrow> Inr p | _ \<Rightarrow> Inl TypeAssertion)"

definition handleExternalWorkflowExecutionCancelRequested ::
    "'d commandsHelper \<Rightarrow> int64 \<Rightarrow> string \<Rightarrow> (bool \<times> ptr \<times> 'd commandsHelper) res" where
  "handleExternalWorkflowExecutionCancelRequested h initiatedeventID workflowID =
     (case scheduledEventIDToCancellationID h initiatedeventID of
        None \<Rightarrow>
          bind_res (getCommand h (makeCommandID commandTypeChildWorkflow workflowID)) (\<lambda>p.
          bind_res (asChildWorkflow h p) (\<lambda>p.
          bind_res (childWorkflow_handleExternalWorkflowExecutionCancelRequested h p) (\<lambda>h1.
          Inr (False, p, h1))))
      | Some cancellationID \<Rightarrow>
          bind_res (onCommand handleCompletionEvent h
              (makeCommandID commandTypeCancellation cancellationID)) (\<lambda>(p, h1).
          Inr (True, p, h1)))"

definition handleRequestCancelExternalWorkflowExecutionFailed ::
    "'d commandsHelper \<Rightarrow> int64 \<Rightarrow> string \<Rightarrow> (bool \<times> ptr \<times> 'd commandsHelper) res" where
  "handleRequestCancelExternalWorkflowExecutionFailed h initiatedeventID workflowID =
     (case scheduledEventIDToCancellationID h initiatedeventID of
        None \<Rightarrow>
          bind_res (onCommand handleCancelFailedEvent h
              (makeCommandID commandTypeChildWorkflow workflowID)) (\<lambda>(p, h1). Inr (False, p, h1))
      | Some cancellationID \<Rightarrow>
          bind_res (onCommand handleCompletionEvent h
              (makeCommandID commandTypeCancellation cancellationID)) (\<lambda>(p, h1).
          Inr (True, p, h1)))"

definition signalExternalWorkflowExecution ::
    "'d commandsHelper \<Rightarrow> string \<Rightarrow> string \<Rightarrow> string \<Rightarrow> string \<Rightarrow> payloads option \<Rightarrow> proto
      \<Rightarrow> string \<Rightarrow> bool \<Rightarrow> eventGroupMarker list \<Rightarrow> (ptr \<times> 'd commandsHelper) res" where
  "signalExternalWorkflowExecution h namespace workflowID runID signalName input header signalID
       childWorkflowOnly markers =
     addNew h (newSignalExternalWorkflowStateMachine
       \<lparr>sig_Namespace = namespace, sig_WorkflowId = workflowID, sig_RunId = runID,
        sig_SignalName = signalName, sig_Input = input, sig_Control = signalID,
        sig_ChildWorkflowOnly = childWorkflowOnly, sig_Header = header\<rparr> signalID markers)"

definition addProtocolMessage ::
    "'d commandsHelper \<Rightarrow> string \<Rightarrow> (ptr \<times> 'd commandsHelper) res" where
  "addProtocolMessage h msgID =
     addNew h (newNaiveCommandStateMachine commandTypeProtocolMessage msgID CompleteOnSendMachine
       ((createNewCommand COMMAND_TYPE_PROTOCOL_MESSAGE)
        \<lparr>cmd_Attributes := ProtocolMessageCommandAttributes msgID\<rparr>))"

definition upsertSearchAttributes ::
    "'d commandsHelper \<Rightarrow> string \<Rightarrow> payloadMap option \<Rightarrow> eventGroupMarker list
      \<Rightarrow> (ptr \<times> 'd commandsHelper) res" where
  "upsertSearchAttributes h upsertID searchAttr markers =
     addNew h (newUpsertSearchAttributesStateMachine searchAttr upsertID markers)"

definition modifyProperties ::
    "'d commandsHelper \<Rightarrow> string \<Rightarrow> payloadMap option \<Rightarrow> eventGroupMarker list
      \<Rightarrow> (ptr \<times> 'd commandsHelper) res" where
  "modifyProperties h changeID memo markers =
     addNew h (newModifyPropertiesStateMachine memo changeID markers)"

definition handleSignalExternalWorkflowExecutionInitiated ::
    "'d commandsHelper \<Rightarrow> int64 \<Rightarrow> string \<Rightarrow> (ptr \<times> 'd commandsHelper) res" where
  "handleSignalExternalWorkflowExecutionInitiated h initiatedEventID signalID =
     onCommand handleInitiatedEvent
       (h\<lparr>scheduledEventIDToSignalID :=
            (scheduledEventIDToSignalID h)(initiatedEventID \<mapsto> signalID)\<rparr>)
       (makeCommandID commandTypeSignal signalID)"

definition getSignalID :: "'d commandsHelper \<Rightarrow> int64 \<Rightarrow> string res" where
  "getSignalID h initiatedEventID =
     (case scheduledEventIDToSignalID h initiatedEventID of
        None \<Rightarrow> Inl (PanicString
          (''unable to find signalID for initiatedEventID: '' @ formatInt initiatedEventID))
      | Some signalID \<Rightarrow> Inr signalID)"

definition handleSignalExternalWorkflowExecutionCompleted ::
    "'d commandsHelper \<Rightarrow> int64 \<Rightarrow> (ptr \<times> 'd commandsHelper) res" where
  "handleSignalExternalWorkflowExecutionCompleted h initiatedEventID =
     bind_res (getSignalID h initiatedEventID) (\<lambda>signalID.
       onCommand handleCompletionEvent h (makeCommandID commandTypeSignal signalID))"

definition handleSignalExternalWorkflowExecutionFailed ::
    "'d commandsHelper \<Rightarrow> int64 \<Rightarrow> (ptr \<times> 'd commandsHelper) res" where
  "handleSignalExternalWorkflowExecutionFailed h initiatedEventID =
     bind_res (getSignalID h initiatedEventID) (\<lambda>signalID.
       onCommand handleCompletionEvent h (makeCommandID commandTypeSignal signalID))"

section \<open>Timers and child workflow events\<close>

definition startTimer ::
    "'d commandsHelper \<Rightarrow> startTimerAttributes \<Rightarrow> string \<Rightarrow> dataConverter \<Rightarrow> eventGroupMarker list
      \<Rightarrow> (ptr \<times> 'd commandsHelper) res" where
  "startTimer h attributes options_Summary dc markers =
     bind_res (panicOnError (BuildUserMetadata options_Summary [] dc)) (\<lambda>startMetadata.
       addNew h ((newTimerCommandStateMachine attributes startMetadata)
         \<lparr>m_eventGroupMarkers := markers\<rparr>))"

definition cancelTimer :: "'d commandsHelper \<Rightarrow> string \<Rightarrow> (ptr \<times> 'd commandsHelper) res" where
  "cancelTimer h timerID = onCommand cancel h (makeCommandID commandTypeTimer timerID)"

definition handleTimerClosed :: "'d commandsHelper \<Rightarrow> string \<Rightarrow> (ptr \<times> 'd commandsHelper) res" where
  "handleTimerClosed h timerID =
     bind_res (getCommand h (makeCommandID commandTypeTimer timerID)) (\<lambda>p.
     bind_res (removeCancelOfResolvedCommand h (makeCommandID commandTypeCancelTimer timerID)) (\<lambda>h1.
     bind_res (handleCompletionEvent h1 p) (\<lambda>h2. Inr (p, h2))))"

definition handleTimerStarted :: "'d commandsHelper \<Rightarrow> string \<Rightarrow> (ptr \<times> 'd commandsHelper) res" where
  "handleTimerStarted h timerID =
     onCommand handleInitiatedEvent h (makeCommandID commandTypeTimer timerID)"

definition handleTimerCanceled :: "'d commandsHelper \<Rightarrow> string \<Rightarrow> (ptr \<times> 'd commandsHelper) res" where
  "handleTimerCanceled h timerID =
     onCommand handleCanceledEvent h (makeCommandID commandTypeTimer timerID)"

definition handleChildWorkflowExecutionStarted ::
    "'d commandsHelper \<Rightarrow> string \<Rightarrow> (ptr \<times> 'd commandsHelper) res" where
  "handleChildWorkflowExecutionStarted h workflowID =
     onCommand handleStartedEvent h (makeCommandID commandTypeChildWorkflow workflowID)"

definition handleChildWorkflowExecutionClosed ::
    "'d commandsHelper \<Rightarrow> string \<Rightarrow> (ptr \<times> 'd commandsHelper) res" where
  "handleChildWorkflowExecutionClosed h workflowID =
     onCommand handleCompletionEvent h (makeCommandID commandTypeChildWorkflow workflowID)"

definition handleChildWorkflowExecutionCanceled ::
    "'d commandsHelper \<Rightarrow> string \<Rightarrow> (ptr \<times> 'd commandsHelper) res" where
  "handleChildWorkflowExecutionCanceled h workflowID =
     onCommand handleCanceledEvent h (makeCommandID commandTypeChildWorkflow workflowID)"

section \<open>The commands of a workflow task\<close>

text \<open>
  The loop of \<open>getCommands\<close> reads the successor of the current element before it works on the
  element, so it walks the list as it was at the start.
\<close>

fun getCommandsLoop ::
    "bool \<Rightarrow> ptr list \<Rightarrow> 'd commandsHelper \<Rightarrow> (command list \<times> 'd commandsHelper) res" where
  "getCommandsLoop markAsSent [] h = Inr ([], h)"
| "getCommandsLoop markAsSent (p # ps) h =
     bind_res (deref h p) (\<lambda>d.
     bind_res (if markAsSent then handleCommandSent h p else Inr h) (\<lambda>h1.
     bind_res (deref h1 p) (\<lambda>d1.
     bind_res (getCommandsLoop markAsSent ps
       (if m_state d1 = commandStateCompleted
        then deleteCommand (removeElement h1 p) (m_id d1) else h1)) (\<lambda>(result, h2).
     Inr ((case machine_getCommand d of Some c \<Rightarrow> c # result | None \<Rightarrow> result), h2)))))"

definition getCommands ::
    "'d commandsHelper \<Rightarrow> bool \<Rightarrow> (command list \<times> 'd commandsHelper) res" where
  "getCommands h markAsSent = getCommandsLoop markAsSent (orderedCommands h) h"

end
