(* ===== verification/Machine_Events.thy ===== *)
theory Machine_Events
  imports Commands_Helper
begin

text \<open>
  The interface between the helper and its machines. A history event handed to a machine changes
  that machine only: its history grows, its state moves, and when it reaches
  \<open>commandStateCompleted\<close> its command leaves the helper. Everything the helper needs to know about
  the eight event handlers follows from this, so it is stated once, as a locale, and the handlers
  are its interpretations.
\<close>

lemmas fail_defs = failStateTransition_def panicIllegalState_def naive_unsupported_def

section \<open>Elementary steps of one machine\<close>

lemma deref_eq_Inr [simp]: "deref h p = Inr d \<longleftrightarrow> machines h p = Some d"
  by (auto simp: deref_def split: option.splits)

lemma deref_Some [simp]: "machines h p = Some d \<Longrightarrow> deref h p = Inr d"
  by simp

lemma putMachine_sel [simp]:
  "nextCommandEventID (putMachine h p d) = nextCommandEventID h"
  "orderedCommands (putMachine h p d) = orderedCommands h"
  "commands (putMachine h p d) = commands h"
  "versionMarkerLookup (putMachine h p d) = versionMarkerLookup h"
  "nexusOperationsWithoutScheduledID (putMachine h p d) = nexusOperationsWithoutScheduledID h"
  "scheduledEventIDToActivityID (putMachine h p d) = scheduledEventIDToActivityID h"
  "scheduledEventIDToNexusSeq (putMachine h p d) = scheduledEventIDToNexusSeq h"
  "nextPtr (putMachine h p d) = nextPtr h"
  "machines (putMachine h p d) = (machines h)(p \<mapsto> d)"
  by (simp_all add: putMachine_def)

definition dropCommand :: "'d commandsHelper \<Rightarrow> commandID \<Rightarrow> 'd commandsHelper" where
  "dropCommand h i = (case commands h i of
     Some elem \<Rightarrow> deleteCommand (removeElement h elem) i | None \<Rightarrow> h)"

lemma dropCommand_sel [simp]:
  "nextCommandEventID (dropCommand h i) = nextCommandEventID h"
  "orderedCommands (dropCommand h i) =
     (case commands h i of Some e \<Rightarrow> remove1 e (orderedCommands h) | None \<Rightarrow> orderedCommands h)"
  "commands (dropCommand h i) = (commands h)(i := None)"
  "versionMarkerLookup (dropCommand h i) = versionMarkerLookup h"
  "nexusOperationsWithoutScheduledID (dropCommand h i) = nexusOperationsWithoutScheduledID h"
  "scheduledEventIDToActivityID (dropCommand h i) = scheduledEventIDToActivityID h"
  "scheduledEventIDToNexusSeq (dropCommand h i) = scheduledEventIDToNexusSeq h"
  "nextPtr (dropCommand h i) = nextPtr h"
  "machines (dropCommand h i) = machines h"
  by (auto simp: dropCommand_def deleteCommand_def removeElement_def fun_upd_idem
      split: option.splits)

lemma removeCancel_eq_dropCommand:
  "removeElement (deleteCommand h i) e = deleteCommand (removeElement h e) i"
  by (simp add: removeElement_def deleteCommand_def)

definition moved :: "'d machine \<Rightarrow> commandState \<Rightarrow> string \<Rightarrow> 'd machine" where
  "moved d s event = d\<lparr>m_history := m_history d @ [event, commandState_String s], m_state := s\<rparr>"

lemma moved_sel [simp]:
  "m_id (moved d s ev) = m_id d" "m_state (moved d s ev) = s" "m_kind (moved d s ev) = m_kind d"
  "m_data (moved d s ev) = m_data d"
  "m_eventGroupMarkers (moved d s ev) = m_eventGroupMarkers d"
  by (simp_all add: moved_def)

lemma moveState_Some:
  "machines h p = Some d \<Longrightarrow> moveState h p s ev =
     Inr (if s = commandStateCompleted then dropCommand (putMachine h p (moved d s ev)) (m_id d)
          else putMachine h p (moved d s ev))"
  by (auto simp: moveState_def dropCommand_def moved_def Let_def split: option.splits)

lemma moveState_None: "machines h p = None \<Longrightarrow> moveState h p s ev = Inl NilDereference"
  by (simp add: moveState_def deref_def)

lemma moveState_eq_Inr:
  "moveState h p s ev = Inr h' \<longleftrightarrow> (\<exists>d. machines h p = Some d \<and>
     h' = (if s = commandStateCompleted then dropCommand (putMachine h p (moved d s ev)) (m_id d)
           else putMachine h p (moved d s ev)))"
  by (cases "machines h p") (auto simp: moveState_Some moveState_None)

lemma appendHistory_eq_Inr:
  "appendHistory h p ev = Inr h' \<longleftrightarrow> (\<exists>d. machines h p = Some d \<and>
     h' = putMachine h p (d\<lparr>m_history := m_history d @ [ev]\<rparr>))"
  by (auto simp: appendHistory_def res_simps)

text \<open>
  One machine taking any number of elementary steps. A machine leaves the two states in which its own
  command is still to be sent for good: only a cancellation moves between them.
\<close>

definition unsent :: "'d machine \<Rightarrow> bool" where
  "unsent d \<longleftrightarrow> m_state d = commandStateCreated \<or> m_state d = commandStateCanceledBeforeSent"

inductive machine_steps :: "ptr \<Rightarrow> 'd commandsHelper \<Rightarrow> 'd commandsHelper \<Rightarrow> bool" for p where
  stay: "machine_steps p h h"
| move: "machine_steps p h h1 \<Longrightarrow> moveState h1 p s ev = Inr h2 \<Longrightarrow>
    s \<noteq> commandStateCreated \<and> s \<noteq> commandStateCanceledBeforeSent \<or>
      map_option m_state (machines h1 p) = Some commandStateCreated \<Longrightarrow> machine_steps p h h2"
| hist: "machine_steps p h h1 \<Longrightarrow> appendHistory h1 p ev = Inr h2 \<Longrightarrow> machine_steps p h h2"

lemma machine_steps_move1:
  "moveState h p s ev = Inr h' \<Longrightarrow>
     s \<noteq> commandStateCreated \<and> s \<noteq> commandStateCanceledBeforeSent \<or>
       map_option m_state (machines h p) = Some commandStateCreated \<Longrightarrow> machine_steps p h h'"
  by (rule machine_steps.move [OF machine_steps.stay])

lemma machine_steps_hist1: "appendHistory h p ev = Inr h' \<Longrightarrow> machine_steps p h h'"
  by (rule machine_steps.hist [OF machine_steps.stay])

lemma machine_steps_trans:
  "machine_steps p h2 h3 \<Longrightarrow> machine_steps p h1 h2 \<Longrightarrow> machine_steps p h1 h3"
  by (induction rule: machine_steps.induct) (auto intro: machine_steps.intros)

text \<open>Case analysis on what an address holds: nothing, or a machine in one of the states.\<close>

lemma machine_cases:
  assumes "machines h p = None \<Longrightarrow> P"
    and "\<And>d. machines h p = Some d \<Longrightarrow> m_state d = commandStateCreated \<Longrightarrow> P"
    and "\<And>d. machines h p = Some d \<Longrightarrow> m_state d = commandStateCommandSent \<Longrightarrow> P"
    and "\<And>d. machines h p = Some d \<Longrightarrow> m_state d = commandStateCanceledBeforeInitiated \<Longrightarrow> P"
    and "\<And>d. machines h p = Some d \<Longrightarrow> m_state d = commandStateInitiated \<Longrightarrow> P"
    and "\<And>d. machines h p = Some d \<Longrightarrow> m_state d = commandStateStarted \<Longrightarrow> P"
    and "\<And>d. machines h p = Some d \<Longrightarrow> m_state d = commandStateCanceledAfterInitiated \<Longrightarrow> P"
    and "\<And>d. machines h p = Some d \<Longrightarrow> m_state d = commandStateCanceledAfterStarted \<Longrightarrow> P"
    and "\<And>d. machines h p = Some d \<Longrightarrow> m_state d = commandStateCancellationCommandSent \<Longrightarrow> P"
    and "\<And>d. machines h p = Some d \<Longrightarrow> m_state d = commandStateCompletedAfterCancellationCommandSent \<Longrightarrow> P"
    and "\<And>d. machines h p = Some d \<Longrightarrow> m_state d = commandStateCompleted \<Longrightarrow> P"
    and "\<And>d. machines h p = Some d \<Longrightarrow> m_state d = commandStateCanceledBeforeSent \<Longrightarrow> P"
    and "\<And>d. machines h p = Some d \<Longrightarrow> m_state d = commandStateCancellationCommandAccepted \<Longrightarrow> P"
  shows P
proof (cases "machines h p")
  case None
  then show P by (rule assms(1))
next
  case (Some d)
  then show P by (cases "m_state d") (rule assms(2-), assumption+)+
qed

lemma machine_kind_cases:
  assumes "machines h p = None \<Longrightarrow> P"
    and "\<And>d i a u. machines h p = Some d \<Longrightarrow> m_kind d = ActivityMachine i a u \<Longrightarrow> P"
    and "\<And>d i. machines h p = Some d \<Longrightarrow> m_kind d = CancelActivityMachine i \<Longrightarrow> P"
    and "\<And>d a u. machines h p = Some d \<Longrightarrow> m_kind d = TimerMachine a u \<Longrightarrow> P"
    and "\<And>d t. machines h p = Some d \<Longrightarrow> m_kind d = CancelTimerMachine t \<Longrightarrow> P"
    and "\<And>d a u. machines h p = Some d \<Longrightarrow> m_kind d = ChildWorkflowMachine a u \<Longrightarrow> P"
    and "\<And>d c. machines h p = Some d \<Longrightarrow> m_kind d = CancelExternalWorkflowMachine c \<Longrightarrow> P"
    and "\<And>d c. machines h p = Some d \<Longrightarrow> m_kind d = SignalExternalWorkflowMachine c \<Longrightarrow> P"
    and "\<And>d c. machines h p = Some d \<Longrightarrow> m_kind d = MarkerMachine c \<Longrightarrow> P"
    and "\<And>d c. machines h p = Some d \<Longrightarrow> m_kind d = CompleteOnSendMachine c \<Longrightarrow> P"
    and "\<And>d c. machines h p = Some d \<Longrightarrow> m_kind d = ModifyPropertiesMachine c \<Longrightarrow> P"
    and "\<And>d n e a c u. machines h p = Some d \<Longrightarrow> m_kind d = NexusOperationMachine n e a c u \<Longrightarrow> P"
    and "\<And>d i. machines h p = Some d \<Longrightarrow> m_kind d = RequestCancelNexusOperationMachine i \<Longrightarrow> P"
  shows P
proof (cases "machines h p")
  case None
  then show P by (rule assms(1))
next
  case (Some d)
  then show P by (cases "m_kind d") (rule assms(2-), assumption+)+
qed

section \<open>The interface\<close>

locale machine_event =
  fixes f :: "'d commandsHelper \<Rightarrow> ptr \<Rightarrow> 'd commandsHelper res"
  assumes steps: "f h p = Inr h' \<Longrightarrow> machine_steps p h h'"
begin

lemma frame:
  assumes "f h p = Inr h'"
  shows "nextCommandEventID h' = nextCommandEventID h"
    and "versionMarkerLookup h' = versionMarkerLookup h"
    and "nexusOperationsWithoutScheduledID h' = nexusOperationsWithoutScheduledID h"
    and "scheduledEventIDToActivityID h' = scheduledEventIDToActivityID h"
    and "scheduledEventIDToNexusSeq h' = scheduledEventIDToNexusSeq h"
    and "nextPtr h' = nextPtr h"
    and "q \<noteq> p \<Longrightarrow> machines h' q = machines h q"
proof -
  have *: "machine_steps p h h'" by (rule steps [OF assms])
  show "nextCommandEventID h' = nextCommandEventID h"
    using * by induction (auto simp: moveState_eq_Inr appendHistory_eq_Inr)
  show "versionMarkerLookup h' = versionMarkerLookup h"
    using * by induction (auto simp: moveState_eq_Inr appendHistory_eq_Inr)
  show "nexusOperationsWithoutScheduledID h' = nexusOperationsWithoutScheduledID h"
    using * by induction (auto simp: moveState_eq_Inr appendHistory_eq_Inr)
  show "scheduledEventIDToActivityID h' = scheduledEventIDToActivityID h"
    using * by induction (auto simp: moveState_eq_Inr appendHistory_eq_Inr)
  show "scheduledEventIDToNexusSeq h' = scheduledEventIDToNexusSeq h"
    using * by induction (auto simp: moveState_eq_Inr appendHistory_eq_Inr)
  show "nextPtr h' = nextPtr h"
    using * by induction (auto simp: moveState_eq_Inr appendHistory_eq_Inr)
  show "q \<noteq> p \<Longrightarrow> machines h' q = machines h q"
    using * by induction (auto simp: moveState_eq_Inr appendHistory_eq_Inr)
qed

lemma identity:
  assumes "f h p = Inr h'" and "machines h p = Some d"
  shows "\<exists>d'. machines h' p = Some d' \<and> m_id d' = m_id d \<and> m_kind d' = m_kind d \<and>
    m_data d' = m_data d \<and> m_eventGroupMarkers d' = m_eventGroupMarkers d \<and>
    (\<exists>ext. m_history d' = m_history d @ ext)"
  using steps [OF assms(1)] assms(2)
proof (induction rule: machine_steps.induct)
  case stay
  then show ?case by simp
next
  case (move h h1 s ev h2)
  then obtain d1 where "machines h1 p = Some d1" "m_id d1 = m_id d" "m_kind d1 = m_kind d"
    "m_data d1 = m_data d" "m_eventGroupMarkers d1 = m_eventGroupMarkers d"
    "\<exists>ext. m_history d1 = m_history d @ ext" by auto
  with move.hyps(2) show ?case by (auto simp: moveState_eq_Inr moved_def)
next
  case (hist h h1 ev h2)
  then obtain d1 where "machines h1 p = Some d1" "m_id d1 = m_id d" "m_kind d1 = m_kind d"
    "m_data d1 = m_data d" "m_eventGroupMarkers d1 = m_eventGroupMarkers d"
    "\<exists>ext. m_history d1 = m_history d @ ext" by auto
  with hist.hyps(2) show ?case by (auto simp: appendHistory_eq_Inr)
qed

lemma commands_shrink: "f h p = Inr h' \<Longrightarrow> commands h' \<subseteq>\<^sub>m commands h"
proof -
  assume "f h p = Inr h'"
  then have "machine_steps p h h'" by (rule steps)
  then show ?thesis
    by induction
      (auto simp: moveState_eq_Inr appendHistory_eq_Inr
        intro: map_le_trans [OF upd_None_map_le])
qed

end

section \<open>Every event handler meets it\<close>

named_theorems event_steps \<open>a handler takes elementary steps of its machine\<close>

lemmas event_step_intros =
  machine_steps.stay machine_steps_move1 machine_steps_hist1 machine_steps.move
  machine_steps.hist

lemma base_handleCommandSent_steps [event_steps]:
  "base_handleCommandSent h p = Inr h' \<Longrightarrow> machine_steps p h h'"
  by (rule machine_cases [of h p])
    (auto simp: base_handleCommandSent_def res_simps deref_def fail_defs intro: event_step_intros)

lemma base_handleInitiatedEvent_steps [event_steps]:
  "base_handleInitiatedEvent h p = Inr h' \<Longrightarrow> machine_steps p h h'"
  by (rule machine_cases [of h p])
    (auto simp: base_handleInitiatedEvent_def res_simps deref_def fail_defs intro: event_step_intros)

lemma base_handleInitiationFailedEvent_steps [event_steps]:
  "base_handleInitiationFailedEvent h p = Inr h' \<Longrightarrow> machine_steps p h h'"
  by (rule machine_cases [of h p])
    (auto simp: base_handleInitiationFailedEvent_def res_simps deref_def fail_defs intro: event_step_intros)

lemma base_handleStartedEvent_steps [event_steps]:
  "base_handleStartedEvent h p = Inr h' \<Longrightarrow> machine_steps p h h'"
  by (rule machine_cases [of h p])
    (auto simp: base_handleStartedEvent_def res_simps deref_def fail_defs intro: event_step_intros)

lemma base_handleCompletionEvent_steps [event_steps]:
  "base_handleCompletionEvent h p = Inr h' \<Longrightarrow> machine_steps p h h'"
  by (rule machine_cases [of h p])
    (auto simp: base_handleCompletionEvent_def res_simps deref_def fail_defs intro: event_step_intros)

lemma base_handleCancelInitiatedEvent_steps [event_steps]:
  assumes "base_handleCancelInitiatedEvent h p = Inr h'"
  shows "machine_steps p h h'"
proof -
  from assms obtain h1 where h1: "appendHistory h p eventCancelInitiated = Inr h1"
    and rest: "bind_res (deref h1 p) (\<lambda>d. case m_state d of
       commandStateCancellationCommandSent \<Rightarrow> Inr h1
     | commandStateCanceledAfterInitiated \<Rightarrow> Inr h1
     | commandStateInitiated \<Rightarrow>
         moveState h1 p commandStateCanceledAfterInitiated eventCancelInitiated
     | _ \<Rightarrow> failStateTransition d eventCancelInitiated) = Inr h'"
    unfolding base_handleCancelInitiatedEvent_def by (auto simp only: bind_res_eq_Inr)
  have "machine_steps p h1 h'"
    by (rule machine_cases [of h1 p])
      (use rest in \<open>auto simp: deref_def fail_defs intro: event_step_intros\<close>)
  then show ?thesis by (rule machine_steps_trans) (rule machine_steps_hist1 [OF h1])
qed

lemma base_handleCancelFailedEvent_steps [event_steps]:
  "base_handleCancelFailedEvent h p = Inr h' \<Longrightarrow> machine_steps p h h'"
  by (rule machine_cases [of h p])
    (auto simp: base_handleCancelFailedEvent_def res_simps deref_def fail_defs intro: event_step_intros)

lemma base_handleCanceledEvent_steps [event_steps]:
  "base_handleCanceledEvent h p = Inr h' \<Longrightarrow> machine_steps p h h'"
  by (rule machine_cases [of h p])
    (auto simp: base_handleCanceledEvent_def res_simps deref_def fail_defs intro: event_step_intros)

lemma base_cancel_steps [event_steps]:
  "base_cancel h p = Inr h' \<Longrightarrow> machine_steps p h h'"
  by (rule machine_cases [of h p])
    (auto simp: base_cancel_def res_simps deref_def fail_defs intro: event_step_intros)

lemma activity_handleCommandSent_steps [event_steps]:
  "activity_handleCommandSent h p = Inr h' \<Longrightarrow> machine_steps p h h'"
  by (rule machine_cases [of h p])
    (auto simp: activity_handleCommandSent_def deref_def fail_defs intro: event_step_intros event_steps)

lemma activity_handleCancelFailedEvent_steps [event_steps]:
  "activity_handleCancelFailedEvent h p = Inr h' \<Longrightarrow> machine_steps p h h'"
  by (rule machine_cases [of h p])
    (auto simp: activity_handleCancelFailedEvent_def deref_def fail_defs intro: event_step_intros event_steps)

lemma timer_handleCommandSent_steps [event_steps]:
  "timer_handleCommandSent h p = Inr h' \<Longrightarrow> machine_steps p h h'"
  by (rule machine_cases [of h p])
    (auto simp: timer_handleCommandSent_def deref_def fail_defs intro: event_step_intros event_steps)

lemma childWorkflow_handleCommandSent_steps [event_steps]:
  "childWorkflow_handleCommandSent h p = Inr h' \<Longrightarrow> machine_steps p h h'"
  by (rule machine_cases [of h p])
    (auto simp: childWorkflow_handleCommandSent_def deref_def fail_defs intro: event_step_intros event_steps)

lemma childWorkflow_handleStartedEvent_steps [event_steps]:
  "childWorkflow_handleStartedEvent h p = Inr h' \<Longrightarrow> machine_steps p h h'"
  by (rule machine_cases [of h p])
    (auto simp: childWorkflow_handleStartedEvent_def deref_def fail_defs intro: event_step_intros event_steps)

lemma childWorkflow_handleInitiatedEvent_steps [event_steps]:
  "childWorkflow_handleInitiatedEvent h p = Inr h' \<Longrightarrow> machine_steps p h h'"
  by (rule machine_cases [of h p])
    (auto simp: childWorkflow_handleInitiatedEvent_def deref_def fail_defs intro: event_step_intros event_steps)

lemma childWorkflow_handleCancelFailedEvent_steps [event_steps]:
  "childWorkflow_handleCancelFailedEvent h p = Inr h' \<Longrightarrow> machine_steps p h h'"
  by (rule machine_cases [of h p])
    (auto simp: childWorkflow_handleCancelFailedEvent_def deref_def fail_defs intro: event_step_intros event_steps)

lemma childWorkflow_handleCanceledEvent_steps [event_steps]:
  "childWorkflow_handleCanceledEvent h p = Inr h' \<Longrightarrow> machine_steps p h h'"
  by (rule machine_cases [of h p])
    (auto simp: childWorkflow_handleCanceledEvent_def deref_def fail_defs intro: event_step_intros event_steps)

lemma childWorkflow_handleCompletionEvent_steps [event_steps]:
  "childWorkflow_handleCompletionEvent h p = Inr h' \<Longrightarrow> machine_steps p h h'"
  by (rule machine_cases [of h p])
    (auto simp: childWorkflow_handleCompletionEvent_def deref_def fail_defs intro: event_step_intros event_steps)

lemma childWorkflow_handleExternalWorkflowExecutionCancelRequested_steps [event_steps]:
  "childWorkflow_handleExternalWorkflowExecutionCancelRequested h p = Inr h' \<Longrightarrow> machine_steps p h h'"
  by (rule machine_cases [of h p])
    (auto simp: childWorkflow_handleExternalWorkflowExecutionCancelRequested_def deref_def fail_defs intro: event_step_intros event_steps)

lemma cancelExternalWorkflow_handleInitiatedEvent_steps [event_steps]:
  "cancelExternalWorkflow_handleInitiatedEvent h p = Inr h' \<Longrightarrow> machine_steps p h h'"
  by (rule machine_cases [of h p])
    (auto simp: cancelExternalWorkflow_handleInitiatedEvent_def deref_def fail_defs intro: event_step_intros event_steps)

lemma cancelExternalWorkflow_handleCompletionEvent_steps [event_steps]:
  "cancelExternalWorkflow_handleCompletionEvent h p = Inr h' \<Longrightarrow> machine_steps p h h'"
  by (rule machine_cases [of h p])
    (auto simp: cancelExternalWorkflow_handleCompletionEvent_def deref_def fail_defs intro: event_step_intros event_steps)

lemma signalExternalWorkflow_handleInitiatedEvent_steps [event_steps]:
  "signalExternalWorkflow_handleInitiatedEvent h p = Inr h' \<Longrightarrow> machine_steps p h h'"
  by (rule machine_cases [of h p])
    (auto simp: signalExternalWorkflow_handleInitiatedEvent_def deref_def fail_defs intro: event_step_intros event_steps)

lemma signalExternalWorkflow_handleCompletionEvent_steps [event_steps]:
  "signalExternalWorkflow_handleCompletionEvent h p = Inr h' \<Longrightarrow> machine_steps p h h'"
  by (rule machine_cases [of h p])
    (auto simp: signalExternalWorkflow_handleCompletionEvent_def deref_def fail_defs intro: event_step_intros event_steps)

lemma marker_handleCommandSent_steps [event_steps]:
  "marker_handleCommandSent h p = Inr h' \<Longrightarrow> machine_steps p h h'"
  by (rule machine_cases [of h p])
    (auto simp: marker_handleCommandSent_def deref_def fail_defs intro: event_step_intros event_steps)

lemma completeOnSend_handleCommandSent_steps [event_steps]:
  "completeOnSend_handleCommandSent h p = Inr h' \<Longrightarrow> machine_steps p h h'"
  by (rule machine_cases [of h p])
    (auto simp: completeOnSend_handleCommandSent_def deref_def fail_defs intro: event_step_intros event_steps)

lemma modifyProperties_handleCommandSent_steps [event_steps]:
  "modifyProperties_handleCommandSent h p = Inr h' \<Longrightarrow> machine_steps p h h'"
  by (rule machine_cases [of h p])
    (auto simp: modifyProperties_handleCommandSent_def deref_def fail_defs intro: event_step_intros event_steps)

lemma nexusOperation_handleStartedEvent_steps [event_steps]:
  "nexusOperation_handleStartedEvent h p = Inr h' \<Longrightarrow> machine_steps p h h'"
  by (rule machine_cases [of h p])
    (auto simp: nexusOperation_handleStartedEvent_def deref_def fail_defs intro: event_step_intros event_steps)

lemma nexusOperation_handleCompletionEvent_steps [event_steps]:
  "nexusOperation_handleCompletionEvent h p = Inr h' \<Longrightarrow> machine_steps p h h'"
  by (rule machine_cases [of h p])
    (auto simp: nexusOperation_handleCompletionEvent_def deref_def fail_defs intro: event_step_intros event_steps)

lemma requestCancelNexusOperation_handleInitiatedEvent_steps [event_steps]:
  "requestCancelNexusOperation_handleInitiatedEvent h p = Inr h' \<Longrightarrow> machine_steps p h h'"
  by (rule machine_cases [of h p])
    (auto simp: requestCancelNexusOperation_handleInitiatedEvent_def deref_def fail_defs intro: event_step_intros event_steps)

lemma requestCancelNexusOperation_handleCompletionEvent_steps [event_steps]:
  "requestCancelNexusOperation_handleCompletionEvent h p = Inr h' \<Longrightarrow> machine_steps p h h'"
  by (rule machine_cases [of h p])
    (auto simp: requestCancelNexusOperation_handleCompletionEvent_def deref_def fail_defs intro: event_step_intros event_steps)

lemma handleCommandSent_steps [event_steps]:
  "handleCommandSent h p = Inr h' \<Longrightarrow> machine_steps p h h'"
  by (rule machine_kind_cases [of h p])
    (auto simp: handleCommandSent_def deref_def is_naive_def fail_defs intro: event_steps)

interpretation sent: machine_event handleCommandSent
  by unfold_locales (rule event_steps)

lemma handleInitiatedEvent_steps [event_steps]:
  "handleInitiatedEvent h p = Inr h' \<Longrightarrow> machine_steps p h h'"
  by (rule machine_kind_cases [of h p])
    (auto simp: handleInitiatedEvent_def deref_def is_naive_def fail_defs intro: event_steps)

interpretation initiated: machine_event handleInitiatedEvent
  by unfold_locales (rule event_steps)

lemma handleInitiationFailedEvent_steps [event_steps]:
  "handleInitiationFailedEvent h p = Inr h' \<Longrightarrow> machine_steps p h h'"
  by (rule machine_kind_cases [of h p])
    (auto simp: handleInitiationFailedEvent_def deref_def is_naive_def fail_defs intro: event_steps)

interpretation initFailed: machine_event handleInitiationFailedEvent
  by unfold_locales (rule event_steps)

lemma handleStartedEvent_steps [event_steps]:
  "handleStartedEvent h p = Inr h' \<Longrightarrow> machine_steps p h h'"
  by (rule machine_kind_cases [of h p])
    (auto simp: handleStartedEvent_def deref_def is_naive_def fail_defs intro: event_steps)

interpretation started: machine_event handleStartedEvent
  by unfold_locales (rule event_steps)

lemma handleCompletionEvent_steps [event_steps]:
  "handleCompletionEvent h p = Inr h' \<Longrightarrow> machine_steps p h h'"
  by (rule machine_kind_cases [of h p])
    (auto simp: handleCompletionEvent_def deref_def is_naive_def fail_defs intro: event_steps)

interpretation completion: machine_event handleCompletionEvent
  by unfold_locales (rule event_steps)

lemma handleCancelInitiatedEvent_steps [event_steps]:
  "handleCancelInitiatedEvent h p = Inr h' \<Longrightarrow> machine_steps p h h'"
  by (rule machine_kind_cases [of h p])
    (auto simp: handleCancelInitiatedEvent_def deref_def is_naive_def fail_defs intro: event_steps)

interpretation cancelInitiated: machine_event handleCancelInitiatedEvent
  by unfold_locales (rule event_steps)

lemma handleCancelFailedEvent_steps [event_steps]:
  "handleCancelFailedEvent h p = Inr h' \<Longrightarrow> machine_steps p h h'"
  by (rule machine_kind_cases [of h p])
    (auto simp: handleCancelFailedEvent_def deref_def is_naive_def fail_defs intro: event_steps)

interpretation cancelFailed: machine_event handleCancelFailedEvent
  by unfold_locales (rule event_steps)

lemma handleCanceledEvent_steps [event_steps]:
  "handleCanceledEvent h p = Inr h' \<Longrightarrow> machine_steps p h h'"
  by (rule machine_kind_cases [of h p])
    (auto simp: handleCanceledEvent_def deref_def is_naive_def fail_defs intro: event_steps)

interpretation canceled: machine_event handleCanceledEvent
  by unfold_locales (rule event_steps)

interpretation cancelReq: machine_event
  childWorkflow_handleExternalWorkflowExecutionCancelRequested
  by unfold_locales (rule event_steps)

interpretation nexusCancelInitiated: machine_event
  requestCancelNexusOperation_handleInitiatedEvent
  by unfold_locales (rule event_steps)

interpretation nexusCancelCompleted: machine_event
  requestCancelNexusOperation_handleCompletionEvent
  by unfold_locales (rule event_steps)

end
