(* ===== verification/Helper_Invariant.thy ===== *)
theory Helper_Invariant
  imports Machine_Events
begin

text \<open>
  The invariant that ties the helper's two views of its commands together, the ordered list and
  the map by id, and the proof that every operation keeps it.
\<close>

section \<open>The invariant\<close>

text \<open>A machine's id is the one its type derives from its attributes, and the command it keeps has its type.\<close>

definition kind_id :: "machineKind \<Rightarrow> commandID \<Rightarrow> bool" where
  "kind_id k i = (case k of
       ActivityMachine _ a _ \<Rightarrow> i = makeCommandID commandTypeActivity (act_ActivityId a)
     | CancelActivityMachine e \<Rightarrow>
         i = makeCommandID commandTypeRequestCancelActivityTask (formatInt e)
     | TimerMachine a _ \<Rightarrow> i = makeCommandID commandTypeTimer (timer_TimerId a)
     | CancelTimerMachine t \<Rightarrow> i = makeCommandID commandTypeCancelTimer t
     | ChildWorkflowMachine a _ \<Rightarrow> i = makeCommandID commandTypeChildWorkflow (child_WorkflowId a)
     | CancelExternalWorkflowMachine c \<Rightarrow> id_commandType i = commandTypeCancellation \<and>
         cmd_CommandType c = COMMAND_TYPE_REQUEST_CANCEL_EXTERNAL_WORKFLOW_EXECUTION
     | SignalExternalWorkflowMachine c \<Rightarrow> id_commandType i = commandTypeSignal \<and>
         cmd_CommandType c = COMMAND_TYPE_SIGNAL_EXTERNAL_WORKFLOW_EXECUTION
     | MarkerMachine c \<Rightarrow> id_commandType i = commandTypeMarker \<and>
         cmd_CommandType c = COMMAND_TYPE_RECORD_MARKER
     | CompleteOnSendMachine c \<Rightarrow>
         (id_commandType i, cmd_CommandType c) \<in>
           {(commandTypeUpsertSearchAttributes, COMMAND_TYPE_UPSERT_WORKFLOW_SEARCH_ATTRIBUTES),
            (commandTypeProtocolMessage, COMMAND_TYPE_PROTOCOL_MESSAGE)}
     | ModifyPropertiesMachine c \<Rightarrow> id_commandType i = commandTypeModifyProperties \<and>
         cmd_CommandType c = COMMAND_TYPE_MODIFY_WORKFLOW_PROPERTIES
     | NexusOperationMachine n _ _ _ _ \<Rightarrow>
         i = makeCommandID commandTypeNexusOperation (formatInt n)
     | RequestCancelNexusOperationMachine e \<Rightarrow>
         i = makeCommandID commandTypeRequestCancelNexusOperation (formatInt e))"

definition is_nexus :: "machineKind \<Rightarrow> bool" where
  "is_nexus k \<longleftrightarrow> (\<exists>n e a c u. k = NexusOperationMachine n e a c u)"

definition store_ok :: "'d commandsHelper \<Rightarrow> bool" where
  "store_ok h \<longleftrightarrow>
     (\<forall>p d. machines h p = Some d \<longrightarrow> p < nextPtr h \<and> kind_id (m_kind d) (m_id d)) \<and>
     (\<forall>p \<in> set (nexusOperationsWithoutScheduledID h).
        \<exists>d. machines h p = Some d \<and> is_nexus (m_kind d))"

definition listed_ok :: "'d commandsHelper \<Rightarrow> bool" where
  "listed_ok h \<longleftrightarrow>
     distinct (orderedCommands h) \<and>
     set (orderedCommands h) = ran (commands h) \<and>
     (\<forall>i p. commands h i = Some p \<longrightarrow>
        (\<exists>d. machines h p = Some d \<and> m_id d = i \<and> m_state d \<noteq> commandStateCompleted))"

definition wf_helper :: "'d commandsHelper \<Rightarrow> bool" where
  "wf_helper h \<longleftrightarrow> store_ok h \<and> listed_ok h"

lemma wf_newCommandsHelper [wf_intros]: "wf_helper newCommandsHelper"
  by (simp add: wf_helper_def store_ok_def listed_ok_def newCommandsHelper_def)

lemma wf_commandsD:
  "wf_helper h \<Longrightarrow> commands h i = Some p \<Longrightarrow>
     \<exists>d. machines h p = Some d \<and> m_id d = i \<and> m_state d \<noteq> commandStateCompleted"
  by (simp add: wf_helper_def listed_ok_def)

lemma wf_listedD:
  assumes "wf_helper h" and "p \<in> set (orderedCommands h)"
  shows "\<exists>d. machines h p = Some d \<and> commands h (m_id d) = Some p \<and>
    m_state d \<noteq> commandStateCompleted"
proof -
  from assms obtain i where "commands h i = Some p"
    by (auto simp: wf_helper_def listed_ok_def ran_def)
  with assms(1) show ?thesis by (fastforce dest: wf_commandsD)
qed

lemma commands_inj:
  "listed_ok h \<Longrightarrow> commands h i = Some p \<Longrightarrow> commands h j = Some p \<Longrightarrow> i = j"
  unfolding listed_ok_def by (metis option.inject)

lemma ran_delete:
  assumes "m i = Some e" and "\<And>j. m j = Some e \<Longrightarrow> j = i"
  shows "ran (m(i := None)) = ran m - {e}"
proof (intro equalityI subsetI)
  fix x
  assume "x \<in> ran (m(i := None))"
  then obtain j where "j \<noteq> i" "m j = Some x" by (auto simp: ran_def split: if_splits)
  with assms(2) show "x \<in> ran m - {e}" by (auto simp: ran_def)
next
  fix x
  assume "x \<in> ran m - {e}"
  then obtain j where "m j = Some x" "x \<noteq> e" by (auto simp: ran_def)
  with assms(1) have "(m(i := None)) j = Some x" by auto
  then show "x \<in> ran (m(i := None))" by (rule ranI)
qed

section \<open>Elementary updates keep it\<close>

lemma listed_ok_dropCommand: "listed_ok h \<Longrightarrow> listed_ok (dropCommand h i)"
proof (cases "commands h i")
  case None
  then show "listed_ok h \<Longrightarrow> ?thesis" by (simp add: dropCommand_def)
next
  case (Some e)
  assume ok: "listed_ok h"
  have "ran ((commands h)(i := None)) = ran (commands h) - {e}"
    using Some commands_inj [OF ok _ Some] by (rule ran_delete)
  with ok Some show ?thesis by (auto simp: listed_ok_def)
qed

lemma store_ok_dropCommand: "store_ok h \<Longrightarrow> store_ok (dropCommand h i)"
  by (simp add: store_ok_def)

lemma wf_dropCommand [wf_intros]: "wf_helper h \<Longrightarrow> wf_helper (dropCommand h i)"
  by (simp add: wf_helper_def listed_ok_dropCommand store_ok_dropCommand)

text \<open>A machine may be overwritten by one of the same identity, if its command stays open.\<close>

lemma store_ok_putMachine:
  assumes "store_ok h" "machines h p = Some d" "m_id d' = m_id d" "kind_id (m_kind d') (m_id d)"
    "is_nexus (m_kind d) \<Longrightarrow> is_nexus (m_kind d')"
  shows "store_ok (putMachine h p d')"
  using assms by (fastforce simp: store_ok_def)

lemma listed_ok_putMachine:
  assumes "listed_ok h" "machines h p = Some d" "m_id d' = m_id d"
    "m_state d' = commandStateCompleted \<Longrightarrow> commands h (m_id d) \<noteq> Some p"
  shows "listed_ok (putMachine h p d')"
  using assms by (fastforce simp: listed_ok_def)

lemma kind_id_of_store: "store_ok h \<Longrightarrow> machines h p = Some d \<Longrightarrow> kind_id (m_kind d) (m_id d)"
  by (simp add: store_ok_def)

lemma wf_putMachine_open:
  assumes "wf_helper h" "machines h p = Some d" "m_id d' = m_id d" "m_kind d' = m_kind d"
    "m_state d' \<noteq> commandStateCompleted"
  shows "wf_helper (putMachine h p d')"
  using assms unfolding wf_helper_def
  by (auto intro!: store_ok_putMachine [of h p d] listed_ok_putMachine [of h p d]
      dest: kind_id_of_store)

lemma wf_putMachine_same:
  assumes "wf_helper h" "machines h p = Some d" "m_id d' = m_id d"
    "kind_id (m_kind d') (m_id d)" "is_nexus (m_kind d) \<Longrightarrow> is_nexus (m_kind d')"
    "m_state d' = m_state d"
  shows "wf_helper (putMachine h p d')"
proof -
  have "m_state d = commandStateCompleted \<Longrightarrow> commands h (m_id d) \<noteq> Some p"
    using assms(1,2) by (fastforce dest: wf_commandsD)
  with assms show ?thesis
    unfolding wf_helper_def
    by (auto intro!: store_ok_putMachine [of h p d] listed_ok_putMachine [of h p d])
qed

lemma wf_putMachine_completed:
  assumes wf: "wf_helper h" and d: "machines h p = Some d"
    and d': "m_id d' = m_id d" "m_kind d' = m_kind d"
  shows "wf_helper (dropCommand (putMachine h p d') (m_id d))"
proof -
  have drop: "wf_helper (dropCommand h (m_id d))" using wf by (rule wf_dropCommand)
  have swap: "dropCommand (putMachine h p d') (m_id d) = putMachine (dropCommand h (m_id d)) p d'"
    by (auto simp: dropCommand_def putMachine_def removeElement_def deleteCommand_def
        split: option.splits)
  show ?thesis
    unfolding swap using drop d d' kind_id_of_store [of h p d] wf
    unfolding wf_helper_def
    by (auto intro!: store_ok_putMachine [of _ p d] listed_ok_putMachine [of _ p d])
qed

lemma wf_moveState:
  assumes "wf_helper h" and "moveState h p s ev = Inr h'"
  shows "wf_helper h'"
proof -
  from assms(2) obtain d where d: "machines h p = Some d"
    and h': "h' = (if s = commandStateCompleted
      then dropCommand (putMachine h p (moved d s ev)) (m_id d)
      else putMachine h p (moved d s ev))"
    by (auto simp: moveState_eq_Inr)
  show ?thesis
  proof (cases "s = commandStateCompleted")
    case True
    with wf_putMachine_completed [OF assms(1) d] h' show ?thesis by simp
  next
    case False
    with wf_putMachine_open [OF assms(1) d] h' show ?thesis by simp
  qed
qed

lemma wf_appendHistory:
  assumes wf: "wf_helper h" and "appendHistory h p ev = Inr h'"
  shows "wf_helper h'"
proof -
  from assms(2) obtain d where d: "machines h p = Some d"
    and h': "h' = putMachine h p (d\<lparr>m_history := m_history d @ [ev]\<rparr>)"
    by (auto simp: appendHistory_eq_Inr)
  show ?thesis
    unfolding h' using wf d by (rule wf_putMachine_same)
      (use wf d in \<open>auto simp: wf_helper_def dest: kind_id_of_store\<close>)
qed

lemma wf_machine_steps: "machine_steps p h h' \<Longrightarrow> wf_helper h \<Longrightarrow> wf_helper h'"
  by (induction rule: machine_steps.induct) (auto intro: wf_moveState wf_appendHistory)

context machine_event
begin

lemma wf: "f h p = Inr h' \<Longrightarrow> wf_helper h \<Longrightarrow> wf_helper h'"
  by (rule wf_machine_steps [OF steps])

end

section \<open>Adding and moving commands\<close>

lemma wf_update_other [simp]:
  "wf_helper (h\<lparr>nextCommandEventID := n\<rparr>) = wf_helper h"
  "wf_helper (h\<lparr>versionMarkerLookup := vm\<rparr>) = wf_helper h"
  "wf_helper (h\<lparr>scheduledEventIDToActivityID := a\<rparr>) = wf_helper h"
  "wf_helper (h\<lparr>scheduledEventIDToCancellationID := b\<rparr>) = wf_helper h"
  "wf_helper (h\<lparr>scheduledEventIDToSignalID := b\<rparr>) = wf_helper h"
  "wf_helper (h\<lparr>scheduledEventIDToNexusSeq := c\<rparr>) = wf_helper h"
  by (simp_all add: wf_helper_def store_ok_def listed_ok_def)

lemma wf_increment [simp]:
  "wf_helper (incrementNextCommandEventID h) = wf_helper h"
  "wf_helper (incrementNextCommandEventIDIfVersionMarker h) = wf_helper h"
  by (auto simp: incrementNextCommandEventID_def incrementNextCommandEventIDIfVersionMarker_def
      wf_helper_def store_ok_def listed_ok_def split: prod.splits)

lemma increment_sel [simp]:
  "machines (incrementNextCommandEventID h) = machines h"
  "commands (incrementNextCommandEventID h) = commands h"
  "orderedCommands (incrementNextCommandEventID h) = orderedCommands h"
  "nexusOperationsWithoutScheduledID (incrementNextCommandEventID h) =
     nexusOperationsWithoutScheduledID h"
  "machines (incrementNextCommandEventIDIfVersionMarker h) = machines h"
  "commands (incrementNextCommandEventIDIfVersionMarker h) = commands h"
  "orderedCommands (incrementNextCommandEventIDIfVersionMarker h) = orderedCommands h"
  "nexusOperationsWithoutScheduledID (incrementNextCommandEventIDIfVersionMarker h) =
     nexusOperationsWithoutScheduledID h"
  "nextPtr (incrementNextCommandEventID h) = nextPtr h"
  "nextPtr (incrementNextCommandEventIDIfVersionMarker h) = nextPtr h"
  by (auto simp: incrementNextCommandEventID_def incrementNextCommandEventIDIfVersionMarker_def
      split: prod.splits)

lemma addCommand_eq_Inr:
  "addCommand h p = Inr h' \<longleftrightarrow> (\<exists>d. machines h p = Some d \<and> commands h (m_id d) = None \<and>
     h' = incrementNextCommandEventID (incrementNextCommandEventIDIfVersionMarker
       (h\<lparr>orderedCommands := orderedCommands h @ [p],
          commands := (commands h)(m_id d \<mapsto> p)\<rparr>)))"
  by (auto simp: addCommand_def res_simps fail_defs split: if_splits)

lemma ran_add: "m i = None \<Longrightarrow> ran (m(i \<mapsto> p)) = insert p (ran m)"
  by (rule ran_map_upd)

lemma wf_addCommand:
  assumes wf: "wf_helper h" and d: "machines h p = Some d" "m_state d \<noteq> commandStateCompleted"
    and fresh: "p \<notin> set (orderedCommands h)" and add: "addCommand h p = Inr h'"
  shows "wf_helper h'"
proof -
  from add d have none: "commands h (m_id d) = None"
    and h': "h' = incrementNextCommandEventID (incrementNextCommandEventIDIfVersionMarker
       (h\<lparr>orderedCommands := orderedCommands h @ [p], commands := (commands h)(m_id d \<mapsto> p)\<rparr>))"
    by (auto simp: addCommand_eq_Inr)
  from wf d fresh none show ?thesis
    by (auto simp: h' wf_helper_def store_ok_def listed_ok_def ran_add)
qed

lemma allocMachine_facts:
  assumes wf: "wf_helper h" and k: "kind_id (m_kind d) (m_id d)"
    and alloc: "allocMachine h d = (p, h')"
  shows "wf_helper h'" and "machines h' p = Some d" and "p \<notin> set (orderedCommands h')"
    and "machines h p = None" and "orderedCommands h' = orderedCommands h"
    and "commands h' = commands h" and "machines h' = (machines h)(p \<mapsto> d)"
proof -
  from alloc have p: "p = nextPtr h"
    and h': "h' = h\<lparr>machines := (machines h)(p \<mapsto> d), nextPtr := Suc p\<rparr>"
    by (auto simp: allocMachine_def)
  from wf p show none: "machines h p = None"
    by (auto simp: wf_helper_def store_ok_def) (metis less_irrefl not_Some_eq)
  then have notin: "p \<notin> set (orderedCommands h)"
    using wf_listedD [OF wf, of p] by auto
  then have nocmd: "commands h i \<noteq> Some p" for i
    using wf by (auto simp: wf_helper_def listed_ok_def ran_def)
  show "machines h' p = Some d" "p \<notin> set (orderedCommands h')"
    "orderedCommands h' = orderedCommands h" "commands h' = commands h"
    "machines h' = (machines h)(p \<mapsto> d)"
    using notin by (auto simp: h')
  have "store_ok h'"
    using wf k p none by (fastforce simp: h' wf_helper_def store_ok_def)
  moreover have "listed_ok h'"
    using wf nocmd by (fastforce simp: h' wf_helper_def listed_ok_def)
  ultimately show "wf_helper h'" by (simp add: wf_helper_def)
qed

lemma wf_addNew:
  assumes wf: "wf_helper h" and k: "kind_id (m_kind d) (m_id d)"
    and op: "m_state d \<noteq> commandStateCompleted" and add: "addNew h d = Inr (p, h')"
  shows "wf_helper h'"
proof -
  obtain q h1 where alloc: "allocMachine h d = (q, h1)" by (metis surj_pair)
  with add have "addCommand h1 q = Inr h'" by (auto simp: addNew_def res_simps)
  with allocMachine_facts [OF wf k alloc] op show ?thesis
    by (auto intro: wf_addCommand)
qed

lemma wf_moveCommandToBack:
  assumes wf: "wf_helper h" and listed: "machines h p = Some d" "commands h (m_id d) = Some p"
    and move: "moveCommandToBack h p = Inr h'"
  shows "wf_helper h'"
proof -
  from move listed have h': "h' = h\<lparr>orderedCommands := remove1 p (orderedCommands h) @ [p],
      commands := (commands h)(m_id d \<mapsto> p)\<rparr>"
    by (auto simp: moveCommandToBack_def res_simps)
  have "(commands h)(m_id d \<mapsto> p) = commands h"
    using listed by auto
  moreover from wf have "p \<in> set (orderedCommands h)"
    using listed by (auto simp: wf_helper_def listed_ok_def intro: ranI)
  ultimately show ?thesis
    using wf by (auto simp: h' wf_helper_def store_ok_def listed_ok_def)
qed

section \<open>Cancellation\<close>

lemma new_machine_sel [simp]:
  "m_state (newCommandStateMachineBase t i k) = commandStateCreated"
  "m_kind (newCommandStateMachineBase t i k) = k"
  "m_id (newCommandStateMachineBase t i k) = makeCommandID t i"
  by (simp_all add: newCommandStateMachineBase_def)

lemmas new_machine_defs =
  newCancelActivityStateMachine_def newCancelTimerCommandStateMachine_def
  newRequestCancelNexusOperationStateMachine_def newActivityCommandStateMachine_def
  newTimerCommandStateMachine_def newChildWorkflowCommandStateMachine_def
  newNaiveCommandStateMachine_def newMarkerCommandStateMachine_def
  newCancelExternalWorkflowStateMachine_def newSignalExternalWorkflowStateMachine_def
  newUpsertSearchAttributesStateMachine_def newModifyPropertiesStateMachine_def

text \<open>
  Canceling an activity, a timer or a nexus operation first adds a machine that carries the cancel
  command. What the rest of the cancellation sees is a well-formed helper in which the canceled
  machine is as before.
\<close>

lemma cancel_adds:
  assumes wf: "wf_helper h" and d: "machines h p = Some d"
    and k: "kind_id (m_kind c) (m_id c)" "m_state c \<noteq> commandStateCompleted"
    and alloc: "allocMachine h c = (q, h1)" and add: "addCommand h1 q = Inr h2"
  shows "wf_helper h2" and "machines h2 p = Some d" and "machines h2 q = Some c"
    and "commands h2 (m_id c) = Some q"
proof -
  note facts = allocMachine_facts [OF wf k(1) alloc]
  from add facts k(2) show "wf_helper h2" by (auto intro: wf_addCommand)
  from d facts(4) have "q \<noteq> p" by auto
  with add facts d show "machines h2 p = Some d" "machines h2 q = Some c"
    "commands h2 (m_id c) = Some q"
    by (auto simp: addCommand_eq_Inr)
qed

lemma wf_base_cancel: "base_cancel h p = Inr h' \<Longrightarrow> wf_helper h \<Longrightarrow> wf_helper h'"
  by (rule wf_machine_steps [OF base_cancel_steps])

lemma kind_id_setEagerFalse: "kind_id (m_kind d) i \<Longrightarrow> kind_id (m_kind (setEagerFalse d)) i"
  by (auto simp: setEagerFalse_def kind_id_def split: machineKind.splits)

lemma setEagerFalse_sel [simp]:
  "m_id (setEagerFalse d) = m_id d" "m_state (setEagerFalse d) = m_state d"
  by (auto simp: setEagerFalse_def split: machineKind.splits)

lemma is_nexus_setEagerFalse: "is_nexus (m_kind d) \<Longrightarrow> is_nexus (m_kind (setEagerFalse d))"
  by (auto simp: setEagerFalse_def is_nexus_def)

lemma wf_activity_cancel:
  assumes wf: "wf_helper h" and canc: "activity_cancel sid h p = Inr h'"
  shows "wf_helper h'"
proof -
  from canc obtain d where d: "machines h p = Some d"
    by (auto simp: activity_cancel_def res_simps)
  let ?c = "(newCancelActivityStateMachine sid)\<lparr>m_eventGroupMarkers := m_eventGroupMarkers d\<rparr>"
  show ?thesis
  proof (cases "m_state d \<in> {commandStateCreated, commandStateCommandSent, commandStateInitiated}")
    case False
    with canc d have "base_cancel h p = Inr h'" by (auto simp: activity_cancel_def)
    then show ?thesis using wf by (rule wf_base_cancel)
  next
    case True
    obtain q h1 where alloc: "allocMachine h ?c = (q, h1)" by (metis surj_pair)
    from True canc d alloc obtain h2 where add: "addCommand h1 q = Inr h2"
      and bc: "base_cancel (if m_state d \<noteq> commandStateCommandSent
                 then putMachine h2 p (setEagerFalse d) else h2) p = Inr h'"
      by (auto simp: activity_cancel_def res_simps)
    have "kind_id (m_kind ?c) (m_id ?c)" "m_state ?c \<noteq> commandStateCompleted"
      by (simp_all add: new_machine_defs kind_id_def)
    note facts = cancel_adds [OF wf d this alloc add]
    have "wf_helper (putMachine h2 p (setEagerFalse d))"
      using facts(1,2) by (rule wf_putMachine_same)
        (use wf d in \<open>auto simp: wf_helper_def kind_id_setEagerFalse is_nexus_setEagerFalse
          dest: kind_id_of_store\<close>)
    with facts(1) bc show ?thesis by (auto intro: wf_base_cancel split: if_splits)
  qed
qed

lemma wf_timer_cancel:
  assumes wf: "wf_helper h" and canc: "timer_cancel t h p = Inr h'"
  shows "wf_helper h'"
proof -
  from canc obtain d where d: "machines h p = Some d"
    by (auto simp: timer_cancel_def res_simps)
  let ?c = "(newCancelTimerCommandStateMachine t)\<lparr>m_eventGroupMarkers := m_eventGroupMarkers d\<rparr>"
  show ?thesis
  proof (cases "m_state d \<in> {commandStateCreated, commandStateCommandSent, commandStateInitiated}")
    case False
    with canc d have "base_cancel h p = Inr h'" by (auto simp: timer_cancel_def)
    then show ?thesis using wf by (rule wf_base_cancel)
  next
    case True
    obtain q h1 where alloc: "allocMachine h ?c = (q, h1)" by (metis surj_pair)
    from True canc d alloc obtain h2 where add: "addCommand h1 q = Inr h2"
      and bc: "base_cancel h2 p = Inr h'"
      by (auto simp: timer_cancel_def res_simps)
    have "kind_id (m_kind ?c) (m_id ?c)" "m_state ?c \<noteq> commandStateCompleted"
      by (simp_all add: new_machine_defs kind_id_def)
    from cancel_adds(1) [OF wf d this alloc add] show ?thesis by (rule wf_base_cancel [OF bc])
  qed
qed

lemma setCancelation_sel [simp]:
  "m_id (setCancelation d c) = m_id d" "m_state (setCancelation d c) = m_state d"
  by (auto simp: setCancelation_def split: machineKind.splits)

lemma kind_id_setCancelation: "kind_id (m_kind d) i \<Longrightarrow> kind_id (m_kind (setCancelation d c)) i"
  by (auto simp: setCancelation_def kind_id_def split: machineKind.splits)

lemma is_nexus_setCancelation: "is_nexus (m_kind d) \<Longrightarrow> is_nexus (m_kind (setCancelation d c))"
  by (auto simp: setCancelation_def is_nexus_def)

lemma wf_nexusOperation_cancel:
  assumes wf: "wf_helper h" and canc: "nexusOperation_cancel e co h p = Inr h'"
  shows "wf_helper h'"
proof -
  from canc obtain d where d: "machines h p = Some d"
    by (auto simp: nexusOperation_cancel_def res_simps)
  let ?c = "(newRequestCancelNexusOperationStateMachine e)
    \<lparr>m_eventGroupMarkers := m_eventGroupMarkers d\<rparr>"
  show ?thesis
  proof (cases "co \<noteq> None \<or> m_state d = commandStateCompleted")
    case True
    with canc d wf show ?thesis by (auto simp: nexusOperation_cancel_def)
  next
    case False
    obtain q h1 where alloc: "allocMachine h ?c = (q, h1)" by (metis surj_pair)
    let ?h2 = "putMachine h1 p (setCancelation d q)"
    from False canc d alloc obtain h3 where add: "addCommand ?h2 q = Inr h3"
      and fin: "(if m_state d = commandStateCreated
                 then requestCancelNexusOperation_handleCompletionEvent h3 q else Inr h3) = Inr h'"
      by (auto simp: nexusOperation_cancel_def res_simps Let_def)
    have k: "kind_id (m_kind ?c) (m_id ?c)" by (simp add: new_machine_defs kind_id_def)
    note facts = allocMachine_facts [OF wf k alloc]
    from facts(4) d have pq: "p \<noteq> q" by auto
    have "machines h1 p = Some d" using facts(7) d pq by simp
    moreover have "kind_id (m_kind d) (m_id d)" using wf d by (simp add: wf_helper_def store_ok_def)
    ultimately have "wf_helper ?h2"
      using facts(1) by (intro wf_putMachine_same [of h1 p d])
        (auto simp: kind_id_setCancelation is_nexus_setCancelation)
    then have "wf_helper h3"
      using add facts(2,3) pq by (rule_tac wf_addCommand [of ?h2 q ?c]) (auto simp: new_machine_defs)
    with fin show ?thesis by (auto intro: nexusCancelCompleted.wf split: if_splits)
  qed
qed

lemma wf_childWorkflow_cancel:
  assumes wf: "wf_helper h" and listed: "machines h p = Some d" "commands h (m_id d) = Some p"
    and canc: "childWorkflow_cancel h p = Inr h'"
  shows "wf_helper h'"
proof (cases "m_state d = commandStateStarted")
  case True
  let ?h1 = "putMachine h p (moved d commandStateCanceledAfterStarted eventCancel)"
  from True canc listed obtain h2 where m: "moveCommandToBack ?h1 p = Inr h2"
    and h': "h' = incrementNextCommandEventID h2"
    by (auto simp: childWorkflow_cancel_def res_simps moveState_Some)
  have "wf_helper ?h1" using wf listed(1) by (rule wf_putMachine_open) simp_all
  then have "wf_helper h2" using m listed
    by (rule_tac d = "moved d commandStateCanceledAfterStarted eventCancel" in wf_moveCommandToBack) auto
  then show ?thesis by (simp add: h')
next
  case False
  with canc listed have "base_cancel h p = Inr h'"
    by (cases "m_state d") (auto simp: childWorkflow_cancel_def)
  then show ?thesis using wf by (rule wf_base_cancel)
qed

lemma wf_cancel:
  assumes wf: "wf_helper h" and listed: "commands h i = Some p" and canc: "cancel h p = Inr h'"
  shows "wf_helper h'"
proof -
  from wf_commandsD [OF wf listed] obtain d where d: "machines h p = Some d" and i: "m_id d = i"
    by blast
  from canc d show ?thesis
    by (cases "m_kind d")
      (auto simp: cancel_def is_naive_def fail_defs i listed intro: wf_base_cancel [OF _ wf]
        wf_activity_cancel [OF wf] wf_timer_cancel [OF wf] wf_nexusOperation_cancel [OF wf]
        wf_childWorkflow_cancel [OF wf d])
qed

section \<open>Operations\<close>

lemma getCommand_eq_Inr [simp]: "getCommand h i = Inr p \<longleftrightarrow> commands h i = Some p"
  by (auto simp: getCommand_def fail_defs split: option.splits)

context machine_event
begin

lemma wf_onCommand: "onCommand f h i = Inr (p, h') \<Longrightarrow> wf_helper h \<Longrightarrow> wf_helper h'"
  by (auto simp: onCommand_def res_simps intro: wf)

end

lemma wf_onCommand_cancel:
  "onCommand cancel h i = Inr (p, h') \<Longrightarrow> wf_helper h \<Longrightarrow> wf_helper h'"
  by (auto simp: onCommand_def res_simps intro: wf_cancel)

lemma wf_removeCancelOfResolvedCommand:
  "removeCancelOfResolvedCommand h i = Inr h' \<Longrightarrow> wf_helper h \<Longrightarrow> wf_helper h'"
  using wf_dropCommand [of h i]
  by (auto simp: removeCancelOfResolvedCommand_def removeCancel_eq_dropCommand dropCommand_def
      split: if_splits option.splits)

lemma wf_forgetActivity [simp]: "wf_helper (forgetActivity h e) = wf_helper h"
  by (simp add: forgetActivity_def)

lemma createNewCommand_type [simp]:
  "cmd_CommandType (createNewCommand t) = t" "cmd_CommandType (createNewCommandWithMetadata t m) = t"
  by (simp_all add: createNewCommand_def createNewCommandWithMetadata_def)

lemma kind_id_simps [simp]:
  "kind_id (ActivityMachine e a u) (makeCommandID commandTypeActivity (act_ActivityId a))"
  "kind_id (TimerMachine ta u) (makeCommandID commandTypeTimer (timer_TimerId ta))"
  "kind_id (ChildWorkflowMachine ca u) (makeCommandID commandTypeChildWorkflow (child_WorkflowId ca))"
  "kind_id (CancelExternalWorkflowMachine c) (makeCommandID commandTypeCancellation s) \<longleftrightarrow>
     cmd_CommandType c = COMMAND_TYPE_REQUEST_CANCEL_EXTERNAL_WORKFLOW_EXECUTION"
  "kind_id (SignalExternalWorkflowMachine c) (makeCommandID commandTypeSignal s) \<longleftrightarrow>
     cmd_CommandType c = COMMAND_TYPE_SIGNAL_EXTERNAL_WORKFLOW_EXECUTION"
  "kind_id (MarkerMachine c) (makeCommandID commandTypeMarker s) \<longleftrightarrow>
     cmd_CommandType c = COMMAND_TYPE_RECORD_MARKER"
  "kind_id (CompleteOnSendMachine c) (makeCommandID commandTypeUpsertSearchAttributes s) \<longleftrightarrow>
     cmd_CommandType c = COMMAND_TYPE_UPSERT_WORKFLOW_SEARCH_ATTRIBUTES"
  "kind_id (CompleteOnSendMachine c) (makeCommandID commandTypeProtocolMessage s) \<longleftrightarrow>
     cmd_CommandType c = COMMAND_TYPE_PROTOCOL_MESSAGE"
  "kind_id (ModifyPropertiesMachine c) (makeCommandID commandTypeModifyProperties s) \<longleftrightarrow>
     cmd_CommandType c = COMMAND_TYPE_MODIFY_WORKFLOW_PROPERTIES"
  "kind_id (NexusOperationMachine n e na co u) (makeCommandID commandTypeNexusOperation (formatInt n))"
  by (simp_all add: kind_id_def)

end
