(* ===== verification/Helper_Operations.thy ===== *)
theory Helper_Operations
  imports Helper_Invariant
begin

text \<open>
  Every operation of the helper keeps its invariant:
  the operations that add a command, and the operations that history drives.
\<close>

section \<open>Operations that add a command\<close>

lemma wf_addNewI:
  "addNew h d = Inr (p, h') \<Longrightarrow> wf_helper h \<Longrightarrow> kind_id (m_kind d) (m_id d) \<Longrightarrow>
     m_state d = commandStateCreated \<Longrightarrow> wf_helper h'"
  by (rule wf_addNew) auto

lemma panicOnError_eq_Inr [simp]: "panicOnError r = Inr a \<longleftrightarrow> r = Inr a"
  by (auto simp: panicOnError_def split: sum.splits)

lemma getNextID_eq_Inr:
  "getNextID h = Inr (n, h') \<longleftrightarrow>
     h' = incrementNextCommandEventIDIfVersionMarker h \<and> n = nextCommandEventID h' \<and> n \<noteq> 0"
  by (auto simp: getNextID_def Let_def)

lemma wf_getNextID: "getNextID h = Inr (n, h') \<Longrightarrow> wf_helper h \<Longrightarrow> wf_helper h'"
  by (simp add: getNextID_eq_Inr)

lemma wf_scheduleActivityTask:
  "scheduleActivityTask h i a u g = Inr (p, h') \<Longrightarrow> wf_helper h \<Longrightarrow> wf_helper h'"
  unfolding scheduleActivityTask_def by (erule wf_addNewI) (simp_all add: new_machine_defs)

lemma wf_recordVersionMarker:
  "recordVersionMarker h c v dc b g = Inr (p, h') \<Longrightarrow> wf_helper h \<Longrightarrow> wf_helper h'"
  unfolding recordVersionMarker_def
  by (auto simp: res_simps Let_def elim!: wf_addNewI) (simp_all add: new_machine_defs)

lemma wf_recordSideEffectMarker:
  "recordSideEffectMarker h i x dc u g = Inr (p, h') \<Longrightarrow> wf_helper h \<Longrightarrow> wf_helper h'"
  unfolding recordSideEffectMarker_def
  by (auto simp: res_simps Let_def elim!: wf_addNewI) (simp_all add: new_machine_defs)

lemma wf_recordLocalActivityMarker:
  "recordLocalActivityMarker h i x f u g = Inr (p, h') \<Longrightarrow> wf_helper h \<Longrightarrow> wf_helper h'"
  unfolding recordLocalActivityMarker_def
  by (auto simp: res_simps Let_def getNextID_eq_Inr elim!: wf_addNewI)
    (simp_all add: new_machine_defs)

lemma wf_recordMutableSideEffectMarker:
  "recordMutableSideEffectMarker h i n x dc u g = Inr (p, h') \<Longrightarrow> wf_helper h \<Longrightarrow> wf_helper h'"
  unfolding recordMutableSideEffectMarker_def
  by (auto simp: res_simps Let_def getNextID_eq_Inr elim!: wf_addNewI)
    (simp_all add: new_machine_defs)

lemma wf_startChildWorkflowExecution:
  "startChildWorkflowExecution h a u g = Inr (r, h') \<Longrightarrow> wf_helper h \<Longrightarrow> wf_helper h'"
  unfolding startChildWorkflowExecution_def
  by (auto simp: res_simps Let_def elim!: wf_addNewI split: if_splits)
    (simp_all add: new_machine_defs)

lemma wf_requestCancelExternalWorkflowExecution:
  "requestCancelExternalWorkflowExecution h n w r c b g = Inr (p, h') \<Longrightarrow> wf_helper h \<Longrightarrow>
     wf_helper h'"
  unfolding requestCancelExternalWorkflowExecution_def
  by (auto elim!: wf_addNewI intro: wf_onCommand_cancel split: if_splits)
    (simp_all add: new_machine_defs)

lemma wf_signalExternalWorkflowExecution:
  "signalExternalWorkflowExecution h n w r s i hdr j b g = Inr (p, h') \<Longrightarrow> wf_helper h \<Longrightarrow>
     wf_helper h'"
  unfolding signalExternalWorkflowExecution_def
  by (erule wf_addNewI) (simp_all add: new_machine_defs)

lemma wf_addProtocolMessage:
  "addProtocolMessage h i = Inr (p, h') \<Longrightarrow> wf_helper h \<Longrightarrow> wf_helper h'"
  unfolding addProtocolMessage_def by (erule wf_addNewI) (simp_all add: new_machine_defs)

lemma wf_upsertSearchAttributes:
  "upsertSearchAttributes h i s g = Inr (p, h') \<Longrightarrow> wf_helper h \<Longrightarrow> wf_helper h'"
  unfolding upsertSearchAttributes_def by (erule wf_addNewI) (simp_all add: new_machine_defs)

lemma wf_modifyProperties:
  "modifyProperties h i s g = Inr (p, h') \<Longrightarrow> wf_helper h \<Longrightarrow> wf_helper h'"
  unfolding modifyProperties_def by (erule wf_addNewI) (simp_all add: new_machine_defs)

lemma wf_startTimer:
  "startTimer h a s dc g = Inr (p, h') \<Longrightarrow> wf_helper h \<Longrightarrow> wf_helper h'"
  unfolding startTimer_def
  by (auto simp: res_simps elim!: wf_addNewI) (simp_all add: new_machine_defs)

text \<open>A nexus operation is also queued until the service reports its scheduled event.\<close>

lemma wf_queueNexus:
  "wf_helper h \<Longrightarrow> machines h p = Some d \<Longrightarrow> is_nexus (m_kind d) \<Longrightarrow>
     wf_helper (h\<lparr>nexusOperationsWithoutScheduledID :=
       nexusOperationsWithoutScheduledID h @ [p]\<rparr>)"
  by (auto simp: wf_helper_def store_ok_def listed_ok_def)

lemma wf_unqueueNexus:
  "wf_helper h \<Longrightarrow> set ps \<subseteq> set (nexusOperationsWithoutScheduledID h) \<Longrightarrow>
     wf_helper (h\<lparr>nexusOperationsWithoutScheduledID := ps\<rparr>)"
  by (auto simp: wf_helper_def store_ok_def listed_ok_def)

lemma wf_scheduleNexusOperation:
  assumes sch: "scheduleNexusOperation h n a u g = Inr (p, h')" and wf: "wf_helper h"
  shows "wf_helper h'"
proof -
  let ?d = "(newCommandStateMachineBase commandTypeNexusOperation (formatInt n)
               (NexusOperationMachine n 0 a None u)) \<lparr>m_eventGroupMarkers := g\<rparr>"
  obtain q h1 where alloc: "allocMachine h ?d = (q, h1)" by (metis surj_pair)
  let ?h2 = "h1\<lparr>nexusOperationsWithoutScheduledID := nexusOperationsWithoutScheduledID h1 @ [q]\<rparr>"
  have facts: "wf_helper h1" "machines h1 q = Some ?d" "q \<notin> set (orderedCommands h1)"
    using allocMachine_facts [OF wf _ alloc] by simp_all
  from sch alloc have "addCommand ?h2 q = Inr h'"
    by (auto simp: scheduleNexusOperation_def newNexusOperationStateMachine_def res_simps Let_def)
  moreover have "wf_helper ?h2"
    using facts by (auto intro: wf_queueNexus simp: is_nexus_def)
  ultimately show ?thesis
    using facts by (auto intro: wf_addCommand [of ?h2 q ?d])
qed

section \<open>Operations driven by history\<close>

lemma wf_setCurrentWorkflowTaskStartedEventID:
  "setCurrentWorkflowTaskStartedEventID h e = Inr h' \<Longrightarrow> wf_helper h \<Longrightarrow> wf_helper h'"
  by (auto simp: setCurrentWorkflowTaskStartedEventID_def res_simps)

lemma wf_handleActivityTaskClosed:
  "handleActivityTaskClosed h a e = Inr (p, h') \<Longrightarrow> wf_helper h \<Longrightarrow> wf_helper h'"
  unfolding handleActivityTaskClosed_def
  by (auto simp: res_simps elim!: completion.wf wf_removeCancelOfResolvedCommand)

lemma wf_handleTimerClosed:
  "handleTimerClosed h t = Inr (p, h') \<Longrightarrow> wf_helper h \<Longrightarrow> wf_helper h'"
  unfolding handleTimerClosed_def
  by (auto simp: res_simps elim!: completion.wf wf_removeCancelOfResolvedCommand)

lemma wf_handleActivityTaskScheduled:
  "handleActivityTaskScheduled h a e = Inr (p, h') \<Longrightarrow> wf_helper h \<Longrightarrow> wf_helper h'"
  unfolding handleActivityTaskScheduled_def
  by (auto simp: fail_defs intro: initiated.wf_onCommand split: if_splits)

lemma wf_handleActivityTaskCancelRequested:
  "handleActivityTaskCancelRequested h e = Inr (p, h') \<Longrightarrow> wf_helper h \<Longrightarrow> wf_helper h'"
  unfolding handleActivityTaskCancelRequested_def
  by (auto simp: fail_defs intro: cancelInitiated.wf_onCommand split: option.splits)

lemma wf_handleActivityTaskCanceled:
  "handleActivityTaskCanceled h a e = Inr (p, h') \<Longrightarrow> wf_helper h \<Longrightarrow> wf_helper h'"
  unfolding handleActivityTaskCanceled_def
  by (auto simp: res_simps intro: canceled.wf_onCommand)

lemma setScheduledEventID_sel [simp]:
  "m_id (setScheduledEventID d e) = m_id d" "m_state (setScheduledEventID d e) = m_state d"
  by (auto simp: setScheduledEventID_def split: machineKind.splits)

lemma kind_setScheduledEventID:
  "kind_id (m_kind d) i \<Longrightarrow> kind_id (m_kind (setScheduledEventID d e)) i"
  "is_nexus (m_kind d) \<Longrightarrow> is_nexus (m_kind (setScheduledEventID d e))"
  by (auto simp: setScheduledEventID_def kind_id_def is_nexus_def split: machineKind.splits)

lemma wf_handleNexusOperationScheduled:
  assumes sch: "handleNexusOperationScheduled h e txt = Inr h'" and wf: "wf_helper h"
  shows "wf_helper h'"
proof -
  from sch obtain p rest d seq where q: "nexusOperationsWithoutScheduledID h = p # rest"
    and d: "machines h p = Some d"
    and step: "handleInitiatedEvent
      ((putMachine (h\<lparr>nexusOperationsWithoutScheduledID := rest\<rparr>) p (setScheduledEventID d e))
        \<lparr>scheduledEventIDToNexusSeq := (scheduledEventIDToNexusSeq h)(e \<mapsto> seq)\<rparr>) p = Inr h'"
    by (auto simp: handleNexusOperationScheduled_def res_simps fail_defs split: list.splits)
  let ?h1 = "h\<lparr>nexusOperationsWithoutScheduledID := rest\<rparr>"
  have "wf_helper ?h1" using wf q by (auto intro: wf_unqueueNexus)
  then have "wf_helper (putMachine ?h1 p (setScheduledEventID d e))"
    using wf d by (intro wf_putMachine_same [of ?h1 p d])
      (auto simp: kind_setScheduledEventID wf_helper_def dest: kind_id_of_store)
  with step show ?thesis by (auto intro: initiated.wf)
qed

lemma wf_handleNexusOperationStarted:
  "handleNexusOperationStarted h e = Inr (p, h') \<Longrightarrow> wf_helper h \<Longrightarrow> wf_helper h'"
  unfolding handleNexusOperationStarted_def by (auto simp: res_simps intro: started.wf)

lemma wf_handleNexusOperationCompleted:
  "handleNexusOperationCompleted h e = Inr (p, h') \<Longrightarrow> wf_helper h \<Longrightarrow> wf_helper h'"
  unfolding handleNexusOperationCompleted_def by (auto simp: res_simps Let_def intro: completion.wf)

lemma wf_handleNexusOperationCancelRequested:
  "handleNexusOperationCancelRequested h e = Inr (p, h') \<Longrightarrow> wf_helper h \<Longrightarrow> wf_helper h'"
  unfolding handleNexusOperationCancelRequested_def
  by (auto simp: res_simps intro: nexusCancelInitiated.wf)

lemma wf_handleNexusOperationCancelRequestDelivered:
  "handleNexusOperationCancelRequestDelivered h e = Inr (p, h') \<Longrightarrow> wf_helper h \<Longrightarrow> wf_helper h'"
  unfolding handleNexusOperationCancelRequestDelivered_def
  by (auto simp: res_simps intro: nexusCancelCompleted.wf)

lemma removeSeq_subset: "removeSeq h n ps = Inr qs \<Longrightarrow> set qs \<subseteq> set ps"
  by (induction ps arbitrary: qs) (auto simp: res_simps split: if_splits)

lemma wf_requestCancelNexusOperation:
  "requestCancelNexusOperation h n = Inr (p, h') \<Longrightarrow> wf_helper h \<Longrightarrow> wf_helper h'"
  unfolding requestCancelNexusOperation_def getNexusOperationCommand_def
  by (auto simp: res_simps intro: wf_cancel wf_unqueueNexus dest: removeSeq_subset split: if_splits)

lemma wf_handleVersionMarker:
  "handleVersionMarker h e c b = Inr h' \<Longrightarrow> wf_helper h \<Longrightarrow> wf_helper h'"
  by (auto simp: handleVersionMarker_def fail_defs split: if_splits)

lemma wf_handleRequestCancelExternalWorkflowExecutionInitiated:
  "handleRequestCancelExternalWorkflowExecutionInitiated h e w c = Inr (p, h') \<Longrightarrow> wf_helper h \<Longrightarrow>
     wf_helper h'"
  unfolding handleRequestCancelExternalWorkflowExecutionInitiated_def
  by (auto intro: cancelInitiated.wf_onCommand initiated.wf_onCommand split: if_splits)

lemma wf_handleExternalWorkflowExecutionCancelRequested:
  "handleExternalWorkflowExecutionCancelRequested h e w = Inr (b, p, h') \<Longrightarrow> wf_helper h \<Longrightarrow>
     wf_helper h'"
  unfolding handleExternalWorkflowExecutionCancelRequested_def
  by (auto simp: res_simps intro: cancelReq.wf completion.wf_onCommand split: option.splits)

lemma wf_handleRequestCancelExternalWorkflowExecutionFailed:
  "handleRequestCancelExternalWorkflowExecutionFailed h e w = Inr (b, p, h') \<Longrightarrow> wf_helper h \<Longrightarrow>
     wf_helper h'"
  unfolding handleRequestCancelExternalWorkflowExecutionFailed_def
  by (auto simp: res_simps intro: cancelFailed.wf_onCommand completion.wf_onCommand
      split: option.splits)

lemma wf_handleSignalExternalWorkflowExecutionInitiated:
  "handleSignalExternalWorkflowExecutionInitiated h e s = Inr (p, h') \<Longrightarrow> wf_helper h \<Longrightarrow>
     wf_helper h'"
  unfolding handleSignalExternalWorkflowExecutionInitiated_def
  by (auto intro: initiated.wf_onCommand)

lemma wf_handleSignalExternalWorkflowExecutionCompleted:
  "handleSignalExternalWorkflowExecutionCompleted h e = Inr (p, h') \<Longrightarrow> wf_helper h \<Longrightarrow>
     wf_helper h'"
  unfolding handleSignalExternalWorkflowExecutionCompleted_def
  by (auto simp: res_simps intro: completion.wf_onCommand)

lemma wf_handleSignalExternalWorkflowExecutionFailed:
  "handleSignalExternalWorkflowExecutionFailed h e = Inr (p, h') \<Longrightarrow> wf_helper h \<Longrightarrow>
     wf_helper h'"
  unfolding handleSignalExternalWorkflowExecutionFailed_def
  by (auto simp: res_simps intro: completion.wf_onCommand)

end
