(* ===== verification/Task_Commands.thy ===== *)
theory Task_Commands
  imports Helper_Operations
begin

text \<open>
  The commands of a workflow task. \<open>getCommands\<close> is proved total on a well-formed helper, its result
  is the list of the commands its machines ask for in order, and what marking them as sent leaves
  behind is described machine by machine.
\<close>

section \<open>What a helper would send\<close>

definition commandOf :: "'d commandsHelper \<Rightarrow> ptr \<Rightarrow> command list" where
  "commandOf h p = (case machines h p of
     None \<Rightarrow> [] | Some d \<Rightarrow> (case machine_getCommand d of None \<Rightarrow> [] | Some c \<Rightarrow> [c]))"

definition commandsOf :: "'d commandsHelper \<Rightarrow> command list" where
  "commandsOf h = concat (map (commandOf h) (orderedCommands h))"

text \<open>The state a machine is left in when its command was handed to the service.\<close>

definition sentState :: "machineKind \<Rightarrow> commandState \<Rightarrow> commandState" where
  "sentState k s =
     (case k of
        ActivityMachine _ _ _ \<Rightarrow>
          if s = commandStateCreated then commandStateCommandSent
          else if s = commandStateCanceledAfterInitiated then commandStateCancellationCommandSent
          else s
      | TimerMachine _ _ \<Rightarrow>
          if s = commandStateCreated then commandStateCommandSent
          else if s = commandStateCanceledAfterInitiated then commandStateCancellationCommandSent
          else s
      | ChildWorkflowMachine _ _ \<Rightarrow>
          if s = commandStateCreated then commandStateCommandSent
          else if s = commandStateCanceledAfterStarted then commandStateCancellationCommandSent
          else s
      | MarkerMachine _ \<Rightarrow> if s = commandStateCreated then commandStateCompleted else s
      | CompleteOnSendMachine _ \<Rightarrow> if s = commandStateCreated then commandStateCompleted else s
      | ModifyPropertiesMachine _ \<Rightarrow> if s = commandStateCreated then commandStateCompleted else s
      | _ \<Rightarrow> if s = commandStateCreated then commandStateCommandSent else s)"

definition sentMachine :: "'d machine \<Rightarrow> 'd machine" where
  "sentMachine d = (let s = sentState (m_kind d) (m_state d)
     in if s = m_state d then d else moved d s eventCommandSent)"

lemma sentMachine_sel [simp]:
  "m_id (sentMachine d) = m_id d" "m_kind (sentMachine d) = m_kind d"
  "m_state (sentMachine d) = sentState (m_kind d) (m_state d)"
  by (auto simp: sentMachine_def Let_def)

lemmas sent_defs =
  handleCommandSent_def activity_handleCommandSent_def timer_handleCommandSent_def
  childWorkflow_handleCommandSent_def marker_handleCommandSent_def
  completeOnSend_handleCommandSent_def modifyProperties_handleCommandSent_def
  base_handleCommandSent_def

lemma handleCommandSent_eq:
  "machines h p = Some d \<Longrightarrow> handleCommandSent h p =
     (if sentState (m_kind d) (m_state d) = m_state d then Inr h
      else moveState h p (sentState (m_kind d) (m_state d)) eventCommandSent)"
  by (cases "m_kind d"; cases "m_state d") (simp_all add: sent_defs sentState_def)

lemma sentState_fixed_open:
  "s \<noteq> commandStateCompleted \<Longrightarrow> sentState k s = s \<Longrightarrow> sentState k s \<noteq> commandStateCompleted"
  by simp

text \<open>A listed machine is sent: the store holds its sent form, and a completed one leaves the list.\<close>

lemma sent_listed:
  assumes wf: "wf_helper h" and d: "machines h p = Some d" "commands h (m_id d) = Some p"
    and op: "m_state d \<noteq> commandStateCompleted"
  shows "\<exists>h1. handleCommandSent h p = Inr h1 \<and> wf_helper h1 \<and>
    machines h1 = (machines h)(p \<mapsto> sentMachine d) \<and>
    orderedCommands h1 =
      (if sentState (m_kind d) (m_state d) = commandStateCompleted
       then remove1 p (orderedCommands h) else orderedCommands h) \<and>
    commands h1 =
      (if sentState (m_kind d) (m_state d) = commandStateCompleted
       then (commands h)(m_id d := None) else commands h)"
proof -
  obtain h1 where h1: "handleCommandSent h p = Inr h1"
    using d by (cases "sentState (m_kind d) (m_state d) = m_state d")
      (auto simp: handleCommandSent_eq moveState_Some)
  moreover have "wf_helper h1" using h1 wf by (rule sent.wf)
  ultimately show ?thesis
    using d op
    by (auto simp: handleCommandSent_eq moveState_Some sentMachine_def Let_def fun_upd_idem
        split: if_splits)
qed

section \<open>The loop\<close>

definition afterSend :: "bool \<Rightarrow> 'd machine \<Rightarrow> 'd machine" where
  "afterSend markAsSent d = (if markAsSent then sentMachine d else d)"

definition staysListed :: "bool \<Rightarrow> 'd commandsHelper \<Rightarrow> ptr \<Rightarrow> bool" where
  "staysListed markAsSent h p \<longleftrightarrow> (\<exists>d. machines h p = Some d \<and>
     m_state (afterSend markAsSent d) \<noteq> commandStateCompleted)"

text \<open>One round: the machine at the head is sent (or not) and the completed ones are unlinked.\<close>

lemma getCommandsLoop_round:
  assumes wf: "wf_helper h" and p: "p \<in> set (orderedCommands h)"
  obtains d h1 where "machines h p = Some d" "wf_helper h1"
    "machines h1 = (machines h)(p \<mapsto> afterSend m d)"
    "orderedCommands h1 =
       (if staysListed m h p then orderedCommands h else remove1 p (orderedCommands h))"
    "\<And>ps. getCommandsLoop m (p # ps) h =
       bind_res (getCommandsLoop m ps h1) (\<lambda>(cs, h2). Inr (commandOf h p @ cs, h2))"
    "\<not> m \<Longrightarrow> h1 = h"
proof -
  from wf_listedD [OF wf p] obtain d where d: "machines h p = Some d"
    "commands h (m_id d) = Some p" and op: "m_state d \<noteq> commandStateCompleted" by blast
  show thesis
  proof (cases m)
    case False
    with wf d op show thesis
      by (intro that [of d h])
        (auto simp: afterSend_def staysListed_def commandOf_def fun_upd_idem split: option.splits)
  next
    case True
    let ?gone = "sentState (m_kind d) (m_state d) = commandStateCompleted"
    from sent_listed [OF wf d op] obtain h1 where h1: "handleCommandSent h p = Inr h1" "wf_helper h1"
      "machines h1 = (machines h)(p \<mapsto> sentMachine d)"
      "orderedCommands h1 = (if ?gone then remove1 p (orderedCommands h) else orderedCommands h)"
      "commands h1 = (if ?gone then (commands h)(m_id d := None) else commands h)" by blast
    have "distinct (orderedCommands h)" using wf by (simp add: wf_helper_def listed_ok_def)
    then have again: "?gone \<Longrightarrow> deleteCommand (removeElement h1 p) (m_id d) = h1"
      using h1(4,5) by (simp add: deleteCommand_def removeElement_def remove1_idem)
    show thesis
    proof (rule that [of d h1])
      show "getCommandsLoop m (p # ps) h =
        bind_res (getCommandsLoop m ps h1) (\<lambda>(cs, h2). Inr (commandOf h p @ cs, h2))" for ps
        using True d(1) h1(1,3) again
        by (cases "getCommandsLoop True ps h1") (auto simp: commandOf_def split: option.splits)
    qed (use True d(1) h1 in \<open>auto simp: afterSend_def staysListed_def\<close>)
  qed
qed

lemma commandOf_other: "machines h1 q = machines h q \<Longrightarrow> commandOf h1 q = commandOf h q"
  by (simp add: commandOf_def)

lemma getCommandsLoop_total:
  assumes "wf_helper h" and "distinct ps" and "set ps \<subseteq> set (orderedCommands h)"
  shows "\<exists>h'. getCommandsLoop m ps h = Inr (concat (map (commandOf h) ps), h') \<and> wf_helper h' \<and>
    (\<forall>q. machines h' q = (if q \<in> set ps then map_option (afterSend m) (machines h q)
                          else machines h q)) \<and>
    orderedCommands h' = filter (\<lambda>q. q \<notin> set ps \<or> staysListed m h q) (orderedCommands h) \<and>
    (m \<or> h' = h)"
  using assms
proof (induction ps arbitrary: h)
  case Nil
  then show ?case by (auto intro!: exI [of _ h] filter_True [symmetric])
next
  case (Cons p ps)
  have p: "p \<in> set (orderedCommands h)" and wf: "wf_helper h" using Cons.prems by auto
  have dist: "distinct (orderedCommands h)" using wf by (simp add: wf_helper_def listed_ok_def)
  obtain d h1 where d: "machines h p = Some d" and wf1: "wf_helper h1"
    and mach: "machines h1 = (machines h)(p \<mapsto> afterSend m d)"
    and ord: "orderedCommands h1 =
      (if staysListed m h p then orderedCommands h else remove1 p (orderedCommands h))"
    and loop: "getCommandsLoop m (p # ps) h =
      bind_res (getCommandsLoop m ps h1) (\<lambda>(cs, h2). Inr (commandOf h p @ cs, h2))"
    and same: "\<not> m \<Longrightarrow> h1 = h"
    by (rule getCommandsLoop_round [OF wf p, of m]) blast
  have p_ps: "p \<notin> set ps" and dps: "distinct ps" using Cons.prems by auto
  then have "set ps \<subseteq> set (orderedCommands h1)"
    using Cons.prems dist by (auto simp: ord)
  from Cons.IH [OF wf1 dps this] obtain h' where h':
    "getCommandsLoop m ps h1 = Inr (concat (map (commandOf h1) ps), h')" "wf_helper h'"
    "\<And>q. machines h' q = (if q \<in> set ps then map_option (afterSend m) (machines h1 q)
                           else machines h1 q)"
    "orderedCommands h' = filter (\<lambda>q. q \<notin> set ps \<or> staysListed m h1 q) (orderedCommands h1)"
    "m \<or> h' = h1" by blast
  have eq: "q \<in> set ps \<Longrightarrow> machines h1 q = machines h q" for q using p_ps by (auto simp: mach)
  then have cmds: "map (commandOf h1) ps = map (commandOf h) ps"
    by (auto intro: commandOf_other)
  have stay: "q \<in> set ps \<Longrightarrow> staysListed m h1 q = staysListed m h q" for q
    using eq by (simp add: staysListed_def)
  have "orderedCommands h' =
      filter (\<lambda>q. q \<notin> set (p # ps) \<or> staysListed m h q) (orderedCommands h)"
    unfolding h'(4) ord using p_ps dist stay
    by (auto simp: distinct_remove1_removeAll removeAll_filter_not_eq intro: filter_cong)
  moreover have "getCommandsLoop m (p # ps) h = Inr (concat (map (commandOf h) (p # ps)), h')"
    by (simp add: loop h'(1) cmds del: getCommandsLoop.simps)
  moreover have "machines h' q = (if q \<in> set (p # ps) then map_option (afterSend m) (machines h q)
      else machines h q)" for q
    using h'(3) [of q] p_ps d by (auto simp: mach)
  moreover have "m \<or> h' = h" using h'(5) same by auto
  ultimately show ?case using h'(2) by blast
qed

theorem getCommands_total:
  assumes "wf_helper h"
  shows "\<exists>h'. getCommands h m = Inr (commandsOf h, h') \<and> wf_helper h' \<and>
    (\<forall>q \<in> set (orderedCommands h). machines h' q = map_option (afterSend m) (machines h q)) \<and>
    (\<forall>q. q \<notin> set (orderedCommands h) \<longrightarrow> machines h' q = machines h q) \<and>
    orderedCommands h' = filter (staysListed m h) (orderedCommands h) \<and> (m \<or> h' = h)"
proof -
  have "distinct (orderedCommands h)" using assms by (simp add: wf_helper_def listed_ok_def)
  from getCommandsLoop_total [OF assms this subset_refl, of m] obtain h' where
    "getCommandsLoop m (orderedCommands h) h =
       Inr (concat (map (commandOf h) (orderedCommands h)), h')" "wf_helper h'"
    and mach: "\<And>q. machines h' q = (if q \<in> set (orderedCommands h)
       then map_option (afterSend m) (machines h q) else machines h q)"
    and ord: "orderedCommands h' = filter
      (\<lambda>q. q \<notin> set (orderedCommands h) \<or> staysListed m h q) (orderedCommands h)"
    and "m \<or> h' = h" by blast
  moreover have "orderedCommands h' = filter (staysListed m h) (orderedCommands h)"
    unfolding ord by (rule filter_cong) auto
  ultimately show ?thesis
    by (intro exI [of _ h']) (auto simp: getCommands_def commandsOf_def)
qed

end
