(* ===== verification/Helper_Steps.thy ===== *)
theory Helper_Steps
  imports Task_Commands
begin

text \<open>
  The helper as a transition system: one rule for each operation the event handlers and the
  workflow environment call, and the helpers such calls reach from a fresh one. An operation that
  panics has no step: the panic fails the workflow task and the helper is discarded with it.
\<close>

section \<open>Steps\<close>

inductive helper_step :: "'d commandsHelper \<Rightarrow> 'd commandsHelper \<Rightarrow> bool" where
  taskStarted:
    "setCurrentWorkflowTaskStartedEventID h e = Inr h' \<Longrightarrow> helper_step h h'"
| nextID: "getNextID h = Inr (n, h') \<Longrightarrow> helper_step h h'"
| scheduleActivity:
    "scheduleActivityTask h i a u g = Inr (p, h') \<Longrightarrow> helper_step h h'"
| cancelActivity: "requestCancelActivityTask h i = Inr (p, h') \<Longrightarrow> helper_step h h'"
| activityClosed: "handleActivityTaskClosed h i e = Inr (p, h') \<Longrightarrow> helper_step h h'"
| activityScheduled: "handleActivityTaskScheduled h i e = Inr (p, h') \<Longrightarrow> helper_step h h'"
| activityCancelRequested:
    "handleActivityTaskCancelRequested h e = Inr (p, h') \<Longrightarrow> helper_step h h'"
| activityCanceled: "handleActivityTaskCanceled h i e = Inr (p, h') \<Longrightarrow> helper_step h h'"
| scheduleNexus: "scheduleNexusOperation h n na u g = Inr (p, h') \<Longrightarrow> helper_step h h'"
| nexusScheduled: "handleNexusOperationScheduled h e txt = Inr h' \<Longrightarrow> helper_step h h'"
| nexusStarted: "handleNexusOperationStarted h e = Inr (p, h') \<Longrightarrow> helper_step h h'"
| nexusCompleted: "handleNexusOperationCompleted h e = Inr (p, h') \<Longrightarrow> helper_step h h'"
| nexusCancelRequested:
    "handleNexusOperationCancelRequested h e = Inr (p, h') \<Longrightarrow> helper_step h h'"
| nexusCancelDelivered:
    "handleNexusOperationCancelRequestDelivered h e = Inr (p, h') \<Longrightarrow> helper_step h h'"
| cancelNexus: "requestCancelNexusOperation h n = Inr (p, h') \<Longrightarrow> helper_step h h'"
| recordVersion: "recordVersionMarker h c v dc b g = Inr (p, h') \<Longrightarrow> helper_step h h'"
| versionMarker: "handleVersionMarker h e c b = Inr h' \<Longrightarrow> helper_step h h'"
| recordSideEffect: "recordSideEffectMarker h n x dc u g = Inr (p, h') \<Longrightarrow> helper_step h h'"
| recordLocalActivity: "recordLocalActivityMarker h i ds f u g = Inr (p, h') \<Longrightarrow> helper_step h h'"
| recordMutableSideEffect:
    "recordMutableSideEffectMarker h i n x dc u g = Inr (p, h') \<Longrightarrow> helper_step h h'"
| startChild: "startChildWorkflowExecution h ca u g = Inr (r, h') \<Longrightarrow> helper_step h h'"
| childInitiated:
    "handleStartChildWorkflowExecutionInitiated h w = Inr (p, h') \<Longrightarrow> helper_step h h'"
| childStartFailed:
    "handleStartChildWorkflowExecutionFailed h w = Inr (p, h') \<Longrightarrow> helper_step h h'"
| requestCancelExternal:
    "requestCancelExternalWorkflowExecution h ns w rid c b g = Inr (p, h') \<Longrightarrow> helper_step h h'"
| cancelExternalInitiated:
    "handleRequestCancelExternalWorkflowExecutionInitiated h e w c = Inr (p, h') \<Longrightarrow>
       helper_step h h'"
| cancelExternalRequested:
    "handleExternalWorkflowExecutionCancelRequested h e w = Inr (b, p, h') \<Longrightarrow> helper_step h h'"
| cancelExternalFailed:
    "handleRequestCancelExternalWorkflowExecutionFailed h e w = Inr (b, p, h') \<Longrightarrow>
       helper_step h h'"
| signalExternal:
    "signalExternalWorkflowExecution h ns w rid s inp hdr j b g = Inr (p, h') \<Longrightarrow> helper_step h h'"
| protocolMessage: "addProtocolMessage h i = Inr (p, h') \<Longrightarrow> helper_step h h'"
| upsert: "upsertSearchAttributes h i sa g = Inr (p, h') \<Longrightarrow> helper_step h h'"
| modify: "modifyProperties h i sa g = Inr (p, h') \<Longrightarrow> helper_step h h'"
| signalInitiated:
    "handleSignalExternalWorkflowExecutionInitiated h e s = Inr (p, h') \<Longrightarrow> helper_step h h'"
| signalCompleted:
    "handleSignalExternalWorkflowExecutionCompleted h e = Inr (p, h') \<Longrightarrow> helper_step h h'"
| signalFailed:
    "handleSignalExternalWorkflowExecutionFailed h e = Inr (p, h') \<Longrightarrow> helper_step h h'"
| timerStart: "startTimer h ta s dc g = Inr (p, h') \<Longrightarrow> helper_step h h'"
| timerCancel: "cancelTimer h t = Inr (p, h') \<Longrightarrow> helper_step h h'"
| timerClosed: "handleTimerClosed h t = Inr (p, h') \<Longrightarrow> helper_step h h'"
| timerStarted: "handleTimerStarted h t = Inr (p, h') \<Longrightarrow> helper_step h h'"
| timerCanceled: "handleTimerCanceled h t = Inr (p, h') \<Longrightarrow> helper_step h h'"
| childStarted: "handleChildWorkflowExecutionStarted h w = Inr (p, h') \<Longrightarrow> helper_step h h'"
| childClosed: "handleChildWorkflowExecutionClosed h w = Inr (p, h') \<Longrightarrow> helper_step h h'"
| childCanceled: "handleChildWorkflowExecutionCanceled h w = Inr (p, h') \<Longrightarrow> helper_step h h'"
| collect: "getCommands h m = Inr (cs, h') \<Longrightarrow> helper_step h h'"

inductive helper_reachable :: "'d commandsHelper \<Rightarrow> bool" where
  init: "helper_reachable newCommandsHelper"
| step: "helper_reachable h \<Longrightarrow> helper_step h h' \<Longrightarrow> helper_reachable h'"

lemmas wf_add_operations =
  wf_getNextID wf_scheduleActivityTask wf_scheduleNexusOperation wf_recordVersionMarker
  wf_recordSideEffectMarker wf_recordLocalActivityMarker wf_recordMutableSideEffectMarker
  wf_startChildWorkflowExecution wf_requestCancelExternalWorkflowExecution
  wf_signalExternalWorkflowExecution wf_addProtocolMessage wf_upsertSearchAttributes
  wf_modifyProperties wf_startTimer

lemmas wf_history_operations =
  wf_setCurrentWorkflowTaskStartedEventID wf_handleActivityTaskClosed
  wf_handleActivityTaskScheduled wf_handleActivityTaskCancelRequested
  wf_handleActivityTaskCanceled wf_handleNexusOperationScheduled wf_handleNexusOperationStarted
  wf_handleNexusOperationCompleted wf_handleNexusOperationCancelRequested
  wf_handleNexusOperationCancelRequestDelivered wf_requestCancelNexusOperation
  wf_handleVersionMarker wf_handleRequestCancelExternalWorkflowExecutionInitiated
  wf_handleExternalWorkflowExecutionCancelRequested
  wf_handleRequestCancelExternalWorkflowExecutionFailed
  wf_handleSignalExternalWorkflowExecutionInitiated
  wf_handleSignalExternalWorkflowExecutionCompleted
  wf_handleSignalExternalWorkflowExecutionFailed wf_handleTimerClosed

lemmas on_command_defs =
  requestCancelActivityTask_def cancelTimer_def handleStartChildWorkflowExecutionInitiated_def
  handleStartChildWorkflowExecutionFailed_def handleTimerStarted_def handleTimerCanceled_def
  handleChildWorkflowExecutionStarted_def handleChildWorkflowExecutionClosed_def
  handleChildWorkflowExecutionCanceled_def

lemmas wf_on_command =
  wf_onCommand_cancel initiated.wf_onCommand initFailed.wf_onCommand started.wf_onCommand
  completion.wf_onCommand canceled.wf_onCommand

lemma wf_getCommands:
  assumes "getCommands h m = Inr (cs, h')" and "wf_helper h"
  shows "wf_helper h'"
  using getCommands_total [OF assms(2), of m] assms(1) by auto

lemma wf_helper_step: "helper_step h h' \<Longrightarrow> wf_helper h \<Longrightarrow> wf_helper h'"
  by (induction rule: helper_step.induct)
    (unfold on_command_defs,
      (erule (1) wf_add_operations wf_history_operations wf_on_command wf_getCommands)+)

lemma wf_reachable: "helper_reachable h \<Longrightarrow> wf_helper h"
  by (induction rule: helper_reachable.induct) (auto intro: wf_newCommandsHelper wf_helper_step)

end
