(* ===== verification/Event_Ids.thy ===== *)
theory Event_Ids
  imports Helper_Steps
begin

text \<open>
  The event ids the helper predicts. The service writes the events of a task's commands right after
  the started and completed events of the task, so the command at position \<open>k\<close> becomes event
  \<open>started + 2 + k\<close>; \<open>nextCommandEventID\<close> is meant to be the id of the next command added. This
  theory says when that prediction is right, and how version markers that are already in history
  are skipped.
\<close>

section \<open>Skipping version markers\<close>

lemma skipVersionMarkers_None:
  "fmlookup m n = None \<Longrightarrow> skipVersionMarkers n m = (n, m)"
  by (simp add: skipVersionMarkers.simps)

lemma skipVersionMarkers_empty [simp]: "skipVersionMarkers n fmempty = (n, fmempty)"
  by (simp add: skipVersionMarkers_None)

lemma skipVersionMarkers_stops:
  "fmlookup (snd (skipVersionMarkers n m)) (fst (skipVersionMarkers n m)) = None"
proof (induction n m rule: skipVersionMarkers.induct)
  case (1 n m)
  then show ?case
    by (cases "fmlookup m n") (simp_all add: skipVersionMarkers.simps [of n m])
qed

text \<open>
  How many events a marker takes: its own, and the search attribute event that follows the marker
  when it asked for one.
\<close>

definition markerWidth :: "(int64, versionMarker) fmap \<Rightarrow> int64 \<Rightarrow> nat" where
  "markerWidth m j = (case fmlookup m j of
       Some v \<Rightarrow> if vm_searchAttrUpdated v then 2 else 1
     | None \<Rightarrow> 0)"

text \<open>
  The markers \<open>js\<close> lie one behind the other from the id \<open>n\<close> on: each stands where the events of
  the ones before it end.
\<close>

definition markersFrom :: "(int64, versionMarker) fmap \<Rightarrow> int64 \<Rightarrow> int64 list \<Rightarrow> bool" where
  "markersFrom m n js \<longleftrightarrow> distinct js \<and> (\<forall>i < length js. fmlookup m (js ! i) \<noteq> None \<and>
     js ! i = n + of_nat (sum_list (map (markerWidth m) (take i js))))"

lemma markersFrom_Cons:
  assumes n: "fmlookup m n = Some v" and js: "markersFrom (fmdrop n m) (n + of_nat (markerWidth m n)) js"
  shows "markersFrom m n (n # js)" and "map (markerWidth (fmdrop n m)) js = map (markerWidth m) js"
proof -
  have new: "n \<notin> set js" using js by (auto simp: markersFrom_def in_set_conv_nth)
  then show w: "map (markerWidth (fmdrop n m)) js = map (markerWidth m) js"
    by (auto simp: markerWidth_def)
  have "map (markerWidth (fmdrop n m)) (take i js) = map (markerWidth m) (take i js)" for i
    using w by (metis take_map)
  with js new n show "markersFrom m n (n # js)"
    by (auto simp: markersFrom_def less_Suc_eq_0_disj nth_Cons' take_Cons' add.assoc
        split: if_splits)
qed

lemma skipVersionMarkers_run:
  "\<exists>js. markersFrom m n js \<and>
     skipVersionMarkers n m =
       (n + of_nat (sum_list (map (markerWidth m) js)), fmfilter (\<lambda>j. j \<notin> set js) m)"
proof (induction n m rule: skipVersionMarkers.induct)
  case (1 n m)
  show ?case
  proof (cases "fmlookup m n")
    case None
    then show ?thesis
      by (auto simp: skipVersionMarkers_None markersFrom_def intro!: exI [of _ "[]"])
  next
    case (Some v)
    let ?w = "markerWidth m n"
    have w: "(if vm_searchAttrUpdated v then n + 1 + 1 else n + 1) = n + of_nat ?w"
      using Some by (simp add: markerWidth_def)
    from "1.IH" [OF Some] obtain js where js: "markersFrom (fmdrop n m) (n + of_nat ?w) js"
      and skip: "skipVersionMarkers (n + of_nat ?w) (fmdrop n m) =
        (n + of_nat ?w + of_nat (sum_list (map (markerWidth (fmdrop n m)) js)),
         fmfilter (\<lambda>j. j \<notin> set js) (fmdrop n m))"
      unfolding w by blast
    have "fmfilter (\<lambda>j. j \<notin> set js) (fmdrop n m) = fmfilter (\<lambda>j. j \<notin> set (n # js)) m"
      by (rule fmap_ext) simp
    moreover have "skipVersionMarkers n m = skipVersionMarkers (n + of_nat ?w) (fmdrop n m)"
      using Some w by (simp add: skipVersionMarkers.simps [of n m])
    ultimately show ?thesis
      using markersFrom_Cons [OF Some js] skip
      by (intro exI [of _ "n # js"]) (simp add: add.assoc)
  qed
qed

section \<open>The prediction\<close>

definition emits :: "'d commandsHelper \<Rightarrow> ptr \<Rightarrow> bool" where
  "emits h p \<longleftrightarrow> (\<exists>d. machines h p = Some d \<and> machine_getCommand d \<noteq> None)"

definition predicts :: "int64 \<Rightarrow> 'd commandsHelper \<Rightarrow> bool" where
  "predicts started h \<longleftrightarrow> versionMarkerLookup h = fmempty \<and>
     nextCommandEventID h = started + 2 + of_nat (length (commandsOf h))"

lemma length_commandOf: "length (commandOf h p) = (if emits h p then 1 else 0)"
  by (auto simp: commandOf_def emits_def split: option.splits)

lemma length_commandsOf: "length (commandsOf h) = length (filter (emits h) (orderedCommands h))"
proof -
  have "length (concat (map (commandOf h) ps)) = length (filter (emits h) ps)" for ps
    by (induction ps) (simp_all add: length_commandOf)
  then show ?thesis by (simp add: commandsOf_def)
qed

lemma predicts_emits:
  "predicts started h \<longleftrightarrow> versionMarkerLookup h = fmempty \<and>
     nextCommandEventID h = started + 2 + of_nat (length (filter (emits h) (orderedCommands h)))"
  by (simp add: predicts_def length_commandsOf)

text \<open>
  The listed machines that ask for a command, in order. An operation \<open>grows\<close> them when it only adds
  some at the end, each with an event id of its own: positions stay what they were, and a counter
  that was right stays right.
\<close>

definition emitted :: "'d commandsHelper \<Rightarrow> ptr list" where
  "emitted h = filter (emits h) (orderedCommands h)"

definition grows :: "'d commandsHelper \<Rightarrow> 'd commandsHelper \<Rightarrow> bool" where
  "grows h h' \<longleftrightarrow> versionMarkerLookup h' = fmempty \<and>
     (\<exists>ps. emitted h' = emitted h @ ps \<and>
        nextCommandEventID h' = nextCommandEventID h + of_nat (length ps))"

lemma grows_refl: "versionMarkerLookup h = fmempty \<Longrightarrow> grows h h"
  by (simp add: grows_def)

lemma grows_trans: "grows h h1 \<Longrightarrow> grows h1 h2 \<Longrightarrow> grows h h2"
  by (fastforce simp: grows_def)

lemma grows_empty: "grows h h' \<Longrightarrow> versionMarkerLookup h' = fmempty"
  by (simp add: grows_def)

lemma predicts_grows: "predicts s h \<Longrightarrow> grows h h' \<Longrightarrow> predicts s h'"
  by (auto simp: predicts_emits grows_def emitted_def [symmetric])

lemma grows_cong:
  assumes "versionMarkerLookup h = fmempty" and "versionMarkerLookup h' = versionMarkerLookup h"
    and "nextCommandEventID h' = nextCommandEventID h" and "orderedCommands h' = orderedCommands h"
    and "\<And>p. p \<in> set (orderedCommands h) \<Longrightarrow> emits h' p = emits h p"
  shows "grows h h'"
proof -
  have "filter (emits h') (orderedCommands h) = filter (emits h) (orderedCommands h)"
    using assms(5) by (rule filter_cong [OF refl])
  with assms(1-4) show ?thesis by (simp add: grows_def emitted_def)
qed

lemma grows_putMachine:
  assumes "versionMarkerLookup h = fmempty" and "machines h p = Some d"
    and "machine_getCommand d' = None \<longleftrightarrow> machine_getCommand d = None"
  shows "grows h (putMachine h p d')"
  using assms by (intro grows_cong [OF assms(1)]) (auto simp: emits_def)

lemma countCommands_eq:
  "(\<And>p. p \<in> set ps \<Longrightarrow> machines h p \<noteq> None) \<Longrightarrow>
     countCommands h ps = Inr (of_nat (length (filter (emits h) ps)))"
proof (induction ps)
  case Nil
  then show ?case by simp
next
  case (Cons p ps)
  then obtain d where "machines h p = Some d" by fastforce
  with Cons show ?case by (auto simp: emits_def)
qed

lemma setCurrentWorkflowTaskStartedEventID_eq:
  assumes "wf_helper h"
  shows "setCurrentWorkflowTaskStartedEventID h e =
    Inr (h\<lparr>nextCommandEventID := e + 2 + of_nat (length (commandsOf h))\<rparr>)"
proof -
  have "countCommands h (orderedCommands h) = Inr (of_nat (length (commandsOf h)))"
    unfolding length_commandsOf
    by (rule countCommands_eq) (auto dest: wf_listedD [OF assms])
  then show ?thesis by (simp add: setCurrentWorkflowTaskStartedEventID_def)
qed

lemma commandsOf_nextCommandEventID [simp]:
  "commandsOf (h\<lparr>nextCommandEventID := n\<rparr>) = commandsOf h"
  by (simp add: commandsOf_def commandOf_def [abs_def])

lemma incrementIfVersionMarker_empty:
  "versionMarkerLookup h = fmempty \<Longrightarrow> incrementNextCommandEventIDIfVersionMarker h = h"
  by (simp add: incrementNextCommandEventIDIfVersionMarker_def)

lemma grows_addCommand:
  assumes vm: "versionMarkerLookup h = fmempty" and d: "machines h p = Some d"
      "machine_getCommand d = Some c"
    and fresh: "p \<notin> set (orderedCommands h)" and add: "addCommand h p = Inr h'"
  shows "grows h h'" and "commandsOf h' = commandsOf h @ [c]" and "emitted h' = emitted h @ [p]"
proof -
  from add d vm have h': "h' = incrementNextCommandEventID
      (h\<lparr>orderedCommands := orderedCommands h @ [p], commands := (commands h)(m_id d \<mapsto> p)\<rparr>)"
    by (auto simp: addCommand_eq_Inr incrementIfVersionMarker_empty)
  show "commandsOf h' = commandsOf h @ [c]"
    using d by (simp add: h' incrementNextCommandEventID_def commandsOf_def commandOf_def [abs_def])
  show em: "emitted h' = emitted h @ [p]"
    using d by (simp add: h' incrementNextCommandEventID_def emitted_def emits_def [abs_def])
  show "grows h h'"
    using vm em by (simp add: grows_def) (simp add: h' incrementNextCommandEventID_def)
qed

lemma grows_allocMachine:
  assumes wf: "wf_helper h" and vm: "versionMarkerLookup h = fmempty"
    and alloc: "allocMachine h d = (p, h1)"
  shows "grows h h1" and "commandsOf h1 = commandsOf h" and "emitted h1 = emitted h"
    and "versionMarkerLookup h1 = fmempty"
proof -
  from alloc have h1: "h1 = h\<lparr>machines := (machines h)(p \<mapsto> d), nextPtr := Suc p\<rparr>"
    and p: "p = nextPtr h" by (auto simp: allocMachine_def)
  have new: "q \<in> set (orderedCommands h) \<Longrightarrow> q \<noteq> p" for q
    using wf_listedD [OF wf] wf p by (fastforce simp: wf_helper_def store_ok_def)
  then have "commandOf h1 q = commandOf h q" if "q \<in> set (orderedCommands h)" for q
    using that by (auto simp: h1 commandOf_def)
  then show "commandsOf h1 = commandsOf h"
    by (auto simp: commandsOf_def h1 intro!: arg_cong [of _ _ concat])
  show "emitted h1 = emitted h"
    using new by (auto simp: emitted_def h1 emits_def intro!: filter_cong)
  then show "grows h h1" "versionMarkerLookup h1 = fmempty" using vm by (simp_all add: grows_def h1)
qed

lemma grows_addNew:
  assumes wf: "wf_helper h" and vm: "versionMarkerLookup h = fmempty"
    and k: "kind_id (m_kind d) (m_id d)"
    and c: "machine_getCommand d = Some c" and add: "addNew h d = Inr (p, h')"
  shows "grows h h'" and "commandsOf h' = commandsOf h @ [c]" and "emitted h' = emitted h @ [p]"
proof -
  obtain q h1 where alloc: "allocMachine h d = (q, h1)" by (metis surj_pair)
  with add have add1: "addCommand h1 q = Inr h'" and q: "q = p" by (auto simp: addNew_def res_simps)
  note facts = allocMachine_facts [OF wf k alloc] and pre1 = grows_allocMachine [OF wf vm alloc]
  note added = grows_addCommand [OF pre1(4) facts(2) c facts(3) add1]
  show "grows h h'" using pre1(1) added(1) by (rule grows_trans)
  show "commandsOf h' = commandsOf h @ [c]" "emitted h' = emitted h @ [p]"
    using added(2,3) by (simp_all add: pre1 q)
qed

section \<open>Cancellation keeps it\<close>

lemmas getCommand_defs =
  machine_getCommand_def activity_getCommand_def cancelActivity_getCommand_def
  timer_getCommand_def cancelTimer_getCommand_def childWorkflow_getCommand_def
  naive_getCommand_def nexusOperation_getCommand_def requestCancelNexusOperation_getCommand_def

text \<open>
  The machines whose cancellation keeps the prediction: all that workflow code can cancel, except a
  child workflow or a nexus operation whose own command was not sent yet.
\<close>

definition cancellable :: "'d machine \<Rightarrow> bool" where
  "cancellable d = (case m_kind d of
       ActivityMachine _ _ _ \<Rightarrow> True
     | TimerMachine _ _ \<Rightarrow> True
     | ChildWorkflowMachine _ _ \<Rightarrow> m_state d \<noteq> commandStateCreated
     | NexusOperationMachine _ _ _ _ _ \<Rightarrow> m_state d \<noteq> commandStateCreated
     | _ \<Rightarrow> False)"

lemma grows_moveState:
  assumes "versionMarkerLookup h = fmempty" "machines h p = Some d" "t \<noteq> commandStateCompleted"
    and "machine_getCommand (moved d t ev) = None \<longleftrightarrow> machine_getCommand d = None"
    and "moveState h p t ev = Inr h'"
  shows "grows h h'"
  using assms by (auto simp: moveState_Some intro: grows_putMachine)

lemma grows_base_cancel:
  assumes vm: "versionMarkerLookup h = fmempty" and d: "machines h p = Some d" "cancellable d"
      "\<not> is_nexus (m_kind d)"
    and canc: "base_cancel h p = Inr h'"
  shows "grows h h'"
proof -
  have keep: "machine_getCommand (moved d t eventCancel) = None \<longleftrightarrow> machine_getCommand d = None"
    if "(m_state d, t) \<in> {(commandStateCreated, commandStateCanceledBeforeSent),
      (commandStateCommandSent, commandStateCancellationCommandSent),
      (commandStateInitiated, commandStateCanceledAfterInitiated)}" for t
    using d(2,3) that
    by (cases "m_kind d") (auto simp: getCommand_defs cancellable_def is_nexus_def)
  have mv: "grows h h'" if "moveState h p t eventCancel = Inr h'"
    and "(m_state d, t) \<in> {(commandStateCreated, commandStateCanceledBeforeSent),
      (commandStateCommandSent, commandStateCancellationCommandSent),
      (commandStateInitiated, commandStateCanceledAfterInitiated)}" for t
    by (rule grows_moveState [OF vm d(1) _ keep [OF that(2)] that(1)]) (use that(2) in auto)
  show ?thesis
  proof (cases "m_state d")
    case commandStateCreated
    with canc d(1) have "moveState h p commandStateCanceledBeforeSent eventCancel = Inr h'"
      by (simp add: base_cancel_def)
    then show ?thesis by (rule mv) (simp add: commandStateCreated)
  next
    case commandStateCommandSent
    with canc d(1) have "moveState h p commandStateCancellationCommandSent eventCancel = Inr h'"
      by (simp add: base_cancel_def)
    then show ?thesis by (rule mv) (simp add: commandStateCommandSent)
  next
    case commandStateInitiated
    with canc d(1) have "moveState h p commandStateCanceledAfterInitiated eventCancel = Inr h'"
      by (simp add: base_cancel_def)
    then show ?thesis by (rule mv) (simp add: commandStateInitiated)
  qed (use canc grows_refl [OF vm] in \<open>simp_all add: base_cancel_def d(1) fail_defs\<close>)
qed

lemma is_nexus_iff: "is_nexus k \<longleftrightarrow> (case k of NexusOperationMachine _ _ _ _ _ \<Rightarrow> True | _ \<Rightarrow> False)"
  by (cases k) (simp_all add: is_nexus_def)

text \<open>
  The cancel command of an activity, a timer or a nexus operation: a fresh machine is added, while
  the canceled machine stays what it was.
\<close>

lemma grows_add_cancel:
  assumes wf: "wf_helper h" and vm: "versionMarkerLookup h = fmempty"
    and k: "kind_id (m_kind c) (m_id c)" and c: "machine_getCommand c \<noteq> None" and d: "machines h p = Some d"
    and alloc: "allocMachine h c = (q, h1)" and add: "addCommand h1 q = Inr h2"
  shows "grows h h2" and "machines h2 p = Some d"
proof -
  note facts = allocMachine_facts [OF wf k alloc] and pre1 = grows_allocMachine [OF wf vm alloc]
  from c obtain cmd where "machine_getCommand c = Some cmd" by blast
  then have "grows h1 h2" by (rule grows_addCommand [OF pre1(4) facts(2) _ facts(3) add])
  with pre1(1) show "grows h h2" by (rule grows_trans)
  show "machines h2 p = Some d" using add facts(4,7) d by (auto simp: addCommand_eq_Inr)
qed

lemma cancel_machine_facts:
  "kind_id (m_kind ((newCancelActivityStateMachine e) \<lparr>m_eventGroupMarkers := g\<rparr>))
     (m_id ((newCancelActivityStateMachine e) \<lparr>m_eventGroupMarkers := g\<rparr>))"
  "machine_getCommand ((newCancelActivityStateMachine e) \<lparr>m_eventGroupMarkers := g\<rparr>) \<noteq> None"
  "kind_id (m_kind ((newCancelTimerCommandStateMachine t) \<lparr>m_eventGroupMarkers := g\<rparr>))
     (m_id ((newCancelTimerCommandStateMachine t) \<lparr>m_eventGroupMarkers := g\<rparr>))"
  "machine_getCommand ((newCancelTimerCommandStateMachine t) \<lparr>m_eventGroupMarkers := g\<rparr>) \<noteq> None"
  "kind_id (m_kind ((newRequestCancelNexusOperationStateMachine e) \<lparr>m_eventGroupMarkers := g\<rparr>))
     (m_id ((newRequestCancelNexusOperationStateMachine e) \<lparr>m_eventGroupMarkers := g\<rparr>))"
  "machine_getCommand
     ((newRequestCancelNexusOperationStateMachine e) \<lparr>m_eventGroupMarkers := g\<rparr>) \<noteq> None"
  by (simp_all add: new_machine_defs kind_id_def getCommand_defs)

lemma getCommand_setEagerFalse:
  "machine_getCommand (setEagerFalse d) = None \<longleftrightarrow> machine_getCommand d = None"
  by (cases "m_kind d") (simp_all add: setEagerFalse_def getCommand_defs)

lemma cancellable_setEagerFalse [simp]: "cancellable (setEagerFalse d) = cancellable d"
  by (cases "m_kind d") (simp_all add: setEagerFalse_def cancellable_def)

lemma is_nexus_setEagerFalse_iff [simp]: "is_nexus (m_kind (setEagerFalse d)) = is_nexus (m_kind d)"
  by (cases "m_kind d") (simp_all add: setEagerFalse_def is_nexus_iff)

lemma grows_activity_cancel:
  assumes wf: "wf_helper h" and vm: "versionMarkerLookup h = fmempty" and d: "machines h p = Some d"
    and able: "cancellable d" "\<not> is_nexus (m_kind d)" and canc: "activity_cancel e h p = Inr h'"
  shows "grows h h'"
proof (cases "m_state d \<in> {commandStateCreated, commandStateCommandSent, commandStateInitiated}")
  case False
  with canc d have "base_cancel h p = Inr h'" by (auto simp: activity_cancel_def)
  with vm d able show ?thesis by (rule grows_base_cancel)
next
  case True
  let ?c = "(newCancelActivityStateMachine e) \<lparr>m_eventGroupMarkers := m_eventGroupMarkers d\<rparr>"
  obtain q h1 where alloc: "allocMachine h ?c = (q, h1)" by (metis surj_pair)
  with True canc d obtain h2 where add: "addCommand h1 q = Inr h2"
    and base: "base_cancel (if m_state d \<noteq> commandStateCommandSent
      then putMachine h2 p (setEagerFalse d) else h2) p = Inr h'"
    by (auto simp: activity_cancel_def res_simps)
  note h2 = grows_add_cancel [OF wf vm cancel_machine_facts(1,2) d alloc add]
  note vm2 = grows_empty [OF h2(1)]
  show ?thesis
  proof (cases "m_state d = commandStateCommandSent")
    case True
    with base have "base_cancel h2 p = Inr h'" by simp
    with vm2 h2(2) able have "grows h2 h'" by (rule_tac grows_base_cancel)
    with h2(1) show ?thesis by (rule grows_trans)
  next
    case False
    with base have "base_cancel (putMachine h2 p (setEagerFalse d)) p = Inr h'" by simp
    moreover have eager: "grows h2 (putMachine h2 p (setEagerFalse d))"
      using vm2 h2(2) getCommand_setEagerFalse by (rule grows_putMachine)
    ultimately have "grows (putMachine h2 p (setEagerFalse d)) h'" using able
      by (rule_tac grows_base_cancel [of "putMachine h2 p (setEagerFalse d)" p "setEagerFalse d"])
        (simp_all add: vm2)
    with h2(1) eager show ?thesis by (blast intro: grows_trans)
  qed
qed

lemma grows_timer_cancel:
  assumes wf: "wf_helper h" and vm: "versionMarkerLookup h = fmempty" and d: "machines h p = Some d"
    and able: "cancellable d" "\<not> is_nexus (m_kind d)" and canc: "timer_cancel t h p = Inr h'"
  shows "grows h h'"
proof (cases "m_state d \<in> {commandStateCreated, commandStateCommandSent, commandStateInitiated}")
  case False
  with canc d have "base_cancel h p = Inr h'" by (auto simp: timer_cancel_def)
  with vm d able show ?thesis by (rule grows_base_cancel)
next
  case True
  let ?c = "(newCancelTimerCommandStateMachine t) \<lparr>m_eventGroupMarkers := m_eventGroupMarkers d\<rparr>"
  obtain q h1 where alloc: "allocMachine h ?c = (q, h1)" by (metis surj_pair)
  with True canc d obtain h2 where add: "addCommand h1 q = Inr h2"
    and base: "base_cancel h2 p = Inr h'"
    by (auto simp: timer_cancel_def res_simps)
  note h2 = grows_add_cancel [OF wf vm cancel_machine_facts(3,4) d alloc add]
  note vm2 = grows_empty [OF h2(1)]
  from vm2 h2(2) able base have "grows h2 h'" by (rule grows_base_cancel)
  with h2(1) show ?thesis by (rule grows_trans)
qed

lemma grows_childWorkflow_cancel:
  assumes wf: "wf_helper h" and vm: "versionMarkerLookup h = fmempty" and d: "machines h p = Some d"
    and listed: "commands h (m_id d) = Some p" and k: "m_kind d = ChildWorkflowMachine a u"
    and st: "m_state d \<noteq> commandStateCreated" and canc: "childWorkflow_cancel h p = Inr h'"
  shows "grows h h'"
proof (cases "m_state d = commandStateStarted")
  case False
  with canc d have "base_cancel h p = Inr h'"
    by (cases "m_state d") (auto simp: childWorkflow_cancel_def)
  with vm d k st show ?thesis
    by (rule_tac grows_base_cancel [of h p d]) (simp_all add: cancellable_def is_nexus_iff)
next
  case True
  let ?d = "moved d commandStateCanceledAfterStarted eventCancel"
  from True canc d listed have h': "h' = incrementNextCommandEventID ((putMachine h p ?d)
      \<lparr>orderedCommands := remove1 p (orderedCommands h) @ [p],
       commands := (commands h)(m_id d \<mapsto> p)\<rparr>)"
    by (auto simp: childWorkflow_cancel_def res_simps moveState_Some moveCommandToBack_def)
  have dist: "distinct (orderedCommands h)" using wf by (simp add: wf_helper_def listed_ok_def)
  have em: "emits h' q = (if q = p then True else emits h q)" for q
    using k by (simp add: h' emits_def incrementNextCommandEventID_def getCommand_defs)
  have "\<not> emits h p" using d k True by (simp add: emits_def getCommand_defs)
  then have "filter (emits h) (orderedCommands h) = filter (emits h) (remove1 p (orderedCommands h))"
    by (simp add: filter_remove1_other)
  also have "\<dots> = filter (emits h') (remove1 p (orderedCommands h))"
    using dist by (intro filter_cong) (auto simp: em)
  finally have "emitted h' = emitted h @ [p]"
    using em [of p] by (simp add: h' emitted_def)
  with vm show ?thesis
    by (simp add: grows_def) (simp add: h' incrementNextCommandEventID_def)
qed

lemma getCommand_setCancelation:
  "m_state d \<noteq> commandStateCreated \<Longrightarrow> is_nexus (m_kind d) \<Longrightarrow>
     machine_getCommand (setCancelation d q) = None \<and> machine_getCommand d = None"
  by (cases "m_kind d") (simp_all add: setCancelation_def getCommand_defs is_nexus_iff)

lemma grows_nexusOperation_cancel:
  fixes h :: "'d commandsHelper"
  assumes wf: "wf_helper h" and vm: "versionMarkerLookup h = fmempty" and d: "machines h p = Some d"
    and k: "is_nexus (m_kind d)" and st: "m_state d \<noteq> commandStateCreated"
    and canc: "nexusOperation_cancel e co h p = Inr h'"
  shows "grows h h'"
proof (cases "co \<noteq> None \<or> m_state d = commandStateCompleted")
  case True
  with canc d vm show ?thesis by (auto simp: nexusOperation_cancel_def intro: grows_refl)
next
  case False
  let ?c = "(newRequestCancelNexusOperationStateMachine e :: 'd machine)
    \<lparr>m_eventGroupMarkers := m_eventGroupMarkers d\<rparr>"
  obtain q h1 where alloc: "allocMachine h ?c = (q, h1)" by (metis surj_pair)
  with False canc d st have add: "addCommand (putMachine h1 p (setCancelation d q)) q = Inr h'"
    by (auto simp: nexusOperation_cancel_def res_simps Let_def)
  note facts = allocMachine_facts [OF wf cancel_machine_facts(5) alloc]
  from facts(4) d have pq: "p \<noteq> q" by auto
  note h1 = grows_allocMachine [OF wf vm alloc]
  have put: "grows h1 (putMachine h1 p (setCancelation d q))"
    using h1(4) getCommand_setCancelation [OF st k] facts(7) d pq
    by (intro grows_putMachine [of h1 p d]) auto
  moreover obtain cmd where "machine_getCommand ?c = Some cmd"
    using cancel_machine_facts(6) by blast
  ultimately have "grows (putMachine h1 p (setCancelation d q)) h'"
    using facts(2,3) pq h1(4) by (rule_tac grows_addCommand(1) [OF _ _ _ _ add, of ?c cmd]) simp_all
  with h1(1) put show ?thesis by (blast intro: grows_trans)
qed

lemma grows_cancel:
  assumes wf: "wf_helper h" and vm: "versionMarkerLookup h = fmempty"
    and listed: "commands h i = Some p"
    and d: "machines h p = Some d" and able: "cancellable d" and canc: "cancel h p = Inr h'"
  shows "grows h h'"
proof -
  from wf_commandsD [OF wf listed] d have i: "m_id d = i" by auto
  show ?thesis
  proof (cases "m_kind d")
    case (ActivityMachine e a u)
    with canc d have "activity_cancel e h p = Inr h'" by (simp add: cancel_def)
    moreover have "\<not> is_nexus (m_kind d)" by (simp add: is_nexus_iff ActivityMachine)
    ultimately show ?thesis by (rule_tac grows_activity_cancel [OF wf vm d able])
  next
    case (TimerMachine a u)
    with canc d have "timer_cancel (timer_TimerId a) h p = Inr h'" by (simp add: cancel_def)
    moreover have "\<not> is_nexus (m_kind d)" by (simp add: is_nexus_iff TimerMachine)
    ultimately show ?thesis by (rule_tac grows_timer_cancel [OF wf vm d able])
  next
    case (ChildWorkflowMachine a u)
    with canc d have "childWorkflow_cancel h p = Inr h'" by (simp add: cancel_def)
    with ChildWorkflowMachine listed i able show ?thesis
      by (rule_tac grows_childWorkflow_cancel [OF wf vm d]) (simp_all add: cancellable_def)
  next
    case (NexusOperationMachine n e a c u)
    with canc d have "nexusOperation_cancel e c h p = Inr h'" by (simp add: cancel_def)
    with NexusOperationMachine able show ?thesis
      by (rule_tac grows_nexusOperation_cancel [OF wf vm d])
        (simp_all add: cancellable_def is_nexus_iff)
  qed (use able in \<open>simp_all add: cancellable_def\<close>)
qed

end
