(* ===== verification/Helper_Data.thy ===== *)
theory Helper_Data
  imports Helper_Steps
begin

text \<open>
  What the operations of the helper do to the data its machines carry. No operation changes the data
  or the id of a machine that exists, none makes a machine unsent that is not, and a machine an
  operation creates has no data yet; only the machines of commands that resolve a future are created
  for data to be set on them. The workflow environment relies on this, so it is stated as one
  relation between helpers, \<open>keeps\<close>, that holds across every operation.
\<close>

section \<open>The relation\<close>

text \<open>The commands whose machines carry data.\<close>

definition withData :: "commandType \<Rightarrow> bool" where
  "withData t \<longleftrightarrow> t \<in> {commandTypeActivity, commandTypeChildWorkflow, commandTypeCancellation,
     commandTypeTimer, commandTypeSignal, commandTypeNexusOperation}"

definition keeps :: "ptr set \<Rightarrow> 'd commandsHelper \<Rightarrow> 'd commandsHelper \<Rightarrow> bool" where
  "keeps P h h' \<longleftrightarrow>
     (\<forall>q d. machines h q = Some d \<longrightarrow>
        (\<exists>d'. machines h' q = Some d' \<and> m_data d' = m_data d \<and> m_id d' = m_id d \<and>
           (unsent d' \<longrightarrow> unsent d))) \<and>
     (\<forall>q d'. machines h q = None \<longrightarrow> machines h' q = Some d' \<longrightarrow>
        m_data d' = None \<and> (withData (id_commandType (m_id d')) \<longrightarrow> q \<in> P))"

lemma keepsD:
  "keeps P h h' \<Longrightarrow> machines h q = Some d \<Longrightarrow>
     \<exists>d'. machines h' q = Some d' \<and> m_data d' = m_data d \<and> m_id d' = m_id d \<and>
       (unsent d' \<longrightarrow> unsent d)"
  by (simp add: keeps_def)

lemma keeps_newD:
  "keeps P h h' \<Longrightarrow> machines h q = None \<Longrightarrow> machines h' q = Some d' \<Longrightarrow>
     m_data d' = None \<and> (withData (id_commandType (m_id d')) \<longrightarrow> q \<in> P)"
  by (simp add: keeps_def)

lemma keeps_same: "machines h' = machines h \<Longrightarrow> keeps P h h'"
  by (simp add: keeps_def)

lemma keeps_refl [simp]: "keeps P h h"
  by (rule keeps_same) simp

lemma keeps_trans:
  assumes "keeps P h h1" and "keeps P h1 h2"
  shows "keeps P h h2"
proof -
  have old: "\<exists>d'. machines h2 q = Some d' \<and> m_data d' = m_data d \<and> m_id d' = m_id d \<and>
      (unsent d' \<longrightarrow> unsent d)"
    if q: "machines h q = Some d" for q d
  proof -
    from keepsD [OF assms(1) q] obtain d1 where d1: "machines h1 q = Some d1"
      and "m_data d1 = m_data d" "m_id d1 = m_id d" "unsent d1 \<longrightarrow> unsent d" by blast
    with keepsD [OF assms(2) d1] show ?thesis by auto
  qed
  have new: "m_data d' = None \<and> (withData (id_commandType (m_id d')) \<longrightarrow> q \<in> P)"
    if q: "machines h q = None" "machines h2 q = Some d'" for q d'
  proof (cases "machines h1 q")
    case None
    then show ?thesis using keeps_newD [OF assms(2)] q by blast
  next
    case (Some d1)
    with keeps_newD [OF assms(1) q(1)] keepsD [OF assms(2)] q(2) show ?thesis by fastforce
  qed
  from old new show ?thesis unfolding keeps_def by blast
qed

lemma keeps_cong:
  "machines h1 = machines h \<Longrightarrow> machines h2 = machines h' \<Longrightarrow> keeps P h1 h2 = keeps P h h'"
  by (simp add: keeps_def)

lemma keeps_update [simp]:
  "keeps P (h\<lparr>scheduledEventIDToActivityID := a\<rparr>) h' = keeps P h h'"
  "keeps P (h\<lparr>scheduledEventIDToCancellationID := b\<rparr>) h' = keeps P h h'"
  "keeps P (h\<lparr>scheduledEventIDToSignalID := b\<rparr>) h' = keeps P h h'"
  "keeps P (h\<lparr>scheduledEventIDToNexusSeq := c\<rparr>) h' = keeps P h h'"
  "keeps P (h\<lparr>nexusOperationsWithoutScheduledID := ps\<rparr>) h' = keeps P h h'"
  "keeps P (incrementNextCommandEventIDIfVersionMarker h) h' = keeps P h h'"
  "keeps P h (h'\<lparr>nexusOperationsWithoutScheduledID := ps\<rparr>) = keeps P h h'"
  "keeps P h (forgetActivity h' e) = keeps P h h'"
  "keeps P h (incrementNextCommandEventIDIfVersionMarker h') = keeps P h h'"
  "keeps P h (incrementNextCommandEventID h') = keeps P h h'"
  "keeps P h (dropCommand h' i) = keeps P h h'"
  by (simp_all add: keeps_def forgetActivity_def)

lemma keeps_putMachine:
  "machines h p = Some d \<Longrightarrow> m_data d' = m_data d \<Longrightarrow> m_id d' = m_id d \<Longrightarrow>
     unsent d' \<longrightarrow> unsent d \<Longrightarrow> keeps P h (putMachine h p d')"
  by (auto simp: keeps_def)

lemma keeps_machine_steps: "machine_steps p h h' \<Longrightarrow> keeps P h h'"
proof (induction rule: machine_steps.induct)
  case (move h h1 s ev h2)
  then obtain d where d: "machines h1 p = Some d" and h2: "h2 = (if s = commandStateCompleted
      then dropCommand (putMachine h1 p (moved d s ev)) (m_id d) else putMachine h1 p (moved d s ev))"
    by (auto simp: moveState_eq_Inr)
  have "keeps P h1 (putMachine h1 p (moved d s ev))"
    using d by (rule keeps_putMachine) (use move.hyps(3) d in \<open>auto simp: unsent_def\<close>)
  then have "keeps P h1 h2" by (auto simp: h2)
  with move.IH show ?case by (rule keeps_trans)
next
  case (hist h h1 ev h2)
  then obtain d where d: "machines h1 p = Some d"
    and h2: "h2 = putMachine h1 p (d\<lparr>m_history := m_history d @ [ev]\<rparr>)"
    by (auto simp: appendHistory_eq_Inr)
  have "keeps P h1 h2" unfolding h2 using d by (rule keeps_putMachine) (simp_all add: unsent_def)
  with hist.IH show ?case by (rule keeps_trans)
qed simp

context machine_event
begin

lemma keeps: "f h p = Inr h' \<Longrightarrow> keeps P h h'"
  by (rule keeps_machine_steps [OF steps])

lemma keeps_onCommand: "onCommand f h i = Inr (p, h') \<Longrightarrow> keeps P h h'"
  by (auto simp: onCommand_def res_simps intro: keeps)

end

section \<open>Operations that add a command\<close>

lemma fresh_nextPtr: "wf_helper h \<Longrightarrow> machines h (nextPtr h) = None"
  by (cases "machines h (nextPtr h)") (auto simp: wf_helper_def store_ok_def)

lemma keeps_alloc:
  assumes "wf_helper h" and "allocMachine h d = (p, h')" and "m_data d = None"
    and "withData (id_commandType (m_id d)) \<Longrightarrow> p \<in> P"
  shows "keeps P h h'"
proof -
  from assms(2) have p: "p = nextPtr h" and h': "machines h' = (machines h)(p \<mapsto> d)"
    by (auto simp: allocMachine_def)
  have "machines h p = None"
    using fresh_nextPtr [OF assms(1)] by (simp add: p)
  with assms(3,4) show ?thesis by (auto simp: keeps_def h')
qed

lemma keeps_addCommand: "addCommand h p = Inr h' \<Longrightarrow> keeps P h h'"
  unfolding addCommand_eq_Inr by (rule keeps_same) auto

lemma keeps_addNew:
  assumes "addNew h d = Inr (p, h')" and "wf_helper h" and "m_data d = None"
    and "withData (id_commandType (m_id d)) \<Longrightarrow> p \<in> P"
  shows "keeps P h h'"
proof -
  obtain q h1 where alloc: "allocMachine h d = (q, h1)" by (metis surj_pair)
  with assms(1) have "q = p" "addCommand h1 q = Inr h'" by (auto simp: addNew_def res_simps)
  with keeps_alloc [OF assms(2) alloc assms(3)] assms(4) show ?thesis
    by (auto intro: keeps_trans keeps_addCommand)
qed

lemma machines_addCommand: "addCommand h p = Inr h' \<Longrightarrow> machines h' = machines h"
  unfolding addCommand_eq_Inr by (elim exE conjE) simp

lemma addNew_new:
  assumes "addNew h d = Inr (p, h')" and "wf_helper h"
  shows "machines h p = None" and "machines h' p = Some d"
proof -
  obtain q h1 where alloc: "allocMachine h d = (q, h1)" by (metis surj_pair)
  with assms(1) have q: "q = p" and add: "addCommand h1 q = Inr h'"
    by (auto simp: addNew_def res_simps)
  from alloc fresh_nextPtr [OF assms(2)] show "machines h p = None"
    by (simp add: allocMachine_def q)
  from alloc machines_addCommand [OF add] show "machines h' p = Some d"
    by (auto simp: allocMachine_def q)
qed

lemma new_machine_data [simp]: "m_data (newCommandStateMachineBase t i k) = None"
  by (simp add: newCommandStateMachineBase_def)

lemma withData_simps [simp]:
  "withData commandTypeActivity" "withData commandTypeChildWorkflow"
  "withData commandTypeCancellation" "withData commandTypeTimer" "withData commandTypeSignal"
  "withData commandTypeNexusOperation" "\<not> withData commandTypeMarker"
  "\<not> withData commandTypeUpsertSearchAttributes" "\<not> withData commandTypeModifyProperties"
  "\<not> withData commandTypeProtocolMessage" "\<not> withData commandTypeCancelTimer"
  "\<not> withData commandTypeRequestCancelActivityTask"
  "\<not> withData commandTypeRequestCancelNexusOperation"
  by (simp_all add: withData_def)

text \<open>
  Scheduling a command that resolves a future creates its machine, which waits for its data: it is
  new, under the id of the command, and nothing else is.
\<close>

definition awaitsData :: "commandType \<Rightarrow> ptr \<Rightarrow> 'd commandsHelper \<Rightarrow> 'd commandsHelper \<Rightarrow> bool" where
  "awaitsData t p h h' \<longleftrightarrow> keeps {p} h h' \<and> machines h p = None \<and>
     (\<exists>d. machines h' p = Some d \<and> m_data d = None \<and> id_commandType (m_id d) = t)"

lemma awaitsData_addNew:
  assumes "addNew h d = Inr (p, h')" and "wf_helper h" and "m_data d = None"
    and "id_commandType (m_id d) = t"
  shows "awaitsData t p h h'"
  using keeps_addNew [OF assms(1-3), of "{p}"] addNew_new [OF assms(1,2)] assms(3,4)
  by (auto simp: awaitsData_def)

lemma awaitsData_update [simp]:
  "awaitsData t p (h\<lparr>scheduledEventIDToActivityID := a\<rparr>) h' = awaitsData t p h h'"
  by (simp add: awaitsData_def)

lemma awaits_scheduleActivityTask:
  "scheduleActivityTask h i a u g = Inr (p, h') \<Longrightarrow> wf_helper h \<Longrightarrow>
     awaitsData commandTypeActivity p h h'"
  unfolding scheduleActivityTask_def
  by (drule awaitsData_addNew [where t = commandTypeActivity]) (simp_all add: new_machine_defs)

lemma awaits_startTimer:
  "startTimer h a s dc g = Inr (p, h') \<Longrightarrow> wf_helper h \<Longrightarrow> awaitsData commandTypeTimer p h h'"
  unfolding startTimer_def
  by (auto simp: res_simps new_machine_defs
      elim!: awaitsData_addNew [where t = commandTypeTimer])

lemma awaits_startChildWorkflowExecution:
  "startChildWorkflowExecution h a u g = Inr (Inr p, h') \<Longrightarrow> wf_helper h \<Longrightarrow>
     awaitsData commandTypeChildWorkflow p h h'"
  unfolding startChildWorkflowExecution_def
  by (auto simp: res_simps Let_def new_machine_defs split: if_splits
      elim!: awaitsData_addNew [where t = commandTypeChildWorkflow])

lemma existing_startChildWorkflowExecution:
  "startChildWorkflowExecution h a u g = Inr (Inl w, h') \<Longrightarrow> h' = h"
  unfolding startChildWorkflowExecution_def
  by (auto simp: res_simps Let_def split: if_splits)

lemma awaits_signalExternalWorkflowExecution:
  "signalExternalWorkflowExecution h n w r s i hdr j b g = Inr (p, h') \<Longrightarrow> wf_helper h \<Longrightarrow>
     awaitsData commandTypeSignal p h h'"
  unfolding signalExternalWorkflowExecution_def
  by (erule awaitsData_addNew) (simp_all add: new_machine_defs)

lemma awaits_requestCancelExternalWorkflowExecution:
  "requestCancelExternalWorkflowExecution h n w r c False g = Inr (p, h') \<Longrightarrow> wf_helper h \<Longrightarrow>
     awaitsData commandTypeCancellation p h h'"
  unfolding requestCancelExternalWorkflowExecution_def
  by (auto simp: new_machine_defs split: if_splits
      elim!: awaitsData_addNew [where t = commandTypeCancellation])

lemma awaits_scheduleNexusOperation:
  assumes sch: "scheduleNexusOperation h n a u g = Inr (p, h')" and wf: "wf_helper h"
  shows "awaitsData commandTypeNexusOperation p h h'"
proof -
  let ?d = "(newCommandStateMachineBase commandTypeNexusOperation (formatInt n)
               (NexusOperationMachine n 0 a None u)) \<lparr>m_eventGroupMarkers := g\<rparr>"
  obtain q h1 where alloc: "allocMachine h ?d = (q, h1)" by (metis surj_pair)
  let ?h2 = "h1\<lparr>nexusOperationsWithoutScheduledID := nexusOperationsWithoutScheduledID h1 @ [q]\<rparr>"
  from sch alloc have q: "q = p" and add: "addCommand ?h2 p = Inr h'"
    by (auto simp: scheduleNexusOperation_def newNexusOperationStateMachine_def res_simps Let_def)
  have "keeps {p} h h1" using keeps_alloc [OF wf alloc, of "{p}"] q by simp
  then have "keeps {p} h h'"
    using keeps_addCommand [OF add, of "{p}"] by (auto intro: keeps_trans)
  moreover have "machines h p = None" "machines h1 p = Some ?d"
    using allocMachine_facts [OF wf _ alloc] q by simp_all
  ultimately show ?thesis
    using add by (auto simp: awaitsData_def addCommand_eq_Inr)
qed

lemma keeps_getNextID: "getNextID h = Inr (n, h') \<Longrightarrow> keeps P h h'"
  by (simp add: getNextID_eq_Inr)

lemma keeps_recordVersionMarker:
  "recordVersionMarker h c v dc b g = Inr (p, h') \<Longrightarrow> wf_helper h \<Longrightarrow> keeps P h h'"
  unfolding recordVersionMarker_def
  by (auto simp: res_simps Let_def elim!: keeps_addNew) (simp_all add: new_machine_defs)

lemma keeps_recordSideEffectMarker:
  "recordSideEffectMarker h i x dc u g = Inr (p, h') \<Longrightarrow> wf_helper h \<Longrightarrow> keeps P h h'"
  unfolding recordSideEffectMarker_def
  by (auto simp: res_simps Let_def elim!: keeps_addNew) (simp_all add: new_machine_defs)

lemma keeps_recordLocalActivityMarker:
  "recordLocalActivityMarker h i x f u g = Inr (p, h') \<Longrightarrow> wf_helper h \<Longrightarrow> keeps P h h'"
  unfolding recordLocalActivityMarker_def
  by (auto simp: res_simps Let_def getNextID_eq_Inr new_machine_defs
      dest!: keeps_addNew [where P = P])

lemma keeps_recordMutableSideEffectMarker:
  "recordMutableSideEffectMarker h i n x dc u g = Inr (p, h') \<Longrightarrow> wf_helper h \<Longrightarrow> keeps P h h'"
  unfolding recordMutableSideEffectMarker_def
  by (auto simp: res_simps Let_def getNextID_eq_Inr new_machine_defs
      dest!: keeps_addNew [where P = P])

lemma keeps_addProtocolMessage:
  "addProtocolMessage h i = Inr (p, h') \<Longrightarrow> wf_helper h \<Longrightarrow> keeps P h h'"
  unfolding addProtocolMessage_def by (erule keeps_addNew) (simp_all add: new_machine_defs)

lemma keeps_upsertSearchAttributes:
  "upsertSearchAttributes h i s g = Inr (p, h') \<Longrightarrow> wf_helper h \<Longrightarrow> keeps P h h'"
  unfolding upsertSearchAttributes_def by (erule keeps_addNew) (simp_all add: new_machine_defs)

lemma keeps_modifyProperties:
  "modifyProperties h i s g = Inr (p, h') \<Longrightarrow> wf_helper h \<Longrightarrow> keeps P h h'"
  unfolding modifyProperties_def by (erule keeps_addNew) (simp_all add: new_machine_defs)

section \<open>Cancellation\<close>

lemma set_sel [simp]:
  "m_data (setEagerFalse d) = m_data d" "m_data (setCancelation d c) = m_data d"
  "m_data (setScheduledEventID d e) = m_data d"
  "unsent (setEagerFalse d) = unsent d" "unsent (setCancelation d c) = unsent d"
  "unsent (setScheduledEventID d e) = unsent d"
  by (auto simp: setEagerFalse_def setCancelation_def setScheduledEventID_def unsent_def
      split: machineKind.splits)

lemma keeps_base_cancel: "base_cancel h p = Inr h' \<Longrightarrow> keeps P h h'"
  by (rule keeps_machine_steps [OF base_cancel_steps])

lemma keeps_cancel_adds:
  assumes wf: "wf_helper h" and d: "machines h p = Some d"
    and c: "m_data c = None" "\<not> withData (id_commandType (m_id c))"
    and alloc: "allocMachine h c = (q, h1)" and add: "addCommand h1 q = Inr h2"
  shows "keeps P h h2" and "machines h2 p = Some d"
proof -
  have "keeps P h h1" using keeps_alloc [OF wf alloc c(1), of P] c(2) by blast
  then show "keeps P h h2" using keeps_addCommand [OF add] by (rule keeps_trans)
  from wf alloc d have "q \<noteq> p"
    by (auto simp: allocMachine_def wf_helper_def store_ok_def)
  with alloc add d show "machines h2 p = Some d"
    by (auto simp: allocMachine_def addCommand_eq_Inr)
qed

lemma keeps_activity_cancel:
  assumes wf: "wf_helper h" and canc: "activity_cancel sid h p = Inr h'"
  shows "keeps P h h'"
proof -
  from canc obtain d where d: "machines h p = Some d"
    by (auto simp: activity_cancel_def res_simps)
  let ?c = "(newCancelActivityStateMachine sid)\<lparr>m_eventGroupMarkers := m_eventGroupMarkers d\<rparr>"
  show ?thesis
  proof (cases "m_state d \<in> {commandStateCreated, commandStateCommandSent, commandStateInitiated}")
    case False
    with canc d have "base_cancel h p = Inr h'" by (auto simp: activity_cancel_def)
    then show ?thesis by (rule keeps_base_cancel)
  next
    case True
    obtain q h1 where alloc: "allocMachine h ?c = (q, h1)" by (metis surj_pair)
    from True canc d alloc obtain h2 where add: "addCommand h1 q = Inr h2"
      and bc: "base_cancel (if m_state d \<noteq> commandStateCommandSent
                 then putMachine h2 p (setEagerFalse d) else h2) p = Inr h'"
      by (auto simp: activity_cancel_def res_simps)
    have c: "m_data ?c = None" "\<not> withData (id_commandType (m_id ?c))"
      by (simp_all add: new_machine_defs)
    note facts = keeps_cancel_adds(1) [OF wf d c alloc add, of P]
      keeps_cancel_adds(2) [OF wf d c alloc add]
    have "keeps P h2 (if m_state d \<noteq> commandStateCommandSent
                      then putMachine h2 p (setEagerFalse d) else h2)"
      using facts(2) by (auto intro: keeps_putMachine)
    then show ?thesis
      using keeps_trans [OF facts(1)] keeps_trans [OF _ keeps_base_cancel [OF bc]] by blast
  qed
qed

lemma keeps_timer_cancel:
  assumes wf: "wf_helper h" and canc: "timer_cancel t h p = Inr h'"
  shows "keeps P h h'"
proof -
  from canc obtain d where d: "machines h p = Some d"
    by (auto simp: timer_cancel_def res_simps)
  let ?c = "(newCancelTimerCommandStateMachine t)\<lparr>m_eventGroupMarkers := m_eventGroupMarkers d\<rparr>"
  show ?thesis
  proof (cases "m_state d \<in> {commandStateCreated, commandStateCommandSent, commandStateInitiated}")
    case False
    with canc d have "base_cancel h p = Inr h'" by (auto simp: timer_cancel_def)
    then show ?thesis by (rule keeps_base_cancel)
  next
    case True
    obtain q h1 where alloc: "allocMachine h ?c = (q, h1)" by (metis surj_pair)
    from True canc d alloc obtain h2 where add: "addCommand h1 q = Inr h2"
      and bc: "base_cancel h2 p = Inr h'"
      by (auto simp: timer_cancel_def res_simps)
    have c: "m_data ?c = None" "\<not> withData (id_commandType (m_id ?c))"
      by (simp_all add: new_machine_defs)
    from keeps_cancel_adds(1) [OF wf d c alloc add] keeps_base_cancel [OF bc] show ?thesis
      by (rule keeps_trans)
  qed
qed

lemma keeps_nexusOperation_cancel:
  assumes wf: "wf_helper h" and canc: "nexusOperation_cancel e co h p = Inr h'"
  shows "keeps P h h'"
proof -
  from canc obtain d where d: "machines h p = Some d"
    by (auto simp: nexusOperation_cancel_def res_simps)
  let ?c = "(newRequestCancelNexusOperationStateMachine e)
    \<lparr>m_eventGroupMarkers := m_eventGroupMarkers d\<rparr>"
  show ?thesis
  proof (cases "co \<noteq> None \<or> m_state d = commandStateCompleted")
    case True
    with canc d show ?thesis by (auto simp: nexusOperation_cancel_def)
  next
    case False
    obtain q h1 where alloc: "allocMachine h ?c = (q, h1)" by (metis surj_pair)
    let ?h2 = "putMachine h1 p (setCancelation d q)"
    from False canc d alloc obtain h3 where add: "addCommand ?h2 q = Inr h3"
      and fin: "(if m_state d = commandStateCreated
                 then requestCancelNexusOperation_handleCompletionEvent h3 q else Inr h3) = Inr h'"
      by (auto simp: nexusOperation_cancel_def res_simps Let_def)
    have k: "kind_id (m_kind ?c) (m_id ?c)" by (simp add: new_machine_defs kind_id_def)
    note facts = allocMachine_facts [OF wf k alloc]
    have "keeps P h h1" using wf alloc by (rule keeps_alloc) (simp_all add: new_machine_defs)
    moreover from facts(4,7) d have "machines h1 p = Some d" by auto
    then have "keeps P h1 ?h2" by (rule keeps_putMachine) simp_all
    moreover note keeps_addCommand [OF add, of P]
    moreover from fin have "keeps P h3 h'"
      by (auto intro: nexusCancelCompleted.keeps split: if_splits)
    ultimately show ?thesis by (blast intro: keeps_trans)
  qed
qed

lemma keeps_childWorkflow_cancel:
  assumes "machines h p = Some d" and "childWorkflow_cancel h p = Inr h'"
  shows "keeps P h h'"
proof (cases "m_state d = commandStateStarted")
  case True
  let ?h1 = "putMachine h p (moved d commandStateCanceledAfterStarted eventCancel)"
  from True assms obtain h2 where m: "moveCommandToBack ?h1 p = Inr h2"
    and h': "h' = incrementNextCommandEventID h2"
    by (auto simp: childWorkflow_cancel_def res_simps moveState_Some)
  have "keeps P h ?h1" using assms(1) by (rule keeps_putMachine) (simp_all add: unsent_def)
  moreover from m have "keeps P ?h1 h2"
    by (auto simp: moveCommandToBack_def fail_defs intro!: keeps_same split: option.splits)
  ultimately show ?thesis by (auto simp: h' intro: keeps_trans)
next
  case False
  with assms have "base_cancel h p = Inr h'"
    by (cases "m_state d") (auto simp: childWorkflow_cancel_def)
  then show ?thesis by (rule keeps_base_cancel)
qed

lemma keeps_cancel:
  assumes wf: "wf_helper h" and canc: "cancel h p = Inr h'"
  shows "keeps P h h'"
proof -
  from canc obtain d where d: "machines h p = Some d" by (auto simp: cancel_def res_simps)
  from canc d show ?thesis
    by (cases "m_kind d")
      (auto simp: cancel_def is_naive_def fail_defs intro: keeps_base_cancel
        keeps_activity_cancel [OF wf] keeps_timer_cancel [OF wf] keeps_nexusOperation_cancel [OF wf]
        keeps_childWorkflow_cancel [OF d])
qed

lemma keeps_onCommand_cancel:
  "onCommand cancel h i = Inr (p, h') \<Longrightarrow> wf_helper h \<Longrightarrow> keeps P h h'"
  by (auto simp: onCommand_def res_simps intro: keeps_cancel)

section \<open>Operations driven by history\<close>

lemma keeps_removeCancelOfResolvedCommand:
  "removeCancelOfResolvedCommand h i = Inr h' \<Longrightarrow> keeps P h h'"
  by (auto simp: removeCancelOfResolvedCommand_def removeElement_def deleteCommand_def
      intro!: keeps_same split: if_splits option.splits)

lemma keeps_resolved:
  "removeCancelOfResolvedCommand h i = Inr h1 \<Longrightarrow> handleCompletionEvent h1 p = Inr h2 \<Longrightarrow> keeps P h h2"
  by (rule keeps_trans [OF keeps_removeCancelOfResolvedCommand completion.keeps])

lemma keeps_handleActivityTaskClosed:
  "handleActivityTaskClosed h a e = Inr (p, h') \<Longrightarrow> keeps P h h'"
  unfolding handleActivityTaskClosed_def
  by (auto simp: res_simps intro: keeps_resolved)

lemma keeps_handleTimerClosed: "handleTimerClosed h t = Inr (p, h') \<Longrightarrow> keeps P h h'"
  unfolding handleTimerClosed_def
  by (auto simp: res_simps intro: keeps_resolved)

lemma keeps_handleActivityTaskScheduled:
  "handleActivityTaskScheduled h a e = Inr (p, h') \<Longrightarrow> keeps P h h'"
  unfolding handleActivityTaskScheduled_def
  by (auto simp: fail_defs intro: initiated.keeps_onCommand split: if_splits)

lemma keeps_handleActivityTaskCancelRequested:
  "handleActivityTaskCancelRequested h e = Inr (p, h') \<Longrightarrow> keeps P h h'"
  unfolding handleActivityTaskCancelRequested_def
  by (auto simp: fail_defs intro: cancelInitiated.keeps_onCommand split: option.splits)

lemma keeps_handleActivityTaskCanceled:
  "handleActivityTaskCanceled h a e = Inr (p, h') \<Longrightarrow> keeps P h h'"
  unfolding handleActivityTaskCanceled_def
  by (auto simp: res_simps intro: canceled.keeps_onCommand)

lemma keeps_handleNexusOperationScheduled:
  assumes "handleNexusOperationScheduled h e txt = Inr h'"
  shows "keeps P h h'"
proof -
  from assms obtain p rest d seq where d: "machines h p = Some d"
    and step: "handleInitiatedEvent
      ((putMachine (h\<lparr>nexusOperationsWithoutScheduledID := rest\<rparr>) p (setScheduledEventID d e))
        \<lparr>scheduledEventIDToNexusSeq := (scheduledEventIDToNexusSeq h)(e \<mapsto> seq)\<rparr>) p = Inr h'"
    by (auto simp: handleNexusOperationScheduled_def res_simps fail_defs split: list.splits)
  let ?h1 = "h\<lparr>nexusOperationsWithoutScheduledID := rest\<rparr>"
  have "keeps P ?h1 (putMachine ?h1 p (setScheduledEventID d e))"
    using d by (intro keeps_putMachine [of _ _ d]) simp_all
  moreover from initiated.keeps [OF step, of P]
  have "keeps P (putMachine ?h1 p (setScheduledEventID d e)) h'" by simp
  ultimately have "keeps P ?h1 h'" by (rule keeps_trans)
  then show ?thesis by simp
qed

lemma keeps_handleNexusOperationStarted:
  "handleNexusOperationStarted h e = Inr (p, h') \<Longrightarrow> keeps P h h'"
  unfolding handleNexusOperationStarted_def by (auto simp: res_simps intro: started.keeps)

lemma keeps_handleNexusOperationCompleted:
  "handleNexusOperationCompleted h e = Inr (p, h') \<Longrightarrow> keeps P h h'"
  unfolding handleNexusOperationCompleted_def
  by (auto simp: res_simps Let_def dest!: completion.keeps [where P = P])

lemma keeps_handleNexusOperationCancelRequested:
  "handleNexusOperationCancelRequested h e = Inr (p, h') \<Longrightarrow> keeps P h h'"
  unfolding handleNexusOperationCancelRequested_def
  by (auto simp: res_simps intro: nexusCancelInitiated.keeps)

lemma keeps_handleNexusOperationCancelRequestDelivered:
  "handleNexusOperationCancelRequestDelivered h e = Inr (p, h') \<Longrightarrow> keeps P h h'"
  unfolding handleNexusOperationCancelRequestDelivered_def
  by (auto simp: res_simps intro: nexusCancelCompleted.keeps)

lemma keeps_requestCancelNexusOperation:
  "requestCancelNexusOperation h n = Inr (p, h') \<Longrightarrow> wf_helper h \<Longrightarrow> keeps P h h'"
  unfolding requestCancelNexusOperation_def
  by (auto simp: res_simps intro: keeps_cancel split: if_splits)

lemma keeps_handleVersionMarker: "handleVersionMarker h e c b = Inr h' \<Longrightarrow> keeps P h h'"
  by (auto simp: handleVersionMarker_def fail_defs intro: keeps_same split: if_splits)

lemma keeps_handleRequestCancelExternalWorkflowExecutionInitiated:
  "handleRequestCancelExternalWorkflowExecutionInitiated h e w c = Inr (p, h') \<Longrightarrow> keeps P h h'"
  unfolding handleRequestCancelExternalWorkflowExecutionInitiated_def
  by (auto intro: cancelInitiated.keeps_onCommand
      dest: initiated.keeps_onCommand [where P = P] split: if_splits)

lemma keeps_handleExternalWorkflowExecutionCancelRequested:
  "handleExternalWorkflowExecutionCancelRequested h e w = Inr (b, p, h') \<Longrightarrow> keeps P h h'"
  unfolding handleExternalWorkflowExecutionCancelRequested_def
  by (auto simp: res_simps intro: cancelReq.keeps completion.keeps_onCommand split: option.splits)

lemma keeps_handleRequestCancelExternalWorkflowExecutionFailed:
  "handleRequestCancelExternalWorkflowExecutionFailed h e w = Inr (b, p, h') \<Longrightarrow> keeps P h h'"
  unfolding handleRequestCancelExternalWorkflowExecutionFailed_def
  by (auto simp: res_simps intro: cancelFailed.keeps_onCommand completion.keeps_onCommand
      split: option.splits)

lemma keeps_handleSignalExternalWorkflowExecutionInitiated:
  "handleSignalExternalWorkflowExecutionInitiated h e s = Inr (p, h') \<Longrightarrow> keeps P h h'"
  unfolding handleSignalExternalWorkflowExecutionInitiated_def
  by (auto dest: initiated.keeps_onCommand [where P = P])

lemma keeps_handleSignalExternalWorkflowExecutionCompleted:
  "handleSignalExternalWorkflowExecutionCompleted h e = Inr (p, h') \<Longrightarrow> keeps P h h'"
  unfolding handleSignalExternalWorkflowExecutionCompleted_def
  by (auto simp: res_simps intro: completion.keeps_onCommand)

lemma keeps_handleSignalExternalWorkflowExecutionFailed:
  "handleSignalExternalWorkflowExecutionFailed h e = Inr (p, h') \<Longrightarrow> keeps P h h'"
  unfolding handleSignalExternalWorkflowExecutionFailed_def
  by (auto simp: res_simps intro: completion.keeps_onCommand)

lemma keeps_setCurrentWorkflowTaskStartedEventID:
  "setCurrentWorkflowTaskStartedEventID h e = Inr h' \<Longrightarrow> keeps P h h'"
  by (auto simp: setCurrentWorkflowTaskStartedEventID_def res_simps intro: keeps_same)

lemma keeps_getCommandsLoop: "getCommandsLoop b ps h = Inr (cs, h') \<Longrightarrow> keeps P h h'"
proof (induction ps arbitrary: h cs)
  case (Cons p ps)
  then obtain h1 d1 cs' where h1: "(if b then handleCommandSent h p else Inr h) = Inr h1"
    and d1: "machines h1 p = Some d1"
    and rest: "getCommandsLoop b ps (if m_state d1 = commandStateCompleted
       then deleteCommand (removeElement h1 p) (m_id d1) else h1) = Inr (cs', h')"
    by (auto simp: res_simps)
  from h1 have "keeps P h h1" by (auto intro: sent.keeps split: if_splits)
  moreover have "keeps P h1 h'"
    using Cons.IH [OF rest] by (auto simp: deleteCommand_def removeElement_def keeps_def split: if_splits)
  ultimately show ?case by (rule keeps_trans)
qed simp

lemma keeps_getCommands: "getCommands h b = Inr (cs, h') \<Longrightarrow> keeps P h h'"
  unfolding getCommands_def by (rule keeps_getCommandsLoop)

lemmas keeps_on_command =
  initiated.keeps_onCommand initFailed.keeps_onCommand started.keeps_onCommand
  completion.keeps_onCommand canceled.keeps_onCommand

section \<open>Every step\<close>

lemma awaitsData_keeps: "awaitsData t p h h' \<Longrightarrow> \<exists>P. keeps P h h'"
  by (auto simp: awaitsData_def)

lemmas keeps_additions =
  awaits_scheduleActivityTask [THEN awaitsData_keeps] awaits_startTimer [THEN awaitsData_keeps]
  awaits_signalExternalWorkflowExecution [THEN awaitsData_keeps]
  awaits_scheduleNexusOperation [THEN awaitsData_keeps]

lemmas keeps_operations =
  keeps_getNextID keeps_recordVersionMarker keeps_recordSideEffectMarker
  keeps_recordLocalActivityMarker keeps_recordMutableSideEffectMarker keeps_addProtocolMessage
  keeps_upsertSearchAttributes keeps_modifyProperties keeps_requestCancelNexusOperation
  keeps_handleActivityTaskClosed keeps_handleTimerClosed keeps_handleActivityTaskScheduled
  keeps_handleActivityTaskCancelRequested keeps_handleActivityTaskCanceled
  keeps_handleNexusOperationScheduled keeps_handleNexusOperationStarted
  keeps_handleNexusOperationCompleted keeps_handleNexusOperationCancelRequested
  keeps_handleNexusOperationCancelRequestDelivered keeps_handleVersionMarker
  keeps_handleRequestCancelExternalWorkflowExecutionInitiated
  keeps_handleExternalWorkflowExecutionCancelRequested
  keeps_handleRequestCancelExternalWorkflowExecutionFailed
  keeps_handleSignalExternalWorkflowExecutionInitiated
  keeps_handleSignalExternalWorkflowExecutionCompleted
  keeps_handleSignalExternalWorkflowExecutionFailed keeps_setCurrentWorkflowTaskStartedEventID
  keeps_getCommands keeps_on_command keeps_onCommand_cancel

lemma keeps_startChildWorkflowExecution:
  "startChildWorkflowExecution h a u g = Inr (r, h') \<Longrightarrow> wf_helper h \<Longrightarrow> \<exists>P. keeps P h h'"
  using awaits_startChildWorkflowExecution [THEN awaitsData_keeps]
    existing_startChildWorkflowExecution keeps_refl by (cases r) blast+

lemma keeps_requestCancelExternalWorkflowExecution:
  assumes "requestCancelExternalWorkflowExecution h n w i c b g = Inr (p, h')" and "wf_helper h"
  shows "\<exists>P. keeps P h h'"
proof (cases b)
  case True
  with assms show ?thesis
    by (auto simp: requestCancelExternalWorkflowExecution_def intro: keeps_onCommand_cancel
        split: if_splits)
next
  case False
  with assms(1) have "requestCancelExternalWorkflowExecution h n w i c False g = Inr (p, h')" by simp
  then show ?thesis
    using assms(2) awaits_requestCancelExternalWorkflowExecution [THEN awaitsData_keeps] by blast
qed

lemma helper_step_keeps: "helper_step h h' \<Longrightarrow> wf_helper h \<Longrightarrow> \<exists>P. keeps P h h'"
  by (induction rule: helper_step.induct)
    (unfold on_command_defs, (erule (1) keeps_additions keeps_startChildWorkflowExecution
      keeps_requestCancelExternalWorkflowExecution | blast intro: keeps_operations)+)

text \<open>
  A machine keeps its id over any number of steps, and does not become unsent again.
\<close>

lemma helper_steps_keep:
  assumes "helper_step\<^sup>*\<^sup>* h h'" and "helper_reachable h" and "machines h p = Some d"
  shows "helper_reachable h' \<and>
    (\<exists>d'. machines h' p = Some d' \<and> m_id d' = m_id d \<and> (unsent d' \<longrightarrow> unsent d))"
  using assms(1)
proof (induction rule: rtranclp_induct)
  case base
  with assms(2,3) show ?case by simp
next
  case (step h1 h2)
  then obtain d1 where r: "helper_reachable h1" and d1: "machines h1 p = Some d1" "m_id d1 = m_id d"
    "unsent d1 \<longrightarrow> unsent d" by blast
  from helper_step_keeps [OF step.hyps(2) wf_reachable [OF r]] obtain P where "keeps P h1 h2" by blast
  from keepsD [OF this d1(1)] d1(2,3) have "\<exists>d'. machines h2 p = Some d' \<and> m_id d' = m_id d \<and>
      (unsent d' \<longrightarrow> unsent d)" by auto
  with helper_reachable.step [OF r step.hyps(2)] show ?case by simp
qed

end
