(* ===== verification/Task_Run.thy ===== *)
theory Task_Run
  imports Event_Ids Helper_Data
begin

text \<open>
  What workflow code does to the helper within one workflow task, and that all of it keeps the
  commands collected so far in place: a command added in the task keeps its position until the
  commands are sent, and the counter keeps counting them.
\<close>

section \<open>The operations of a task\<close>

text \<open>
  One rule for each operation workflow code reaches through its environment. The cancellation of a
  child workflow or of a nexus operation whose own command is still unsent is left out: it takes a
  command away that already has its event id.
\<close>

inductive task_step :: "'d commandsHelper \<Rightarrow> 'd commandsHelper \<Rightarrow> bool" where
  nextID: "getNextID h = Inr (n, h') \<Longrightarrow> task_step h h'"
| scheduleActivity: "scheduleActivityTask h n a u g = Inr (p, h') \<Longrightarrow> task_step h h'"
| cancelActivity: "requestCancelActivityTask h i = Inr (p, h') \<Longrightarrow> task_step h h'"
| scheduleNexus: "scheduleNexusOperation h n na u g = Inr (p, h') \<Longrightarrow> task_step h h'"
| cancelNexus: "requestCancelNexusOperation h n = Inr (p, h') \<Longrightarrow>
    map_option cancellable (machines h p) = Some True \<Longrightarrow> task_step h h'"
| recordVersion: "recordVersionMarker h c v dc b g = Inr (p, h') \<Longrightarrow> task_step h h'"
| recordSideEffect: "recordSideEffectMarker h n x dc u g = Inr (p, h') \<Longrightarrow> task_step h h'"
| recordLocalActivity: "recordLocalActivityMarker h i ds f u g = Inr (p, h') \<Longrightarrow> task_step h h'"
| recordMutableSideEffect:
    "recordMutableSideEffectMarker h i n x dc u g = Inr (p, h') \<Longrightarrow> task_step h h'"
| startChild: "startChildWorkflowExecution h ca u g = Inr (r, h') \<Longrightarrow> task_step h h'"
| cancelChild: "requestCancelExternalWorkflowExecution h ns w rid c True g = Inr (p, h') \<Longrightarrow>
    map_option cancellable (machines h p) = Some True \<Longrightarrow> task_step h h'"
| requestCancelExternal:
    "requestCancelExternalWorkflowExecution h ns w rid c False g = Inr (p, h') \<Longrightarrow> task_step h h'"
| signalExternal:
    "signalExternalWorkflowExecution h ns w rid s inp hdr j b g = Inr (p, h') \<Longrightarrow> task_step h h'"
| protocolMessage: "addProtocolMessage h i = Inr (p, h') \<Longrightarrow> task_step h h'"
| upsert: "upsertSearchAttributes h i sa g = Inr (p, h') \<Longrightarrow> task_step h h'"
| modify: "modifyProperties h i sa g = Inr (p, h') \<Longrightarrow> task_step h h'"
| timerStart: "startTimer h ta s dc g = Inr (p, h') \<Longrightarrow> task_step h h'"
| timerCancel: "cancelTimer h t = Inr (p, h') \<Longrightarrow> task_step h h'"

lemma task_step_helper_step: "task_step h h' \<Longrightarrow> helper_step h h'"
  by (induction rule: task_step.induct) (rule helper_step.intros, assumption)+

lemma task_steps_reachable: "task_step\<^sup>*\<^sup>* h h' \<Longrightarrow> helper_reachable h \<Longrightarrow> helper_reachable h'"
  by (induction rule: rtranclp_induct)
    (auto intro: helper_reachable.step task_step_helper_step)

section \<open>They keep positions and machines\<close>

lemma grows_added:
  assumes "addNew h d = Inr (p, h')" and "wf_helper h" and "versionMarkerLookup h = fmempty"
    and "kind_id (m_kind d) (m_id d)" and "machine_getCommand d \<noteq> None"
  shows "grows h h'"
  using assms grows_addNew(1) by blast

lemma getNextID_same: "getNextID h = Inr (n, h') \<Longrightarrow> versionMarkerLookup h = fmempty \<Longrightarrow> h' = h"
  by (auto simp: getNextID_eq_Inr incrementIfVersionMarker_empty)

lemma grows_update:
  "grows (h\<lparr>scheduledEventIDToActivityID := x\<rparr>) h' \<longleftrightarrow> grows h h'"
  by (simp add: grows_def emitted_def emits_def [abs_def])

lemma grows_scheduleActivityTask:
  assumes sch: "scheduleActivityTask h n a u g = Inr (p, h')" and wf: "wf_helper h"
    and vm: "versionMarkerLookup h = fmempty"
  shows "grows h h'" and "emitted h' = emitted h @ [p]"
proof -
  let ?h = "h\<lparr>scheduledEventIDToActivityID :=
    (scheduledEventIDToActivityID h)(n \<mapsto> act_ActivityId a)\<rparr>"
  let ?d = "(newActivityCommandStateMachine n a u)\<lparr>m_eventGroupMarkers := g\<rparr>"
  from sch have add: "addNew ?h ?d = Inr (p, h')" by (simp add: scheduleActivityTask_def)
  have "grows ?h h' \<and> emitted h' = emitted ?h @ [p]"
    using wf vm add by (intro conjI grows_addNew [of ?h ?d])
      (simp_all add: getCommand_defs new_machine_defs)
  then show "grows h h'" "emitted h' = emitted h @ [p]"
    by (simp_all add: grows_update emitted_def emits_def [abs_def])
qed

lemma grows_scheduleNexusOperation:
  fixes h :: "'d commandsHelper"
  assumes sch: "scheduleNexusOperation h n a u g = Inr (p, h')" and wf: "wf_helper h"
    and vm: "versionMarkerLookup h = fmempty"
  shows "grows h h'"
proof -
  let ?d = "(newCommandStateMachineBase commandTypeNexusOperation (formatInt n)
               (NexusOperationMachine n 0 a None u) :: 'd machine) \<lparr>m_eventGroupMarkers := g\<rparr>"
  obtain q h1 where alloc: "allocMachine h ?d = (q, h1)" by (metis surj_pair)
  let ?h2 = "h1\<lparr>nexusOperationsWithoutScheduledID := nexusOperationsWithoutScheduledID h1 @ [q]\<rparr>"
  from sch alloc have add: "addCommand ?h2 q = Inr h'"
    by (auto simp: scheduleNexusOperation_def newNexusOperationStateMachine_def res_simps Let_def)
  have k: "kind_id (m_kind ?d) (m_id ?d)" by (simp add: new_machine_defs)
  note h1 = grows_allocMachine [OF wf vm alloc] and facts = allocMachine_facts [OF wf k alloc]
  obtain c where c: "machine_getCommand ?d = Some c"
    by (simp add: getCommand_defs newCommandStateMachineBase_def)
  have "grows ?h2 h'"
    by (rule grows_addCommand(1) [OF _ _ c _ add]) (use h1(4) facts(2,3) in simp_all)
  then have "grows h1 h'" by (simp add: grows_def emitted_def emits_def [abs_def])
  with h1(1) show ?thesis by (rule grows_trans)
qed

lemma grows_onCommand_cancel:
  assumes "onCommand cancel h i = Inr (p, h')" and "wf_helper h" and "versionMarkerLookup h = fmempty"
    and "map_option cancellable (machines h p) = Some True"
  shows "grows h h'"
  using assms by (auto simp: onCommand_def res_simps getCommand_def fail_defs split: option.splits
      intro: grows_cancel)

lemma cancellable_kind:
  assumes "wf_helper h" and "commands h (makeCommandID t i) = Some p"
    and "t = commandTypeActivity \<or> t = commandTypeTimer"
  shows "map_option cancellable (machines h p) = Some True"
proof -
  from wf_commandsD [OF assms(1,2)] obtain d where d: "machines h p = Some d"
    "m_id d = makeCommandID t i" by blast
  with assms(1) have "kind_id (m_kind d) (makeCommandID t i)"
    by (auto simp: wf_helper_def dest: kind_id_of_store)
  with assms(3) d(1) show ?thesis by (cases "m_kind d") (auto simp: kind_id_def cancellable_def)
qed

lemma grows_onCommand_cancel_kind:
  assumes "onCommand cancel h (makeCommandID t i) = Inr (p, h')" and "wf_helper h"
    and "versionMarkerLookup h = fmempty" and "t = commandTypeActivity \<or> t = commandTypeTimer"
  shows "grows h h'"
proof -
  from assms(1) have "commands h (makeCommandID t i) = Some p"
    by (auto simp: onCommand_def res_simps getCommand_def fail_defs split: option.splits)
  from cancellable_kind [OF assms(2) this assms(4)] assms(1-3) show ?thesis
    by (rule_tac grows_onCommand_cancel)
qed

lemma grows_requestCancelNexusOperation:
  assumes op: "requestCancelNexusOperation h n = Inr (p, h')" and wf: "wf_helper h"
    and vm: "versionMarkerLookup h = fmempty"
    and able: "map_option cancellable (machines h p) = Some True"
  shows "grows h h'"
proof -
  from op obtain h1 where cmd: "commands h (makeCommandID commandTypeNexusOperation (formatInt n)) = Some p"
    and h1: "cancel h p = Inr h1"
    and h': "emitted h' = emitted h1" "nextCommandEventID h' = nextCommandEventID h1"
      "versionMarkerLookup h' = versionMarkerLookup h1"
    by (auto simp: requestCancelNexusOperation_def getNexusOperationCommand_def getCommand_def
        res_simps fail_defs emitted_def emits_def [abs_def] split: option.splits if_splits)
  from able obtain d where "machines h p = Some d" "cancellable d" by auto
  from grows_cancel [OF wf vm cmd this h1] h' show ?thesis by (simp add: grows_def)
qed

lemma grows_added_operations:
  assumes "wf_helper h" and "versionMarkerLookup h = fmempty"
  shows "recordVersionMarker h c v dc b g = Inr (p, h') \<Longrightarrow> grows h h'"
    and "recordSideEffectMarker h n x dc u g = Inr (p, h') \<Longrightarrow> grows h h'"
    and "recordLocalActivityMarker h i ds f u g = Inr (p, h') \<Longrightarrow> grows h h'"
    and "recordMutableSideEffectMarker h i n x dc u g = Inr (p, h') \<Longrightarrow> grows h h'"
    and "startChildWorkflowExecution h ca u g = Inr (r, h') \<Longrightarrow> grows h h'"
    and "requestCancelExternalWorkflowExecution h ns w rid i False g = Inr (p, h') \<Longrightarrow> grows h h'"
    and "signalExternalWorkflowExecution h ns w rid sn inp hdr i b g = Inr (p, h') \<Longrightarrow> grows h h'"
    and "addProtocolMessage h i = Inr (p, h') \<Longrightarrow> grows h h'"
    and "upsertSearchAttributes h i sa g = Inr (p, h') \<Longrightarrow> grows h h'"
    and "modifyProperties h i mm g = Inr (p, h') \<Longrightarrow> grows h h'"
    and "startTimer h ta s dc g = Inr (p, h') \<Longrightarrow> grows h h'"
  using assms
  by (auto simp: recordVersionMarker_def recordSideEffectMarker_def recordLocalActivityMarker_def
      recordMutableSideEffectMarker_def startChildWorkflowExecution_def
      requestCancelExternalWorkflowExecution_def signalExternalWorkflowExecution_def
      addProtocolMessage_def upsertSearchAttributes_def modifyProperties_def startTimer_def
      res_simps Let_def new_machine_defs getCommand_defs newCommandStateMachineBase_def kind_id_def
      dest!: getNextID_same intro: grows_refl split: if_splits elim!: grows_added)

lemma grows_task_step:
  assumes "task_step h h'" and "wf_helper h" and "versionMarkerLookup h = fmempty"
  shows "grows h h'"
  using assms(1)
proof cases
  case nextID
  with assms(3) show ?thesis by (auto dest: getNextID_same intro: grows_refl)
next
  case cancelActivity
  with assms(2,3) show ?thesis
    by (auto simp: requestCancelActivityTask_def intro: grows_onCommand_cancel_kind)
next
  case timerCancel
  with assms(2,3) show ?thesis
    by (auto simp: cancelTimer_def intro: grows_onCommand_cancel_kind)
next
  case cancelChild
  with assms(2,3) show ?thesis
    by (auto simp: requestCancelExternalWorkflowExecution_def intro: grows_onCommand_cancel
        split: if_splits)
qed (auto intro: assms(2,3) grows_added_operations [OF assms(2,3)] grows_scheduleActivityTask(1)
      grows_scheduleNexusOperation grows_requestCancelNexusOperation)

lemma grows_task_steps:
  assumes "task_step\<^sup>*\<^sup>* h h'" and "helper_reachable h" and "versionMarkerLookup h = fmempty"
  shows "grows h h'"
  using assms
proof (induction rule: rtranclp_induct)
  case base
  then show ?case by (simp add: grows_refl)
next
  case (step h1 h2)
  then have "grows h h1" by simp
  moreover have "grows h1 h2"
    using step.hyps(2) wf_reachable [OF task_steps_reachable [OF step.hyps(1) step.prems(1)]]
      grows_empty [OF \<open>grows h h1\<close>] by (rule grows_task_step)
  ultimately show ?case by (rule grows_trans)
qed

lemma task_steps_id:
  assumes "task_step\<^sup>*\<^sup>* h h'" and "helper_reachable h" and "machines h p = Some d"
  shows "\<exists>d'. machines h' p = Some d' \<and> m_id d' = m_id d"
proof -
  from assms(1) have "helper_step\<^sup>*\<^sup>* h h'"
    by (rule rtranclp_mono [THEN predicate2D, rotated]) (blast intro: task_step_helper_step)
  from helper_steps_keep [OF this assms(2,3)] show ?thesis by blast
qed

section \<open>They keep the scheduled activities\<close>

lemma activities_increment [simp]:
  "scheduledEventIDToActivityID (incrementNextCommandEventID h) = scheduledEventIDToActivityID h"
  "scheduledEventIDToActivityID (incrementNextCommandEventIDIfVersionMarker h) =
     scheduledEventIDToActivityID h"
  by (simp_all add: incrementNextCommandEventID_def incrementNextCommandEventIDIfVersionMarker_def
      split: prod.splits)

lemma activities_addCommand:
  "addCommand h p = Inr h' \<Longrightarrow> scheduledEventIDToActivityID h' = scheduledEventIDToActivityID h"
  by (auto simp: addCommand_eq_Inr)

lemma activities_addNew:
  "addNew h d = Inr (p, h') \<Longrightarrow> scheduledEventIDToActivityID h' = scheduledEventIDToActivityID h"
  by (auto simp: addNew_def allocMachine_def res_simps dest: activities_addCommand)

lemma activities_getNextID:
  "getNextID h = Inr (n, h') \<Longrightarrow> scheduledEventIDToActivityID h' = scheduledEventIDToActivityID h"
  by (auto simp: getNextID_eq_Inr)

lemma activities_moveState:
  "moveState h p t ev = Inr h' \<Longrightarrow> scheduledEventIDToActivityID h' = scheduledEventIDToActivityID h"
  by (auto simp: moveState_eq_Inr)

lemma activities_base_cancel:
  assumes "base_cancel h p = Inr h'"
  shows "scheduledEventIDToActivityID h' = scheduledEventIDToActivityID h"
proof -
  from assms obtain d where "machines h p = Some d" by (auto simp: base_cancel_def res_simps)
  with assms show ?thesis
    by (cases "m_state d") (auto simp: base_cancel_def fail_defs dest: activities_moveState)
qed

lemma activities_childWorkflow_cancel:
  assumes "childWorkflow_cancel h p = Inr h'"
  shows "scheduledEventIDToActivityID h' = scheduledEventIDToActivityID h"
proof -
  from assms obtain d where "machines h p = Some d"
    by (auto simp: childWorkflow_cancel_def res_simps)
  with assms show ?thesis
    by (cases "m_state d")
      (auto simp: childWorkflow_cancel_def moveCommandToBack_def res_simps fail_defs
        dest: activities_moveState activities_base_cancel split: option.splits)
qed

lemma activities_nexusOperation_cancel:
  assumes "nexusOperation_cancel e co h p = Inr h'"
  shows "scheduledEventIDToActivityID h' = scheduledEventIDToActivityID h"
  using assms
  by (auto simp: nexusOperation_cancel_def Let_def allocMachine_def res_simps
      dest!: activities_addCommand nexusCancelCompleted.frame(4) split: if_splits)

lemma activities_cancel:
  assumes "cancel h p = Inr h'"
  shows "scheduledEventIDToActivityID h' = scheduledEventIDToActivityID h"
proof -
  from assms obtain d where d: "machines h p = Some d" by (auto simp: cancel_def res_simps)
  from assms d show ?thesis
    by (cases "m_kind d")
      (auto simp: cancel_def is_naive_def activity_cancel_def timer_cancel_def allocMachine_def
        res_simps fail_defs dest: activities_childWorkflow_cancel activities_nexusOperation_cancel
        dest!: activities_base_cancel activities_addCommand split: if_splits)
qed

lemma activities_onCommand_cancel:
  "onCommand cancel h i = Inr (p, h') \<Longrightarrow>
     scheduledEventIDToActivityID h' = scheduledEventIDToActivityID h"
  by (auto simp: onCommand_def res_simps dest: activities_cancel)

lemma task_step_activities:
  assumes "task_step h h'" and "scheduledEventIDToActivityID h n \<noteq> None"
  shows "scheduledEventIDToActivityID h' n \<noteq> None"
  using assms
  by (cases rule: task_step.cases)
    (auto simp: scheduleActivityTask_def requestCancelActivityTask_def scheduleNexusOperation_def
      newNexusOperationStateMachine_def requestCancelNexusOperation_def recordVersionMarker_def
      recordSideEffectMarker_def recordLocalActivityMarker_def recordMutableSideEffectMarker_def
      startChildWorkflowExecution_def requestCancelExternalWorkflowExecution_def
      signalExternalWorkflowExecution_def addProtocolMessage_def upsertSearchAttributes_def
      modifyProperties_def startTimer_def cancelTimer_def allocMachine_def res_simps Let_def
      dest!: activities_addNew activities_addCommand activities_getNextID activities_cancel
      activities_onCommand_cancel split: if_splits)

lemma task_steps_activities:
  "task_step\<^sup>*\<^sup>* h h' \<Longrightarrow> scheduledEventIDToActivityID h n \<noteq> None \<Longrightarrow>
     scheduledEventIDToActivityID h' n \<noteq> None"
  by (induction rule: rtranclp_induct) (auto dest: task_step_activities)

section \<open>Positions\<close>

lemma nth_commandsOf:
  assumes "k < length (emitted h)"
  shows "k < length (commandsOf h)"
    and "\<exists>d. machines h (emitted h ! k) = Some d \<and> machine_getCommand d = Some (commandsOf h ! k)"
proof -
  have cmds: "commandsOf h = map (\<lambda>p. the (machine_getCommand (the (machines h p)))) (emitted h)"
  proof -
    have "concat (map (commandOf h) ps) =
        map (\<lambda>p. the (machine_getCommand (the (machines h p)))) (filter (emits h) ps)" for ps
      by (induction ps) (auto simp: commandOf_def emits_def split: option.splits)
    then show ?thesis by (simp add: commandsOf_def emitted_def)
  qed
  show "k < length (commandsOf h)" using assms by (simp add: cmds)
  have "emits h (emitted h ! k)" using nth_mem [OF assms] by (simp add: emitted_def)
  then show "\<exists>d. machines h (emitted h ! k) = Some d \<and> machine_getCommand d = Some (commandsOf h ! k)"
    using assms by (auto simp: cmds emits_def)
qed

lemma activity_command:
  assumes "wf_helper h" and "machines h p = Some d"
    and "m_id d = makeCommandID commandTypeActivity i" and "machine_getCommand d = Some c"
  shows "\<exists>a. act_ActivityId a = i \<and> cmd_Attributes c = ScheduleActivityTaskCommandAttributes a \<and>
    cmd_CommandType c = COMMAND_TYPE_SCHEDULE_ACTIVITY_TASK"
proof -
  from assms(1-3) have "kind_id (m_kind d) (makeCommandID commandTypeActivity i)"
    by (auto simp: wf_helper_def dest: kind_id_of_store)
  with assms(4) show ?thesis
    by (cases "m_kind d") (auto simp: kind_id_def getCommand_defs createNewCommand_def split: if_splits)
qed

end
