(* ===== verification/Command_Properties.thy ===== *)
theory Command_Properties
  imports Task_Run
begin

text \<open>
  The properties of the command machinery (\<open>internal/internal_command_state_machine.go\<close>), each with
  a concrete run that meets its hypotheses. The helpers of those runs come first.
\<close>

section \<open>Helpers of the example runs\<close>

definition exampleConverter :: dataConverter where
  "exampleConverter = \<lparr>dc_ToPayload = (\<lambda>_. Inr None), dc_ToPayloads = (\<lambda>_. Inr None),
     dc_FromPayload = (\<lambda>_ v. Inr v),
     dc_FromPayloads = (\<lambda>_ vs. Inr vs)\<rparr>"

definition exampleTimer :: startTimerAttributes where
  "exampleTimer = \<lparr>timer_TimerId = ''7'', timer_StartToFireTimeout = 1000\<rparr>"

definition exampleActivity :: scheduleActivityAttributes where
  "exampleActivity = \<lparr>act_ActivityId = ''8'', act_ActivityType = ''Greet'', act_TaskQueue = ''tq'',
     act_Input = None, act_ScheduleToCloseTimeout = 0, act_StartToCloseTimeout = 1000,
     act_ScheduleToStartTimeout = 0, act_HeartbeatTimeout = 0, act_RequestEagerExecution = False,
     act_UseWorkflowBuildId = False, act_rest = None\<rparr>"

definition exampleNexus :: scheduleNexusOperationAttributes where
  "exampleNexus = \<lparr>nexus_Endpoint = ''e'', nexus_Service = ''s'', nexus_Operation = ''o'',
     nexus_Input = None, nexus_rest = None\<rparr>"

text \<open>A run of helper operations that did not panic ends in its last helper.\<close>

definition resultHelper :: "('a \<times> 'd commandsHelper) res \<Rightarrow> 'd commandsHelper" where
  "resultHelper r = (case r of Inr (_, h) \<Rightarrow> h | Inl _ \<Rightarrow> newCommandsHelper)"

definition taskHelper :: "unit commandsHelper" where
  "taskHelper = newCommandsHelper\<lparr>nextCommandEventID := 5\<rparr>"

definition timerHelper :: "unit commandsHelper" where
  "timerHelper = resultHelper (startTimer taskHelper exampleTimer [] exampleConverter [])"

definition nexusHelper :: "unit commandsHelper" where
  "nexusHelper = resultHelper (scheduleNexusOperation taskHelper 1 exampleNexus None [])"

lemmas example_defs =
  exampleConverter_def exampleTimer_def exampleActivity_def exampleNexus_def resultHelper_def
  taskHelper_def timerHelper_def nexusHelper_def newCommandsHelper_def

lemmas run_defs =
  startTimer_def BuildUserMetadata_def panicOnError_def addNew_def allocMachine_def addCommand_def
  incrementIfVersionMarker_empty incrementNextCommandEventID_def
  incrementNextCommandEventIDIfVersionMarker_def
  newCommandStateMachineBase_def new_machine_defs scheduleNexusOperation_def
  newNexusOperationStateMachine_def

lemma taskHelper_reachable: "helper_reachable taskHelper"
proof -
  have "setCurrentWorkflowTaskStartedEventID newCommandsHelper 3 = Inr taskHelper"
    by (simp add: setCurrentWorkflowTaskStartedEventID_def example_defs)
  then have "helper_step newCommandsHelper taskHelper" by (rule taskStarted)
  with helper_reachable.init show ?thesis by (rule helper_reachable.step)
qed

lemma timerHelper_run: "startTimer taskHelper exampleTimer [] exampleConverter [] = Inr (0, timerHelper)"
  by (simp add: example_defs run_defs)

lemma timerHelper_reachable: "helper_reachable timerHelper"
  using taskHelper_reachable helper_step.timerStart [OF timerHelper_run] by (rule helper_reachable.step)

lemma timerHelper_facts:
  "orderedCommands timerHelper = [0]" "commands timerHelper = [makeCommandID commandTypeTimer ''7'' \<mapsto> 0]"
  "machines timerHelper = [0 \<mapsto> newTimerCommandStateMachine exampleTimer None]"
  "nextCommandEventID timerHelper = 6" "versionMarkerLookup timerHelper = fmempty" "nextPtr timerHelper = 1"
  by (simp_all add: example_defs run_defs)

lemma nexusHelper_run: "scheduleNexusOperation taskHelper 1 exampleNexus None [] = Inr (0, nexusHelper)"
  by (simp add: example_defs run_defs)

lemma nexusHelper_reachable: "helper_reachable nexusHelper"
  using taskHelper_reachable helper_step.scheduleNexus [OF nexusHelper_run] by (rule helper_reachable.step)

lemma commandsOf_timerHelper:
  "commandsOf timerHelper = [(createNewCommand COMMAND_TYPE_START_TIMER)
     \<lparr>cmd_Attributes := StartTimerCommandAttributes exampleTimer\<rparr>]"
  by (simp add: commandsOf_def commandOf_def timerHelper_facts getCommand_defs new_machine_defs
      newCommandStateMachineBase_def createNewCommand_def)

lemma predicts_timerHelper: "predicts 3 timerHelper"
  by (simp add: predicts_def commandsOf_timerHelper timerHelper_facts)

definition sentTimerHelper :: "unit commandsHelper" where
  "sentTimerHelper = resultHelper (getCommands timerHelper True)"

definition openTimerHelper :: "unit commandsHelper" where
  "openTimerHelper = resultHelper (handleTimerStarted sentTimerHelper ''7'')"

definition activityHelper :: "unit commandsHelper" where
  "activityHelper = resultHelper (scheduleActivityTask taskHelper 5 exampleActivity None [])"

definition sentActivityHelper :: "unit commandsHelper" where
  "sentActivityHelper = resultHelper (getCommands activityHelper True)"

definition openActivityHelper :: "unit commandsHelper" where
  "openActivityHelper = resultHelper (handleActivityTaskScheduled sentActivityHelper ''8'' 5)"

lemmas open_run_defs =
  getCommands_def onCommand_def getCommand_def handleTimerStarted_def handleActivityTaskScheduled_def
  handleInitiatedEvent_def base_handleInitiatedEvent_def is_naive_def moveState_Some sent_defs
  moved_def putMachine_def resultHelper_def

lemma sentTimerHelper_eq:
  "\<exists>cs. getCommands timerHelper True = Inr (cs, sentTimerHelper)"
  "machines sentTimerHelper = [0 \<mapsto> moved (newTimerCommandStateMachine exampleTimer None)
     commandStateCommandSent eventCommandSent]"
  "commands sentTimerHelper = [makeCommandID commandTypeTimer ''7'' \<mapsto> 0]"
  by (simp_all add: sentTimerHelper_def timerHelper_facts open_run_defs new_machine_defs)

lemma openTimerHelper_eq:
  "handleTimerStarted sentTimerHelper ''7'' = Inr (0, openTimerHelper)"
  "map_option m_state (machines openTimerHelper 0) = Some commandStateInitiated"
  "commands openTimerHelper = [makeCommandID commandTypeTimer ''7'' \<mapsto> 0]"
  by (simp_all add: openTimerHelper_def sentTimerHelper_eq open_run_defs new_machine_defs)

lemma openTimerHelper_reachable: "helper_reachable openTimerHelper"
proof -
  from sentTimerHelper_eq(1) obtain cs where "getCommands timerHelper True = Inr (cs, sentTimerHelper)"
    by blast
  then have "helper_reachable sentTimerHelper"
    using timerHelper_reachable by (auto intro: helper_reachable.step collect)
  with timerStarted [OF openTimerHelper_eq(1)] show ?thesis by (auto intro: helper_reachable.step)
qed

lemma activityHelper_eq:
  "scheduleActivityTask taskHelper 5 exampleActivity None [] = Inr (0, activityHelper)"
  "machines activityHelper = [0 \<mapsto> newActivityCommandStateMachine 5 exampleActivity None]"
  "commands activityHelper = [makeCommandID commandTypeActivity ''8'' \<mapsto> 0]"
  "orderedCommands activityHelper = [0]"
  "scheduledEventIDToActivityID activityHelper = [5 \<mapsto> ''8'']"
  by (simp_all add: activityHelper_def scheduleActivityTask_def example_defs run_defs)

lemma sentActivityHelper_eq:
  "\<exists>cs. getCommands activityHelper True = Inr (cs, sentActivityHelper)"
  "machines sentActivityHelper = [0 \<mapsto> moved (newActivityCommandStateMachine 5 exampleActivity None)
     commandStateCommandSent eventCommandSent]"
  "commands sentActivityHelper = [makeCommandID commandTypeActivity ''8'' \<mapsto> 0]"
  "scheduledEventIDToActivityID sentActivityHelper = [5 \<mapsto> ''8'']"
  by (simp_all add: sentActivityHelper_def activityHelper_eq open_run_defs new_machine_defs)

lemma openActivityHelper_eq:
  "handleActivityTaskScheduled sentActivityHelper ''8'' 5 = Inr (0, openActivityHelper)"
  "map_option m_state (machines openActivityHelper 0) = Some commandStateInitiated"
  "commands openActivityHelper = [makeCommandID commandTypeActivity ''8'' \<mapsto> 0]"
  by (simp_all add: openActivityHelper_def sentActivityHelper_eq open_run_defs new_machine_defs)

lemma openActivityHelper_reachable: "helper_reachable openActivityHelper"
proof -
  from sentActivityHelper_eq(1) obtain cs
    where "getCommands activityHelper True = Inr (cs, sentActivityHelper)" by blast
  moreover have "helper_reachable activityHelper"
    using taskHelper_reachable helper_step.scheduleActivity [OF activityHelper_eq(1)]
    by (auto intro: helper_reachable.step)
  ultimately have "helper_reachable sentActivityHelper"
    by (auto intro: helper_reachable.step collect)
  with activityScheduled [OF openActivityHelper_eq(1)] show ?thesis
    by (auto intro: helper_reachable.step)
qed

section \<open>The helper's two views agree\<close>

text \<open>
  C5. In every helper reached from a fresh one by any sequence of operations, the ordered list and
  the map by id describe the same commands: the list has no duplicates, it holds exactly the
  machines the map names, and each of them is filed under its own id, the id its attributes
  determine, and has not completed.
\<close>

theorem reachable_helper_consistent:
  assumes "helper_reachable h"
  shows "distinct (orderedCommands h) \<and> set (orderedCommands h) = ran (commands h) \<and>
    (\<forall>i p. commands h i = Some p \<longrightarrow> (\<exists>d. machines h p = Some d \<and> m_id d = i \<and>
       kind_id (m_kind d) i \<and> m_state d \<noteq> commandStateCompleted))"
  using wf_reachable [OF assms] by (fastforce simp: wf_helper_def listed_ok_def store_ok_def)

theorem reachable_helper_consistent_witness:
  "helper_reachable timerHelper \<and> distinct (orderedCommands timerHelper) \<and>
     set (orderedCommands timerHelper) = {0} \<and> ran (commands timerHelper) = {0}"
  using reachable_helper_consistent [OF timerHelper_reachable] timerHelper_reachable
  by (simp add: timerHelper_facts)

section \<open>Collecting the commands of a task\<close>

text \<open>
  C6. On every reachable helper \<open>getCommands\<close> returns without a panic, and returns exactly the
  commands the listed machines ask for, in list order. Without \<open>markAsSent\<close> nothing changes; with
  it each listed machine moves to its sent state and the ones that complete on being sent leave.
\<close>

theorem getCommands_returns:
  assumes "helper_reachable h"
  shows "\<exists>h'. getCommands h markAsSent = Inr (commandsOf h, h') \<and>
    (markAsSent \<or> h' = h) \<and>
    (\<forall>p \<in> set (orderedCommands h).
       machines h' p = map_option (afterSend markAsSent) (machines h p)) \<and>
    orderedCommands h' = filter (staysListed markAsSent h) (orderedCommands h)"
  using getCommands_total [OF wf_reachable [OF assms], of markAsSent] by auto

theorem getCommands_returns_witness:
  "\<exists>h'. getCommands timerHelper True = Inr ([(createNewCommand COMMAND_TYPE_START_TIMER)
      \<lparr>cmd_Attributes := StartTimerCommandAttributes exampleTimer\<rparr>], h') \<and>
    map_option m_state (machines h' 0) = Some commandStateCommandSent"
  using getCommands_returns [OF timerHelper_reachable, of True]
  by (auto simp: commandsOf_timerHelper timerHelper_facts afterSend_def sentMachine_def sentState_def
      new_machine_defs newCommandStateMachineBase_def)

lemma sent_getCommand_None:
  "m_state d \<noteq> commandStateCanceledBeforeSent \<Longrightarrow> machine_getCommand (sentMachine d) = None"
  by (cases "m_kind d"; cases "m_state d")
    (simp_all add: getCommand_defs sentState_def)

lemma sentState_canceled [simp]:
  "sentState k commandStateCanceledBeforeSent = commandStateCanceledBeforeSent"
  by (cases k) (simp_all add: sentState_def)

lemma sent_canceled:
  "m_state d = commandStateCanceledBeforeSent \<Longrightarrow> sentMachine d = d"
  by (cases "m_kind d") (simp_all add: sentMachine_def sentState_def)

lemma sent_not_unsent:
  "m_state d \<noteq> commandStateCanceledBeforeSent \<Longrightarrow> \<not> unsent (sentMachine d)"
  by (cases "m_kind d"; cases "m_state d")
    (simp_all add: unsent_def sentMachine_def sentState_def Let_def)

lemma concat_map_filter_eq:
  "(\<And>p. p \<in> set ps \<Longrightarrow> (S p \<longrightarrow> f' p = (if C p then f p else [])) \<and> (C p \<longrightarrow> S p)) \<Longrightarrow>
     concat (map f' (filter S ps)) = concat (map f (filter C ps))"
  by (induction ps) auto

definition canceledUnsent :: "'d commandsHelper \<Rightarrow> ptr \<Rightarrow> bool" where
  "canceledUnsent h p \<longleftrightarrow>
     map_option m_state (machines h p) = Some commandStateCanceledBeforeSent"

lemma commandsOf_sent:
  assumes wf: "wf_helper h" and sent: "getCommands h True = Inr (cs, h')"
  shows "commandsOf h' = concat (map (commandOf h) (filter (canceledUnsent h) (orderedCommands h)))"
proof -
  from getCommands_total [OF wf, of True] sent have
    mach: "\<forall>q \<in> set (orderedCommands h). machines h' q = map_option sentMachine (machines h q)"
    and ord: "orderedCommands h' = filter (staysListed True h) (orderedCommands h)"
    by (auto simp: afterSend_def [abs_def])
  show ?thesis unfolding commandsOf_def ord
  proof (rule concat_map_filter_eq)
    fix p assume p: "p \<in> set (orderedCommands h)"
    then obtain d where "machines h p = Some d" using wf_listedD [OF wf] by blast
    with p mach show "(staysListed True h p \<longrightarrow> commandOf h' p =
          (if canceledUnsent h p then commandOf h p else [])) \<and>
        (canceledUnsent h p \<longrightarrow> staysListed True h p)"
      by (auto simp: commandOf_def canceledUnsent_def staysListed_def afterSend_def
          sent_getCommand_None sent_canceled)
  qed
qed

text \<open>What a machine that left the unsent states can still ask for: the cancellation of a child.\<close>

lemma commandOf_not_unsent:
  assumes wf: "wf_helper h" and d: "machines h p = Some d" "\<not> unsent d"
  shows "commandOf h p = [] \<or> id_commandType (m_id d) = commandTypeChildWorkflow \<and>
    map cmd_CommandType (commandOf h p) = [COMMAND_TYPE_REQUEST_CANCEL_EXTERNAL_WORKFLOW_EXECUTION]"
proof -
  have "kind_id (m_kind d) (m_id d)" using wf d(1) by (auto simp: wf_helper_def dest: kind_id_of_store)
  with d show ?thesis
    by (cases "m_kind d")
      (auto simp: commandOf_def unsent_def getCommand_defs kind_id_def createNewCommand_def)
qed

text \<open>
  C10. A command that was sent is never sent again. After the commands of a reachable helper were
  collected and marked as sent, collecting once more returns exactly the commands that had been
  canceled before they were sent, and no other. In every later helper, whatever operations and
  events lie in between, a command of the collected ones that had not been canceled before it was
  sent contributes nothing, except that a child workflow can ask for its cancellation.
\<close>

theorem commands_sent_once:
  assumes "helper_reachable h" and "getCommands h True = Inr (cs, h')"
  shows "(\<exists>h''. getCommands h' markAsSent = Inr (concat (map (commandOf h)
      (filter (canceledUnsent h) (orderedCommands h))), h'')) \<and>
    (\<forall>h2 p. helper_step\<^sup>*\<^sup>* h' h2 \<longrightarrow> p \<in> set (orderedCommands h) \<longrightarrow> \<not> canceledUnsent h p \<longrightarrow>
      commandOf h2 p = [] \<or>
      (\<exists>w. commands h (makeCommandID commandTypeChildWorkflow w) = Some p \<and>
         map cmd_CommandType (commandOf h2 p) =
           [COMMAND_TYPE_REQUEST_CANCEL_EXTERNAL_WORKFLOW_EXECUTION]))"
proof (intro conjI allI impI)
  note wf = wf_reachable [OF assms(1)]
  have h': "helper_reachable h'" using assms(1) collect [OF assms(2)] by (rule helper_reachable.step)
  show "\<exists>h''. getCommands h' markAsSent = Inr (concat (map (commandOf h)
      (filter (canceledUnsent h) (orderedCommands h))), h'')"
    using getCommands_total [OF wf_reachable [OF h'], of markAsSent] commandsOf_sent [OF wf assms(2)]
    by auto
  fix h2 p
  assume steps: "helper_step\<^sup>*\<^sup>* h' h2" and p: "p \<in> set (orderedCommands h)" "\<not> canceledUnsent h p"
  from wf_listedD [OF wf p(1)] obtain d where d: "machines h p = Some d"
    "commands h (m_id d) = Some p" by blast
  from getCommands_total [OF wf, of True] assms(2) p(1) d(1) have
    d': "machines h' p = Some (sentMachine d)" by (auto simp: afterSend_def)
  have new: "\<not> unsent (sentMachine d)"
    using p(2) d(1) by (intro sent_not_unsent) (simp add: canceledUnsent_def)
  from helper_steps_keep [OF steps h' d'] new obtain d2 where
    "helper_reachable h2" "machines h2 p = Some d2" "m_id d2 = m_id d" "\<not> unsent d2" by auto
  with commandOf_not_unsent [OF wf_reachable, of h2 p d2] d(2)
  show "commandOf h2 p = [] \<or> (\<exists>w. commands h (makeCommandID commandTypeChildWorkflow w) = Some p \<and>
      map cmd_CommandType (commandOf h2 p) =
        [COMMAND_TYPE_REQUEST_CANCEL_EXTERNAL_WORKFLOW_EXECUTION])"
    by (cases "m_id d") (auto simp: makeCommandID_def)
qed

theorem commands_sent_once_witness:
  "\<exists>cs h' h''. getCommands timerHelper True = Inr (cs, h') \<and> cs \<noteq> [] \<and>
     getCommands h' True = Inr ([], h'') \<and> commandOf h' 0 = []"
proof -
  obtain h' where h': "getCommands timerHelper True = Inr (commandsOf timerHelper, h')"
    using getCommands_total [OF wf_reachable [OF timerHelper_reachable], of True] by blast
  note once = commands_sent_once [OF timerHelper_reachable h', of True]
  have "\<not> canceledUnsent timerHelper 0"
    by (simp add: canceledUnsent_def timerHelper_facts new_machine_defs newCommandStateMachineBase_def)
  with once h' show ?thesis by (fastforce simp: commandsOf_timerHelper timerHelper_facts)
qed

section \<open>Predicted event ids\<close>

lemma sent_keeps_activity_ids:
  "getCommandsLoop m ps h = Inr (cs, h') \<Longrightarrow>
     scheduledEventIDToActivityID h' = scheduledEventIDToActivityID h \<and>
     nexusOperationsWithoutScheduledID h' = nexusOperationsWithoutScheduledID h"
proof (induction ps arbitrary: h cs)
  case Nil
  then show ?case by simp
next
  case (Cons p ps)
  from Cons.prems obtain h1 d cs' where h1: "(if m then handleCommandSent h p else Inr h) = Inr h1"
    and "machines h1 p = Some d" and loop: "getCommandsLoop m ps (if m_state d = commandStateCompleted
      then deleteCommand (removeElement h1 p) (m_id d) else h1) = Inr (cs', h')"
    by (auto simp: res_simps)
  have "scheduledEventIDToActivityID h1 = scheduledEventIDToActivityID h"
    "nexusOperationsWithoutScheduledID h1 = nexusOperationsWithoutScheduledID h"
    using h1 by (auto dest: sent.frame(3,4) split: if_splits)
  with Cons.IH [OF loop] show ?case by (simp add: deleteCommand_def removeElement_def)
qed






text \<open>
  C29. Canceling keeps the prediction: when an activity, a timer, or a child workflow or nexus
  operation that was already sent is canceled, the counter still points right behind the commands
  the helper would send.
\<close>

theorem cancel_keeps_predicted_ids:
  assumes "helper_reachable h" and "predicts started h" and "commands h i = Some p"
    and "machines h p = Some d" and "cancellable d" and "cancel h p = Inr h'"
  shows "predicts started h'"
  using assms(2) grows_cancel [OF wf_reachable [OF assms(1)] _ assms(3-6)]
  by (auto simp: predicts_def [of started h] intro: predicts_grows [OF assms(2)])

theorem cancel_keeps_predicted_ids_witness:
  "\<exists>h'. cancel timerHelper 0 = Inr h' \<and> predicts 3 h'"
proof -
  let ?d = "newTimerCommandStateMachine exampleTimer None :: unit machine"
  have c: "\<exists>h'. cancel timerHelper 0 = Inr h'"
    by (simp add: cancel_def timer_cancel_def timerHelper_facts new_machine_defs allocMachine_def
        addCommand_def exampleTimer_def base_cancel_def moveState_Some)
  then obtain h' where h': "cancel timerHelper 0 = Inr h'" by blast
  have "predicts 3 h'"
    by (rule cancel_keeps_predicted_ids [OF timerHelper_reachable predicts_timerHelper _ _ _ h',
        of "makeCommandID commandTypeTimer ''7''" ?d])
      (simp_all add: timerHelper_facts cancellable_def new_machine_defs)
  with h' show ?thesis by blast
qed

text \<open>The helper after a nexus operation was canceled whose command was not sent yet.\<close>

lemma nexus_cancel_created:
  fixes h :: "'d commandsHelper"
  assumes wf: "wf_helper h" and vm: "versionMarkerLookup h = fmempty"
    and d: "machines h p = Some d" "m_state d = commandStateCreated"
      "m_kind d = NexusOperationMachine seq e a None u"
    and listed: "commands h (makeCommandID commandTypeNexusOperation (formatInt seq)) = Some p"
    and canc: "requestCancelNexusOperation h seq = Inr (p, h')"
  shows "orderedCommands h' = orderedCommands h"
    and "nextCommandEventID h' = nextCommandEventID h + 1"
    and "versionMarkerLookup h' = fmempty"
    and "nexusOperationsWithoutScheduledID h' = nexusOperationsWithoutScheduledID h"
    and "\<And>q. q \<in> set (orderedCommands h) \<Longrightarrow> emits h' q \<longleftrightarrow> emits h q \<and> q \<noteq> p"
    and "\<exists>q. machines h' p = Some (setCancelation d q)"
proof -
  let ?c = "(newRequestCancelNexusOperationStateMachine e :: 'd machine)
    \<lparr>m_eventGroupMarkers := m_eventGroupMarkers d\<rparr>"
  obtain q h1 where alloc: "allocMachine h ?c = (q, h1)" by (metis surj_pair)
  note facts = allocMachine_facts [OF wf cancel_machine_facts(5) alloc]
  have q: "q = nextPtr h" and h1: "h1 = h\<lparr>machines := (machines h)(q \<mapsto> ?c), nextPtr := Suc q\<rparr>"
    using alloc by (auto simp: allocMachine_def)
  from facts(4) d have pq: "p \<noteq> q" by auto
  let ?h2 = "putMachine h1 p (setCancelation d q)"
  from canc listed obtain hc where "cancel h p = Inr hc"
    and rest: "bind_res (deref hc p) (\<lambda>d. if m_state d \<noteq> commandStateCanceledBeforeSent
      then Inr (p, hc) else bind_res (removeSeq hc seq (nexusOperationsWithoutScheduledID hc))
        (\<lambda>ps. Inr (p, hc\<lparr>nexusOperationsWithoutScheduledID := ps\<rparr>))) = Inr (p, h')"
    by (auto simp: requestCancelNexusOperation_def getNexusOperationCommand_def getCommand_def
        bind_res_eq_Inr [of "cancel h p"])
  then have cancel: "bind_res (addCommand ?h2 q)
      (\<lambda>h3. requestCancelNexusOperation_handleCompletionEvent h3 q) = Inr hc"
    using d alloc by (simp add: cancel_def nexusOperation_cancel_def Let_def)
  let ?h3 = "incrementNextCommandEventID (?h2\<lparr>orderedCommands := orderedCommands h @ [q],
    commands := (commands h)(m_id ?c \<mapsto> q)\<rparr>)"
  have "addCommand ?h2 q = Inr ?h3"
    using cancel facts(2) pq vm
    by (auto simp: addCommand_eq_Inr res_simps h1 incrementIfVersionMarker_empty)
  with cancel facts(2) pq have
    hc: "hc = dropCommand (putMachine ?h3 q (moved ?c commandStateCompleted eventCompletion)) (m_id ?c)"
    by (simp add: requestCancelNexusOperation_handleCompletionEvent_def new_machine_defs moveState_Some)
  then have "machines hc p = Some (setCancelation d q)" using pq by simp
  with rest d(2) have h': "h' = dropCommand
      (putMachine ?h3 q (moved ?c commandStateCompleted eventCompletion)) (m_id ?c)"
    by (simp add: hc)
  have fresh: "q \<notin> set (orderedCommands h)" using facts(3,5) by simp
  show "orderedCommands h' = orderedCommands h"
    using fresh by (simp add: h' incrementNextCommandEventID_def remove1_append)
  show "nextCommandEventID h' = nextCommandEventID h + 1" "versionMarkerLookup h' = fmempty"
    "nexusOperationsWithoutScheduledID h' = nexusOperationsWithoutScheduledID h"
    using vm by (simp_all add: h' h1 incrementNextCommandEventID_def)
  show "\<exists>q. machines h' p = Some (setCancelation d q)" using pq by (auto simp: h')
  show "emits h' r \<longleftrightarrow> emits h r \<and> r \<noteq> p" if "r \<in> set (orderedCommands h)" for r
    using that fresh pq d
    by (auto simp: emits_def h' h1 setCancelation_def getCommand_defs incrementNextCommandEventID_def)
qed

text \<open>
  C30. Canceling a nexus operation in the task that scheduled it, before its command is sent, breaks
  the prediction: the operation and its cancel request both took an event id, neither sends a
  command, and the counter is two ahead of the next event the service will write. The operation
  also stays queued for the next scheduled event, which belongs to another operation.
\<close>

theorem nexus_cancel_before_sent_drifts:
  assumes "helper_reachable h" and "predicts started h"
    and "commands h (makeCommandID commandTypeNexusOperation (formatInt seq)) = Some p"
    and "machines h p = Some d" and "m_state d = commandStateCreated"
    and "m_kind d = NexusOperationMachine seq e a None u"
    and "requestCancelNexusOperation h seq = Inr (p, h')"
  shows "nextCommandEventID h' = (started + 2 + of_nat (length (commandsOf h'))) + 2 \<and>
    nexusOperationsWithoutScheduledID h' = nexusOperationsWithoutScheduledID h"
proof -
  have wf: "wf_helper h" and vm: "versionMarkerLookup h = fmempty"
    using assms(1,2) by (auto simp: predicts_def intro: wf_reachable)
  note run = nexus_cancel_created [OF wf vm assms(4-6) assms(3) assms(7)]
  have dist: "distinct (orderedCommands h)" and listed: "p \<in> set (orderedCommands h)"
    using wf assms(3) by (auto simp: wf_helper_def listed_ok_def intro: ranI)
  have pF: "p \<in> set (filter (emits h) (orderedCommands h))"
    using assms(4-6) listed by (simp add: emits_def getCommand_defs)
  have "filter (emits h') (orderedCommands h) = filter (\<lambda>q. emits h q \<and> q \<noteq> p) (orderedCommands h)"
    using run(5) by (rule filter_cong [OF refl])
  also have "\<dots> = remove1 p (filter (emits h) (orderedCommands h))"
    using dist by (simp add: distinct_remove1_removeAll removeAll_filter_not_eq)
      (rule filter_cong, auto)
  finally have "length (filter (emits h) (orderedCommands h)) = Suc (length (commandsOf h'))"
    using length_pos_if_in_set [OF pF] pF
    by (simp add: length_commandsOf run(1) length_remove1)
  with assms(2) run(2,4) show ?thesis by (simp add: predicts_emits)
qed

lemma nexusHelper_facts:
  "orderedCommands nexusHelper = [0]"
  "commands nexusHelper = [makeCommandID commandTypeNexusOperation (formatInt 1) \<mapsto> 0]"
  "machines nexusHelper = [0 \<mapsto> newCommandStateMachineBase commandTypeNexusOperation (formatInt 1)
     (NexusOperationMachine 1 0 exampleNexus None None)]"
  "nextCommandEventID nexusHelper = 6" "versionMarkerLookup nexusHelper = fmempty"
  "nextPtr nexusHelper = 1" "nexusOperationsWithoutScheduledID nexusHelper = [0]"
  by (simp_all add: example_defs run_defs)

lemma predicts_nexusHelper: "predicts 3 nexusHelper"
  by (simp add: predicts_emits emits_def nexusHelper_facts getCommand_defs)

lemma nexusHelper_cancel: "\<exists>h'. requestCancelNexusOperation nexusHelper 1 = Inr (0, h')"
  by (simp add: requestCancelNexusOperation_def getNexusOperationCommand_def getCommand_def
      nexusHelper_facts cancel_def nexusOperation_cancel_def allocMachine_def addCommand_def
      setCancelation_def newRequestCancelNexusOperationStateMachine_def
      requestCancelNexusOperation_handleCompletionEvent_def moveState_Some)

theorem nexus_cancel_before_sent_drifts_witness:
  "\<exists>h'. requestCancelNexusOperation nexusHelper 1 = Inr (0, h') \<and>
     nextCommandEventID h' = (3 + 2 + of_nat (length (commandsOf h'))) + 2 \<and>
     nexusOperationsWithoutScheduledID h' = [0]"
proof -
  from nexusHelper_cancel obtain h' where h': "requestCancelNexusOperation nexusHelper 1 = Inr (0, h')"
    by blast
  show ?thesis
    using nexus_cancel_before_sent_drifts
      [OF nexusHelper_reachable predicts_nexusHelper _ _ _ _ h'] h'
    by (simp add: nexusHelper_facts)
qed

text \<open>Scheduling a nexus operation adds its command and queues it for its scheduled event.\<close>

lemma scheduleNexusOperation_facts:
  fixes h :: "'d commandsHelper"
  assumes wf: "wf_helper h" and vm: "versionMarkerLookup h = fmempty"
    and sch: "scheduleNexusOperation h n a u g = Inr (p, h')"
  shows "\<exists>c. commandsOf h' = commandsOf h @ [c] \<and>
      cmd_Attributes c = ScheduleNexusOperationCommandAttributes a"
    and "nexusOperationsWithoutScheduledID h' = nexusOperationsWithoutScheduledID h @ [p]"
    and "commands h (makeCommandID commandTypeNexusOperation (formatInt n)) = None"
    and "machines h q = Some d \<Longrightarrow> machines h' q = Some d"
    and "orderedCommands h' = orderedCommands h @ [p]"
proof -
  let ?d = "(newCommandStateMachineBase commandTypeNexusOperation (formatInt n)
               (NexusOperationMachine n 0 a None u) :: 'd machine) \<lparr>m_eventGroupMarkers := g\<rparr>"
  obtain q1 h1 where alloc: "allocMachine h ?d = (q1, h1)" by (metis surj_pair)
  let ?h2 = "h1\<lparr>nexusOperationsWithoutScheduledID := nexusOperationsWithoutScheduledID h1 @ [q1]\<rparr>"
  from sch alloc have q1: "q1 = p" and add: "addCommand ?h2 q1 = Inr h'"
    by (auto simp: scheduleNexusOperation_def newNexusOperationStateMachine_def res_simps Let_def)
  have k: "kind_id (m_kind ?d) (m_id ?d)" by (simp add: new_machine_defs)
  note h1 = grows_allocMachine [OF wf vm alloc] and facts = allocMachine_facts [OF wf k alloc]
  obtain c where c: "machine_getCommand ?d = Some c"
      "cmd_Attributes c = ScheduleNexusOperationCommandAttributes a"
    by (simp add: getCommand_defs newCommandStateMachineBase_def)
  have "commandsOf h' = commandsOf ?h2 @ [c]"
    by (rule grows_addCommand(2) [OF _ _ c(1) _ add]) (use h1(4) facts(2,3) in simp_all)
  moreover have "commandsOf ?h2 = commandsOf h1" by (simp add: commandsOf_def commandOf_def [abs_def])
  ultimately show "\<exists>c. commandsOf h' = commandsOf h @ [c] \<and>
      cmd_Attributes c = ScheduleNexusOperationCommandAttributes a"
    using h1(2) c(2) by auto
  have "nexusOperationsWithoutScheduledID h1 = nexusOperationsWithoutScheduledID h"
    using alloc by (auto simp: allocMachine_def)
  then show "nexusOperationsWithoutScheduledID h' = nexusOperationsWithoutScheduledID h @ [p]"
    "commands h (makeCommandID commandTypeNexusOperation (formatInt n)) = None"
    "machines h q = Some d \<Longrightarrow> machines h' q = Some d" "orderedCommands h' = orderedCommands h @ [p]"
    using add facts(2,4-7) h1(4) q1
    by (auto simp: addCommand_eq_Inr incrementIfVersionMarker_empty incrementNextCommandEventID_def
        newCommandStateMachineBase_def)
qed

text \<open>
  C31. The event of one nexus operation is filed under another. Let the operation \<open>seq\<close> be the next
  one to wait for its scheduled event, and let workflow code cancel it before its command is sent and
  then schedule another operation \<open>seq'\<close>. The commands sent end with that of \<open>seq'\<close>, and none is
  sent for \<open>seq\<close>; but whatever scheduled event \<open>e'\<close> comes next, the helper accepts it as the event of
  \<open>seq\<close>, and looks up \<open>seq\<close> for every later event that refers to \<open>e'\<close>.
\<close>

theorem nexus_event_misrouted:
  assumes "helper_reachable h" and "versionMarkerLookup h = fmempty"
    and "commands h (makeCommandID commandTypeNexusOperation (formatInt seq)) = Some p"
    and "machines h p = Some d" and "m_state d = commandStateCreated"
    and "m_kind d = NexusOperationMachine seq e a None u"
    and "nexusOperationsWithoutScheduledID h = p # rest"
    and "requestCancelNexusOperation h seq = Inr (p, h1)"
    and "scheduleNexusOperation h1 seq' a' u' g = Inr (p', h2)"
    and "getCommands h2 True = Inr (cs, h3)"
  shows "seq' \<noteq> seq \<and> cs \<noteq> [] \<and>
    cmd_Attributes (last cs) = ScheduleNexusOperationCommandAttributes a' \<and> commandOf h2 p = [] \<and>
    (\<exists>h4. handleNexusOperationScheduled h3 e' txt = Inr h4 \<and> lookupNexusSeq h4 e' = Inr seq)"
proof -
  note wf = wf_reachable [OF assms(1)]
  note canc = nexus_cancel_created [OF wf assms(2,4-6,3,8)]
  have r1: "helper_reachable h1" using assms(1) helper_step.cancelNexus [OF assms(8)] by (rule helper_reachable.step)
  have r2: "helper_reachable h2"
    using r1 helper_step.scheduleNexus [OF assms(9)] by (rule helper_reachable.step)
  note sch = scheduleNexusOperation_facts [OF wf_reachable [OF r1] canc(3) assms(9)]
  from canc(6) obtain q where q: "machines h1 p = Some (setCancelation d q)" by blast
  have id: "m_id d = makeCommandID commandTypeNexusOperation (formatInt seq)"
    using wf_commandsD [OF wf assms(3)] assms(4) by simp
  have listed: "p \<in> set (orderedCommands h)"
    using wf assms(3) by (auto simp: wf_helper_def listed_ok_def intro: ranI)
  have "commands h1 (makeCommandID commandTypeNexusOperation (formatInt seq)) = Some p"
    using wf_listedD [OF wf_reachable [OF r1], of p] listed q id assms(6)
    by (auto simp: canc(1) setCancelation_def)
  with sch(3) have ne: "seq' \<noteq> seq" by auto
  from getCommands_total [OF wf_reachable [OF r2], of True] assms(10) sch(4) [OF q] listed
  have cs: "cs = commandsOf h2" and m3: "machines h3 p = Some (sentMachine (setCancelation d q))"
    by (auto simp: sch(5) canc(1) afterSend_def)
  have "nexusOperationsWithoutScheduledID h3 = p # rest @ [p']"
    using assms(10) unfolding getCommands_def
    by (simp add: sent_keeps_activity_ids sch(2) canc(4) assms(7))
  with m3 assms(5,6) have "\<exists>h4. handleNexusOperationScheduled h3 e' txt = Inr h4 \<and>
      lookupNexusSeq h4 e' = Inr seq"
    by (simp add: handleNexusOperationScheduled_def nexusSeq_def setCancelation_def sentMachine_def
        sentState_def handleInitiatedEvent_def base_handleInitiatedEvent_def is_naive_def
        setScheduledEventID_def moveState_Some lookupNexusSeq_def)
  moreover have "commandOf h2 p = []"
    using sch(4) [OF q] assms(5,6) by (simp add: commandOf_def getCommand_defs setCancelation_def)
  ultimately show ?thesis using ne sch(1) cs by auto
qed

lemma nexusHelper_cancel_schedule:
  "\<exists>h1 p' h2. requestCancelNexusOperation nexusHelper 1 = Inr (0, h1) \<and>
     scheduleNexusOperation h1 2 exampleNexus None [] = Inr (p', h2)"
proof -
  have "case requestCancelNexusOperation nexusHelper 1 of
      Inr (q, h1) \<Rightarrow> q = 0 \<and> \<not> isl (scheduleNexusOperation h1 2 exampleNexus None [])
    | Inl _ \<Rightarrow> False" by code_simp
  then obtain h1 where h1: "requestCancelNexusOperation nexusHelper 1 = Inr (0, h1)"
    and h2: "\<not> isl (scheduleNexusOperation h1 2 exampleNexus None [])"
    by (auto split: sum.splits)
  from h2 obtain r where "scheduleNexusOperation h1 2 exampleNexus None [] = Inr r"
    by (cases "scheduleNexusOperation h1 2 exampleNexus None []") simp_all
  with h1 show ?thesis by (cases r) blast
qed

theorem nexus_event_misrouted_witness:
  "\<exists>h1 p' h2 cs h3 h4. requestCancelNexusOperation nexusHelper 1 = Inr (0, h1) \<and>
     scheduleNexusOperation h1 2 exampleNexus None [] = Inr (p', h2) \<and>
     getCommands h2 True = Inr (cs, h3) \<and> commandOf h2 0 = [] \<and>
     handleNexusOperationScheduled h3 5 [] = Inr h4 \<and> lookupNexusSeq h4 5 = Inr 1"
proof -
  from nexusHelper_cancel_schedule obtain h1 p' h2 where
    h1: "requestCancelNexusOperation nexusHelper 1 = Inr (0, h1)"
    and h2: "scheduleNexusOperation h1 2 exampleNexus None [] = Inr (p', h2)" by blast
  have "helper_reachable h2"
    using nexusHelper_reachable helper_step.cancelNexus [OF h1] helper_step.scheduleNexus [OF h2]
    by (blast intro: helper_reachable.step)
  then obtain h3 where h3: "getCommands h2 True = Inr (commandsOf h2, h3)"
    using getCommands_total [OF wf_reachable] by blast
  from nexus_event_misrouted [OF nexusHelper_reachable _ _ _ _ _ _ h1 h2 h3, of _ 0 exampleNexus None
      "[]" 5 "[]"] h1 h2 h3
  show ?thesis by (auto simp: nexusHelper_facts)
qed

text \<open>
  C32. The next event id passes over version markers that are already in history, and over nothing
  else: the markers passed lie one behind the other from the current counter on, a marker takes one
  id, and two when the search attribute event follows it; the new id is right behind them and is not
  a marker that is still to be passed. Exactly the markers passed are forgotten, and the counter
  moves to the new id. Before the first started event the counter is zero, and asking panics.
\<close>

theorem getNextID_passes_version_markers:
  "\<exists>js n m. markersFrom (versionMarkerLookup h) (nextCommandEventID h) js \<and>
     n = nextCommandEventID h + of_nat (sum_list (map (markerWidth (versionMarkerLookup h)) js)) \<and>
     m = fmfilter (\<lambda>j. j \<notin> set js) (versionMarkerLookup h) \<and> fmlookup m n = None \<and>
     getNextID h =
       (if n = 0 then Inl (PanicString
          ''Attempt to generate a command before processing WorkflowTaskStarted event'')
        else Inr (n, h\<lparr>nextCommandEventID := n, versionMarkerLookup := m\<rparr>))"
proof -
  from skipVersionMarkers_run obtain js where
    js: "markersFrom (versionMarkerLookup h) (nextCommandEventID h) js"
    and skip: "skipVersionMarkers (nextCommandEventID h) (versionMarkerLookup h) =
      (nextCommandEventID h + of_nat (sum_list (map (markerWidth (versionMarkerLookup h)) js)),
       fmfilter (\<lambda>j. j \<notin> set js) (versionMarkerLookup h))" by blast
  with skipVersionMarkers_stops [of "nextCommandEventID h" "versionMarkerLookup h"] show ?thesis
    by (intro exI conjI)
      (auto simp: getNextID_def incrementNextCommandEventIDIfVersionMarker_def Let_def)
qed

section \<open>Closing timers and activities\<close>

text \<open>
  A timer or an activity closes: a command that is open, or whose cancellation was not sent yet,
  completes and is dropped; one whose cancellation was sent waits for the cancellation's own event.
\<close>

lemma completion_of_open:
  assumes "machines h p = Some d"
    and "m_kind d = TimerMachine a u \<or> m_kind d = ActivityMachine e b u"
  shows "handleCompletionEvent h p =
    (if m_state d \<in> {commandStateInitiated, commandStateCanceledAfterInitiated}
     then Inr (dropCommand (putMachine h p (moved d commandStateCompleted eventCompletion)) (m_id d))
     else if m_state d = commandStateCancellationCommandSent
     then Inr (putMachine h p
       (moved d commandStateCompletedAfterCancellationCommandSent eventCompletion))
     else failStateTransition d eventCompletion)"
  using assms
  by (cases "m_state d")
    (auto simp: handleCompletionEvent_def base_handleCompletionEvent_def is_naive_def moveState_Some)

lemma removeCancel_drop:
  "id_commandType i \<in> {commandTypeCancelTimer, commandTypeRequestCancelActivityTask} \<Longrightarrow>
     removeCancelOfResolvedCommand h i = Inr (dropCommand h i)"
  by (auto simp: removeCancelOfResolvedCommand_def dropCommand_def removeCancel_eq_dropCommand
      split: option.splits)

lemma kind_of_timer:
  assumes "wf_helper h" and "commands h (makeCommandID commandTypeTimer t) = Some p"
  obtains d a u where "machines h p = Some d" "m_id d = makeCommandID commandTypeTimer t"
    "m_kind d = TimerMachine a u"
proof -
  from wf_commandsD [OF assms] obtain d where d: "machines h p = Some d"
    "m_id d = makeCommandID commandTypeTimer t" by blast
  with assms(1) have "kind_id (m_kind d) (makeCommandID commandTypeTimer t)"
    by (auto simp: wf_helper_def dest: kind_id_of_store)
  with d that show thesis by (cases "m_kind d") (auto simp: kind_id_def)
qed

lemma kind_of_activity:
  assumes "wf_helper h" and "commands h (makeCommandID commandTypeActivity t) = Some p"
  obtains d e a u where "machines h p = Some d" "m_id d = makeCommandID commandTypeActivity t"
    "m_kind d = ActivityMachine e a u"
proof -
  from wf_commandsD [OF assms] obtain d where d: "machines h p = Some d"
    "m_id d = makeCommandID commandTypeActivity t" by blast
  with assms(1) have "kind_id (m_kind d) (makeCommandID commandTypeActivity t)"
    by (auto simp: wf_helper_def dest: kind_id_of_store)
  with d that show thesis by (cases "m_kind d") (auto simp: kind_id_def)
qed

text \<open>
  C33. When a timer fires that was open, or canceled with the cancel command still unsent, its command
  and the pending cancel command are forgotten. If the cancel command was sent already, the cancel
  command is forgotten and the timer stays filed, completed after its cancellation was sent. In every
  other state the event is an illegal transition. No other command is touched.
\<close>

theorem timer_closed_leaves_no_command:
  assumes "helper_reachable h" and "commands h (makeCommandID commandTypeTimer t) = Some p"
    and "machines h p = Some d"
  shows "m_state d \<in> {commandStateInitiated, commandStateCanceledAfterInitiated} \<and>
      (\<exists>h'. handleTimerClosed h t = Inr (p, h') \<and>
        map_option m_state (machines h' p) = Some commandStateCompleted \<and>
        (\<forall>q. q \<noteq> p \<longrightarrow> machines h' q = machines h q) \<and>
        commands h' = (commands h)(makeCommandID commandTypeTimer t := None,
                                   makeCommandID commandTypeCancelTimer t := None)) \<or>
    m_state d = commandStateCancellationCommandSent \<and>
      (\<exists>h'. handleTimerClosed h t = Inr (p, h') \<and> map_option m_state (machines h' p) =
          Some commandStateCompletedAfterCancellationCommandSent \<and>
        (\<forall>q. q \<noteq> p \<longrightarrow> machines h' q = machines h q) \<and>
        commands h' = (commands h)(makeCommandID commandTypeCancelTimer t := None)) \<or>
    m_state d \<notin> {commandStateInitiated, commandStateCanceledAfterInitiated,
        commandStateCancellationCommandSent} \<and>
      (\<exists>message. handleTimerClosed h t = Inl (IllegalState message))"
proof -
  obtain a u where d: "m_id d = makeCommandID commandTypeTimer t" "m_kind d = TimerMachine a u"
    by (rule kind_of_timer [OF wf_reachable [OF assms(1)] assms(2)]) (simp add: assms(3))
  let ?h1 = "dropCommand h (makeCommandID commandTypeCancelTimer t)"
  have m: "machines ?h1 p = Some d" using assms(3) by simp
  show ?thesis
    using completion_of_open [OF m, of a u] d assms(2)
    by (auto simp: handleTimerClosed_def removeCancel_drop getCommand_def fail_defs fun_upd_twist)
qed

theorem timer_closed_leaves_no_command_witness:
  "\<exists>h'. handleTimerClosed openTimerHelper ''7'' = Inr (0, h') \<and> commands h' = Map.empty"
proof -
  from openTimerHelper_eq(2) obtain d where d: "machines openTimerHelper 0 = Some d"
    "m_state d = commandStateInitiated" by auto
  from timer_closed_leaves_no_command [OF openTimerHelper_reachable, of "''7''" 0 d] d show ?thesis
    by (auto simp: openTimerHelper_eq)
qed

text \<open>
  C34. When an activity closes that was open, or canceled with the cancel request still unsent, its
  command, the pending cancel request and the entry from its scheduled event id are forgotten. If the
  cancel request was sent already, the request and the entry are forgotten and the activity stays
  filed, completed after its cancellation was sent. In every other state the event is an illegal
  transition. No other command is touched.
\<close>

theorem activity_closed_leaves_no_command:
  assumes "helper_reachable h" and "commands h (makeCommandID commandTypeActivity t) = Some p"
    and "machines h p = Some d"
  shows "m_state d \<in> {commandStateInitiated, commandStateCanceledAfterInitiated} \<and>
      (\<exists>h'. handleActivityTaskClosed h t e = Inr (p, h') \<and>
        map_option m_state (machines h' p) = Some commandStateCompleted \<and>
        (\<forall>q. q \<noteq> p \<longrightarrow> machines h' q = machines h q) \<and>
        scheduledEventIDToActivityID h' = (scheduledEventIDToActivityID h)(e := None) \<and>
        commands h' = (commands h)(makeCommandID commandTypeActivity t := None,
                       makeCommandID commandTypeRequestCancelActivityTask (formatInt e) := None)) \<or>
    m_state d = commandStateCancellationCommandSent \<and>
      (\<exists>h'. handleActivityTaskClosed h t e = Inr (p, h') \<and> map_option m_state (machines h' p) =
          Some commandStateCompletedAfterCancellationCommandSent \<and>
        (\<forall>q. q \<noteq> p \<longrightarrow> machines h' q = machines h q) \<and>
        scheduledEventIDToActivityID h' = (scheduledEventIDToActivityID h)(e := None) \<and>
        commands h' = (commands h)(makeCommandID commandTypeRequestCancelActivityTask
                                     (formatInt e) := None)) \<or>
    m_state d \<notin> {commandStateInitiated, commandStateCanceledAfterInitiated,
        commandStateCancellationCommandSent} \<and>
      (\<exists>message. handleActivityTaskClosed h t e = Inl (IllegalState message))"
proof -
  obtain e' a u where
    d: "m_id d = makeCommandID commandTypeActivity t" "m_kind d = ActivityMachine e' a u"
    by (rule kind_of_activity [OF wf_reachable [OF assms(1)] assms(2)]) (simp add: assms(3))
  let ?h1 = "dropCommand h (makeCommandID commandTypeRequestCancelActivityTask (formatInt e))"
  have m: "machines ?h1 p = Some d" using assms(3) by simp
  show ?thesis
    using completion_of_open [OF m, of _ u e' a] d assms(2)
    by (auto simp: handleActivityTaskClosed_def removeCancel_drop getCommand_def forgetActivity_def
        fail_defs fun_upd_twist)
qed

theorem activity_closed_leaves_no_command_witness:
  "\<exists>h'. handleActivityTaskClosed openActivityHelper ''8'' 5 = Inr (0, h') \<and> commands h' = Map.empty"
proof -
  from openActivityHelper_eq(2) obtain d where d: "machines openActivityHelper 0 = Some d"
    "m_state d = commandStateInitiated" by auto
  from activity_closed_leaves_no_command [OF openActivityHelper_reachable, of "''8''" 0 d 5] d
  show ?thesis by (auto simp: openActivityHelper_eq)
qed

text \<open>
  C35. Command ids are not reused while a command is open: scheduling an activity files it under its
  id when the id is free, and panics as an illegal state otherwise.
\<close>

theorem duplicate_activity_panics:
  "case scheduleActivityTask h n a u g of
     Inr (p, h') \<Rightarrow> commands h (makeCommandID commandTypeActivity (act_ActivityId a)) = None \<and>
       commands h' = (commands h)(makeCommandID commandTypeActivity (act_ActivityId a) \<mapsto> p)
   | Inl e \<Rightarrow> commands h (makeCommandID commandTypeActivity (act_ActivityId a)) \<noteq> None \<and>
       (\<exists>message. e = IllegalState message)"
  by (auto simp: scheduleActivityTask_def addNew_def allocMachine_def addCommand_def new_machine_defs
      fail_defs)

text \<open>
  C36. Starting a child workflow never panics. While a child with the same id is open it is reported
  as an error value and nothing changes; otherwise the child is filed under its id and its command is
  the last one of the task.
\<close>

theorem duplicate_child_is_an_error:
  "if commands h (makeCommandID commandTypeChildWorkflow (child_WorkflowId a)) \<noteq> None
   then startChildWorkflowExecution h a u g = Inr (Inl (child_WorkflowId a), h)
   else \<exists>p h'. startChildWorkflowExecution h a u g = Inr (Inr p, h') \<and>
     commands h' = (commands h)(makeCommandID commandTypeChildWorkflow (child_WorkflowId a) \<mapsto> p) \<and>
     orderedCommands h' = orderedCommands h @ [p] \<and>
     map_option m_kind (machines h' p) = Some (ChildWorkflowMachine a u)"
  by (auto simp: startChildWorkflowExecution_def addNew_def allocMachine_def addCommand_def
      new_machine_defs Let_def)

end
