(* ===== verification/Sdk_Flags.thy ===== *)
theory Sdk_Flags
  imports Go_Prelude
begin

text \<open>
  SDK flags (\<open>internal/internal_flags.go\<close>): which behaviours of the SDK a workflow execution uses,
  recorded with the workflow tasks that first used them so that a replay takes the same paths.
  The environment (\<open>os.Getenv\<close>) and the server capabilities are parameters.
\<close>

section \<open>Flags\<close>

type_synonym sdkFlag = "32 word"

definition SDKFlagUnset :: sdkFlag where "SDKFlagUnset = 0"
definition SDKFlagLimitChangeVersionSASize :: sdkFlag where "SDKFlagLimitChangeVersionSASize = 1"
definition SDKFlagChildWorkflowErrorExecution :: sdkFlag where
  "SDKFlagChildWorkflowErrorExecution = 2"
definition SDKFlagProtocolMessageCommand :: sdkFlag where "SDKFlagProtocolMessageCommand = 3"
definition SDKPriorityUpdateHandling :: sdkFlag where "SDKPriorityUpdateHandling = 4"
definition SDKFlagBlockedSelectorSignalReceive :: sdkFlag where
  "SDKFlagBlockedSelectorSignalReceive = 5"
definition SDKFlagCancelAwaitTimerOnCondition :: sdkFlag where
  "SDKFlagCancelAwaitTimerOnCondition = 6"
definition SDKFlagMemoUserDCEncode :: sdkFlag where "SDKFlagMemoUserDCEncode = 7"
definition SDKFlagWorkflowNewChannelLostMessages :: sdkFlag where
  "SDKFlagWorkflowNewChannelLostMessages = 8"
definition SDKFlagOrderedChildCancel :: sdkFlag where "SDKFlagOrderedChildCancel = 9"
definition SDKFlagUnknown :: sdkFlag where "SDKFlagUnknown = - 1"

type_synonym flagMap = "(sdkFlag, bool) fmap"

definition sdkFlagsDefault :: flagMap where
  "sdkFlagsDefault = fmap_of_list
     [(SDKFlagLimitChangeVersionSASize, True), (SDKFlagChildWorkflowErrorExecution, True),
      (SDKFlagProtocolMessageCommand, True), (SDKPriorityUpdateHandling, True),
      (SDKFlagBlockedSelectorSignalReceive, True), (SDKFlagCancelAwaitTimerOnCondition, False),
      (SDKFlagMemoUserDCEncode, True), (SDKFlagWorkflowNewChannelLostMessages, True),
      (SDKFlagOrderedChildCancel, True)]"

text \<open>
  The loop over the map writes each key at most once, from the environment alone, so the order in
  which Go visits the keys does not matter.
\<close>

definition flagOverride :: "(string \<Rightarrow> string) \<Rightarrow> sdkFlag \<Rightarrow> bool \<Rightarrow> bool" where
  "flagOverride getenv flag b =
     (let val = getenv (''TEMPORAL_SDK_FLAG_'' @ nat_str (unat flag)) in
      if val = ''1'' then True else if val = ''0'' then False else b)"

definition loadFlagOverridesFromEnv :: "(string \<Rightarrow> string) \<Rightarrow> flagMap \<Rightarrow> flagMap" where
  "loadFlagOverridesFromEnv getenv defaults = fmmap_keys (flagOverride getenv) defaults"

definition sdkFlagsAllowed :: "(string \<Rightarrow> string) \<Rightarrow> flagMap" where
  "sdkFlagsAllowed getenv = loadFlagOverridesFromEnv getenv sdkFlagsDefault"

definition sdkFlagFromUint :: "flagMap \<Rightarrow> 32 word \<Rightarrow> sdkFlag" where
  "sdkFlagFromUint allowed value =
     (if fmlookup allowed value \<noteq> None then value else SDKFlagUnknown)"

definition isValid :: "flagMap \<Rightarrow> sdkFlag \<Rightarrow> bool" where
  "isValid allowed f \<longleftrightarrow> fmlookup allowed f \<noteq> None"

text \<open>Reading a Go \<open>map[sdkFlag]bool\<close>: a missing key reads as false.\<close>

definition flagOn :: "flagMap \<Rightarrow> sdkFlag \<Rightarrow> bool" where
  "flagOn m f \<longleftrightarrow> fmlookup m f = Some True"

section \<open>The flags of an execution\<close>

record sdkFlags =
  capabilitiesSdkMetadata :: bool
  currentFlags :: flagMap
  newFlags :: flagMap

definition newSDKFlagSet :: "bool \<Rightarrow> sdkFlags" where
  "newSDKFlagSet capabilities =
     \<lparr>capabilitiesSdkMetadata = capabilities, currentFlags = fmempty, newFlags = fmempty\<rparr>"

definition tryUse :: "flagMap \<Rightarrow> sdkFlags \<Rightarrow> sdkFlag \<Rightarrow> bool \<Rightarrow> bool \<times> sdkFlags" where
  "tryUse allowed sf flag record =
     (if flagOn (currentFlags sf) flag \<or> flagOn (newFlags sf) flag then (True, sf)
      else if \<not> capabilitiesSdkMetadata sf then (False, sf)
      else if \<not> record then (False, sf)
      else if \<not> flagOn allowed flag then (False, sf)
      else (True, sf\<lparr>newFlags := fmupd flag True (newFlags sf)\<rparr>))"

fun setFlags :: "sdkFlags \<Rightarrow> sdkFlag list \<Rightarrow> sdkFlags" where
  "setFlags sf [] = sf"
| "setFlags sf (flag # flags) =
     setFlags (sf\<lparr>currentFlags := fmupd flag True (currentFlags sf)\<rparr>) flags"

text \<open>Every key of \<open>newFlags\<close> is set in \<open>currentFlags\<close>, whatever order Go visits them in.\<close>

definition markSDKFlagsSent :: "sdkFlags \<Rightarrow> sdkFlags" where
  "markSDKFlagsSent sf =
     sf\<lparr>currentFlags := currentFlags sf ++\<^sub>f fmmap (\<lambda>_. True) (newFlags sf), newFlags := fmempty\<rparr>"

text \<open>The slice of new flags comes in no particular order: it is modelled by its elements.\<close>

definition gatherNewSDKFlags :: "sdkFlags \<Rightarrow> sdkFlag fset" where
  "gatherNewSDKFlags sf = fmdom (newFlags sf)"

section \<open>Lemmas\<close>

lemma flagOn_fmupd [simp]: "flagOn (fmupd k v m) f \<longleftrightarrow> (if f = k then v else flagOn m f)"
  by (auto simp: flagOn_def)

lemma flagOn_empty [simp]: "\<not> flagOn fmempty f"
  by (simp add: flagOn_def)

lemma setFlags_sel [simp]:
  "newFlags (setFlags sf fs) = newFlags sf"
  "capabilitiesSdkMetadata (setFlags sf fs) = capabilitiesSdkMetadata sf"
  by (induction fs arbitrary: sf) simp_all

lemma flagOn_setFlags [simp]:
  "flagOn (currentFlags (setFlags sf fs)) f \<longleftrightarrow> f \<in> set fs \<or> flagOn (currentFlags sf) f"
  by (induction fs arbitrary: sf) auto

text \<open>What a sequence of questions within one workflow task answers.\<close>

fun tryUses :: "flagMap \<Rightarrow> bool \<Rightarrow> sdkFlags \<Rightarrow> sdkFlag list \<Rightarrow> bool list \<times> sdkFlags" where
  "tryUses allowed record sf [] = ([], sf)"
| "tryUses allowed record sf (f # fs) =
     (let (b, sf1) = tryUse allowed sf f record; (bs, sf2) = tryUses allowed record sf1 fs
      in (b # bs, sf2))"

definition usable :: "sdkFlags \<Rightarrow> sdkFlag \<Rightarrow> bool" where
  "usable sf f \<longleftrightarrow> flagOn (currentFlags sf) f \<or> flagOn (newFlags sf) f"

lemma tryUse_usable:
  "tryUse allowed sf f record = (b, sf') \<Longrightarrow>
     b = usable sf' f \<and> currentFlags sf' = currentFlags sf \<and>
     (\<forall>g. usable sf' g \<longleftrightarrow> usable sf g \<or> (g = f \<and> b)) \<and>
     capabilitiesSdkMetadata sf' = capabilitiesSdkMetadata sf"
  by (auto simp: tryUse_def usable_def split: if_splits)

text \<open>A flag that was refused stays refused for the rest of the task.\<close>

lemma tryUse_refused:
  "tryUse allowed sf f True = (False, sf') \<Longrightarrow>
     \<not> capabilitiesSdkMetadata sf \<or> \<not> flagOn allowed f"
  by (auto simp: tryUse_def split: if_splits)

lemma tryUses_usable_mono:
  "tryUses allowed record sf fs = (bs, sf') \<Longrightarrow> usable sf g \<Longrightarrow> usable sf' g"
  by (induction fs arbitrary: sf bs) (auto simp: Let_def dest!: tryUse_usable split: prod.splits)

lemma tryUses_refused_stays:
  "tryUses allowed record sf fs = (bs, sf') \<Longrightarrow> \<not> usable sf g \<Longrightarrow>
     \<not> capabilitiesSdkMetadata sf \<or> \<not> flagOn allowed g \<Longrightarrow> \<not> usable sf' g"
proof (induction fs arbitrary: sf bs)
  case Nil
  then show ?case by simp
next
  case (Cons f fs)
  then obtain b sf1 bs1 where t: "tryUse allowed sf f record = (b, sf1)"
    and ts: "tryUses allowed record sf1 fs = (bs1, sf')" by (auto split: prod.splits)
  have "\<not> usable sf1 g"
    using t Cons.prems(2,3) by (auto simp: tryUse_def usable_def split: if_splits)
  moreover have "capabilitiesSdkMetadata sf1 = capabilitiesSdkMetadata sf"
    using tryUse_usable [OF t] by blast
  ultimately show ?case using Cons.IH [OF ts] Cons.prems(3) by simp
qed

text \<open>The answer to each question of the task is whether the flag is usable when the task ends.\<close>

lemma tryUses_answers:
  "tryUses allowed True sf fs = (bs, sf') \<Longrightarrow> bs = map (usable sf') fs"
proof (induction fs arbitrary: sf bs)
  case Nil
  then show ?case by simp
next
  case (Cons f fs)
  then obtain b sf1 bs1 where t: "tryUse allowed sf f True = (b, sf1)"
    and ts: "tryUses allowed True sf1 fs = (bs1, sf')" and bs: "bs = b # bs1"
    by (auto split: prod.splits)
  have cap: "capabilitiesSdkMetadata sf1 = capabilitiesSdkMetadata sf" and b: "b = usable sf1 f"
    using tryUse_usable [OF t] by blast+
  have "b = usable sf' f"
  proof (cases b)
    case True
    with b tryUses_usable_mono [OF ts] show ?thesis by simp
  next
    case False
    with t have "\<not> capabilitiesSdkMetadata sf1 \<or> \<not> flagOn allowed f"
      using tryUse_refused [of allowed sf f sf1] cap by simp
    with False b have "\<not> usable sf' f" by (intro tryUses_refused_stays [OF ts]) simp_all
    with False show ?thesis by simp
  qed
  with Cons.IH [OF ts] bs show ?case by simp
qed

lemma tryUses_replay:
  "(\<And>f. \<not> flagOn (newFlags sf) f) \<Longrightarrow>
     tryUses allowed False sf fs = (map (flagOn (currentFlags sf)) fs, sf)"
proof (induction fs)
  case Nil
  then show ?case by simp
next
  case (Cons f fs)
  have "tryUse allowed sf f False = (flagOn (currentFlags sf) f, sf)"
    using Cons.prems [of f] by (simp add: tryUse_def)
  with Cons.IH [OF Cons.prems] show ?case by simp
qed

lemma tryUses_currentFlags:
  "tryUses allowed record sf fs = (bs, sf') \<Longrightarrow> currentFlags sf' = currentFlags sf"
proof (induction fs arbitrary: sf bs)
  case Nil
  then show ?case by simp
next
  case (Cons f fs)
  then obtain b sf1 bs1 where t: "tryUse allowed sf f record = (b, sf1)"
    and ts: "tryUses allowed record sf1 fs = (bs1, sf')" by (auto split: prod.splits)
  have "currentFlags sf1 = currentFlags sf" using tryUse_usable [OF t] by blast
  with Cons.IH [OF ts] show ?case by simp
qed

definition newFlags_ok :: "sdkFlags \<Rightarrow> bool" where
  "newFlags_ok sf \<longleftrightarrow> (\<forall>f. fmlookup (newFlags sf) f \<noteq> Some False)"

lemma newFlags_ok_tryUses:
  "tryUses allowed record sf fs = (bs, sf') \<Longrightarrow> newFlags_ok sf \<Longrightarrow> newFlags_ok sf'"
proof (induction fs arbitrary: sf bs)
  case Nil
  then show ?case by simp
next
  case (Cons f fs)
  then obtain b sf1 bs1 where t: "tryUse allowed sf f record = (b, sf1)"
    and ts: "tryUses allowed record sf1 fs = (bs1, sf')" by (auto split: prod.splits)
  have "newFlags_ok sf1"
    using t Cons.prems(2) by (auto simp: tryUse_def newFlags_ok_def split: if_splits)
  with Cons.IH [OF ts] show ?case .
qed

lemma newFlags_okD: "newFlags_ok sf \<Longrightarrow> fmlookup (newFlags sf) f = Some v \<Longrightarrow> v = True"
  by (cases v) (auto simp: newFlags_ok_def)

lemma flagOn_gathered:
  "newFlags_ok sf \<Longrightarrow> flagOn (newFlags sf) f \<longleftrightarrow> f \<in> fset (gatherNewSDKFlags sf)"
  by (auto simp: gatherNewSDKFlags_def flagOn_def fmlookup_dom_iff dest: newFlags_okD)

lemma flagOn_mark_sent:
  "newFlags_ok sf \<Longrightarrow> flagOn (currentFlags (markSDKFlagsSent sf)) f \<longleftrightarrow>
     flagOn (currentFlags sf) f \<or> flagOn (newFlags sf) f"
proof -
  assume ok: "newFlags_ok sf"
  show ?thesis
  proof (cases "fmlookup (newFlags sf) f")
    case None
    then show ?thesis by (simp add: markSDKFlagsSent_def flagOn_def fmlookup_dom_iff)
  next
    case (Some v)
    with ok have "v = True" by (rule newFlags_okD)
    moreover from Some have "f |\<in>| fmdom (newFlags sf)" by (rule fmdomI)
    ultimately show ?thesis using Some by (simp add: markSDKFlagsSent_def flagOn_def)
  qed
qed

section \<open>Properties\<close>

text \<open>
  C14. SDK flags replay: the flags gathered at the end of a task, set again before the task is
  replayed, give every question of the task the answer it had the first time. The replaying worker
  may allow other flags and see other server capabilities, and it records nothing.
\<close>

theorem flags_replay_the_same_answers:
  assumes "tryUses allowed True sf fs = (bs, sf')" and "newFlags_ok sf"
    and "set sent = fset (gatherNewSDKFlags sf')"
    and "currentFlags fresh = currentFlags sf" and "newFlags fresh = fmempty"
  shows "tryUses allowed' False (setFlags fresh sent) fs = (bs, setFlags fresh sent)"
proof -
  have ok: "newFlags_ok sf'" using assms(1,2) by (rule newFlags_ok_tryUses)
  have "flagOn (newFlags sf') f \<longleftrightarrow> f \<in> set sent" for f
    using ok assms(3) flagOn_gathered [of sf' f] by simp
  then have "usable sf' = flagOn (currentFlags (setFlags fresh sent))"
    using tryUses_currentFlags [OF assms(1)] assms(4) by (auto simp: usable_def fun_eq_iff)
  with tryUses_answers [OF assms(1)] tryUses_replay [of "setFlags fresh sent"] assms(5)
  show ?thesis by simp
qed

theorem flags_replay_the_same_answers_witness:
  "tryUses fmempty False (setFlags (newSDKFlagSet False) [1]) [1, 6, 1] =
     ([True, False, True], setFlags (newSDKFlagSet False) [1])"
proof -
  have run: "tryUses sdkFlagsDefault True (newSDKFlagSet True) [1, 6, 1] =
      ([True, False, True], (newSDKFlagSet True)\<lparr>newFlags := fmupd 1 True fmempty\<rparr>)"
    by (simp add: tryUse_def newSDKFlagSet_def flagOn_def sdkFlagsDefault_def
        SDKFlagLimitChangeVersionSASize_def SDKFlagChildWorkflowErrorExecution_def
        SDKFlagProtocolMessageCommand_def SDKPriorityUpdateHandling_def
        SDKFlagBlockedSelectorSignalReceive_def SDKFlagCancelAwaitTimerOnCondition_def
        SDKFlagMemoUserDCEncode_def SDKFlagWorkflowNewChannelLostMessages_def
        SDKFlagOrderedChildCancel_def)
  show ?thesis
    by (rule flags_replay_the_same_answers [OF run])
      (simp_all add: newFlags_ok_def newSDKFlagSet_def gatherNewSDKFlags_def)
qed

text \<open>
  C39. Marking the flags as sent keeps every flag usable that was usable, and leaves none to send
  again.
\<close>

theorem mark_sent_keeps_flags:
  assumes "newFlags_ok sf"
  shows "gatherNewSDKFlags (markSDKFlagsSent sf) = {||} \<and>
    (\<forall>f. tryUse allowed (markSDKFlagsSent sf) f False =
       (fst (tryUse allowed sf f False), markSDKFlagsSent sf))"
proof -
  have "newFlags (markSDKFlagsSent sf) = fmempty" by (simp add: markSDKFlagsSent_def)
  then have "tryUse allowed (markSDKFlagsSent sf) f False =
      (fst (tryUse allowed sf f False), markSDKFlagsSent sf)" for f
    using flagOn_mark_sent [OF assms, of f] by (simp add: tryUse_def)
  with \<open>newFlags (markSDKFlagsSent sf) = fmempty\<close> show ?thesis by (simp add: gatherNewSDKFlags_def)
qed

theorem mark_sent_keeps_flags_witness:
  "fst (tryUse fmempty (markSDKFlagsSent ((newSDKFlagSet True)\<lparr>newFlags := fmupd 3 True fmempty\<rparr>))
     3 False)"
proof -
  have "newFlags_ok ((newSDKFlagSet True)\<lparr>newFlags := fmupd 3 True fmempty\<rparr>)"
    by (simp add: newFlags_ok_def)
  from mark_sent_keeps_flags [OF this, of fmempty] show ?thesis by (simp add: tryUse_def)
qed

end
