(* ===== verification/Lru_Cache.thy ===== *)
theory Lru_Cache
  imports Go_Prelude "HOL-Library.Multiset"
begin

text \<open>
  The cache of \<open>internal/common/cache/lru.go\<close>, which holds the workflow executions a worker keeps
  between tasks. An entry is reached by its list element, an address of \<open>elems\<close>; \<open>byAccess\<close> has the
  most recently used element first. Time is an integer and a parameter of the operations that read
  the clock. \<open>go rmFunc(value)\<close> starts a goroutine: the values handed to it are collected in a
  multiset, as the goroutines run in no particular order. Each operation holds the cache's mutex
  from its first to its last step, so operations are atomic.
\<close>

section \<open>State\<close>

type_synonym elem = nat

record 'v cacheEntry =
  ce_key :: string
  ce_expiration :: "int option"       \<comment> \<open>\<open>None\<close>: the zero time\<close>
  ce_value :: "'v option"             \<comment> \<open>\<open>None\<close>: nil\<close>
  ce_refCount :: int

record cacheOptions =
  opt_TTL :: int
  opt_Pin :: bool
  opt_RemovedFunc :: bool             \<comment> \<open>whether there is one\<close>

record 'v lru =
  byAccess :: "elem list"
  byKey :: "(string, elem) fmap"
  maxSize :: int
  ttl :: int
  pin :: bool
  rmFunc :: bool
  elems :: "elem \<Rightarrow> 'v cacheEntry"
  nextElem :: elem
  removed :: "'v option multiset"

definition noEntry :: "'v cacheEntry" where
  "noEntry = \<lparr>ce_key = [], ce_expiration = None, ce_value = None, ce_refCount = 0\<rparr>"

definition New :: "int \<Rightarrow> cacheOptions option \<Rightarrow> 'v lru" where
  "New sz opts =
     (let o' = (case opts of None \<Rightarrow> \<lparr>opt_TTL = 0, opt_Pin = False, opt_RemovedFunc = False\<rparr>
                | Some x \<Rightarrow> x)
      in \<lparr>byAccess = [], byKey = fmempty, maxSize = sz, ttl = opt_TTL o', pin = opt_Pin o',
          rmFunc = opt_RemovedFunc o', elems = (\<lambda>_. noEntry), nextElem = 0, removed = {#}\<rparr>)"

definition NewLRU :: "int \<Rightarrow> 'v lru" where
  "NewLRU sz = New sz None"

text \<open>The initial capacity is a hint to the allocator.\<close>

definition NewLRUWithInitialCapacity :: "int \<Rightarrow> int \<Rightarrow> 'v lru" where
  "NewLRUWithInitialCapacity initialCapacity sz =
     New sz (Some \<lparr>opt_TTL = 0, opt_Pin = False, opt_RemovedFunc = False\<rparr>)"

section \<open>Operations\<close>

definition Exist :: "'v lru \<Rightarrow> string \<Rightarrow> bool" where
  "Exist c key \<longleftrightarrow> fmlookup (byKey c) key \<noteq> None"

definition putEntry :: "'v lru \<Rightarrow> elem \<Rightarrow> 'v cacheEntry \<Rightarrow> 'v lru" where
  "putEntry c e x = c\<lparr>elems := (elems c)(e := x)\<rparr>"

definition moveToFront :: "'v lru \<Rightarrow> elem \<Rightarrow> 'v lru" where
  "moveToFront c e = c\<lparr>byAccess := e # remove1 e (byAccess c)\<rparr>"

definition unlink :: "'v lru \<Rightarrow> elem \<Rightarrow> string \<Rightarrow> 'v lru" where
  "unlink c e key = c\<lparr>byAccess := remove1 e (byAccess c), byKey := fmdrop key (byKey c)\<rparr>"

definition callRemoved :: "bool \<Rightarrow> 'v lru \<Rightarrow> 'v option \<Rightarrow> 'v lru" where
  "callRemoved callback c v = (if callback then c\<lparr>removed := add_mset v (removed c)\<rparr> else c)"

definition expired :: "int \<Rightarrow> 'v cacheEntry \<Rightarrow> bool" where
  "expired now x \<longleftrightarrow> ce_refCount x = 0 \<and>
     (case ce_expiration x of None \<Rightarrow> False | Some t \<Rightarrow> now > t)"

definition Get :: "int \<Rightarrow> 'v lru \<Rightarrow> string \<Rightarrow> 'v option \<times> 'v lru" where
  "Get now c key =
     (case fmlookup (byKey c) key of
        None \<Rightarrow> (None, c)
      | Some e \<Rightarrow>
          let x = elems c e;
              x1 = (if pin c then x\<lparr>ce_refCount := ce_refCount x + 1\<rparr> else x);
              c1 = putEntry c e x1
          in if expired now x1
             then (None, unlink (callRemoved (rmFunc c1) c1 (ce_value x1)) e (ce_key x1))
             else (ce_value x1, moveToFront c1 e))"

datatype cacheError = ErrCacheFull

definition putInternal ::
    "int \<Rightarrow> 'v lru \<Rightarrow> string \<Rightarrow> 'v option \<Rightarrow> bool \<Rightarrow> (cacheError + 'v option) \<times> 'v lru" where
  "putInternal now c key val allowUpdate =
     (case fmlookup (byKey c) key of
        Some e \<Rightarrow>
          let x = elems c e;
              x1 = (if allowUpdate then x\<lparr>ce_value := val\<rparr> else x);
              x2 = (if ttl c \<noteq> 0 then x1\<lparr>ce_expiration := Some (now + ttl c)\<rparr> else x1);
              x3 = (if pin c then x2\<lparr>ce_refCount := ce_refCount x2 + 1\<rparr> else x2)
          in (Inr (ce_value x), putEntry (moveToFront c e) e x3)
      | None \<Rightarrow>
          let x = \<lparr>ce_key = key,
                   ce_expiration = (if ttl c \<noteq> 0 then Some (now + ttl c) else None),
                   ce_value = val, ce_refCount = (if pin c then 1 else 0)\<rparr>;
              e = nextElem c;
              c1 = (putEntry c e x)\<lparr>nextElem := Suc e, byAccess := e # byAccess c,
                                     byKey := fmupd key e (byKey c)\<rparr>
          in if int (fcard (fmdom (byKey c1))) > maxSize c1
             then
               (let back = last (byAccess c1); oldest = elems c1 back in
                if ce_refCount oldest > 0
                then (Inl ErrCacheFull,
                      c1\<lparr>byAccess := tl (byAccess c1), byKey := fmdrop key (byKey c1)\<rparr>)
                else (Inr None,
                      callRemoved (rmFunc c1) (unlink c1 back (ce_key oldest)) (ce_value oldest)))
             else (Inr None, c1))"

definition Put :: "int \<Rightarrow> 'v lru \<Rightarrow> string \<Rightarrow> 'v option \<Rightarrow> ('v option \<times> 'v lru) res" where
  "Put now c key val =
     (if pin c then Inl (PanicString
        ''Cannot use Put API in Pin mode. Use Delete and PutIfNotExist if necessary'')
      else (case putInternal now c key val True of
              (Inl _, c1) \<Rightarrow> Inr (None, c1) | (Inr old, c1) \<Rightarrow> Inr (old, c1)))"

definition PutIfNotExist ::
    "int \<Rightarrow> 'v lru \<Rightarrow> string \<Rightarrow> 'v option \<Rightarrow> (cacheError + 'v option) \<times> 'v lru" where
  "PutIfNotExist now c key val =
     (case putInternal now c key val False of
        (Inl err, c1) \<Rightarrow> (Inl err, c1)
      | (Inr None, c1) \<Rightarrow> (Inr val, c1)
      | (Inr existing, c1) \<Rightarrow> (Inr existing, c1))"

definition DeleteIf :: "'v lru \<Rightarrow> string \<Rightarrow> ('v option \<Rightarrow> bool) \<Rightarrow> bool \<times> 'v lru" where
  "DeleteIf c key predicate =
     (case fmlookup (byKey c) key of
        None \<Rightarrow> (False, c)
      | Some e \<Rightarrow>
          if \<not> predicate (ce_value (elems c e)) then (False, c)
          else (True, unlink (callRemoved (rmFunc c) c (ce_value (elems c e))) e key))"

definition Delete :: "'v lru \<Rightarrow> string \<Rightarrow> 'v lru" where
  "Delete c key = snd (DeleteIf c key (\<lambda>_. True))"

definition Release :: "'v lru \<Rightarrow> string \<Rightarrow> 'v lru res" where
  "Release c key =
     (case fmlookup (byKey c) key of
        None \<Rightarrow> Inl NilDereference
      | Some e \<Rightarrow> Inr (putEntry c e
          ((elems c e)\<lparr>ce_refCount := ce_refCount (elems c e) - 1\<rparr>)))"

definition Size :: "'v lru \<Rightarrow> int" where
  "Size c = int (fcard (fmdom (byKey c)))"

text \<open>The loop ranges over a Go map: the order of its keys is a parameter.\<close>

fun clearLoop :: "bool \<Rightarrow> string list \<Rightarrow> 'v lru \<Rightarrow> 'v lru" where
  "clearLoop callback [] c = c"
| "clearLoop callback (key # keys) c =
     clearLoop callback keys
       (case fmlookup (byKey c) key of
          None \<Rightarrow> c
        | Some e \<Rightarrow> unlink (callRemoved callback c (ce_value (elems c e))) e key)"

definition ClearWithCallback :: "string list \<Rightarrow> 'v lru \<Rightarrow> bool \<Rightarrow> 'v lru" where
  "ClearWithCallback order c callback = clearLoop callback order c"

definition Clear :: "string list \<Rightarrow> 'v lru \<Rightarrow> 'v lru" where
  "Clear order c = ClearWithCallback order c (rmFunc c)"

section \<open>The invariant\<close>

definition lru_ok :: "'v lru \<Rightarrow> bool" where
  "lru_ok c \<longleftrightarrow> distinct (byAccess c) \<and> (\<forall>e \<in> set (byAccess c). e < nextElem c) \<and>
     (\<forall>key e. fmlookup (byKey c) key = Some e \<longleftrightarrow> e \<in> set (byAccess c) \<and> ce_key (elems c e) = key)"

definition within_capacity :: "'v lru \<Rightarrow> bool" where
  "within_capacity c \<longleftrightarrow> Size c \<le> max 0 (maxSize c)"

lemma lru_ok_New: "lru_ok (New sz opts)"
  by (simp add: lru_ok_def New_def Let_def)

lemma lru_okD:
  assumes "lru_ok c"
  shows "distinct (byAccess c)"
    and "e \<in> set (byAccess c) \<Longrightarrow> e < nextElem c"
    and "fmlookup (byKey c) key = Some e \<longleftrightarrow> e \<in> set (byAccess c) \<and> ce_key (elems c e) = key"
  using assms by (auto simp: lru_ok_def)

lemma byKey_listed:
  "lru_ok c \<Longrightarrow> fmlookup (byKey c) key = Some e \<Longrightarrow> e \<in> set (byAccess c) \<and> ce_key (elems c e) = key"
  by (simp add: lru_ok_def)

lemma byKey_inj:
  "lru_ok c \<Longrightarrow> e \<in> set (byAccess c) \<Longrightarrow> e' \<in> set (byAccess c) \<Longrightarrow>
     ce_key (elems c e) = ce_key (elems c e') \<Longrightarrow> e = e'"
  unfolding lru_ok_def by (metis option.inject)

text \<open>The map and the list have the same size.\<close>

lemma Size_eq_length:
  assumes "lru_ok c"
  shows "Size c = int (length (byAccess c))"
proof -
  have "fset (fmdom (byKey c)) = (\<lambda>e. ce_key (elems c e)) ` set (byAccess c)"
    using lru_okD(3) [OF assms] by (auto simp: fmlookup_dom_iff)
  moreover have "inj_on (\<lambda>e. ce_key (elems c e)) (set (byAccess c))"
    using byKey_inj [OF assms] by (auto simp: inj_on_def)
  ultimately have "fcard (fmdom (byKey c)) = card (set (byAccess c))"
    by (simp add: fcard.rep_eq card_image)
  then show ?thesis
    using lru_okD(1) [OF assms] by (simp add: Size_def distinct_card)
qed

lemma lru_ok_putEntry:
  "lru_ok c \<Longrightarrow> ce_key x = ce_key (elems c e) \<Longrightarrow> lru_ok (putEntry c e x)"
  by (auto simp: lru_ok_def putEntry_def)

lemma lru_ok_moveToFront: "lru_ok c \<Longrightarrow> e \<in> set (byAccess c) \<Longrightarrow> lru_ok (moveToFront c e)"
  by (auto simp: lru_ok_def moveToFront_def)

lemma lru_ok_unlink:
  assumes ok: "lru_ok c" and e: "e \<in> set (byAccess c)" and key: "key = ce_key (elems c e)"
  shows "lru_ok (unlink c e key)"
proof -
  have "fmlookup (fmdrop key (byKey c)) k = Some x \<longleftrightarrow>
      x \<in> set (remove1 e (byAccess c)) \<and> ce_key (elems c x) = k" for k x
    using lru_okD(1,3) [OF ok] byKey_inj [OF ok _ e] e by (auto simp: key)
  with ok show ?thesis by (auto simp: lru_ok_def unlink_def dest: notin_set_remove1)
qed

lemma lru_ok_callRemoved [simp]: "lru_ok (callRemoved b c v) = lru_ok c"
  by (simp add: callRemoved_def lru_ok_def)

lemma callRemoved_sel [simp]:
  "byAccess (callRemoved b c v) = byAccess c" "byKey (callRemoved b c v) = byKey c"
  "elems (callRemoved b c v) = elems c" "maxSize (callRemoved b c v) = maxSize c"
  "pin (callRemoved b c v) = pin c" "ttl (callRemoved b c v) = ttl c"
  "rmFunc (callRemoved b c v) = rmFunc c" "nextElem (callRemoved b c v) = nextElem c"
  by (simp_all add: callRemoved_def)

lemma putEntry_sel [simp]:
  "byAccess (putEntry c e x) = byAccess c" "byKey (putEntry c e x) = byKey c"
  "elems (putEntry c e x) = (elems c)(e := x)" "maxSize (putEntry c e x) = maxSize c"
  "pin (putEntry c e x) = pin c" "ttl (putEntry c e x) = ttl c"
  "rmFunc (putEntry c e x) = rmFunc c" "nextElem (putEntry c e x) = nextElem c"
  by (simp_all add: putEntry_def)

lemma moveToFront_sel [simp]:
  "byAccess (moveToFront c e) = e # remove1 e (byAccess c)" "byKey (moveToFront c e) = byKey c"
  "elems (moveToFront c e) = elems c" "maxSize (moveToFront c e) = maxSize c"
  by (simp_all add: moveToFront_def)

lemma unlink_sel [simp]:
  "byAccess (unlink c e k) = remove1 e (byAccess c)" "byKey (unlink c e k) = fmdrop k (byKey c)"
  "elems (unlink c e k) = elems c" "maxSize (unlink c e k) = maxSize c"
  by (simp_all add: unlink_def)

section \<open>Every operation keeps it\<close>

lemma lru_ok_Get: "lru_ok c \<Longrightarrow> lru_ok (snd (Get now c key))"
proof (cases "fmlookup (byKey c) key")
  case None
  then show "lru_ok c \<Longrightarrow> ?thesis" by (simp add: Get_def)
next
  case (Some e)
  assume ok: "lru_ok c"
  with Some have e: "e \<in> set (byAccess c)" by (simp add: lru_okD)
  let ?x = "if pin c then (elems c e)\<lparr>ce_refCount := ce_refCount (elems c e) + 1\<rparr> else elems c e"
  have "lru_ok (putEntry c e ?x)" using ok by (rule lru_ok_putEntry) simp
  with Some e show ?thesis
    by (auto simp: Get_def Let_def intro!: lru_ok_unlink lru_ok_moveToFront)
qed

text \<open>A new entry in front of the list.\<close>

definition pushed :: "int \<Rightarrow> 'v lru \<Rightarrow> string \<Rightarrow> 'v option \<Rightarrow> 'v lru" where
  "pushed now c key val =
     (putEntry c (nextElem c)
        \<lparr>ce_key = key, ce_expiration = (if ttl c \<noteq> 0 then Some (now + ttl c) else None),
         ce_value = val, ce_refCount = (if pin c then 1 else 0)\<rparr>)
     \<lparr>nextElem := Suc (nextElem c), byAccess := nextElem c # byAccess c,
      byKey := fmupd key (nextElem c) (byKey c)\<rparr>"

lemma lru_ok_pushed:
  assumes ok: "lru_ok c" and new: "fmlookup (byKey c) key = None"
  shows "lru_ok (pushed now c key val)"
proof -
  have fresh: "nextElem c \<notin> set (byAccess c)" using lru_okD(2) [OF ok] by blast
  have nokey: "e \<in> set (byAccess c) \<Longrightarrow> ce_key (elems c e) \<noteq> key" for e
    using lru_okD(3) [OF ok, of key e] new by auto
  show ?thesis
    unfolding lru_ok_def
  proof (intro conjI allI ballI)
    fix k e
    show "fmlookup (byKey (pushed now c key val)) k = Some e \<longleftrightarrow>
        e \<in> set (byAccess (pushed now c key val)) \<and> ce_key (elems (pushed now c key val) e) = k"
      using lru_okD(3) [OF ok, of k e] fresh nokey by (auto simp: pushed_def)
  qed (use lru_okD(1,2) [OF ok] fresh in \<open>auto simp: pushed_def intro: less_SucI\<close>)
qed

lemma putInternal_new:
  assumes "fmlookup (byKey c) key = None"
  shows "putInternal now c key val allowUpdate =
    (let c1 = pushed now c key val in
     if Size c1 > maxSize c
     then (let back = last (byAccess c1) in
           if ce_refCount (elems c1 back) > 0
           then (Inl ErrCacheFull, c1\<lparr>byAccess := byAccess c, byKey := fmdrop key (byKey c1)\<rparr>)
           else (Inr None, callRemoved (rmFunc c1)
                  (unlink c1 back (ce_key (elems c1 back))) (ce_value (elems c1 back))))
     else (Inr None, c1))"
  using assms by (simp add: putInternal_def pushed_def Size_def Let_def)

lemma lru_ok_revert:
  assumes ok: "lru_ok c" and new: "fmlookup (byKey c) key = None"
  shows "lru_ok ((pushed now c key val)\<lparr>byAccess := byAccess c,
    byKey := fmdrop key (byKey (pushed now c key val))\<rparr>)"
proof -
  have "fmdrop key (fmupd key e (byKey c)) = byKey c" for e
    using new by (intro fmap_ext) auto
  moreover have "nextElem c \<notin> set (byAccess c)" using lru_okD(2) [OF ok] by blast
  ultimately show ?thesis using ok by (fastforce simp: lru_ok_def pushed_def)
qed

lemma lru_ok_putInternal: "lru_ok c \<Longrightarrow> lru_ok (snd (putInternal now c key val u))"
proof (cases "fmlookup (byKey c) key")
  case None
  assume ok: "lru_ok c"
  note pu = lru_ok_pushed [OF ok None, of now val]
  have "last (byAccess (pushed now c key val)) \<in> set (byAccess (pushed now c key val))"
    by (rule last_in_set) (simp add: pushed_def)
  with None pu lru_ok_revert [OF ok None, of now val] show ?thesis
    by (auto simp: putInternal_new Let_def intro: lru_ok_unlink)
next
  case (Some e)
  assume ok: "lru_ok c"
  with Some have "e \<in> set (byAccess c)" by (simp add: lru_okD)
  with ok have "lru_ok (moveToFront c e)" by (rule lru_ok_moveToFront)
  with Some show ?thesis
    by (simp add: putInternal_def Let_def) (intro conjI impI; rule lru_ok_putEntry; simp)
qed

lemma lru_ok_remove:
  "lru_ok c \<Longrightarrow> fmlookup (byKey c) key = Some e \<Longrightarrow> lru_ok (unlink (callRemoved b c v) e key)"
  by (rule lru_ok_unlink) (auto dest: byKey_listed)

lemma lru_ok_DeleteIf: "lru_ok c \<Longrightarrow> lru_ok (snd (DeleteIf c key P))"
  by (cases "fmlookup (byKey c) key") (simp_all add: DeleteIf_def lru_ok_remove)

lemma lru_ok_Release: "lru_ok c \<Longrightarrow> Release c key = Inr c' \<Longrightarrow> lru_ok c'"
  by (cases "fmlookup (byKey c) key") (auto simp: Release_def intro!: lru_ok_putEntry)

lemma lru_ok_clearLoop: "lru_ok c \<Longrightarrow> lru_ok (clearLoop b keys c)"
proof (induction keys arbitrary: c)
  case Nil
  then show ?case by simp
next
  case (Cons k keys)
  then show ?case
    by (cases "fmlookup (byKey c) k") (simp_all add: lru_ok_remove)
qed

section \<open>Eviction\<close>

lemma remove1_last: "distinct xs \<Longrightarrow> xs \<noteq> [] \<Longrightarrow> remove1 (last xs) xs = butlast xs"
  by (induction xs) auto

lemma within_capacity_putInternal:
  assumes ok: "lru_ok c" and cap: "within_capacity c"
  shows "within_capacity (snd (putInternal now c key val u))"
proof (cases "fmlookup (byKey c) key")
  case (Some e)
  then show ?thesis using cap by (simp add: putInternal_def Let_def within_capacity_def Size_def)
next
  case None
  let ?c1 = "pushed now c key val" and ?r = "snd (putInternal now c key val u)"
  have ok': "lru_ok ?r" using ok by (rule lru_ok_putInternal)
  have dist: "distinct (byAccess ?c1)" and ne: "byAccess ?c1 \<noteq> []"
    using lru_okD(1) [OF lru_ok_pushed [OF ok None]] by (auto simp: pushed_def)
  have len: "Size ?c1 = Size c + 1" and mx: "maxSize ?c1 = maxSize c"
    using Size_eq_length [OF lru_ok_pushed [OF ok None]] Size_eq_length [OF ok]
    by (simp_all add: pushed_def)
  have "Size ?r = (if Size c + 1 > maxSize c then Size c else Size c + 1)"
    using Size_eq_length [OF ok'] Size_eq_length [OF ok] remove1_last [OF dist ne]
      Size_eq_length [OF lru_ok_pushed [OF ok None, of now val]] None
    by (auto simp: putInternal_new Let_def len)
  moreover have "maxSize ?r = maxSize c"
    using None by (auto simp: putInternal_new Let_def mx)
  ultimately show ?thesis using cap by (auto simp: within_capacity_def)
qed

section \<open>A cache ordered by recency\<close>

text \<open>
  What a user of the cache relies on, without list elements and reference counts: a list of keys
  and values, the most recently used first. Reading a key moves it to the front, writing one puts
  it there and cuts the list to the capacity.
\<close>

definition without :: "string \<Rightarrow> (string \<times> 'v) list \<Rightarrow> (string \<times> 'v) list" where
  "without k xs = filter (\<lambda>x. fst x \<noteq> k) xs"

definition touch :: "string \<Rightarrow> (string \<times> 'v) list \<Rightarrow> (string \<times> 'v) list" where
  "touch k xs = (case map_of xs k of None \<Rightarrow> xs | Some v \<Rightarrow> (k, v) # without k xs)"

definition rank :: "string \<Rightarrow> (string \<times> 'v) list \<Rightarrow> nat" where
  "rank k xs = length (takeWhile (\<lambda>x. fst x \<noteq> k) xs)"

lemma rank_Cons [simp]: "rank k (x # xs) = (if fst x = k then 0 else Suc (rank k xs))"
  by (simp add: rank_def)

lemma map_of_without_other: "k' \<noteq> k \<Longrightarrow> map_of (without k' xs) k = map_of xs k"
  by (induction xs) (auto simp: without_def)

lemma rank_without: "k' \<noteq> k \<Longrightarrow> rank k (without k' xs) \<le> rank k xs"
  by (induction xs) (auto simp: without_def)

lemma map_of_take: "map_of xs k = Some v \<Longrightarrow> rank k xs < n \<Longrightarrow> map_of (take n xs) k = Some v"
proof (induction xs arbitrary: n)
  case Nil
  then show ?case by simp
next
  case (Cons x xs)
  then show ?case by (cases n) (auto split: if_splits)
qed

lemma rank_take: "rank k xs < n \<Longrightarrow> rank k (take n xs) \<le> rank k xs"
proof (induction xs arbitrary: n)
  case Nil
  then show ?case by simp
next
  case (Cons x xs)
  then show ?case by (cases n) (auto split: if_splits)
qed

locale recency_cache =
  fixes contents :: "'c \<Rightarrow> (string \<times> 'v option) list"
    and ok :: "'c \<Rightarrow> bool"
    and capacity :: "'c \<Rightarrow> nat"
    and get :: "'c \<Rightarrow> string \<Rightarrow> 'v option \<times> 'c"
    and put :: "'c \<Rightarrow> string \<Rightarrow> 'v option \<Rightarrow> 'c"
  assumes get_result: "ok c \<Longrightarrow> fst (get c k) = (case map_of (contents c) k of None \<Rightarrow> None | Some v \<Rightarrow> v)"
    and get_contents: "ok c \<Longrightarrow> contents (snd (get c k)) = touch k (contents c)"
    and get_ok: "ok c \<Longrightarrow> ok (snd (get c k)) \<and> capacity (snd (get c k)) = capacity c"
    and put_contents: "ok c \<Longrightarrow> contents (put c k v) = take (capacity c) ((k, v) # without k (contents c))"
    and put_ok: "ok c \<Longrightarrow> ok (put c k v) \<and> capacity (put c k v) = capacity c"
begin

lemma get_after_put: "ok c \<Longrightarrow> 0 < capacity c \<Longrightarrow> fst (get (put c k v) k) = v"
  by (cases "capacity c") (simp_all add: get_result put_contents put_ok)

text \<open>A key survives as many writes of other keys as there is room behind it.\<close>

lemma put_other:
  assumes "ok c" and "k' \<noteq> k" and "map_of (contents c) k = Some v"
    and "Suc (rank k (contents c)) < capacity c"
  shows "map_of (contents (put c k' v')) k = Some v"
    and "rank k (contents (put c k' v')) \<le> Suc (rank k (contents c))"
proof -
  let ?xs = "(k', v') # without k' (contents c)"
  have r: "rank k ?xs \<le> Suc (rank k (contents c))" using assms(2) by (simp add: rank_without)
  with assms(4) have lt: "rank k ?xs < capacity c" by simp
  show "map_of (contents (put c k' v')) k = Some v"
    using assms(1-3) lt by (simp add: put_contents del: take_Suc_Cons)
      (rule map_of_take, auto simp: map_of_without_other)
  show "rank k (contents (put c k' v')) \<le> Suc (rank k (contents c))"
    using assms(1) rank_take [OF lt] r by (simp add: put_contents)
qed

lemma survives_puts:
  assumes "ok c" and "k \<notin> fst ` set kvs" and "map_of (contents c) k = Some v"
    and "rank k (contents c) + length kvs < capacity c"
  shows "map_of (contents (foldl (\<lambda>c kv. put c (fst kv) (snd kv)) c kvs)) k = Some v"
  using assms
proof (induction kvs arbitrary: c)
  case Nil
  then show ?case by simp
next
  case (Cons kv kvs)
  have other: "fst kv \<noteq> k" and room: "Suc (rank k (contents c)) < capacity c"
    using Cons.prems by auto
  note step = put_other [OF Cons.prems(1) other Cons.prems(3) room, of "snd kv"]
  have "ok (put c (fst kv) (snd kv))" "capacity (put c (fst kv) (snd kv)) = capacity c"
    using put_ok Cons.prems(1) by auto
  with Cons.IH [of "put c (fst kv) (snd kv)"] step Cons.prems show ?case by simp
qed

end

section \<open>The cache meets it\<close>

definition lru_contents :: "'v lru \<Rightarrow> (string \<times> 'v option) list" where
  "lru_contents c = map (\<lambda>e. (ce_key (elems c e), ce_value (elems c e))) (byAccess c)"

text \<open>A cache without pinning and expiration, the way the worker's workflow cache is configured.\<close>

definition lru_plain :: "'v lru \<Rightarrow> bool" where
  "lru_plain c \<longleftrightarrow> lru_ok c \<and> within_capacity c \<and> 0 \<le> maxSize c \<and> \<not> pin c \<and> ttl c = 0 \<and>
     (\<forall>e \<in> set (byAccess c). ce_expiration (elems c e) = None \<and> ce_refCount (elems c e) = 0)"

definition lru_put :: "int \<Rightarrow> 'v lru \<Rightarrow> string \<Rightarrow> 'v option \<Rightarrow> 'v lru" where
  "lru_put now c k v = (case Put now c k v of Inr (_, c') \<Rightarrow> c' | Inl _ \<Rightarrow> c)"

definition lru_capacity :: "'v lru \<Rightarrow> nat" where
  "lru_capacity c = nat (maxSize c)"

lemma map_of_entries:
  assumes "inj_on key (set es)"
  shows "map_of (map (\<lambda>e. (key e, val e)) es) k = Some v \<longleftrightarrow> (\<exists>e \<in> set es. key e = k \<and> val e = v)"
  using assms by (induction es) (auto simp: inj_on_def)

lemma keys_inj: "lru_ok c \<Longrightarrow> inj_on (\<lambda>e. ce_key (elems c e)) (set (byAccess c))"
  by (auto simp: inj_on_def intro: byKey_inj)

lemma map_of_lru_contents:
  assumes "lru_ok c"
  shows "map_of (lru_contents c) k = map_option (\<lambda>e. ce_value (elems c e)) (fmlookup (byKey c) k)"
proof (cases "fmlookup (byKey c) k")
  case None
  then have "ce_key (elems c e) \<noteq> k" if "e \<in> set (byAccess c)" for e
    using lru_okD(3) [OF assms, of k e] that by simp
  then have "k \<notin> fst ` set (lru_contents c)" by (force simp: lru_contents_def)
  then have "map_of (lru_contents c) k = None" by (simp add: map_of_eq_None_iff)
  with None show ?thesis by simp
next
  case (Some e)
  with byKey_listed [OF assms Some] show ?thesis
    by (auto simp: lru_contents_def map_of_entries [OF keys_inj [OF assms]])
qed

lemma without_lru_contents:
  assumes "lru_ok c" and "fmlookup (byKey c) k = Some e"
  shows "without k (lru_contents c) =
    map (\<lambda>e. (ce_key (elems c e), ce_value (elems c e))) (remove1 e (byAccess c))"
proof -
  note listed = byKey_listed [OF assms]
  have "filter (\<lambda>x. ce_key (elems c x) \<noteq> k) (byAccess c) = filter (\<lambda>x. x \<noteq> e) (byAccess c)"
    using listed byKey_inj [OF assms(1), of _ e] by (intro filter_cong) auto
  also have "\<dots> = remove1 e (byAccess c)"
    using lru_okD(1) [OF assms(1)]
    by (simp add: distinct_remove1_removeAll removeAll_filter_not_eq) (metis)
  finally show ?thesis by (simp add: without_def lru_contents_def filter_map o_def)
qed

lemma without_absent: "k \<notin> fst ` set xs \<Longrightarrow> without k xs = xs"
  by (auto simp: without_def intro!: filter_True)

lemma length_lru_contents: "lru_ok c \<Longrightarrow> int (length (lru_contents c)) = Size c"
  by (simp add: lru_contents_def Size_eq_length)

lemma plain_not_expired:
  "lru_plain c \<Longrightarrow> e \<in> set (byAccess c) \<Longrightarrow> \<not> expired now (elems c e)"
  by (simp add: lru_plain_def expired_def)

lemma Get_plain:
  assumes "lru_plain c"
  shows "Get now c k = (case fmlookup (byKey c) k of
    None \<Rightarrow> (None, c) | Some e \<Rightarrow> (ce_value (elems c e), moveToFront c e))"
proof (cases "fmlookup (byKey c) k")
  case None
  then show ?thesis by (simp add: Get_def)
next
  case (Some e)
  have ok: "lru_ok c" and np: "\<not> pin c" using assms by (simp_all add: lru_plain_def)
  have "\<not> expired now (elems c e)"
    using plain_not_expired [OF assms] byKey_listed [OF ok Some] by blast
  moreover have "putEntry c e (elems c e) = c" by (simp add: putEntry_def)
  ultimately show ?thesis using Some np by (simp add: Get_def Let_def)
qed

lemma moveToFront_plain:
  assumes "lru_plain c" and "e \<in> set (byAccess c)"
  shows "lru_plain (moveToFront c e)"
proof -
  have "lru_ok (moveToFront c e)" using assms by (simp add: lru_plain_def lru_ok_moveToFront)
  with assms show ?thesis
    by (auto simp: lru_plain_def within_capacity_def Size_def moveToFront_def dest: notin_set_remove1)
qed

lemma moveToFront_contents:
  assumes "lru_ok c" and "fmlookup (byKey c) k = Some e"
  shows "lru_contents (moveToFront c e) = touch k (lru_contents c)"
  using byKey_listed [OF assms] without_lru_contents [OF assms]
  by (simp add: touch_def map_of_lru_contents [OF assms(1)] assms(2))
    (simp add: lru_contents_def)

text \<open>Writing a key that is present.\<close>

lemma lru_put_present:
  assumes pl: "lru_plain c" and k: "fmlookup (byKey c) k = Some e"
  shows "lru_put now c k v =
    putEntry (moveToFront c e) e ((elems c e)\<lparr>ce_value := v\<rparr>)"
  using assms by (simp add: lru_put_def Put_def putInternal_def Let_def lru_plain_def)

lemma lru_put_present_spec:
  assumes pl: "lru_plain c" and k: "fmlookup (byKey c) k = Some e"
  shows "lru_plain (lru_put now c k v)"
    and "lru_contents (lru_put now c k v) = take (lru_capacity c) ((k, v) # without k (lru_contents c))"
proof -
  have ok: "lru_ok c" using pl by (simp add: lru_plain_def)
  note listed = byKey_listed [OF ok k]
  let ?c = "moveToFront c e"
  have mv: "lru_plain ?c" using pl listed by (simp add: moveToFront_plain)
  then have "lru_ok (putEntry ?c e ((elems c e)\<lparr>ce_value := v\<rparr>))"
    by (intro lru_ok_putEntry) (simp_all add: lru_plain_def)
  with mv show "lru_plain (lru_put now c k v)"
    by (auto simp: lru_put_present [OF pl k] lru_plain_def within_capacity_def Size_def putEntry_def)
  have dist: "distinct (byAccess c)" using lru_okD(1) [OF ok] .
  have c1: "lru_contents (lru_put now c k v) = (k, v) # without k (lru_contents c)"
    unfolding without_lru_contents [OF ok k] lru_put_present [OF pl k]
    using listed dist by (simp add: lru_contents_def)
  have "length (remove1 e (byAccess c)) < length (byAccess c)"
    using listed length_pos_if_in_set [of e "byAccess c"] by (simp add: length_remove1)
  moreover have "length (byAccess c) \<le> lru_capacity c"
    using pl Size_eq_length [OF ok] by (auto simp: lru_plain_def within_capacity_def lru_capacity_def)
  ultimately have "length ((k, v) # without k (lru_contents c)) \<le> lru_capacity c"
    by (simp add: without_lru_contents [OF ok k])
  with c1 show "lru_contents (lru_put now c k v) =
      take (lru_capacity c) ((k, v) # without k (lru_contents c))" by simp
qed

text \<open>Writing a new key.\<close>

lemma lru_put_absent:
  assumes pl: "lru_plain c" and k: "fmlookup (byKey c) k = None"
  shows "lru_put now c k v =
    (let c1 = pushed now c k v; back = last (byAccess c1) in
     if Size c1 > maxSize c
     then callRemoved (rmFunc c1) (unlink c1 back (ce_key (elems c1 back))) (ce_value (elems c1 back))
     else c1)"
proof -
  let ?c1 = "pushed now c k v"
  have "last (byAccess ?c1) \<in> set (byAccess ?c1)" by (rule last_in_set) (simp add: pushed_def)
  then have "ce_refCount (elems ?c1 (last (byAccess ?c1))) = 0"
    using pl by (auto simp: lru_plain_def pushed_def)
  then show ?thesis
    using pl k by (simp add: lru_put_def Put_def putInternal_new Let_def lru_plain_def)
qed

lemma pushed_contents:
  assumes "lru_ok c"
  shows "lru_contents (pushed now c k v) = (k, v) # lru_contents c"
proof -
  have "nextElem c \<notin> set (byAccess c)" using lru_okD(2) [OF assms] by blast
  then show ?thesis by (auto simp: lru_contents_def pushed_def)
qed

lemma lru_put_absent_contents:
  assumes pl: "lru_plain c" and k: "fmlookup (byKey c) k = None"
  shows "lru_contents (lru_put now c k v) = take (lru_capacity c) ((k, v) # without k (lru_contents c))"
proof -
  let ?c1 = "pushed now c k v"
  have ok: "lru_ok c" using pl by (simp add: lru_plain_def)
  note ok1 = lru_ok_pushed [OF ok k, of now v]
  have abs: "without k (lru_contents c) = lru_contents c"
    using map_of_lru_contents [OF ok, of k] k by (simp add: without_absent map_of_eq_None_iff)
  have dist: "distinct (byAccess ?c1)" and ne: "byAccess ?c1 \<noteq> []"
    using lru_okD(1) [OF ok1] by (auto simp: pushed_def)
  have len: "Size ?c1 = int (length (lru_contents c)) + 1"
    using length_lru_contents [OF ok1] pushed_contents [OF ok, of now k v] by simp
  have bound: "int (length (lru_contents c)) \<le> maxSize c"
    using pl length_lru_contents [OF ok] by (auto simp: lru_plain_def within_capacity_def)
  show ?thesis
  proof (cases "Size ?c1 > maxSize c")
    case True
    then have "lru_contents (lru_put now c k v) = butlast (lru_contents ?c1)"
      by (simp add: lru_put_absent [OF pl k] Let_def lru_contents_def remove1_last [OF dist ne] map_butlast)
    moreover have "length (lru_contents c) = lru_capacity c"
      using True len bound by (simp add: lru_capacity_def)
    ultimately show ?thesis
      by (simp add: pushed_contents [OF ok] abs butlast_conv_take)
  next
    case False
    then show ?thesis
      using len by (simp add: lru_put_absent [OF pl k] Let_def pushed_contents [OF ok] abs lru_capacity_def)
  qed
qed

lemma lru_put_absent_plain:
  assumes pl: "lru_plain c" and k: "fmlookup (byKey c) k = None"
  shows "lru_plain (lru_put now c k v)"
proof -
  have ok: "lru_ok c" and cap: "within_capacity c" using pl by (simp_all add: lru_plain_def)
  have int: "lru_put now c k v = snd (putInternal now c k v True)"
    using pl by (auto simp: lru_put_def Put_def lru_plain_def split: prod.splits sum.splits)
  have "lru_ok (lru_put now c k v)" "within_capacity (lru_put now c k v)"
    unfolding int using ok cap by (simp_all add: lru_ok_putInternal within_capacity_putInternal)
  moreover have "\<forall>e \<in> set (byAccess (pushed now c k v)).
      ce_expiration (elems (pushed now c k v) e) = None \<and> ce_refCount (elems (pushed now c k v) e) = 0"
    using pl by (auto simp: lru_plain_def pushed_def)
  ultimately show ?thesis
    using pl by (auto simp: lru_plain_def lru_put_absent [OF pl k] Let_def unlink_def callRemoved_def
        pushed_def dest: notin_set_remove1)
qed

lemma Put_returns: "\<not> pin c \<Longrightarrow> \<exists>old. Put now c k v = Inr (old, lru_put now c k v)"
  by (cases "putInternal now c k v True"; cases "fst (putInternal now c k v True)")
    (auto simp: Put_def lru_put_def)

lemma lru_capacity_put: "lru_plain c \<Longrightarrow> lru_capacity (lru_put now c k v) = lru_capacity c"
  by (cases "fmlookup (byKey c) k")
    (auto simp: lru_put_present lru_put_absent lru_capacity_def Let_def pushed_def)

interpretation lruc: recency_cache lru_contents lru_plain lru_capacity "Get now" "lru_put now" for now
proof
  fix c :: "'a lru" and k v
  assume pl: "lru_plain c"
  then have ok: "lru_ok c" by (simp add: lru_plain_def)
  show "fst (Get now c k) = (case map_of (lru_contents c) k of None \<Rightarrow> None | Some v \<Rightarrow> v)"
    by (simp add: Get_plain [OF pl] map_of_lru_contents [OF ok] split: option.splits)
  show "lru_contents (snd (Get now c k)) = touch k (lru_contents c)"
    using map_of_lru_contents [OF ok, of k] moveToFront_contents [OF ok]
    by (cases "fmlookup (byKey c) k") (simp_all add: Get_plain [OF pl] touch_def)
  show "lru_plain (snd (Get now c k)) \<and> lru_capacity (snd (Get now c k)) = lru_capacity c"
    using moveToFront_plain [OF pl] byKey_listed [OF ok] pl
    by (cases "fmlookup (byKey c) k") (simp_all add: Get_plain [OF pl] lru_capacity_def)
  show "lru_contents (lru_put now c k v) = take (lru_capacity c) ((k, v) # without k (lru_contents c))"
    using lru_put_present_spec(2) [OF pl] lru_put_absent_contents [OF pl]
    by (cases "fmlookup (byKey c) k") blast+
  show "lru_plain (lru_put now c k v) \<and> lru_capacity (lru_put now c k v) = lru_capacity c"
    using lru_put_present_spec(1) [OF pl] lru_put_absent_plain [OF pl] lru_capacity_put [OF pl]
    by (cases "fmlookup (byKey c) k") blast+
qed

section \<open>Reachable caches\<close>

inductive cache_reachable :: "'v lru \<Rightarrow> bool" where
  created: "cache_reachable (New sz opts)"
| got: "cache_reachable c \<Longrightarrow> cache_reachable (snd (Get now c k))"
| wrote: "cache_reachable c \<Longrightarrow> Put now c k v = Inr (old, c') \<Longrightarrow> cache_reachable c'"
| offered: "cache_reachable c \<Longrightarrow> cache_reachable (snd (PutIfNotExist now c k v))"
| deleted: "cache_reachable c \<Longrightarrow> cache_reachable (snd (DeleteIf c k P))"
| released: "cache_reachable c \<Longrightarrow> Release c k = Inr c' \<Longrightarrow> cache_reachable c'"
| cleared: "cache_reachable c \<Longrightarrow> cache_reachable (ClearWithCallback order c b)"

lemma PutIfNotExist_snd: "snd (PutIfNotExist now c k v) = snd (putInternal now c k v False)"
  by (auto simp: PutIfNotExist_def split: prod.splits sum.splits option.splits)

lemma Put_snd: "Put now c k v = Inr (old, c') \<Longrightarrow> c' = snd (putInternal now c k v True)"
  by (auto simp: Put_def split: prod.splits sum.splits if_splits)

lemma fcard_fmdrop_le: "fcard (fmdom (fmdrop k m)) \<le> fcard (fmdom m)"
  by (auto intro!: fcard_mono)

lemma capacity_unlink:
  "within_capacity c \<Longrightarrow> within_capacity (unlink (callRemoved b c v) e k)"
  using fcard_fmdrop_le [of k "byKey c"] by (simp add: within_capacity_def Size_def)

lemma within_capacity_Get: "within_capacity c \<Longrightarrow> within_capacity (snd (Get now c k))"
proof (cases "fmlookup (byKey c) k")
  case None
  then show "within_capacity c \<Longrightarrow> ?thesis" by (simp add: Get_def)
next
  case (Some e)
  assume cap: "within_capacity c"
  have "within_capacity (putEntry c e x)" for x
    using cap by (simp add: within_capacity_def Size_def)
  with Some cap show ?thesis
    by (simp add: Get_def Let_def capacity_unlink) (simp add: within_capacity_def Size_def)
qed

lemma within_capacity_clearLoop: "within_capacity c \<Longrightarrow> within_capacity (clearLoop b keys c)"
proof (induction keys arbitrary: c)
  case Nil
  then show ?case by simp
next
  case (Cons k keys)
  then show ?case by (cases "fmlookup (byKey c) k") (simp_all add: capacity_unlink)
qed

lemma reachable_ok: "cache_reachable c \<Longrightarrow> lru_ok c \<and> within_capacity c"
proof (induction rule: cache_reachable.induct)
  case (created sz opts)
  then show ?case
    by (simp add: lru_ok_New) (simp add: within_capacity_def Size_def New_def Let_def fcard.rep_eq)
next
  case (got c now k)
  then show ?case by (simp add: lru_ok_Get within_capacity_Get)
next
  case (wrote c now k v old c')
  then show ?case
    by (auto dest!: Put_snd intro: lru_ok_putInternal within_capacity_putInternal)
next
  case (offered c now k v)
  then show ?case
    by (auto simp: PutIfNotExist_snd intro: lru_ok_putInternal within_capacity_putInternal)
next
  case (deleted c k P)
  then show ?case
    by (cases "fmlookup (byKey c) k")
      (simp_all add: DeleteIf_def lru_ok_remove capacity_unlink)
next
  case (released c k c')
  then have "lru_ok c'" by (auto intro: lru_ok_Release)
  moreover have "within_capacity c'"
    using released by (cases "fmlookup (byKey c) k")
      (auto simp: Release_def within_capacity_def Size_def)
  ultimately show ?case ..
next
  case (cleared c order b)
  then show ?case
    by (simp add: ClearWithCallback_def lru_ok_clearLoop within_capacity_clearLoop)
qed

section \<open>Properties\<close>

text \<open>
  C24. Whatever is done to a cache, it holds no more entries than its maximum size, its key map and
  its access list have the same entries, and each entry is found under its own key.
\<close>

theorem cache_consistent_and_bounded:
  assumes "cache_reachable c"
  shows "Size c \<le> max 0 (maxSize c) \<and> Size c = int (length (byAccess c)) \<and> distinct (byAccess c) \<and>
    (\<forall>key e. fmlookup (byKey c) key = Some e \<longleftrightarrow>
       e \<in> set (byAccess c) \<and> ce_key (elems c e) = key)"
  using reachable_ok [OF assms] Size_eq_length [of c]
  by (simp add: within_capacity_def lru_okD)

definition exampleCache :: "nat lru" where
  "exampleCache = lru_put 0 (lru_put 0 (NewLRU 2) ''a'' (Some 1)) ''b'' (Some 2)"

lemma NewLRU_plain: "0 \<le> sz \<Longrightarrow> lru_plain (NewLRU sz)"
  by (simp add: lru_plain_def lru_ok_New NewLRU_def)
    (simp add: within_capacity_def Size_def New_def Let_def fcard.rep_eq)

lemma exampleCache_plain: "lru_plain exampleCache"
  unfolding exampleCache_def by (intro lruc.put_ok [THEN conjunct1] NewLRU_plain) simp

lemma exampleCache_reachable: "cache_reachable exampleCache"
proof -
  have step: "cache_reachable c \<Longrightarrow> \<not> pin c \<Longrightarrow> cache_reachable (lru_put 0 c k v)"
    for c :: "nat lru" and k v using Put_returns wrote by blast
  have "lru_plain (NewLRU 2 :: nat lru)" by (simp add: NewLRU_plain)
  moreover from this have "lru_plain (lru_put 0 (NewLRU 2 :: nat lru) ''a'' (Some 1))"
    using lruc.put_ok by blast
  ultimately show ?thesis
    unfolding exampleCache_def by (intro step) (auto simp: NewLRU_def lru_plain_def intro: created)
qed

theorem cache_consistent_and_bounded_witness:
  "Size exampleCache = 2 \<and> Size exampleCache \<le> max 0 (maxSize exampleCache)"
proof -
  have "Size exampleCache = 2" by code_simp
  with cache_consistent_and_bounded [OF exampleCache_reachable] show ?thesis by simp
qed

text \<open>
  C23. A cache without pinning and expiration is a list of keys and values ordered by use: \<open>Get\<close>
  returns the value of the key and moves it to the front, \<open>Put\<close> writes the key at the front and
  drops what exceeds the capacity, which is the least recently used entry.
\<close>

theorem cache_refines_recency_list:
  assumes "lru_plain c"
  shows "fst (Get now c k) = (case map_of (lru_contents c) k of None \<Rightarrow> None | Some v \<Rightarrow> v) \<and>
    lru_contents (snd (Get now c k)) = touch k (lru_contents c) \<and>
    (\<exists>old c'. Put now c k v = Inr (old, c') \<and> lru_plain c' \<and>
       lru_contents c' = take (nat (maxSize c)) ((k, v) # without k (lru_contents c)))"
proof -
  have "\<not> pin c" using assms by (simp add: lru_plain_def)
  then obtain old where p: "Put now c k v = Inr (old, lru_put now c k v)"
    using Put_returns by blast
  then show ?thesis
    using lruc.get_result [OF assms, of now k] lruc.get_contents [OF assms, of now k]
      lruc.put_contents [OF assms, of now k v] lruc.put_ok [OF assms, of now k v]
    by (simp add: lru_capacity_def)
qed

theorem cache_refines_recency_list_witness:
  "lru_contents exampleCache = [(''b'', Some 2), (''a'', Some 1)] \<and>
     fst (Get 9 exampleCache ''a'') = Some 1 \<and>
     (\<exists>old c'. Put 9 exampleCache ''c'' (Some 3) = Inr (old, c') \<and>
        lru_contents c' = [(''c'', Some 3), (''b'', Some 2)])"
proof -
  have c: "lru_contents exampleCache = [(''b'', Some 2), (''a'', Some 1)]"
    and m: "maxSize exampleCache = 2" by code_simp+
  from cache_refines_recency_list [OF exampleCache_plain, of 9 "''a''"]
    cache_refines_recency_list [OF exampleCache_plain, of 9 "''c''" "Some 3"]
  show ?thesis by (auto simp: c m without_def numeral_2_eq_2)
qed

text \<open>
  C25. A recently used entry survives: in a cache of capacity \<open>n\<close>, an entry at position \<open>r\<close> of the
  recency order is still there, with its value, after any number of writes of other keys less than
  \<open>n - r\<close>.
\<close>

theorem recent_entry_survives:
  assumes "lru_plain c" and "map_of (lru_contents c) k = Some v" and "k \<notin> fst ` set kvs"
    and "rank k (lru_contents c) + length kvs < nat (maxSize c)"
  shows "map_of (lru_contents (foldl (\<lambda>c kv. lru_put now c (fst kv) (snd kv)) c kvs)) k = Some v"
  using assms by (intro lruc.survives_puts) (simp_all add: lru_capacity_def)

theorem recent_entry_survives_witness:
  "map_of (lru_contents (foldl (\<lambda>c kv. lru_put 5 c (fst kv) (snd kv)) exampleCache
     [(''z'', Some 26)])) ''b'' = Some (Some 2)"
proof -
  have c: "lru_contents exampleCache = [(''b'', Some 2), (''a'', Some 1)]"
    and m: "maxSize exampleCache = 2" by code_simp+
  show ?thesis
    by (rule recent_entry_survives [OF exampleCache_plain]) (simp_all add: c m)
qed

lemma pushed_other:
  "lru_ok c \<Longrightarrow> e \<in> set (byAccess c) \<Longrightarrow> elems (pushed now c k v) e = elems c e"
  using lru_okD(2) [of c e] by (auto simp: pushed_def)

text \<open>
  C26. Pinned entries are never evicted by an insertion: an entry with a positive reference count is
  found unchanged, with its value, expiration and reference count, after any \<open>PutIfNotExist\<close> of
  another key. An insertion refused with \<open>ErrCacheFull\<close> changes no entry at all: the map, the order
  and every entry with its value, expiration and reference count stay, and nothing is reported as
  removed.
\<close>

theorem pinned_entry_not_evicted:
  assumes "cache_reachable c" and "fmlookup (byKey c) k = Some e" and "ce_refCount (elems c e) > 0"
    and "k' \<noteq> k" and "PutIfNotExist now c k' v = (r, c')"
  shows "fmlookup (byKey c') k = Some e \<and> elems c' e = elems c e \<and>
    (r = Inl ErrCacheFull \<longrightarrow> byAccess c' = byAccess c \<and> byKey c' = byKey c \<and>
       (\<forall>e' \<in> set (byAccess c). elems c' e' = elems c e') \<and> removed c' = removed c)"
proof -
  have ok: "lru_ok c" using reachable_ok [OF assms(1)] by simp
  note listed = byKey_listed [OF ok assms(2)]
  have c': "c' = snd (putInternal now c k' v False)"
    using PutIfNotExist_snd [of now c k' v] assms(5) by simp
  have r: "r = Inl ErrCacheFull \<Longrightarrow> fst (putInternal now c k' v False) = Inl ErrCacheFull"
    using assms(5) by (auto simp: PutIfNotExist_def split: prod.splits sum.splits option.splits)
  show ?thesis
  proof (cases "fmlookup (byKey c) k'")
    case (Some e')
    then have "fst (putInternal now c k' v False) \<noteq> Inl ErrCacheFull" "e' \<noteq> e"
      using byKey_listed [OF ok Some] listed assms(4) by (auto simp: putInternal_def Let_def)
    with Some r show ?thesis by (auto simp: c' putInternal_def Let_def assms(2))
  next
    case None
    let ?c1 = "pushed now c k' v" and ?b = "last (byAccess (pushed now c k' v))"
    have all: "\<forall>e' \<in> set (byAccess c). elems ?c1 e' = elems c e'" using ok by (simp add: pushed_other)
    then have e1: "elems ?c1 e = elems c e" using listed by simp
    have k1: "fmlookup (byKey ?c1) k = Some e" using assms(2,4) by (simp add: pushed_def)
    have drop: "fmdrop k' (byKey ?c1) = byKey c"
      using None by (intro fmap_ext) (simp add: pushed_def)
    have b: "?b \<in> set (byAccess ?c1)" by (rule last_in_set) (simp add: pushed_def)
    have "e \<in> set (byAccess ?c1)" using listed by (simp add: pushed_def)
    then have "ce_key (elems ?c1 ?b) = k \<Longrightarrow> ?b = e"
      using byKey_inj [OF lru_ok_pushed [OF ok None] b] listed e1 by simp
    then have "\<not> ce_refCount (elems ?c1 ?b) > 0 \<Longrightarrow> ce_key (elems ?c1 ?b) \<noteq> k"
      using assms(3) e1 by auto
    moreover have "removed ?c1 = removed c" by (simp add: pushed_def putEntry_def)
    ultimately show ?thesis using None r k1 e1 all drop assms(2)
      by (auto simp: c' putInternal_new Let_def split: if_splits)
  qed
qed

definition pinnedCache :: "nat lru" where
  "pinnedCache = snd (PutIfNotExist 0 (snd (PutIfNotExist 0
     (New 2 (Some \<lparr>opt_TTL = 0, opt_Pin = True, opt_RemovedFunc = False\<rparr>)) ''a'' (Some 1)))
     ''b'' (Some 2))"

lemma pinnedCache_reachable: "cache_reachable pinnedCache"
  unfolding pinnedCache_def by (intro offered created)

theorem pinned_entry_not_evicted_witness:
  "fst (PutIfNotExist 0 pinnedCache ''c'' (Some 3)) = Inl ErrCacheFull \<and>
     fmlookup (byKey (snd (PutIfNotExist 0 pinnedCache ''c'' (Some 3)))) ''a'' = Some 0 \<and>
     elems (snd (PutIfNotExist 0 pinnedCache ''c'' (Some 3))) 0 = elems pinnedCache 0"
proof -
  have full: "fst (PutIfNotExist 0 pinnedCache ''c'' (Some 3)) = Inl ErrCacheFull" by code_simp
  have a: "fmlookup (byKey pinnedCache) ''a'' = Some 0" by code_simp
  have pos: "ce_refCount (elems pinnedCache 0) > 0" by code_simp
  obtain r c' where p: "PutIfNotExist 0 pinnedCache ''c'' (Some 3) = (r, c')" by (metis surj_pair)
  have "fmlookup (byKey c') ''a'' = Some 0 \<and> elems c' 0 = elems pinnedCache 0"
    using pinned_entry_not_evicted [OF pinnedCache_reachable a pos _ p] by simp
  with full p show ?thesis by simp
qed

definition releasedCache :: "nat lru" where
  "releasedCache = (case Release pinnedCache ''b'' of Inr c \<Rightarrow> c | Inl _ \<Rightarrow> pinnedCache)"

lemma releasedCache_reachable: "cache_reachable releasedCache"
proof -
  have "\<not> isl (Release pinnedCache ''b'')" by code_simp
  then obtain c where c: "Release pinnedCache ''b'' = Inr c"
    by (cases "Release pinnedCache ''b''") simp_all
  with pinnedCache_reachable have "cache_reachable c" by (rule released)
  with c show ?thesis by (simp add: releasedCache_def)
qed

text \<open>
  C40. Whether a full cache takes a new key depends on its oldest entry alone. Below its maximal size
  the cache takes the key and drops nothing. At its maximal size it refuses the key with
  \<open>ErrCacheFull\<close> when the oldest entry is in use, whatever the reference counts of all the others
  are, and otherwise takes the key and drops exactly the oldest entry.
\<close>

theorem full_error_with_unpinned_entry:
  assumes "cache_reachable c" and "fmlookup (byKey c) k = None" and "byAccess c \<noteq> []"
    and "PutIfNotExist now c k v = (r, c')"
  shows "if Size c < maxSize c then r = Inr v \<and> byKey c' = fmupd k (nextElem c) (byKey c)
    else if ce_refCount (elems c (last (byAccess c))) > 0 then r = Inl ErrCacheFull
    else r = Inr v \<and> byKey c' =
      fmupd k (nextElem c) (fmdrop (ce_key (elems c (last (byAccess c)))) (byKey c))"
proof -
  have ok: "lru_ok c" using reachable_ok [OF assms(1)] by simp
  let ?b = "last (byAccess c)"
  have b: "?b \<in> set (byAccess c)" using assms(3) by simp
  have last: "last (byAccess (pushed now c k v)) = ?b" using assms(3) by (simp add: pushed_def)
  have e: "elems (pushed now c k v) ?b = elems c ?b" using ok b by (rule pushed_other)
  have key: "ce_key (elems c ?b) \<noteq> k" using lru_okD(3) [OF ok, of k ?b] b assms(2) by auto
  have keys: "byKey (pushed now c k v) = fmupd k (nextElem c) (byKey c)" by (simp add: pushed_def)
  have size: "Size (pushed now c k v) = Size c + 1"
    using fmdom_notI [OF assms(2)] by (simp add: pushed_def Size_def fcard_finsert_disjoint)
  have drop: "fmdrop (ce_key (elems c ?b)) (fmupd k (nextElem c) (byKey c)) =
      fmupd k (nextElem c) (fmdrop (ce_key (elems c ?b)) (byKey c))"
    using key by (intro fmap_ext) auto
  show ?thesis
    using assms(4) key
    by (auto simp: PutIfNotExist_def putInternal_new [OF assms(2)] Let_def last e size keys drop
        split: if_splits)
qed

theorem full_error_with_unpinned_entry_witness:
  "fst (PutIfNotExist 0 releasedCache ''c'' (Some 3)) = Inl ErrCacheFull \<and>
     map_option (\<lambda>e. ce_refCount (elems releasedCache e)) (fmlookup (byKey releasedCache) ''b'') = Some 0"
proof -
  have c: "fmlookup (byKey releasedCache) ''c'' = None" by code_simp
  have ne: "byAccess releasedCache \<noteq> []" by code_simp
  have b: "map_option (\<lambda>e. ce_refCount (elems releasedCache e))
      (fmlookup (byKey releasedCache) ''b'') = Some 0" by code_simp
  have full: "\<not> Size releasedCache < maxSize releasedCache" by code_simp
  have pos: "ce_refCount (elems releasedCache (last (byAccess releasedCache))) > 0" by code_simp
  obtain r c' where p: "PutIfNotExist 0 releasedCache ''c'' (Some 3) = (r, c')" by (metis surj_pair)
  from full_error_with_unpinned_entry [OF releasedCache_reachable c ne p] full pos p b
  show ?thesis by simp
qed

end
