(* ===== verification/Go_Errors.thy ===== *)
theory Go_Errors
  imports Commands_Helper
begin

text \<open>
  The errors of the SDK (\<open>internal/error.go\<close>): one constructor for each error type, the chain of
  causes that \<open>errors.As\<close> searches, the texts of errors, and which errors an activity is retried
  after. An error that was made from a failure of the service keeps that failure
  (\<open>originalFailure\<close>), the first field of its constructor.
\<close>

section \<open>Error types\<close>

text \<open>
  The details of an error are Go values that are still to be encoded, or payloads that arrived
  encoded (with the converter that decodes them, which is not kept here).
\<close>

datatype errorDetails =
    ErrorDetailsValues "goValue list"
  | EncodedValues "payloads option"

datatype versioningIntent =
    VersioningIntentUnspecified
  | VersioningIntentCompatible
  | VersioningIntentDefault
  | VersioningIntentInheritBuildID
  | VersioningIntentUseAssignmentRules

record continueAsNewError =
  can_WorkflowType :: "string option"
  can_Input :: "payloads option"
  can_Header :: proto
  can_TaskQueueName :: string
  can_WorkflowRunTimeout :: int64
  can_WorkflowTaskTimeout :: int64
  can_BackoffStartInterval :: int64
  can_VersioningIntent :: versioningIntent
  can_InitialVersioningBehavior :: nat
  can_RetryPolicy :: "retryPolicy option"
  can_eventGroupMarkers :: "eventGroupMarker list"

text \<open>The failure of the nexus package; an absent metadata map is the empty one.\<close>

record nexusFailure =
  nf_Message :: string
  nf_StackTrace :: string
  nf_Metadata :: "(string \<times> string) list"
  nf_Details :: string

text \<open>
  \<open>PanicErr\<close> is \<open>PanicError\<close>, whose value is kept as its printed form. \<open>HandlerError\<close> is the type of
  the nexus package. Every other type that implements \<open>error\<close> is an \<open>OtherError\<close>: the name of its
  type, its text and what it unwraps to.
\<close>

datatype goError =
    GoError string                        \<comment> \<open>\<open>errors.New\<close> and \<open>fmt.Errorf\<close>, by its text\<close>
  | ApplicationError "failure option" string string bool errorDetails int64 "32 word" "goError option"
      \<comment> \<open>msg, errType, nonRetryable, details, nextRetryDelay, category, cause\<close>
  | CanceledError "failure option" string errorDetails "goError option"
  | TimeoutError "failure option" string timeoutType errorDetails "goError option"
  | TerminatedError "failure option"
  | PanicErr "failure option" string string                   \<comment> \<open>value and stack trace\<close>
  | WorkflowPanicError string string
  | ContinueAsNewError continueAsNewError
  | UnknownExternalWorkflowExecutionError
  | ServerError "failure option" string bool "goError option"
  | ActivityError "failure option" int64 int64 string string string retryState "goError option"
      \<comment> \<open>scheduledEventID, startedEventID, identity, activityType, activityID, retryState, cause\<close>
  | ChildWorkflowExecutionError "failure option" string string string string int64 int64 retryState
      "goError option"
      \<comment> \<open>namespace, workflowID, runID, workflowType, initiatedEventID, startedEventID, retryState, cause\<close>
  | NexusOperationError "failure option" string int64 string string string string "goError option"
      \<comment> \<open>message, scheduled event id, endpoint, service, operation, operation token, cause\<close>
  | ChildWorkflowExecutionAlreadyStartedError
  | NamespaceNotFoundError
  | InvalidVersioningOverrideError
  | WorkflowExecutionError string string string "goError option"
  | ActivityNotRegisteredError string "string list"
  | HandlerError string string string nat "nexusFailure option" "goError option"
      \<comment> \<open>type, message, stack trace, retry behavior, original failure, cause\<close>
  | OtherError string string "goError option"

section \<open>Constructors\<close>

text \<open>
  The details argument says whether the caller passed values or one value that is already encoded,
  which is what the code distinguishes.
\<close>

definition NewApplicationErrorWithOptions ::
    "string \<Rightarrow> string \<Rightarrow> bool \<Rightarrow> goError option \<Rightarrow> errorDetails \<Rightarrow> int64 \<Rightarrow> 32 word \<Rightarrow> goError" where
  "NewApplicationErrorWithOptions msg errType nonRetryable cause dets nextRetryDelay category =
     ApplicationError None msg errType nonRetryable dets nextRetryDelay category cause"

definition NewApplicationError ::
    "string \<Rightarrow> string \<Rightarrow> bool \<Rightarrow> goError option \<Rightarrow> errorDetails \<Rightarrow> goError" where
  "NewApplicationError msg errType nonRetryable cause dets =
     NewApplicationErrorWithOptions msg errType nonRetryable cause dets 0 0"

definition NewTimeoutError ::
    "string \<Rightarrow> timeoutType \<Rightarrow> goError option \<Rightarrow> errorDetails \<Rightarrow> goError" where
  "NewTimeoutError msg t cause lastHeartbeatDetails =
     TimeoutError None msg t lastHeartbeatDetails cause"

definition NewCanceledErrorWithOptions ::
    "string \<Rightarrow> errorDetails \<Rightarrow> goError option \<Rightarrow> goError" where
  "NewCanceledErrorWithOptions msg dets cause =
     CanceledError None (if msg = [] then ''canceled'' else msg) dets cause"

definition NewCanceledError :: "errorDetails \<Rightarrow> goError" where
  "NewCanceledError dets = NewCanceledErrorWithOptions [] dets None"

definition ErrCanceled :: goError where
  "ErrCanceled = NewCanceledError (ErrorDetailsValues [])"

definition NewServerError :: "string \<Rightarrow> bool \<Rightarrow> goError option \<Rightarrow> goError" where
  "NewServerError msg nonRetryable cause = ServerError None msg nonRetryable cause"

definition NewActivityError ::
    "int64 \<Rightarrow> int64 \<Rightarrow> string \<Rightarrow> string \<Rightarrow> string \<Rightarrow> retryState \<Rightarrow> goError option \<Rightarrow> goError" where
  "NewActivityError scheduledEventID startedEventID identity activityType activityID retry cause =
     ActivityError None scheduledEventID startedEventID identity activityType activityID retry cause"

definition NewChildWorkflowExecutionError ::
    "string \<Rightarrow> string \<Rightarrow> string \<Rightarrow> string \<Rightarrow> int64 \<Rightarrow> int64 \<Rightarrow> retryState \<Rightarrow> goError option \<Rightarrow> goError" where
  "NewChildWorkflowExecutionError namespace workflowID runID workflowType initiatedEventID
       startedEventID retry cause =
     ChildWorkflowExecutionError None namespace workflowID runID workflowType initiatedEventID
       startedEventID retry cause"

definition newTerminatedError :: goError where
  "newTerminatedError = TerminatedError None"

definition newPanicError :: "string \<Rightarrow> string \<Rightarrow> goError" where
  "newPanicError v stackTrace = PanicErr None v stackTrace"

definition newWorkflowPanicError :: "string \<Rightarrow> string \<Rightarrow> goError" where
  "newWorkflowPanicError v stackTrace = WorkflowPanicError v stackTrace"

section \<open>Causes\<close>

text \<open>\<open>errors.Unwrap\<close>: the types without an \<open>Unwrap\<close> method have no cause.\<close>

fun Unwrap :: "goError \<Rightarrow> goError option" where
  "Unwrap (ApplicationError _ _ _ _ _ _ _ cause) = cause"
| "Unwrap (CanceledError _ _ _ cause) = cause"
| "Unwrap (TimeoutError _ _ _ _ cause) = cause"
| "Unwrap (ServerError _ _ _ cause) = cause"
| "Unwrap (ActivityError _ _ _ _ _ _ _ cause) = cause"
| "Unwrap (ChildWorkflowExecutionError _ _ _ _ _ _ _ _ cause) = cause"
| "Unwrap (NexusOperationError _ _ _ _ _ _ _ cause) = cause"
| "Unwrap (WorkflowExecutionError _ _ _ cause) = cause"
| "Unwrap (HandlerError _ _ _ _ _ cause) = cause"
| "Unwrap (OtherError _ _ cause) = cause"
| "Unwrap _ = None"

lemma size_Unwrap: "Unwrap e = Some c \<Longrightarrow> size c < size e"
  by (cases e) auto

function errorChain :: "goError \<Rightarrow> goError list" where
  "errorChain e = e # (case Unwrap e of None \<Rightarrow> [] | Some c \<Rightarrow> errorChain c)"
  by auto
termination
  by (relation "measure size") (auto dest: size_Unwrap)

declare errorChain.simps [simp del]

text \<open>\<open>errors.As\<close>: the first error of the chain that has the type.\<close>

definition errorAs :: "(goError \<Rightarrow> bool) \<Rightarrow> goError option \<Rightarrow> goError option" where
  "errorAs P err = (case err of None \<Rightarrow> None | Some e \<Rightarrow> List.find P (errorChain e))"

fun isCanceled :: "goError \<Rightarrow> bool" where
  "isCanceled (CanceledError _ _ _ _) = True"
| "isCanceled _ = False"

fun isTerminated :: "goError \<Rightarrow> bool" where
  "isTerminated (TerminatedError _) = True"
| "isTerminated _ = False"

fun isWorkflowPanic :: "goError \<Rightarrow> bool" where
  "isWorkflowPanic (WorkflowPanicError _ _) = True"
| "isWorkflowPanic _ = False"

fun isPanic :: "goError \<Rightarrow> bool" where
  "isPanic (PanicErr _ _ _) = True"
| "isPanic _ = False"

fun isTimeout :: "goError \<Rightarrow> bool" where
  "isTimeout (TimeoutError _ _ _ _ _) = True"
| "isTimeout _ = False"

fun isApplication :: "goError \<Rightarrow> bool" where
  "isApplication (ApplicationError _ _ _ _ _ _ _ _) = True"
| "isApplication _ = False"

fun isContinueAsNew :: "goError \<Rightarrow> bool" where
  "isContinueAsNew (ContinueAsNewError _) = True"
| "isContinueAsNew _ = False"

definition IsCanceledError :: "goError option \<Rightarrow> bool" where
  "IsCanceledError err \<longleftrightarrow> errorAs isCanceled err \<noteq> None"

section \<open>Texts\<close>

text \<open>The methods \<open>message\<close>; a type that has none is described by its \<open>Error\<close> method.\<close>

fun message :: "goError \<Rightarrow> string option" where
  "message (ApplicationError _ msg _ _ _ _ _ _) = Some msg"
| "message (CanceledError _ msg _ _) = Some msg"
| "message (TimeoutError _ msg _ _ _) = Some msg"
| "message (TerminatedError _) = Some ''terminated''"
| "message (PanicErr _ v _) = Some v"
| "message (ContinueAsNewError _) = Some ''continue as new''"
| "message (ServerError _ msg _ _) = Some msg"
| "message (ActivityError _ _ _ _ _ _ _ _) = Some ''activity error''"
| "message (ChildWorkflowExecutionError _ _ _ _ _ _ _ _ _) = Some ''child workflow execution error''"
| "message _ = None"

fun getErrType :: "goError \<Rightarrow> string" where
  "getErrType (GoError _) = []"
| "getErrType (ApplicationError _ _ _ _ _ _ _ _) = ''ApplicationError''"
| "getErrType (CanceledError _ _ _ _) = ''CanceledError''"
| "getErrType (TimeoutError _ _ _ _ _) = ''TimeoutError''"
| "getErrType (TerminatedError _) = ''TerminatedError''"
| "getErrType (PanicErr _ _ _) = ''PanicError''"
| "getErrType (WorkflowPanicError _ _) = ''workflowPanicError''"
| "getErrType (ContinueAsNewError _) = ''ContinueAsNewError''"
| "getErrType UnknownExternalWorkflowExecutionError = ''UnknownExternalWorkflowExecutionError''"
| "getErrType (ServerError _ _ _ _) = ''ServerError''"
| "getErrType (ActivityError _ _ _ _ _ _ _ _) = ''ActivityError''"
| "getErrType (ChildWorkflowExecutionError _ _ _ _ _ _ _ _ _) = ''ChildWorkflowExecutionError''"
| "getErrType (NexusOperationError _ _ _ _ _ _ _ _) = ''NexusOperationError''"
| "getErrType ChildWorkflowExecutionAlreadyStartedError =
     ''ChildWorkflowExecutionAlreadyStartedError''"
| "getErrType NamespaceNotFoundError = ''NamespaceNotFoundError''"
| "getErrType InvalidVersioningOverrideError = ''InvalidVersioningOverrideError''"
| "getErrType (WorkflowExecutionError _ _ _ _) = ''WorkflowExecutionError''"
| "getErrType (ActivityNotRegisteredError _ _) = ''ActivityNotRegisteredError''"
| "getErrType (HandlerError _ _ _ _ _ _) = ''HandlerError''"
| "getErrType (OtherError t _ _) = t"

definition boolText :: "bool \<Rightarrow> string" where
  "boolText b = (if b then ''true'' else ''false'')"

fun timeoutTypeText :: "timeoutType \<Rightarrow> string" where
  "timeoutTypeText TIMEOUT_TYPE_UNSPECIFIED = ''Unspecified''"
| "timeoutTypeText TIMEOUT_TYPE_START_TO_CLOSE = ''StartToClose''"
| "timeoutTypeText TIMEOUT_TYPE_SCHEDULE_TO_START = ''ScheduleToStart''"
| "timeoutTypeText TIMEOUT_TYPE_SCHEDULE_TO_CLOSE = ''ScheduleToClose''"
| "timeoutTypeText TIMEOUT_TYPE_HEARTBEAT = ''Heartbeat''"

text \<open>
  The format verb \<open>%q\<close> for text of printable characters: quotes and backslashes get a backslash.
\<close>

definition quoted :: "string \<Rightarrow> string" where
  "quoted s = [CHR 0x22] @
     concat (map (\<lambda>c. if c = CHR 0x22 \<or> c = CHR 0x5C then [CHR 0x5C, c] else [c]) s) @ [CHR 0x22]"

fun joinComma :: "string list \<Rightarrow> string" where
  "joinComma [] = []"
| "joinComma [s] = s"
| "joinComma (s # ss) = s @ '', '' @ joinComma ss"

text \<open>The text of a nexus handler error is made by its package: a parameter.\<close>

fun Error :: "(goError \<Rightarrow> string) \<Rightarrow> goError \<Rightarrow> string" where
  "Error hx (GoError s) = s"
| "Error hx (ApplicationError _ msg errType nonRetryable _ _ _ cause) =
     (if errType \<noteq> [] then msg @ '' (type: '' @ errType @ '', retryable: '' @ boolText (\<not> nonRetryable) @ '')''
      else msg) @ (case cause of None \<Rightarrow> [] | Some c \<Rightarrow> '': '' @ Error hx c)"
| "Error hx (CanceledError _ msg _ _) = msg"
| "Error hx (TimeoutError _ msg t _ cause) =
     msg @ '' (type: '' @ timeoutTypeText t @ '')'' @
     (case cause of None \<Rightarrow> [] | Some c \<Rightarrow> '': '' @ Error hx c)"
| "Error hx (TerminatedError _) = ''terminated''"
| "Error hx (PanicErr _ v _) = v"
| "Error hx (WorkflowPanicError v _) = v"
| "Error hx (ContinueAsNewError _) = ''continue as new''"
| "Error hx UnknownExternalWorkflowExecutionError = ''unknown external workflow execution''"
| "Error hx (ServerError _ msg _ cause) =
     msg @ (case cause of None \<Rightarrow> [] | Some c \<Rightarrow> '': '' @ Error hx c)"
| "Error hx (ActivityError _ scheduledEventID startedEventID identity activityType _ _ cause) =
     ''activity error (type: '' @ activityType @ '', scheduledEventID: '' @ formatInt scheduledEventID @
     '', startedEventID: '' @ formatInt startedEventID @ '', identity: '' @ identity @ '')'' @
     (case cause of None \<Rightarrow> [] | Some c \<Rightarrow> '': '' @ Error hx c)"
| "Error hx (ChildWorkflowExecutionError _ _ workflowID runID workflowType initiatedEventID
       startedEventID _ cause) =
     ''child workflow execution error (type: '' @ workflowType @ '', workflowID: '' @ workflowID @
     '', runID: '' @ runID @ '', initiatedEventID: '' @ formatInt initiatedEventID @
     '', startedEventID: '' @ formatInt startedEventID @ '')'' @
     (case cause of None \<Rightarrow> [] | Some c \<Rightarrow> '': '' @ Error hx c)"
| "Error hx (NexusOperationError _ msg scheduledEventID endpoint service operation token cause) =
     msg @ '' (endpoint: '' @ quoted endpoint @ '', service: '' @ quoted service @ '', operation: '' @
     quoted operation @ '', operation token: '' @ quoted token @ '', scheduledEventID: '' @
     formatInt scheduledEventID @ '')'' @
     (case cause of None \<Rightarrow> [] | Some c \<Rightarrow> '': '' @ Error hx c)"
| "Error hx ChildWorkflowExecutionAlreadyStartedError = ''child workflow execution already started''"
| "Error hx NamespaceNotFoundError = ''namespace not found''"
| "Error hx InvalidVersioningOverrideError = ''invalid versioning override''"
| "Error hx (WorkflowExecutionError workflowID runID workflowType cause) =
     ''workflow execution error (type: '' @ workflowType @ '', workflowID: '' @ workflowID @
     '', runID: '' @ runID @ '')'' @ (case cause of None \<Rightarrow> [] | Some c \<Rightarrow> '': '' @ Error hx c)"
| "Error hx (ActivityNotRegisteredError activityType supportedTypes) =
     ''unable to find activityType='' @ activityType @ ''. Supported types: ['' @
     joinComma supportedTypes @ '']''"
| "Error hx (HandlerError t msg st rb f cause) = hx (HandlerError t msg st rb f cause)"
| "Error hx (OtherError _ txt _) = txt"

section \<open>Retries\<close>

fun retryableTimeout :: "goError \<Rightarrow> bool" where
  "retryableTimeout (TimeoutError _ _ t _ _) \<longleftrightarrow>
     t = TIMEOUT_TYPE_START_TO_CLOSE \<or> t = TIMEOUT_TYPE_HEARTBEAT"
| "retryableTimeout _ \<longleftrightarrow> False"

fun retryableType :: "string list \<Rightarrow> goError \<Rightarrow> bool" where
  "retryableType nonRetryableTypes (ApplicationError _ _ errType nonRetryable _ _ _ _) \<longleftrightarrow>
     \<not> nonRetryable \<and> errType \<notin> set nonRetryableTypes"
| "retryableType nonRetryableTypes _ \<longleftrightarrow> False"

definition IsRetryable :: "goError option \<Rightarrow> string list \<Rightarrow> bool" where
  "IsRetryable err nonRetryableTypes =
     (case err of
        None \<Rightarrow> False
      | Some e \<Rightarrow>
          if errorAs isTerminated err \<noteq> None \<or> errorAs isCanceled err \<noteq> None \<or>
             errorAs isWorkflowPanic err \<noteq> None then False
          else
            (case errorAs isTimeout err of
               Some t \<Rightarrow> retryableTimeout t
             | None \<Rightarrow>
                (case errorAs isApplication err of
                   Some a \<Rightarrow> retryableType nonRetryableTypes a
                 | None \<Rightarrow> getErrType e \<notin> set nonRetryableTypes)))"

definition ApplicationErrorCategoryBenign :: "32 word" where "ApplicationErrorCategoryBenign = 1"

fun isBenignApplicationError :: "goError \<Rightarrow> bool" where
  "isBenignApplicationError (ApplicationError _ _ _ _ _ _ category _) \<longleftrightarrow>
     category = ApplicationErrorCategoryBenign"
| "isBenignApplicationError _ \<longleftrightarrow> False"

end
