(* ===== verification/Workflow_Env.thy ===== *)
theory Workflow_Env
  imports Go_Errors Sdk_Flags
begin

text \<open>
  The data of \<open>internal/internal_event_handlers.go\<close>: what is kept with a command until it resolves, local activities, the messages of the update protocol, and the
  workflow environment itself.

  Callbacks are functions of the workflow layer. The environment only stores and calls them, so a
  callback is an opaque handle and a call is an entry of the log \<open>wc_calls\<close>, in the order the code
  makes the calls. Times are nanoseconds with 0 for the zero \<open>time.Time\<close>; readings of the clock are
  arguments. Logging and metrics are left out.
\<close>

text \<open>\<open>converter.FailureConverter\<close> is an interface that users implement.\<close>

record failureConverter =
  fc_ErrorToFailure :: "goError option \<Rightarrow> failure option"
  fc_FailureToError :: "failure option \<Rightarrow> goError option"

section \<open>Callbacks\<close>

type_synonym handler = nat

record workflowExecution =
  we_ID :: string
  we_RunID :: string

record localActivityResultWrapper =
  lar_Err :: "goError option"
  lar_Result :: "payloads option"
  lar_Attempt :: "32 word"
  lar_Backoff :: int64

datatype call =
    ResultCall handler "payloads option" "goError option"
  | ChildStartedCall handler workflowExecution "goError option"
  | NexusStartedCall handler string "goError option"
  | NexusCompletedCall handler "payload option" "goError option"
  | LocalActivityCall handler localActivityResultWrapper
  | CancelFuncCall handler               \<comment> \<open>the cancel function of a running local activity\<close>
  | QueuedUpdateCall handler
  | CompleteCall "payloads option" "goError option"

section \<open>What is kept with a command\<close>

datatype nexusOperationCancellationType =
    NexusOperationCancellationTypeUnspecified
  | NexusOperationCancellationTypeAbandon
  | NexusOperationCancellationTypeTryCancel
  | NexusOperationCancellationTypeWaitRequested
  | NexusOperationCancellationTypeWaitCompleted

record scheduledTimer =
  st_callback :: handler
  st_handled :: bool

record scheduledActivity =
  sa_callback :: handler
  sa_waitForCancelRequest :: bool
  sa_handled :: bool
  sa_activityType :: string
  sa_dataConverter :: dataConverter
  sa_failureConverter :: failureConverter

record scheduledNexusOperation =
  sn_startedCallback :: "handler option"
  sn_completedCallback :: "handler option"
  sn_cancellationType :: nexusOperationCancellationType
  sn_endpoint :: string
  sn_service :: string
  sn_operation :: string
  sn_failureConverter :: failureConverter

record scheduledChildWorkflow =
  sc_resultCallback :: handler
  sc_startedCallback :: handler
  sc_waitForCancellation :: bool
  sc_handled :: bool
  sc_dataConverter :: dataConverter
  sc_failureConverter :: failureConverter

record scheduledCancellation =
  scn_callback :: handler
  scn_handled :: bool

record scheduledSignal =
  ss_callback :: handler
  ss_handled :: bool

datatype scheduled =
    ScheduledTimer scheduledTimer
  | ScheduledActivity scheduledActivity
  | ScheduledNexusOperation scheduledNexusOperation
  | ScheduledChildWorkflow scheduledChildWorkflow
  | ScheduledCancellation scheduledCancellation
  | ScheduledSignal scheduledSignal

type_synonym helper = "scheduled commandsHelper"

text \<open>
  \<open>handle\<close> marks the command handled before it calls back, and panics when it was handled already.
\<close>

definition scheduledTimer_handle ::
    "scheduledTimer \<Rightarrow> payloads option \<Rightarrow> goError option \<Rightarrow> (scheduledTimer \<times> call) res" where
  "scheduledTimer_handle s result err =
     (if st_handled s then Inl (PanicString ''timer already handled'')
      else Inr (s\<lparr>st_handled := True\<rparr>, ResultCall (st_callback s) result err))"

definition scheduledActivity_handle ::
    "scheduledActivity \<Rightarrow> payloads option \<Rightarrow> goError option \<Rightarrow> (scheduledActivity \<times> call) res" where
  "scheduledActivity_handle s result err =
     (if sa_handled s then Inl (PanicString ''activity already handled'')
      else Inr (s\<lparr>sa_handled := True\<rparr>, ResultCall (sa_callback s) result err))"

definition scheduledChildWorkflow_handle ::
    "scheduledChildWorkflow \<Rightarrow> payloads option \<Rightarrow> goError option
      \<Rightarrow> (scheduledChildWorkflow \<times> call) res" where
  "scheduledChildWorkflow_handle s result err =
     (if sc_handled s then Inl (PanicString ''child workflow already handled'')
      else Inr (s\<lparr>sc_handled := True\<rparr>, ResultCall (sc_resultCallback s) result err))"

definition scheduledChildWorkflow_handleFailedToStart ::
    "scheduledChildWorkflow \<Rightarrow> payloads option \<Rightarrow> goError option
      \<Rightarrow> (scheduledChildWorkflow \<times> call list) res" where
  "scheduledChildWorkflow_handleFailedToStart s result err =
     (if sc_handled s then Inl (PanicString ''child workflow already handled'')
      else Inr (s\<lparr>sc_handled := True\<rparr>,
        [ResultCall (sc_resultCallback s) result err,
         ChildStartedCall (sc_startedCallback s) \<lparr>we_ID = [], we_RunID = []\<rparr> err]))"

definition scheduledCancellation_handle ::
    "scheduledCancellation \<Rightarrow> payloads option \<Rightarrow> goError option
      \<Rightarrow> (scheduledCancellation \<times> call) res" where
  "scheduledCancellation_handle s result err =
     (if scn_handled s then Inl (PanicString ''cancellation already handled'')
      else Inr (s\<lparr>scn_handled := True\<rparr>, ResultCall (scn_callback s) result err))"

definition scheduledSignal_handle ::
    "scheduledSignal \<Rightarrow> payloads option \<Rightarrow> goError option \<Rightarrow> (scheduledSignal \<times> call) res" where
  "scheduledSignal_handle s result err =
     (if ss_handled s then Inl (PanicString ''signal already handled'')
      else Inr (s\<lparr>ss_handled := True\<rparr>, ResultCall (ss_callback s) result err))"

text \<open>
  A nexus operation has no flag: each callback is set to nil once it was called. The two callbacks
  are always released together in this way.
\<close>

definition releaseNexusCallbacks ::
    "scheduledNexusOperation \<Rightarrow> payload option \<Rightarrow> goError option
      \<Rightarrow> scheduledNexusOperation \<times> call list" where
  "releaseNexusCallbacks s result err =
     (s\<lparr>sn_startedCallback := None, sn_completedCallback := None\<rparr>,
      (case sn_startedCallback s of None \<Rightarrow> [] | Some cb \<Rightarrow> [NexusStartedCall cb [] err]) @
      (case sn_completedCallback s of None \<Rightarrow> [] | Some cb \<Rightarrow> [NexusCompletedCall cb result err]))"

section \<open>Local activities\<close>

record executeLocalActivityParams =
  lp_ActivityType :: string
  lp_Summary :: string
  lp_EventGroupMarkers :: "eventGroupMarker list"
  lp_FailureConverter :: "failureConverter option"
  lp_ScheduleToCloseTimeout :: int64
  lp_ScheduledTime :: int
  lp_Attempt :: "32 word"
  lp_RetryPolicy :: "retryPolicy option"
  lp_Header :: proto

record localActivityTask =
  la_activityID :: string
  la_params :: executeLocalActivityParams
  la_callback :: handler
  la_canceled :: bool
  la_cancelFunc :: "handler option"
  la_attempt :: "32 word"
  la_attemptsThisWFT :: uint32
  la_pastFirstWFT :: bool
  la_retryPolicy :: "retryPolicy option"
  la_expireTime :: int
  la_scheduledTime :: int
  la_header :: proto

definition newLocalActivityTask ::
    "int \<Rightarrow> executeLocalActivityParams \<Rightarrow> handler \<Rightarrow> string \<Rightarrow> localActivityTask" where
  "newLocalActivityTask now params callback activityID =
     \<lparr>la_activityID = activityID, la_params = params, la_callback = callback, la_canceled = False,
      la_cancelFunc = None, la_attempt = lp_Attempt params, la_attemptsThisWFT = 0,
      la_pastFirstWFT = False, la_retryPolicy = lp_RetryPolicy params,
      la_expireTime = (if 0 < sint (lp_ScheduleToCloseTimeout params)
        then lp_ScheduledTime params + sint (lp_ScheduleToCloseTimeout params) else 0),
      la_scheduledTime = now, la_header = lp_Header params\<rparr>"

definition localActivityTask_cancel :: "localActivityTask \<Rightarrow> localActivityTask \<times> call list" where
  "localActivityTask_cancel t =
     (t\<lparr>la_canceled := True\<rparr>,
      (case la_cancelFunc t of None \<Rightarrow> [] | Some f \<Rightarrow> [CancelFuncCall f]))"

section \<open>Protocol messages\<close>

datatype updateState =
    updateStateNew
  | updateStateRequestInitiated
  | updateStateAccepted
  | updateStateCompleted

record updateRequest =
  ur_name :: string
  ur_updateID :: string
  ur_args :: "payloads option"
  ur_header :: proto
  ur_nexusContext :: proto               \<comment> \<open>the propagated nexus serialization context\<close>

datatype updateOutcome = OutcomeFailure "failure option" | OutcomeSuccess "payloads option"

datatype messageBody =
    RequestBody updateRequest
  | AcceptanceBody string int64 "updateRequest option"
  | RejectionBody string int64 "updateRequest option" "failure option"
  | ResponseBody string string updateOutcome   \<comment> \<open>update id, identity, outcome\<close>
  | OtherBody string                           \<comment> \<open>another message, by its full name\<close>

record protocolMessage =
  msg_Id :: string
  msg_ProtocolInstanceId :: string
  msg_EventId :: int64
  msg_Body :: messageBody

record updateProtocol =
  up_protoInstanceID :: string
  up_clientIdentity :: string
  up_initialRequest :: "updateRequest option"
  up_requestMsgID :: string
  up_requestSeqID :: int64
  up_scheduleUpdate :: bool \<comment> \<open>the environment had an update handler when the protocol was made\<close>
  up_state :: updateState
  up_outcomeDataConverter :: dataConverter
  up_outcomeFailureConverter :: failureConverter

text \<open>
  The predicates on history events that a sent message is paired with, as data: the default one,
  and the two checks of the update protocol with the fields of the protocol they compare.
\<close>

datatype eventPredicate =
    NeverExpected
  | AcceptedExpected string string int64   \<comment> \<open>\<open>checkAcceptedEvent\<close>\<close>
  | CompletedExpected string               \<comment> \<open>\<open>checkCompletedEvent\<close>\<close>

record outboxEntry =
  oe_eventPredicate :: eventPredicate
  oe_msg :: protocolMessage

section \<open>The environment\<close>

record workflowInfo =
  wi_TaskQueueName :: string
  wi_WorkflowType :: string
  wi_currentRunID :: string
  wi_currentHistoryLength :: int64
  wi_continueAsNewSuggested :: bool
  wi_continueAsNewSuggestedReasons :: "32 word list"
  wi_targetWorkerDeploymentVersionChanged :: bool
  wi_currentHistorySize :: int64
  wi_SearchAttributes :: "payloadMap option"
  wi_Memo :: "payloadMap option"
  wi_WorkflowTaskTimeout :: int64
  wi_RetryPolicy :: "retryPolicy option"
  wi_BinaryChecksum :: string
  wi_currentTaskBuildID :: string
  wi_nexusContext :: proto               \<comment> \<open>the propagated nexus serialization context\<close>

record preferredVersionProviderInput =
  pv_WorkflowInfo :: workflowInfo
  pv_ChangeID :: string
  pv_MinSupported :: int64
  pv_MaxSupported :: int64

record versionPreference =
  vp_Version :: int64
  vp_ClampToSupportedRange :: bool

record sessionInfo =
  si_SessionID :: string
  si_rest :: proto

text \<open>
  A random stream is a ChaCha8 generator of the Go library: its seed and the number of bytes read.
\<close>

record workflowRandomStream =
  rs_seed :: string
  rs_read :: nat

text \<open>
  What is fixed for the life of an environment is in \<open>config\<close>: the converters, the version provider,
  the table of allowed flags (a global of the package), and the default data converter and the hash
  function of the Go library, which are parameters of the model.
\<close>

record config =
  cf_dataConverter :: dataConverter
  cf_failureConverter :: failureConverter
  cf_rootDataConverter :: dataConverter
  cf_rootFailureConverter :: failureConverter
  cf_defaultDataConverter :: dataConverter
  cf_withNexusContext :: "proto \<Rightarrow> dataConverter \<Rightarrow> dataConverter"
  cf_withNexusContextFailure :: "proto \<Rightarrow> failureConverter \<Rightarrow> failureConverter"
  cf_preferredVersionProvider ::
    "(preferredVersionProviderInput \<Rightarrow> versionPreference option) option"
  cf_flagsAllowed :: flagMap
  cf_sha256 :: "string \<Rightarrow> string"

record workflowEnvironmentImpl =
  wc_config :: config
  wc_workflowInfo :: workflowInfo
  wc_commandsHelper :: helper
  wc_outbox :: "outboxEntry list"
  wc_sideEffectResult :: "(int64, payloads option) fmap"
  wc_changeVersions :: "(string, int64) fmap"
  wc_pendingLaTasks :: "(string, localActivityTask) fmap"
  wc_completedLaAttemptsThisWFT :: uint32
  wc_mutableSideEffect :: "(string, (int, payloads option) fmap) fmap"
  wc_unstartedLaTasks :: "string fset"
  wc_openSessions :: "(string, sessionInfo) fmap"
  wc_mutableSideEffectsRecorded :: "string fset"
  wc_mutableSideEffectCallCounter :: "(string, int) fmap"
  wc_localActivityCounterID :: int64
  wc_sideEffectCounterID :: int64
  wc_randoms :: "(string, workflowRandomStream) fmap"
  wc_currentReplayTime :: int
  wc_currentLocalTime :: int
  wc_cancelHandler :: bool               \<comment> \<open>whether a handler is registered\<close>
  wc_signalHandler :: bool
  wc_queryHandler :: bool
  wc_updateHandler :: bool
  wc_isReplay :: bool
  wc_sdkFlags :: sdkFlags
  wc_sdkVersionUpdated :: bool
  wc_sdkVersion :: string
  wc_sdkNameUpdated :: bool
  wc_sdkName :: string
  wc_bufferedUpdateRequests :: "(string, handler list) fmap"
  wc_protocols :: "(string, updateProtocol) fmap"
  wc_workflowDefinition :: bool          \<comment> \<open>of \<open>workflowExecutionEventHandlerImpl\<close>\<close>
  wc_calls :: "call list"

type_synonym env = workflowEnvironmentImpl

definition newWorkflowExecutionEventHandler :: "config \<Rightarrow> workflowInfo \<Rightarrow> bool \<Rightarrow> env" where
  "newWorkflowExecutionEventHandler cfg info sdkMetadata =
     \<lparr>wc_config = cfg, wc_workflowInfo = info, wc_commandsHelper = newCommandsHelper,
      wc_outbox = [], wc_sideEffectResult = fmempty, wc_changeVersions = fmempty,
      wc_pendingLaTasks = fmempty, wc_completedLaAttemptsThisWFT = 0,
      wc_mutableSideEffect = fmempty, wc_unstartedLaTasks = {||}, wc_openSessions = fmempty,
      wc_mutableSideEffectsRecorded = {||}, wc_mutableSideEffectCallCounter = fmempty,
      wc_localActivityCounterID = 0, wc_sideEffectCounterID = 0, wc_randoms = fmempty,
      wc_currentReplayTime = 0, wc_currentLocalTime = 0, wc_cancelHandler = False,
      wc_signalHandler = False, wc_queryHandler = False, wc_updateHandler = False,
      wc_isReplay = False, wc_sdkFlags = newSDKFlagSet sdkMetadata, wc_sdkVersionUpdated = False,
      wc_sdkVersion = [], wc_sdkNameUpdated = False, wc_sdkName = [],
      wc_bufferedUpdateRequests = fmempty, wc_protocols = fmempty,
      wc_workflowDefinition = False, wc_calls = []\<rparr>"

end
