(* ===== verification/Workflow_Api.thy ===== *)
theory Workflow_Api
  imports Workflow_Env "HOL-Library.List_Lexorder" "HOL-Library.Char_ord"
begin

text \<open>
  The operations workflow code calls on its environment (\<open>workflowEnvironmentImpl\<close> of
  \<open>internal/internal_event_handlers.go\<close>), with the encoding of memos and search attributes they
  use (\<open>internal/internal_workflow_client.go\<close>, \<open>internal/internal_search_attributes.go\<close>). An
  operation returns its result with the new environment.

  A Go map that an operation is given or iterates over is an association list in the order Go visits
  it, which the language leaves open.
\<close>

section \<open>Reaching into the environment\<close>

definition withHelper :: "(helper \<Rightarrow> ('a \<times> helper) res) \<Rightarrow> env \<Rightarrow> ('a \<times> env) res" where
  "withHelper f wc = bind_res (f (wc_commandsHelper wc)) (\<lambda>(a, h).
     Inr (a, wc\<lparr>wc_commandsHelper := h\<rparr>))"

definition callBack :: "env \<Rightarrow> call list \<Rightarrow> env" where
  "callBack wc cs = wc\<lparr>wc_calls := wc_calls wc @ cs\<rparr>"

definition getData :: "env \<Rightarrow> ptr \<Rightarrow> scheduled option res" where
  "getData wc p = bind_res (deref (wc_commandsHelper wc) p) (\<lambda>d. Inr (m_data d))"

definition setData :: "env \<Rightarrow> ptr \<Rightarrow> scheduled \<Rightarrow> env res" where
  "setData wc p s = bind_res (deref (wc_commandsHelper wc) p) (\<lambda>d.
     Inr (wc\<lparr>wc_commandsHelper := putMachine (wc_commandsHelper wc) p (d\<lparr>m_data := Some s\<rparr>)\<rparr>))"

fun asTimer :: "scheduled option \<Rightarrow> scheduledTimer res" where
  "asTimer (Some (ScheduledTimer s)) = Inr s"
| "asTimer _ = Inl TypeAssertion"

fun asActivity :: "scheduled option \<Rightarrow> scheduledActivity res" where
  "asActivity (Some (ScheduledActivity s)) = Inr s"
| "asActivity _ = Inl TypeAssertion"

fun asNexus :: "scheduled option \<Rightarrow> scheduledNexusOperation res" where
  "asNexus (Some (ScheduledNexusOperation s)) = Inr s"
| "asNexus _ = Inl TypeAssertion"

fun asChild :: "scheduled option \<Rightarrow> scheduledChildWorkflow res" where
  "asChild (Some (ScheduledChildWorkflow s)) = Inr s"
| "asChild _ = Inl TypeAssertion"

fun asCancellation :: "scheduled option \<Rightarrow> scheduledCancellation res" where
  "asCancellation (Some (ScheduledCancellation s)) = Inr s"
| "asCancellation _ = Inl TypeAssertion"

fun asSignal :: "scheduled option \<Rightarrow> scheduledSignal res" where
  "asSignal (Some (ScheduledSignal s)) = Inr s"
| "asSignal _ = Inl TypeAssertion"

text \<open>Every command resolves the same way: write back the data marked handled, then call.\<close>

definition resolveWith :: "env \<Rightarrow> ptr \<Rightarrow> ('a \<Rightarrow> scheduled) \<Rightarrow> ('a \<times> call) res \<Rightarrow> env res" where
  "resolveWith wc p wrap r = bind_res r (\<lambda>(s, c).
     bind_res (setData wc p (wrap s)) (\<lambda>wc1. Inr (callBack wc1 [c])))"

definition TryUse :: "env \<Rightarrow> sdkFlag \<Rightarrow> bool \<times> env" where
  "TryUse wc flag =
     (let (b, sf) = tryUse (cf_flagsAllowed (wc_config wc)) (wc_sdkFlags wc) flag (\<not> wc_isReplay wc)
      in (b, wc\<lparr>wc_sdkFlags := sf\<rparr>))"

abbreviation dataConverterOf :: "env \<Rightarrow> dataConverter" where
  "dataConverterOf wc \<equiv> cf_dataConverter (wc_config wc)"

abbreviation failureConverterOf :: "env \<Rightarrow> failureConverter" where
  "failureConverterOf wc \<equiv> cf_failureConverter (wc_config wc)"

section \<open>Messages, names and ids\<close>

definition takeOutgoingMessages :: "env \<Rightarrow> protocolMessage list \<times> env" where
  "takeOutgoingMessages wc = (map oe_msg (wc_outbox wc), wc\<lparr>wc_outbox := []\<rparr>)"

record sendCfg =
  addCmd :: bool
  pred :: eventPredicate

definition withExpectedEventPredicate :: "eventPredicate \<Rightarrow> sendCfg \<Rightarrow> sendCfg" where
  "withExpectedEventPredicate p so = so\<lparr>addCmd := True, pred := p\<rparr>"

definition Send :: "env \<Rightarrow> protocolMessage \<Rightarrow> (sendCfg \<Rightarrow> sendCfg) list \<Rightarrow> env res" where
  "Send wc msg opts =
     (let cfg = foldl (\<lambda>so opt. opt so) \<lparr>addCmd = False, pred = NeverExpected\<rparr> opts;
          (canSendCmd, wc1) = TryUse wc SDKFlagProtocolMessageCommand in
      bind_res
        (if canSendCmd \<and> addCmd cfg
         then bind_res (withHelper (\<lambda>h. addProtocolMessage h (msg_Id msg)) wc1) (\<lambda>(_, wc2). Inr wc2)
         else Inr wc1) (\<lambda>wc2.
      Inr (wc2\<lparr>wc_outbox := wc_outbox wc2 @ [\<lparr>oe_eventPredicate = pred cfg, oe_msg = msg\<rparr>]\<rparr>)))"

definition getNewSdkNameAndReset :: "env \<Rightarrow> string \<times> env" where
  "getNewSdkNameAndReset wc =
     (if wc_sdkNameUpdated wc then (wc_sdkName wc, wc\<lparr>wc_sdkNameUpdated := False\<rparr>) else ([], wc))"

definition getNewSdkVersionAndReset :: "env \<Rightarrow> string \<times> env" where
  "getNewSdkVersionAndReset wc =
     (if wc_sdkVersionUpdated wc then (wc_sdkVersion wc, wc\<lparr>wc_sdkVersionUpdated := False\<rparr>)
      else ([], wc))"

definition getNextLocalActivityID :: "env \<Rightarrow> string \<times> env" where
  "getNextLocalActivityID wc =
     (let n = wc_localActivityCounterID wc + 1
      in (formatInt n, wc\<lparr>wc_localActivityCounterID := n\<rparr>))"

definition getNextSideEffectID :: "env \<Rightarrow> int64 \<times> env" where
  "getNextSideEffectID wc =
     (let n = wc_sideEffectCounterID wc + 1 in (n, wc\<lparr>wc_sideEffectCounterID := n\<rparr>))"

definition Complete :: "env \<Rightarrow> payloads option \<Rightarrow> goError option \<Rightarrow> env" where
  "Complete wc result err = callBack wc [CompleteCall result err]"

definition GenerateSequence :: "env \<Rightarrow> (int64 \<times> env) res" where
  "GenerateSequence = withHelper getNextID"

definition GenerateSequenceID :: "env \<Rightarrow> (string \<times> env) res" where
  "GenerateSequenceID wc = bind_res (GenerateSequence wc) (\<lambda>(n, wc1). Inr (formatInt n, wc1))"

section \<open>External workflows\<close>

definition RequestCancelChildWorkflow :: "env \<Rightarrow> string \<Rightarrow> string \<Rightarrow> env res" where
  "RequestCancelChildWorkflow wc namespace workflowID =
     bind_res (withHelper (\<lambda>h.
       requestCancelExternalWorkflowExecution h namespace workflowID [] [] True []) wc)
     (\<lambda>(_, wc1). Inr wc1)"

definition RequestCancelExternalWorkflow ::
    "env \<Rightarrow> string \<Rightarrow> string \<Rightarrow> string \<Rightarrow> eventGroupMarker list \<Rightarrow> handler \<Rightarrow> env res" where
  "RequestCancelExternalWorkflow wc namespace workflowID runID markers callback =
     bind_res (GenerateSequenceID wc) (\<lambda>(cancellationID, wc1).
     bind_res (withHelper (\<lambda>h. requestCancelExternalWorkflowExecution h namespace workflowID runID
         cancellationID False markers) wc1) (\<lambda>(p, wc2).
     setData wc2 p (ScheduledCancellation \<lparr>scn_callback = callback, scn_handled = False\<rparr>)))"

definition SignalExternalWorkflow ::
    "env \<Rightarrow> string \<Rightarrow> string \<Rightarrow> string \<Rightarrow> string \<Rightarrow> payloads option \<Rightarrow> proto \<Rightarrow> bool
      \<Rightarrow> eventGroupMarker list \<Rightarrow> handler \<Rightarrow> env res" where
  "SignalExternalWorkflow wc namespace workflowID runID signalName input header childWorkflowOnly
       markers callback =
     bind_res (GenerateSequenceID wc) (\<lambda>(signalID, wc1).
     bind_res (withHelper (\<lambda>h. signalExternalWorkflowExecution h namespace workflowID runID signalName
         input header signalID childWorkflowOnly markers) wc1) (\<lambda>(p, wc2).
     setData wc2 p (ScheduledSignal \<lparr>ss_callback = callback, ss_handled = False\<rparr>)))"

section \<open>Search attributes\<close>

definition TemporalChangeVersion :: string where
  "TemporalChangeVersion = ''TemporalChangeVersion''"

fun serializeUntypedLoop ::
    "dataConverter \<Rightarrow> payloadMap \<Rightarrow> (string \<times> goValue) list \<Rightarrow> string + payloadMap" where
  "serializeUntypedLoop dc attr [] = Inr attr"
| "serializeUntypedLoop dc attr ((k, v) # kvs) =
     (case v of
        GoPayload vp \<Rightarrow> serializeUntypedLoop dc (fmupd k vp attr) kvs
      | _ \<Rightarrow>
         (case dc_ToPayload dc v of
            Inl err \<Rightarrow> Inl (''encode search attribute ['' @ k @ ''] error: '' @ err)
          | Inr p \<Rightarrow> serializeUntypedLoop dc (fmupd k p attr) kvs))"

definition serializeUntypedSearchAttributes ::
    "dataConverter \<Rightarrow> (string \<times> goValue) list option \<Rightarrow> string + payloadMap option" where
  "serializeUntypedSearchAttributes dc input =
     (case input of
        None \<Rightarrow> Inr None
      | Some kvs \<Rightarrow> (case serializeUntypedLoop dc fmempty kvs of
            Inl err \<Rightarrow> Inl err | Inr attr \<Rightarrow> Inr (Some attr)))"

record searchAttributeKey =
  sak_name :: string
  sak_valueType :: string

fun setMetadata :: "string \<Rightarrow> string \<Rightarrow> (string \<times> string) list \<Rightarrow> (string \<times> string) list" where
  "setMetadata k v [] = [(k, v)]"
| "setMetadata k v ((k', v') # m) = (if k' = k then (k, v) # m else (k', v') # setMetadata k v m)"

definition withValueType :: "string \<Rightarrow> payload option \<Rightarrow> payload option" where
  "withValueType t p = map_option (\<lambda>p.
     if payload_data p \<noteq> None
     then p\<lparr>payload_metadata := setMetadata ''type'' t (payload_metadata p)\<rparr> else p) p"

fun serializeTypedSearchAttributes ::
    "dataConverter \<Rightarrow> (searchAttributeKey \<times> goValue) list \<Rightarrow> string + (string \<times> payload option) list" where
  "serializeTypedSearchAttributes dc [] = Inr []"
| "serializeTypedSearchAttributes dc ((k, v) # kvs) =
     (case dc_ToPayload dc v of
        Inl err \<Rightarrow> Inl (''encode search attribute ['' @ sak_name k @ ''] error: '' @ err)
      | Inr p \<Rightarrow>
         (case serializeTypedSearchAttributes dc kvs of
            Inl err \<Rightarrow> Inl err
          | Inr rest \<Rightarrow> Inr ((sak_name k, withValueType (sak_valueType k) p) # rest)))"

definition nilEncoded :: "payload option \<Rightarrow> bool" where
  "nilEncoded p = (case p of None \<Rightarrow> False
     | Some p \<Rightarrow> map_of (payload_metadata p) ''encoding'' = Some ''binary/null'')"

definition sanitizeSearchAttributesForStart :: "payloadMap option \<Rightarrow> payloadMap option" where
  "sanitizeSearchAttributesForStart attributes =
     (case attributes of
        None \<Rightarrow> None
      | Some flds \<Rightarrow>
         (if fmdom flds = {||} then Some flds
          else if \<not> fBex (fmdom flds) (\<lambda>k. nilEncoded (the (fmlookup flds k)))
          then Some flds
          else let filtered = fmfilter (\<lambda>k. \<not> nilEncoded (the (fmlookup flds k))) flds in
               if fmdom filtered = {||} then None else Some filtered))"

definition SerializeSearchAttributes ::
    "dataConverter \<Rightarrow> (string \<times> goValue) list option \<Rightarrow> (searchAttributeKey \<times> goValue) list
      \<Rightarrow> string + payloadMap option" where
  "SerializeSearchAttributes dc untyped typed =
     (if untyped \<noteq> None \<and> typed \<noteq> []
      then Inl ''cannot specify both SearchAttributes and TypedSearchAttributes''
      else if untyped \<noteq> None then
        (case serializeUntypedSearchAttributes dc untyped of
           Inl err \<Rightarrow> Inl err | Inr attr \<Rightarrow> Inr (sanitizeSearchAttributesForStart attr))
      else if typed \<noteq> [] then
        (case serializeTypedSearchAttributes dc typed of
           Inl err \<Rightarrow> Inl err
         | Inr kps \<Rightarrow> Inr (sanitizeSearchAttributesForStart (Some (fmap_of_list (rev kps)))))
      else Inr (sanitizeSearchAttributesForStart None))"

definition emptyFields :: "payloadMap option \<Rightarrow> bool" where
  "emptyFields m = (case m of None \<Rightarrow> True | Some flds \<Rightarrow> fmdom flds = {||})"

definition mergeSearchAttributes ::
    "payloadMap option \<Rightarrow> payloadMap option \<Rightarrow> payloadMap option res" where
  "mergeSearchAttributes current upsert =
     (if emptyFields current \<and> emptyFields upsert then Inr None
      else let flds = (if emptyFields current then fmempty else the current) in
        (case upsert of
           None \<Rightarrow> Inl NilDereference
         | Some up \<Rightarrow> Inr (Some (fmadd flds up))))"

definition updateWorkflowInfoWithSearchAttributes :: "env \<Rightarrow> payloadMap option \<Rightarrow> env res" where
  "updateWorkflowInfoWithSearchAttributes wc attributes =
     bind_res (mergeSearchAttributes (wi_SearchAttributes (wc_workflowInfo wc)) attributes) (\<lambda>m.
     Inr (wc\<lparr>wc_workflowInfo := (wc_workflowInfo wc)\<lparr>wi_SearchAttributes := m\<rparr>\<rparr>))"

definition validateAndSerializeSearchAttributes ::
    "dataConverter \<Rightarrow> (string \<times> goValue) list \<Rightarrow> string + payloadMap option" where
  "validateAndSerializeSearchAttributes dc attributes =
     (if attributes = [] then Inl ''search attributes is empty''
      else serializeUntypedSearchAttributes dc (Some attributes))"

definition UpsertSearchAttributes ::
    "env \<Rightarrow> (string \<times> goValue) list \<Rightarrow> eventGroupMarker list \<Rightarrow> (goError option \<times> env) res" where
  "UpsertSearchAttributes wc attributes markers =
     (case validateAndSerializeSearchAttributes (cf_defaultDataConverter (wc_config wc)) attributes of
        Inl err \<Rightarrow> Inr (Some (GoError err), wc)
      | Inr attr \<Rightarrow>
          bind_res
            (case map_of attributes TemporalChangeVersion of
               Some (GoStrings (s # _)) \<Rightarrow> Inr (s, wc)
             | Some (GoStrings []) \<Rightarrow> Inl IndexOutOfRange
             | Some _ \<Rightarrow> Inl TypeAssertion
             | None \<Rightarrow> GenerateSequenceID wc) (\<lambda>(upsertID, wc1).
          bind_res (withHelper (\<lambda>h. upsertSearchAttributes h upsertID attr markers) wc1) (\<lambda>(_, wc2).
          bind_res (updateWorkflowInfoWithSearchAttributes wc2 attr) (\<lambda>wc3.
          Inr (None, wc3)))))"

definition UpsertTypedSearchAttributes ::
    "env \<Rightarrow> (searchAttributeKey \<times> goValue) list \<Rightarrow> eventGroupMarker list
      \<Rightarrow> (goError option \<times> env) res" where
  "UpsertTypedSearchAttributes wc attributes markers =
     (case serializeTypedSearchAttributes (cf_defaultDataConverter (wc_config wc)) attributes of
        Inl err \<Rightarrow> Inr (Some (GoError err), wc)
      | Inr raw \<Rightarrow>
         (if TemporalChangeVersion \<in> fst ` set raw
          then Inr (Some (GoError (''TemporalChangeVersion is a reserved key that cannot be set, '' @
                 ''please use other key'')), wc)
          else UpsertSearchAttributes wc (map (\<lambda>(k, p). (k, GoPayload p)) raw) markers))"

section \<open>Memos\<close>

definition encodeMemoValue ::
    "dataConverter \<Rightarrow> goValue \<Rightarrow> dataConverter \<Rightarrow> bool \<Rightarrow> string + payload option" where
  "encodeMemoValue defaultDC v dc useUserDC =
     (if useUserDC then
        (case dc_ToPayload dc v of
           Inr p \<Rightarrow> Inr p
         | Inl dcErr \<Rightarrow>
            (case dc_ToPayload defaultDC v of Inl _ \<Rightarrow> Inl dcErr | Inr p \<Rightarrow> Inr p))
      else dc_ToPayload defaultDC v)"

fun encodeMemoLoop ::
    "dataConverter \<Rightarrow> dataConverter \<Rightarrow> bool \<Rightarrow> payloadMap \<Rightarrow> (string \<times> goValue) list
      \<Rightarrow> string + payloadMap" where
  "encodeMemoLoop defaultDC dc useUserDC memo [] = Inr memo"
| "encodeMemoLoop defaultDC dc useUserDC memo ((k, v) # kvs) =
     (case encodeMemoValue defaultDC v dc useUserDC of
        Inl err \<Rightarrow> Inl (''encode workflow memo error: '' @ err)
      | Inr p \<Rightarrow> encodeMemoLoop defaultDC dc useUserDC (fmupd k p memo) kvs)"

definition GetWorkflowMemo ::
    "dataConverter \<Rightarrow> (string \<times> goValue) list option \<Rightarrow> dataConverter option \<Rightarrow> bool
      \<Rightarrow> string + payloadMap option" where
  "GetWorkflowMemo defaultDC input dc useUserDC =
     (case input of
        None \<Rightarrow> Inr None
      | Some kvs \<Rightarrow>
         (case encodeMemoLoop defaultDC (case dc of None \<Rightarrow> defaultDC | Some dc \<Rightarrow> dc) useUserDC
             fmempty kvs of
            Inl err \<Rightarrow> Inl err | Inr memo \<Rightarrow> Inr (Some memo)))"

text \<open>A field whose payload has no data removes the key.\<close>

definition upsertField :: "string \<times> payload option \<Rightarrow> payloadMap \<Rightarrow> payloadMap res" where
  "upsertField kv flds =
     (case snd kv of
        None \<Rightarrow> Inl NilDereference
      | Some v \<Rightarrow> Inr (if payload_data v = None then fmdrop (fst kv) flds
                       else fmupd (fst kv) (Some v) flds))"

fun upsertFields :: "(string \<times> payload option) list \<Rightarrow> payloadMap \<Rightarrow> payloadMap res" where
  "upsertFields [] flds = Inr flds"
| "upsertFields (kv # kvs) flds = bind_res (upsertField kv flds) (upsertFields kvs)"

text \<open>
  \<open>ks\<close> lists the keys of \<open>upsert\<close> in the order Go visits them. The result does not depend on it
  (\<open>mergeMemo_order\<close>), so the callers below use the ascending one.
\<close>

definition mergeMemo ::
    "string list \<Rightarrow> payloadMap option \<Rightarrow> payloadMap option \<Rightarrow> payloadMap option res" where
  "mergeMemo ks current upsert =
     (if emptyFields current \<and> emptyFields upsert then Inr None
      else let flds = (if emptyFields current then fmempty else the current) in
        (case upsert of
           None \<Rightarrow> Inl NilDereference
         | Some up \<Rightarrow>
             bind_res (upsertFields (map (\<lambda>k. (k, the (fmlookup up k))) ks) flds) (\<lambda>m. Inr (Some m))))"

definition fieldNames :: "payloadMap option \<Rightarrow> string list" where
  "fieldNames m = (case m of None \<Rightarrow> [] | Some flds \<Rightarrow> sorted_list_of_fset (fmdom flds))"

definition updateWorkflowInfoWithMemo :: "env \<Rightarrow> payloadMap option \<Rightarrow> env res" where
  "updateWorkflowInfoWithMemo wc memo =
     bind_res (mergeMemo (fieldNames memo) (wi_Memo (wc_workflowInfo wc)) memo) (\<lambda>m.
     Inr (wc\<lparr>wc_workflowInfo := (wc_workflowInfo wc)\<lparr>wi_Memo := m\<rparr>\<rparr>))"

definition validateAndSerializeMemo ::
    "dataConverter \<Rightarrow> (string \<times> goValue) list \<Rightarrow> dataConverter \<Rightarrow> bool \<Rightarrow> string + payloadMap option" where
  "validateAndSerializeMemo defaultDC memoMap dc useUserDC =
     (if memoMap = [] then Inl ''memo is empty''
      else GetWorkflowMemo defaultDC (Some memoMap) (Some dc) useUserDC)"

definition UpsertMemo ::
    "env \<Rightarrow> (string \<times> goValue) list \<Rightarrow> eventGroupMarker list \<Rightarrow> (goError option \<times> env) res" where
  "UpsertMemo wc memoMap markers =
     (let (useUserDC, wc0) = TryUse wc SDKFlagMemoUserDCEncode in
      case validateAndSerializeMemo (cf_defaultDataConverter (wc_config wc0)) memoMap
             (dataConverterOf wc0) useUserDC of
        Inl err \<Rightarrow> Inr (Some (GoError err), wc0)
      | Inr memo \<Rightarrow>
          bind_res (GenerateSequenceID wc0) (\<lambda>(changeID, wc1).
          bind_res (withHelper (\<lambda>h. modifyProperties h changeID memo markers) wc1) (\<lambda>(_, wc2).
          bind_res (updateWorkflowInfoWithMemo wc2 memo) (\<lambda>wc3.
          Inr (None, wc3)))))"

section \<open>Handlers\<close>

definition RegisterCancelHandler :: "env \<Rightarrow> env" where
  "RegisterCancelHandler wc = wc\<lparr>wc_cancelHandler := True\<rparr>"

definition RegisterSignalHandler :: "env \<Rightarrow> env" where
  "RegisterSignalHandler wc = wc\<lparr>wc_signalHandler := True\<rparr>"

definition RegisterQueryHandler :: "env \<Rightarrow> env" where
  "RegisterQueryHandler wc = wc\<lparr>wc_queryHandler := True\<rparr>"

definition RegisterUpdateHandler :: "env \<Rightarrow> env" where
  "RegisterUpdateHandler wc = wc\<lparr>wc_updateHandler := True\<rparr>"

section \<open>Child workflows\<close>

definition determineInheritBuildIdFlagForCommand ::
    "versioningIntent \<Rightarrow> string \<Rightarrow> string \<Rightarrow> bool" where
  "determineInheritBuildIdFlagForCommand intent workerTq targetTq =
     (if intent = VersioningIntentDefault \<or> intent = VersioningIntentUseAssignmentRules then False
      else if intent = VersioningIntentUnspecified \<and> targetTq \<noteq> [] \<and> workerTq \<noteq> targetTq then False
      else True)"

record executeWorkflowParams =
  wp_Namespace :: string
  wp_WorkflowID :: string
  wp_WorkflowType :: string
  wp_TaskQueueName :: string
  wp_Input :: "payloads option"
  wp_WorkflowExecutionTimeout :: int64
  wp_WorkflowRunTimeout :: int64
  wp_WorkflowTaskTimeout :: int64
  wp_CronSchedule :: string
  wp_Memo :: "(string \<times> goValue) list option"
  wp_SearchAttributes :: "(string \<times> goValue) list option"
  wp_TypedSearchAttributes :: "(searchAttributeKey \<times> goValue) list"
  wp_VersioningIntent :: versioningIntent
  wp_StaticSummary :: string
  wp_StaticDetails :: string
  wp_WaitForCancellation :: bool
  wp_EventGroupMarkers :: "eventGroupMarker list"
  wp_dataConverter :: "dataConverter option"
  wp_failureConverter :: "failureConverter option"
  wp_rest :: proto

definition childWorkflowAttributes ::
    "executeWorkflowParams \<Rightarrow> string \<Rightarrow> payloadMap option \<Rightarrow> payloadMap option \<Rightarrow> string
      \<Rightarrow> startChildWorkflowAttributes" where
  "childWorkflowAttributes params workflowID memo searchAttr workerTq =
     \<lparr>child_Namespace = wp_Namespace params, child_WorkflowId = workflowID,
      child_WorkflowType = wp_WorkflowType params, child_TaskQueue = wp_TaskQueueName params,
      child_Input = wp_Input params,
      child_WorkflowExecutionTimeout = wp_WorkflowExecutionTimeout params,
      child_WorkflowRunTimeout = wp_WorkflowRunTimeout params,
      child_WorkflowTaskTimeout = wp_WorkflowTaskTimeout params,
      child_CronSchedule = wp_CronSchedule params, child_Memo = memo,
      child_SearchAttributes = searchAttr,
      child_InheritBuildId = determineInheritBuildIdFlagForCommand (wp_VersioningIntent params)
        workerTq (wp_TaskQueueName params),
      child_rest = wp_rest params\<rparr>"

text \<open>A child that cannot be started: the started future gets an error when the flag allows it.\<close>

definition childNotStarted :: "env \<Rightarrow> handler \<Rightarrow> handler \<Rightarrow> goError \<Rightarrow> env" where
  "childNotStarted wc callback startedHandler err =
     (let (b, wc1) = TryUse wc SDKFlagChildWorkflowErrorExecution in
      callBack wc1
        ((if b then [ChildStartedCall startedHandler \<lparr>we_ID = [], we_RunID = []\<rparr>
                      (Some ChildWorkflowExecutionAlreadyStartedError)] else []) @
         [ResultCall callback None (Some err)]))"

definition orDefault :: "'a option \<Rightarrow> 'a \<Rightarrow> 'a" where
  "orDefault x d = (case x of None \<Rightarrow> d | Some a \<Rightarrow> a)"

definition startChild ::
    "env \<Rightarrow> executeWorkflowParams \<Rightarrow> startChildWorkflowAttributes \<Rightarrow> handler \<Rightarrow> handler \<Rightarrow> env res" where
  "startChild wc params attributes callback startedHandler =
     (case BuildUserMetadata (wp_StaticSummary params) (wp_StaticDetails params) (dataConverterOf wc) of
        Inl err \<Rightarrow> Inr (callBack wc [ResultCall callback None (Some (GoError err))])
      | Inr startMetadata \<Rightarrow>
          bind_res (withHelper (\<lambda>h.
            startChildWorkflowExecution h attributes startMetadata (wp_EventGroupMarkers params)) wc)
          (\<lambda>(r, wc1).
            case r of
              Inl _ \<Rightarrow> Inr (childNotStarted wc1 callback startedHandler
                         ChildWorkflowExecutionAlreadyStartedError)
            | Inr p \<Rightarrow> setData wc1 p (ScheduledChildWorkflow
                \<lparr>sc_resultCallback = callback, sc_startedCallback = startedHandler,
                 sc_waitForCancellation = wp_WaitForCancellation params, sc_handled = False,
                 sc_dataConverter = orDefault (wp_dataConverter params) (dataConverterOf wc1),
                 sc_failureConverter =
                   orDefault (wp_failureConverter params) (failureConverterOf wc1)\<rparr>)))"

definition ExecuteChildWorkflow ::
    "env \<Rightarrow> executeWorkflowParams \<Rightarrow> handler \<Rightarrow> handler \<Rightarrow> env res" where
  "ExecuteChildWorkflow wc params callback startedHandler =
     bind_res
       (if wp_WorkflowID params = []
        then bind_res (GenerateSequenceID wc) (\<lambda>(n, wc1).
               Inr (wi_currentRunID (wc_workflowInfo wc1) @ ''_'' @ n, wc1))
        else Inr (wp_WorkflowID params, wc)) (\<lambda>(workflowID, wc1).
     let (useUserDC, wc2) = TryUse wc1 SDKFlagMemoUserDCEncode;
         defaultDC = cf_defaultDataConverter (wc_config wc2) in
     case GetWorkflowMemo defaultDC (wp_Memo params) (Some (dataConverterOf wc2)) useUserDC of
       Inl err \<Rightarrow> Inr (childNotStarted wc2 callback startedHandler (GoError err))
     | Inr memo \<Rightarrow>
        (case SerializeSearchAttributes defaultDC (wp_SearchAttributes params)
                (wp_TypedSearchAttributes params) of
           Inl err \<Rightarrow> Inr (childNotStarted wc2 callback startedHandler (GoError err))
         | Inr searchAttr \<Rightarrow>
             startChild wc2 params (childWorkflowAttributes params workflowID memo searchAttr
               (wi_TaskQueueName (wc_workflowInfo wc2))) callback startedHandler))"

section \<open>Nexus operations\<close>

record executeNexusOperationParams =
  np_endpoint :: string
  np_service :: string
  np_operation :: string
  np_input :: "payload option"
  np_Summary :: string
  np_CancellationType :: nexusOperationCancellationType
  np_failureConverter :: "failureConverter option"
  np_eventGroupMarkers :: "eventGroupMarker list"
  np_rest :: proto

definition ExecuteNexusOperation ::
    "env \<Rightarrow> executeNexusOperationParams \<Rightarrow> handler \<Rightarrow> handler \<Rightarrow> (int64 \<times> env) res" where
  "ExecuteNexusOperation wc params callback startedHandler =
     bind_res (GenerateSequence wc) (\<lambda>(seq, wc1).
     case BuildUserMetadata (np_Summary params) [] (dataConverterOf wc1) of
       Inl err \<Rightarrow> Inr (0, callBack wc1 [NexusCompletedCall callback None (Some (GoError err))])
     | Inr startMetadata \<Rightarrow>
         bind_res (withHelper (\<lambda>h. scheduleNexusOperation h seq
             \<lparr>nexus_Endpoint = np_endpoint params, nexus_Service = np_service params,
              nexus_Operation = np_operation params, nexus_Input = np_input params,
              nexus_rest = np_rest params\<rparr> startMetadata (np_eventGroupMarkers params)) wc1)
         (\<lambda>(p, wc2).
         bind_res (setData wc2 p (ScheduledNexusOperation
           \<lparr>sn_startedCallback = Some startedHandler, sn_completedCallback = Some callback,
            sn_cancellationType = np_CancellationType params, sn_endpoint = np_endpoint params,
            sn_service = np_service params, sn_operation = np_operation params,
            sn_failureConverter = orDefault (np_failureConverter params) (failureConverterOf wc2)\<rparr>))
         (\<lambda>wc3. Inr (seq, wc3))))"

text \<open>Calls both callbacks of the operation that are still set and clears them.\<close>

definition resolveNexus ::
    "env \<Rightarrow> ptr \<Rightarrow> scheduledNexusOperation \<Rightarrow> payload option \<Rightarrow> goError option \<Rightarrow> env res" where
  "resolveNexus wc p s result err =
     (let (s1, cs) = releaseNexusCallbacks s result err in
      bind_res (setData wc p (ScheduledNexusOperation s1)) (\<lambda>wc1. Inr (callBack wc1 cs)))"

definition RequestCancelNexusOperation :: "env \<Rightarrow> int64 \<Rightarrow> env res" where
  "RequestCancelNexusOperation wc seq =
     bind_res (withHelper (\<lambda>h. requestCancelNexusOperation h seq) wc) (\<lambda>(p, wc1).
     bind_res (bind_res (getData wc1 p) asNexus) (\<lambda>s.
     bind_res (deref (wc_commandsHelper wc1) p) (\<lambda>d.
       if m_state d = commandStateCreated \<or> m_state d = commandStateCommandSent
       then resolveNexus wc1 p s None (Some ErrCanceled) else Inr wc1)))"

definition AbandonNexusOperation :: "env \<Rightarrow> int64 \<Rightarrow> env res" where
  "AbandonNexusOperation wc seq =
     bind_res (getNexusOperationCommand (wc_commandsHelper wc) seq) (\<lambda>p.
     bind_res (bind_res (getData wc p) asNexus) (\<lambda>s.
       setData wc p (ScheduledNexusOperation
         (s\<lparr>sn_startedCallback := None, sn_completedCallback := None\<rparr>))))"

section \<open>Activities\<close>

record executeActivityParams =
  ap_ActivityID :: string
  ap_ScheduleID :: int64
  ap_ActivityType :: string
  ap_TaskQueueName :: string
  ap_Input :: "payloads option"
  ap_ScheduleToCloseTimeout :: int64
  ap_ScheduleToStartTimeout :: int64
  ap_StartToCloseTimeout :: int64
  ap_HeartbeatTimeout :: int64
  ap_WaitForCancellation :: bool
  ap_DisableEagerExecution :: bool
  ap_VersioningIntent :: versioningIntent
  ap_Summary :: string
  ap_EventGroupMarkers :: "eventGroupMarker list"
  ap_DataConverter :: "dataConverter option"
  ap_FailureConverter :: "failureConverter option"
  ap_rest :: proto

definition activityAttributes ::
    "executeActivityParams \<Rightarrow> string \<Rightarrow> string \<Rightarrow> scheduleActivityAttributes" where
  "activityAttributes params activityID workerTq =
     \<lparr>act_ActivityId = activityID, act_ActivityType = ap_ActivityType params,
      act_TaskQueue = ap_TaskQueueName params, act_Input = ap_Input params,
      act_ScheduleToCloseTimeout = ap_ScheduleToCloseTimeout params,
      act_StartToCloseTimeout = ap_StartToCloseTimeout params,
      act_ScheduleToStartTimeout = ap_ScheduleToStartTimeout params,
      act_HeartbeatTimeout = ap_HeartbeatTimeout params,
      act_RequestEagerExecution = (\<not> ap_DisableEagerExecution params),
      act_UseWorkflowBuildId = determineInheritBuildIdFlagForCommand (ap_VersioningIntent params)
        workerTq (ap_TaskQueueName params),
      act_rest = ap_rest params\<rparr>"

definition ExecuteActivity ::
    "env \<Rightarrow> executeActivityParams \<Rightarrow> handler \<Rightarrow> (string \<times> env) res" where
  "ExecuteActivity wc params callback =
     bind_res (if ap_ScheduleID params = 0 then GenerateSequence wc
               else Inr (ap_ScheduleID params, wc)) (\<lambda>(scheduleID, wc1).
     let activityID = (if ap_ActivityID params = [] then formatInt scheduleID
                       else ap_ActivityID params) in
     case BuildUserMetadata (ap_Summary params) [] (dataConverterOf wc1) of
       Inl err \<Rightarrow> Inr ([], callBack wc1 [ResultCall callback None (Some (GoError err))])
     | Inr startMetadata \<Rightarrow>
         bind_res (withHelper (\<lambda>h. scheduleActivityTask h scheduleID
             (activityAttributes params activityID (wi_TaskQueueName (wc_workflowInfo wc1)))
             startMetadata (ap_EventGroupMarkers params)) wc1) (\<lambda>(p, wc2).
         bind_res (setData wc2 p (ScheduledActivity
           \<lparr>sa_callback = callback, sa_waitForCancelRequest = ap_WaitForCancellation params,
            sa_handled = False, sa_activityType = ap_ActivityType params,
            sa_dataConverter = orDefault (ap_DataConverter params) (dataConverterOf wc2),
            sa_failureConverter = orDefault (ap_FailureConverter params) (failureConverterOf wc2)\<rparr>))
         (\<lambda>wc3. Inr (activityID, wc3))))"

definition RequestCancelActivity :: "env \<Rightarrow> string \<Rightarrow> env res" where
  "RequestCancelActivity wc activityID =
     bind_res (withHelper (\<lambda>h. requestCancelActivityTask h activityID) wc) (\<lambda>(p, wc1).
     bind_res (bind_res (getData wc1 p) asActivity) (\<lambda>s.
       if sa_handled s then Inr wc1
       else bind_res (deref (wc_commandsHelper wc1) p) (\<lambda>d.
         if machine_isDone d \<or> \<not> sa_waitForCancelRequest s
         then resolveWith wc1 p ScheduledActivity
                (scheduledActivity_handle s None (Some ErrCanceled))
         else Inr wc1)))"

definition ExecuteLocalActivity ::
    "int \<Rightarrow> env \<Rightarrow> executeLocalActivityParams \<Rightarrow> handler \<Rightarrow> string \<times> env" where
  "ExecuteLocalActivity now wc params callback =
     (let (activityID, wc1) = getNextLocalActivityID wc;
          task = newLocalActivityTask now params callback activityID
      in (activityID, wc1\<lparr>wc_pendingLaTasks := fmupd activityID task (wc_pendingLaTasks wc1),
                          wc_unstartedLaTasks := finsert activityID (wc_unstartedLaTasks wc1)\<rparr>))"

definition RequestCancelLocalActivity :: "env \<Rightarrow> string \<Rightarrow> env" where
  "RequestCancelLocalActivity wc activityID =
     (case fmlookup (wc_pendingLaTasks wc) activityID of
        None \<Rightarrow> wc
      | Some task \<Rightarrow>
          let (task1, cs) = localActivityTask_cancel task in
          callBack (wc\<lparr>wc_pendingLaTasks := fmupd activityID task1 (wc_pendingLaTasks wc)\<rparr>) cs)"

section \<open>Time and timers\<close>

definition SetCurrentReplayTime :: "int \<Rightarrow> env \<Rightarrow> int \<Rightarrow> env" where
  "SetCurrentReplayTime now wc replayTime =
     (if replayTime < wc_currentReplayTime wc then wc
      else wc\<lparr>wc_currentReplayTime := replayTime, wc_currentLocalTime := now\<rparr>)"

definition NewTimer ::
    "env \<Rightarrow> int64 \<Rightarrow> string \<Rightarrow> eventGroupMarker list \<Rightarrow> handler \<Rightarrow> (string option \<times> env) res" where
  "NewTimer wc d options_Summary markers callback =
     (if sint d < 0
      then Inr (None, callBack wc [ResultCall callback None
             (Some (GoError (''negative duration provided '' @ formatInt d)))])
      else if d = 0 then Inr (None, callBack wc [ResultCall callback None None])
      else
        bind_res (GenerateSequenceID wc) (\<lambda>(timerID, wc1).
        bind_res (withHelper (\<lambda>h. startTimer h \<lparr>timer_TimerId = timerID, timer_StartToFireTimeout = d\<rparr>
            options_Summary (dataConverterOf wc1) markers) wc1) (\<lambda>(p, wc2).
        bind_res (setData wc2 p (ScheduledTimer \<lparr>st_callback = callback, st_handled = False\<rparr>))
          (\<lambda>wc3. Inr (Some timerID, wc3)))))"

definition RequestCancelTimer :: "env \<Rightarrow> string \<Rightarrow> env res" where
  "RequestCancelTimer wc timerID =
     bind_res (withHelper (\<lambda>h. cancelTimer h timerID) wc) (\<lambda>(p, wc1).
     bind_res (bind_res (getData wc1 p) asTimer) (\<lambda>s.
       if st_handled s then Inr wc1
       else resolveWith wc1 p ScheduledTimer (scheduledTimer_handle s None (Some ErrCanceled))))"

end
