(* ===== verification/Workflow_Recorded.thy ===== *)
theory Workflow_Recorded
  imports Workflow_Api
begin

text \<open>
  The operations of the environment whose results are recorded in history and read back in a replay
  (\<open>GetVersion\<close>, \<open>SideEffect\<close>, \<open>MutableSideEffect\<close>), and its bookkeeping: buffered update requests,
  sessions, the attempts of local activities in a workflow task and the named random streams
  (\<open>internal/workflow_random.go\<close>).
\<close>

section \<open>Versions\<close>

definition DefaultVersion :: int64 where "DefaultVersion = - 1"

definition changeVersionSearchAttrSizeLimit :: nat where
  "changeVersionSearchAttrSizeLimit = 2048"

definition validateVersion :: "string \<Rightarrow> int64 \<Rightarrow> int64 \<Rightarrow> int64 \<Rightarrow> unit res" where
  "validateVersion changeID version minSupported maxSupported =
     (if sint version < sint minSupported
      then panicIllegalState (''[TMPRL1100] Workflow code removed support of version '' @
        formatInt version @ ''. for \"'' @ changeID @ ''\" changeID. The oldest supported version is '' @
        formatInt minSupported)
      else if sint version > sint maxSupported
      then panicIllegalState (''[TMPRL1100] Workflow code is too old to support version '' @
        formatInt version @ '' for \"'' @ changeID @ ''\" changeID. The maximum supported version is '' @
        formatInt maxSupported)
      else Inr ())"

definition resolvePreferredVersion ::
    "(preferredVersionProviderInput \<Rightarrow> versionPreference option) option
      \<Rightarrow> preferredVersionProviderInput \<Rightarrow> int64 res" where
  "resolvePreferredVersion provider input =
     (case provider of
        None \<Rightarrow> Inr (pv_MaxSupported input)
      | Some f \<Rightarrow>
         (case f input of
            None \<Rightarrow> Inr (pv_MaxSupported input)
          | Some preference \<Rightarrow>
             (if sint (vp_Version preference) \<ge> sint (pv_MinSupported input) \<and>
                 sint (vp_Version preference) \<le> sint (pv_MaxSupported input)
              then Inr (vp_Version preference)
              else if vp_ClampToSupportedRange preference then
                (if sint (vp_Version preference) < sint (pv_MinSupported input)
                 then Inr (pv_MinSupported input) else Inr (pv_MaxSupported input))
              else panicIllegalState (''[TMPRL1100] Preferred version '' @
                formatInt (vp_Version preference) @ '' for \"'' @ pv_ChangeID input @
                ''\" change ID is not supported. Supported versions are between '' @
                formatInt (pv_MinSupported input) @ '' and '' @
                formatInt (pv_MaxSupported input) @ ''.''))))"

definition getChangeVersion :: "string \<Rightarrow> int64 \<Rightarrow> string" where
  "getChangeVersion changeID version = changeID @ ''-'' @ formatInt version"

text \<open>\<open>ks\<close> lists the keys of the map of existing versions in the order Go visits them.\<close>

definition getChangeVersions ::
    "string list \<Rightarrow> string \<Rightarrow> int64 \<Rightarrow> (string, int64) fmap \<Rightarrow> string list" where
  "getChangeVersions ks changeID version existingChangeVersions =
     getChangeVersion changeID version #
     map (\<lambda>k. getChangeVersion k (the (fmlookup existingChangeVersions k))) ks"

definition createSearchAttributesForChangeVersion ::
    "string list \<Rightarrow> string \<Rightarrow> int64 \<Rightarrow> (string, int64) fmap \<Rightarrow> (string \<times> goValue) list" where
  "createSearchAttributesForChangeVersion ks changeID version existingChangeVersions =
     [(TemporalChangeVersion,
       GoStrings (getChangeVersions ks changeID version existingChangeVersions))]"

definition changeVersionSize :: "payloadMap option \<Rightarrow> nat" where
  "changeVersionSize attr =
     (case attr of None \<Rightarrow> 0 | Some m \<Rightarrow>
       (case fmlookup m TemporalChangeVersion of
          Some (Some p) \<Rightarrow> (case payload_data p of None \<Rightarrow> 0 | Some s \<Rightarrow> length s)
        | _ \<Rightarrow> 0))"

text \<open>The first call for a change id in a task that is not replayed: record and search attribute.\<close>

definition recordNewVersion ::
    "string list \<Rightarrow> env \<Rightarrow> string \<Rightarrow> int64 \<Rightarrow> eventGroupMarker list \<Rightarrow> env res" where
  "recordNewVersion ks wc changeID version markers =
     (let changeVersionSA =
            createSearchAttributesForChangeVersion ks changeID version (wc_changeVersions wc) in
      case validateAndSerializeSearchAttributes (cf_defaultDataConverter (wc_config wc))
             changeVersionSA of
        Inl _ \<Rightarrow> Inr wc
      | Inr attr \<Rightarrow>
         (let (limited, wc1) = TryUse wc SDKFlagLimitChangeVersionSASize;
              updateSearchAttribute =
                (\<not> (limited \<and> changeVersionSize attr \<ge> changeVersionSearchAttrSizeLimit)) in
          bind_res (withHelper (\<lambda>h. recordVersionMarker h changeID version (dataConverterOf wc1)
              updateSearchAttribute markers) wc1) (\<lambda>(_, wc2).
          if updateSearchAttribute
          then bind_res (UpsertSearchAttributes wc2 changeVersionSA markers) (\<lambda>(_, wc3). Inr wc3)
          else Inr wc2)))"

definition GetVersion ::
    "string list \<Rightarrow> env \<Rightarrow> string \<Rightarrow> int64 \<Rightarrow> int64 \<Rightarrow> eventGroupMarker list \<Rightarrow> (int64 \<times> env) res" where
  "GetVersion ks wc changeID minSupported maxSupported markers =
     (case fmlookup (wc_changeVersions wc) changeID of
        Some version \<Rightarrow>
          bind_res (validateVersion changeID version minSupported maxSupported) (\<lambda>_.
          Inr (version, wc))
      | None \<Rightarrow>
          bind_res
            (if wc_isReplay wc then Inr (DefaultVersion, wc)
             else
               bind_res (resolvePreferredVersion (cf_preferredVersionProvider (wc_config wc))
                 \<lparr>pv_WorkflowInfo = wc_workflowInfo wc, pv_ChangeID = changeID,
                  pv_MinSupported = minSupported, pv_MaxSupported = maxSupported\<rparr>) (\<lambda>version.
               bind_res (recordNewVersion ks wc changeID version markers) (\<lambda>wc1.
               Inr (version, wc1)))) (\<lambda>(version, wc1).
          bind_res (validateVersion changeID version minSupported maxSupported) (\<lambda>_.
          Inr (version, wc1\<lparr>wc_changeVersions := fmupd changeID version (wc_changeVersions wc1)\<rparr>))))"

section \<open>Side effects\<close>

text \<open>
  \<open>f\<close> is the result of the user's function, which is called only when the task is not replayed.
\<close>

definition recordSideEffect ::
    "env \<Rightarrow> int64 \<Rightarrow> payloads option \<Rightarrow> string \<Rightarrow> eventGroupMarker list \<Rightarrow> handler \<Rightarrow> env res" where
  "recordSideEffect wc sideEffectID result summ markers callback =
     (case BuildUserMetadata summ [] (dataConverterOf wc) of
        Inl err \<Rightarrow> Inl (PanicString (''failed to build user metadata for side effect: '' @ err))
      | Inr metadata \<Rightarrow>
          bind_res (withHelper (\<lambda>h. recordSideEffectMarker h sideEffectID result (dataConverterOf wc)
              metadata markers) wc) (\<lambda>(_, wc1).
          Inr (callBack wc1 [ResultCall callback result None])))"

definition SideEffect ::
    "env \<Rightarrow> payloads option \<times> goError option \<Rightarrow> handler \<Rightarrow> string \<Rightarrow> eventGroupMarker list \<Rightarrow> env res" where
  "SideEffect wc f callback summ markers =
     (let (sideEffectID, wc1) = getNextSideEffectID wc in
      if wc_isReplay wc1 then
        (case fmlookup (wc_sideEffectResult wc1) sideEffectID of
           None \<Rightarrow> panicIllegalState (''[TMPRL1100] No cached result found for side effectID='' @
             formatInt sideEffectID)
         | Some result \<Rightarrow>
             recordSideEffect (wc1\<lparr>wc_sideEffectResult := fmdrop sideEffectID (wc_sideEffectResult wc1)\<rparr>)
               sideEffectID result summ markers callback)
      else
        (case snd f of
           Some err \<Rightarrow> Inr (callBack wc1 [ResultCall callback (fst f) (Some err)])
         | None \<Rightarrow> recordSideEffect wc1 sideEffectID (fst f) summ markers callback))"

section \<open>Mutable side effects\<close>

definition countOf :: "env \<Rightarrow> string \<Rightarrow> int" where
  "countOf wc i = (case fmlookup (wc_mutableSideEffectCallCounter wc) i of None \<Rightarrow> 0 | Some n \<Rightarrow> n)"

text \<open>The loop over the recorded calls: the most recent one at or before the current call.\<close>

fun latestCall :: "(int, payloads option) fmap \<Rightarrow> int \<Rightarrow> int \<times> payloads option \<Rightarrow> int list
    \<Rightarrow> int \<times> payloads option" where
  "latestCall m current (idx, payload) [] = (idx, payload)"
| "latestCall m current (idx, payload) (c # cs) =
     (if c \<le> current \<and> c > idx then latestCall m current (c, the (fmlookup m c)) cs
      else latestCall m current (idx, payload) cs)"

definition lookupMutableSideEffect :: "env \<Rightarrow> string \<Rightarrow> payloads option \<times> env" where
  "lookupMutableSideEffect wc i =
     (case fmlookup (wc_mutableSideEffect wc) i of
        None \<Rightarrow> (None, wc)
      | Some m \<Rightarrow>
         (if fmdom m = {||} then (None, wc)
          else
            let current = countOf wc i;
                (idx, payload) = latestCall m current (- 1, None) (sorted_list_of_fset (fmdom m));
                m1 = fmfilter (\<lambda>c. \<not> (c \<le> current \<and> c \<noteq> idx)) m
            in (payload, wc\<lparr>wc_mutableSideEffect := fmupd i m1 (wc_mutableSideEffect wc)\<rparr>)))"

definition encodeArg :: "env \<Rightarrow> goValue \<Rightarrow> string + payloads option" where
  "encodeArg wc v = dc_ToPayloads (dataConverterOf wc) [v]"

definition encodeValue :: "env \<Rightarrow> goValue \<Rightarrow> payloads option res" where
  "encodeValue wc v = panicOnError (encodeArg wc v)"

definition recordMutableSideEffect ::
    "env \<Rightarrow> string \<Rightarrow> int \<Rightarrow> payloads option \<Rightarrow> string \<Rightarrow> eventGroupMarker list
      \<Rightarrow> (payloads option \<times> env) res" where
  "recordMutableSideEffect wc i callCountHint data summ markers =
     bind_res (panicOnError (dc_ToPayloads (dataConverterOf wc) [GoString i, GoPayloads data])) (\<lambda>dets.
     case BuildUserMetadata summ [] (dataConverterOf wc) of
       Inl err \<Rightarrow> Inl (PanicString (''failed to build user metadata for mutable side effect: '' @ err))
     | Inr metadata \<Rightarrow>
         bind_res (withHelper (\<lambda>h. recordMutableSideEffectMarker h i (word_of_int callCountHint) dets
             (dataConverterOf wc) metadata markers) wc) (\<lambda>(_, wc1).
         Inr (data, wc1\<lparr>wc_mutableSideEffect := fmupd i
           (fmupd callCountHint data
             (case fmlookup (wc_mutableSideEffect wc1) i of None \<Rightarrow> fmempty | Some m \<Rightarrow> m))
           (wc_mutableSideEffect wc1)\<rparr>)))"

text \<open>The zero value of the type of a value, which \<open>reflect.New\<close> allocates.\<close>

fun zeroOf :: "goValue \<Rightarrow> goValue" where
  "zeroOf (GoString _) = GoString []"
| "zeroOf (GoInt64 _) = GoInt64 0"
| "zeroOf (GoBool _) = GoBool False"
| "zeroOf (GoPayload _) = GoPayload None"
| "zeroOf (GoPayloads _) = GoPayloads None"
| "zeroOf (GoStrings _) = GoStrings []"
| "zeroOf (GoMarkerData _) = GoMarkerData \<lparr>lamd_ActivityID = [], lamd_ActivityType = [],
     lamd_ReplayTime = 0, lamd_Attempt = 0, lamd_Backoff = 0\<rparr>"
| "zeroOf (GoEncodedFailure _ _) = GoEncodedFailure [] []"
| "zeroOf v = v"

definition decodeValue :: "dataConverter \<Rightarrow> payloads option \<Rightarrow> goValue \<Rightarrow> goValue res" where
  "decodeValue dc encoded v =
     (if encoded = None then Inl (PanicError ''no data available'')
      else bind_res (panicOnError (dc_FromPayloads dc encoded [zeroOf v])) (\<lambda>vs.
        case vs of [] \<Rightarrow> Inr (zeroOf v) | w # _ \<Rightarrow> Inr w))"

definition isEqualMutableSideEffectValue ::
    "dataConverter \<Rightarrow> goValue \<Rightarrow> payloads option \<Rightarrow> (goValue \<Rightarrow> goValue \<Rightarrow> bool) \<Rightarrow> bool res" where
  "isEqualMutableSideEffectValue dc newValue encodedOldValue equals =
     (if newValue = GoNil
      then bind_res (panicOnError (dc_ToPayloads dc [GoNil])) (\<lambda>enc. Inr (enc = encodedOldValue))
      else bind_res (decodeValue dc encodedOldValue newValue) (\<lambda>oldValue.
             Inr (equals newValue oldValue)))"

definition MutableSideEffect ::
    "env \<Rightarrow> string \<Rightarrow> goValue \<Rightarrow> (goValue \<Rightarrow> goValue \<Rightarrow> bool) \<Rightarrow> string \<Rightarrow> eventGroupMarker list
      \<Rightarrow> (payloads option \<times> env) res" where
  "MutableSideEffect wc i f equals summ markers =
     (let callCount = countOf wc i + 1;
          wc1 = wc\<lparr>wc_mutableSideEffectCallCounter :=
                    fmupd i callCount (wc_mutableSideEffectCallCounter wc)\<rparr>;
          (found, wc2) = lookupMutableSideEffect wc1 i in
      case found of
        Some result \<Rightarrow>
         (if wc_isReplay wc2 then
            bind_res (GenerateSequence wc2) (\<lambda>(n, wc3).
            if i @ ''_'' @ formatInt n |\<in>| wc_mutableSideEffectsRecorded wc3
            then recordMutableSideEffect wc3 i callCount (Some result) summ markers
            else Inr (Some result, wc3))
          else
            bind_res (isEqualMutableSideEffectValue (dataConverterOf wc2) f (Some result) equals) (\<lambda>same.
            if same then Inr (Some result, wc2)
            else bind_res (encodeValue wc2 f) (\<lambda>enc.
              recordMutableSideEffect wc2 i callCount enc summ markers)))
      | None \<Rightarrow>
         (if wc_isReplay wc2
          then panicIllegalState (''[TMPRL1100] Non deterministic workflow code change detected. '' @
            ''MutableSideEffect API call doesn'' @ [CHR 0x27] @
            ''t have a correspondent event in the workflow history. '' @
            ''MutableSideEffect ID: '' @ i)
          else bind_res (encodeValue wc2 f) (\<lambda>enc.
            recordMutableSideEffect wc2 i callCount enc summ markers)))"

section \<open>Buffered updates and sessions\<close>

definition QueueUpdate :: "env \<Rightarrow> string \<Rightarrow> handler \<Rightarrow> env" where
  "QueueUpdate wc name f =
     wc\<lparr>wc_bufferedUpdateRequests := fmupd name
       ((case fmlookup (wc_bufferedUpdateRequests wc) name of None \<Rightarrow> [] | Some fs \<Rightarrow> fs) @ [f])
       (wc_bufferedUpdateRequests wc)\<rparr>"

definition HandleQueuedUpdates :: "env \<Rightarrow> string \<Rightarrow> env" where
  "HandleQueuedUpdates wc name =
     (case fmlookup (wc_bufferedUpdateRequests wc) name of
        None \<Rightarrow> wc
      | Some fs \<Rightarrow> (callBack wc (map QueuedUpdateCall fs))
          \<lparr>wc_bufferedUpdateRequests := fmdrop name (wc_bufferedUpdateRequests wc)\<rparr>)"

text \<open>\<open>ks\<close> lists the names with buffered requests in the order Go visits them.\<close>

fun drainLoop :: "string list \<Rightarrow> env \<Rightarrow> bool \<Rightarrow> bool \<times> env" where
  "drainLoop [] wc anyExecuted = (anyExecuted, wc)"
| "drainLoop (name # ks) wc anyExecuted =
     (let fs = (case fmlookup (wc_bufferedUpdateRequests wc) name of None \<Rightarrow> [] | Some fs \<Rightarrow> fs)
      in drainLoop ks (HandleQueuedUpdates wc name) (anyExecuted \<or> fs \<noteq> []))"

definition DrainUnhandledUpdates :: "string list \<Rightarrow> env \<Rightarrow> bool \<times> env" where
  "DrainUnhandledUpdates ks wc = drainLoop ks wc False"

definition AddSession :: "env \<Rightarrow> sessionInfo \<Rightarrow> env" where
  "AddSession wc info =
     wc\<lparr>wc_openSessions := fmupd (si_SessionID info) info (wc_openSessions wc)\<rparr>"

definition RemoveSession :: "env \<Rightarrow> string \<Rightarrow> env" where
  "RemoveSession wc sessionID = wc\<lparr>wc_openSessions := fmdrop sessionID (wc_openSessions wc)\<rparr>"

definition getOpenSessions :: "string list \<Rightarrow> env \<Rightarrow> sessionInfo list" where
  "getOpenSessions ks wc = map (\<lambda>k. the (fmlookup (wc_openSessions wc) k)) ks"

section \<open>Attempts of local activities\<close>

definition ResetLAWFTAttemptCounts :: "env \<Rightarrow> env" where
  "ResetLAWFTAttemptCounts wc =
     wc\<lparr>wc_completedLaAttemptsThisWFT := 0,
        wc_pendingLaTasks := fmmap (\<lambda>t. t\<lparr>la_attemptsThisWFT := 0, la_pastFirstWFT := True\<rparr>)
          (wc_pendingLaTasks wc)\<rparr>"

definition attemptsOf :: "localActivityTask \<Rightarrow> uint32" where
  "attemptsOf t = (if la_pastFirstWFT t then la_attemptsThisWFT t else 0)"

definition GatherLAAttemptsThisWFT :: "env \<Rightarrow> uint32" where
  "GatherLAAttemptsThisWFT wc =
     (\<Sum>k\<in>fmdom' (wc_pendingLaTasks wc). attemptsOf (the (fmlookup (wc_pendingLaTasks wc) k))) +
     wc_completedLaAttemptsThisWFT wc"

section \<open>Random streams\<close>

definition seedVersion :: string where "seedVersion = ''temporal.sdk.random.v1''"

definition deriveSeed :: "(string \<Rightarrow> string) \<Rightarrow> string \<Rightarrow> string \<Rightarrow> string" where
  "deriveSeed sha256 runID name = sha256 (seedVersion @ [CHR 0x00] @ runID @ [CHR 0x00] @ name)"

definition getRandomStream ::
    "(string \<Rightarrow> string) \<Rightarrow> (string, workflowRandomStream) fmap \<Rightarrow> string \<Rightarrow> string
      \<Rightarrow> workflowRandomStream \<times> (string, workflowRandomStream) fmap" where
  "getRandomStream sha256 randoms runID name =
     (case fmlookup randoms name of
        Some r \<Rightarrow> (r, randoms)
      | None \<Rightarrow>
          let r = \<lparr>rs_seed = deriveSeed sha256 runID name, rs_read = 0\<rparr> in (r, fmupd name r randoms))"

definition reseedRandoms ::
    "(string \<Rightarrow> string) \<Rightarrow> (string, workflowRandomStream) fmap \<Rightarrow> string
      \<Rightarrow> (string, workflowRandomStream) fmap" where
  "reseedRandoms sha256 randoms newRunID =
     fmmap_keys (\<lambda>name r. \<lparr>rs_seed = deriveSeed sha256 newRunID name, rs_read = 0\<rparr>) randoms"

definition GetRandomStream :: "env \<Rightarrow> string \<Rightarrow> workflowRandomStream \<times> env" where
  "GetRandomStream wc name =
     (let (r, rs) = getRandomStream (cf_sha256 (wc_config wc)) (wc_randoms wc)
            (wi_currentRunID (wc_workflowInfo wc)) name
      in (r, wc\<lparr>wc_randoms := rs\<rparr>))"

end
