(* ===== verification/Update_Protocol.thy ===== *)
theory Update_Protocol
  imports Workflow_Recorded
begin

text \<open>
  The protocol of workflow updates (\<open>internal/internal_update.go\<close>) and the registry of running
  protocols (\<open>internal/protocol\<close>). An instance lives in the registry of the environment under its
  id, and the callbacks the update handler is given refer to it by that id.

  Workflow code is a parameter: a record of the entry points through which the event handler runs
  it. Each may call any operation of the environment, so each takes and returns an environment.
\<close>

section \<open>Workflow code\<close>

record workflowCode =
  wf_getWorkflowDefinition :: "string \<Rightarrow> goError option"
  wf_Execute :: "env \<Rightarrow> proto \<Rightarrow> payloads option \<Rightarrow> env res"
  wf_OnWorkflowTaskStarted :: "env \<Rightarrow> env res"
  wf_cancelHandler :: "env \<Rightarrow> env res"
  wf_signalHandler :: "env \<Rightarrow> string \<Rightarrow> payloads option \<Rightarrow> proto \<Rightarrow> (goError option \<times> env) res"
  wf_queryHandler :: "env \<Rightarrow> string \<Rightarrow> payloads option \<Rightarrow> proto \<Rightarrow> goError + payloads option"
  wf_updateHandler ::
    "env \<Rightarrow> string \<Rightarrow> string \<Rightarrow> payloads option \<Rightarrow> proto \<Rightarrow> string \<Rightarrow> env res"
    \<comment> \<open>name, update id, arguments, header, protocol instance\<close>
  wf_StackTrace :: "env \<Rightarrow> string"

section \<open>The registry\<close>

definition putProtocol :: "env \<Rightarrow> updateProtocol \<Rightarrow> env" where
  "putProtocol wc up =
     wc\<lparr>wc_protocols := fmupd (up_protoInstanceID up) up (wc_protocols wc)\<rparr>"

definition getProtocol :: "env \<Rightarrow> string \<Rightarrow> updateProtocol res" where
  "getProtocol wc inst =
     (case fmlookup (wc_protocols wc) inst of None \<Rightarrow> Inl NilDereference | Some up \<Rightarrow> Inr up)"

definition HasCompleted :: "updateProtocol \<Rightarrow> bool" where
  "HasCompleted up \<longleftrightarrow> up_state up = updateStateCompleted"

definition FindOrAdd :: "env \<Rightarrow> string \<Rightarrow> updateProtocol \<Rightarrow> env" where
  "FindOrAdd wc instID fresh =
     (case fmlookup (wc_protocols wc) instID of
        Some _ \<Rightarrow> wc
      | None \<Rightarrow> wc\<lparr>wc_protocols := fmupd instID fresh (wc_protocols wc)\<rparr>)"

definition ClearCompleted :: "env \<Rightarrow> env" where
  "ClearCompleted wc =
     wc\<lparr>wc_protocols := fmfilter (\<lambda>i. \<not> HasCompleted (the (fmlookup (wc_protocols wc) i)))
          (wc_protocols wc)\<rparr>"

section \<open>The protocol\<close>

definition newUpdateProtocol :: "env \<Rightarrow> string \<Rightarrow> updateProtocol" where
  "newUpdateProtocol wc protoInstanceID =
     \<lparr>up_protoInstanceID = protoInstanceID, up_clientIdentity = [], up_initialRequest = None,
      up_requestMsgID = [], up_requestSeqID = 0,
      up_scheduleUpdate = wc_updateHandler wc, up_state = updateStateNew,
      up_outcomeDataConverter = dataConverterOf wc,
      up_outcomeFailureConverter = failureConverterOf wc\<rparr>"

definition requireState :: "updateProtocol \<Rightarrow> string \<Rightarrow> updateState list \<Rightarrow> unit res" where
  "requireState up action valid =
     (if up_state up \<in> set valid then Inr ()
      else panicIllegalState (''[TMPRL1100] invalid action '' @ action @ '' in update protocol ''))"

fun UnmarshalRequest :: "messageBody \<Rightarrow> goError + updateRequest" where
  "UnmarshalRequest (RequestBody r) = Inr r"
| "UnmarshalRequest _ = Inl (GoError ''mismatched message type'')"

definition withRequest :: "config \<Rightarrow> updateRequest \<Rightarrow> updateProtocol \<Rightarrow> updateProtocol" where
  "withRequest cfg request up =
     (let up1 = up\<lparr>up_initialRequest := Some request\<rparr> in
      if ur_nexusContext request = None then up1
      else up1\<lparr>up_outcomeDataConverter :=
                 cf_withNexusContext cfg (ur_nexusContext request) (cf_rootDataConverter cfg),
               up_outcomeFailureConverter :=
                 cf_withNexusContextFailure cfg (ur_nexusContext request)
                   (cf_rootFailureConverter cfg)\<rparr>)"

definition HandleMessage ::
    "workflowCode \<Rightarrow> env \<Rightarrow> string \<Rightarrow> protocolMessage \<Rightarrow> (goError option \<times> env) res" where
  "HandleMessage wd wc inst msg =
     (case UnmarshalRequest (msg_Body msg) of
        Inl err \<Rightarrow> Inr (Some err, wc)
      | Inr request \<Rightarrow>
          bind_res (getProtocol wc inst) (\<lambda>up0.
          let up = withRequest (wc_config wc) request up0 in
          bind_res (requireState up ''update request'' [updateStateNew]) (\<lambda>_.
          let wc1 = putProtocol wc
                (up\<lparr>up_requestMsgID := msg_Id msg, up_requestSeqID := msg_EventId msg\<rparr>) in
          if \<not> up_scheduleUpdate up then Inl NilDereference
          else
            bind_res (wf_updateHandler wd wc1 (ur_name request) (ur_updateID request)
              (ur_args request) (ur_header request) inst) (\<lambda>wc2.
            bind_res (getProtocol wc2 inst) (\<lambda>up2.
            Inr (None, putProtocol wc2 (up2\<lparr>up_state := updateStateRequestInitiated\<rparr>)))))))"

definition Accept :: "env \<Rightarrow> string \<Rightarrow> env res" where
  "Accept wc inst =
     bind_res (getProtocol wc inst) (\<lambda>up.
     bind_res (requireState up ''accept'' [updateStateRequestInitiated]) (\<lambda>_.
     bind_res (Send wc
       \<lparr>msg_Id = up_protoInstanceID up @ ''/accept'', msg_ProtocolInstanceId = up_protoInstanceID up,
        msg_EventId = 0,
        msg_Body = AcceptanceBody (up_requestMsgID up) (up_requestSeqID up) (up_initialRequest up)\<rparr>
       [withExpectedEventPredicate
          (AcceptedExpected (up_protoInstanceID up) (up_requestMsgID up) (up_requestSeqID up))])
     (\<lambda>wc1. Inr (putProtocol wc1
       (up\<lparr>up_initialRequest := None, up_state := updateStateAccepted\<rparr>)))))"

definition Reject :: "env \<Rightarrow> string \<Rightarrow> goError option \<Rightarrow> env res" where
  "Reject wc inst err =
     bind_res (getProtocol wc inst) (\<lambda>up.
     bind_res (requireState up ''reject'' [updateStateNew, updateStateRequestInitiated]) (\<lambda>_.
     bind_res (Send wc
       \<lparr>msg_Id = up_protoInstanceID up @ ''/reject'', msg_ProtocolInstanceId = up_protoInstanceID up,
        msg_EventId = 0,
        msg_Body = RejectionBody (up_requestMsgID up) (up_requestSeqID up) (up_initialRequest up)
          (fc_ErrorToFailure (up_outcomeFailureConverter up) err)\<rparr> [])
     (\<lambda>wc1. Inr (putProtocol wc1 (up\<lparr>up_state := updateStateCompleted\<rparr>)))))"

definition outcomeOf ::
    "updateProtocol \<Rightarrow> goValue \<Rightarrow> goError option \<Rightarrow> updateOutcome res" where
  "outcomeOf up success outcomeErr =
     (if outcomeErr \<noteq> None
      then Inr (OutcomeFailure (fc_ErrorToFailure (up_outcomeFailureConverter up) outcomeErr))
      else bind_res (panicOnError (dc_ToPayloads (up_outcomeDataConverter up) [success])) (\<lambda>p.
             Inr (OutcomeSuccess p)))"

definition up_Complete :: "env \<Rightarrow> string \<Rightarrow> goValue \<Rightarrow> goError option \<Rightarrow> env res" where
  "up_Complete wc inst success outcomeErr =
     bind_res (getProtocol wc inst) (\<lambda>up.
     bind_res (requireState up ''complete'' [updateStateAccepted]) (\<lambda>_.
     bind_res (outcomeOf up success outcomeErr) (\<lambda>outcome.
     bind_res (Send wc
       \<lparr>msg_Id = up_protoInstanceID up @ ''/complete'',
        msg_ProtocolInstanceId = up_protoInstanceID up, msg_EventId = 0,
        msg_Body = ResponseBody (up_protoInstanceID up) (up_clientIdentity up) outcome\<rparr>
       [withExpectedEventPredicate (CompletedExpected (up_protoInstanceID up))])
     (\<lambda>wc1. Inr (putProtocol wc1 (up\<lparr>up_state := updateStateCompleted\<rparr>))))))"

section \<open>Protocol names\<close>

definition updateProtocolV1 :: string where "updateProtocolV1 = ''temporal.api.update.v1''"

fun MessageName :: "messageBody \<Rightarrow> string" where
  "MessageName (RequestBody _) = ''temporal.api.update.v1.Request''"
| "MessageName (AcceptanceBody _ _ _) = ''temporal.api.update.v1.Acceptance''"
| "MessageName (RejectionBody _ _ _ _) = ''temporal.api.update.v1.Rejection''"
| "MessageName (ResponseBody _ _ _) = ''temporal.api.update.v1.Response''"
| "MessageName (OtherBody n) = n"

text \<open>Everything before the last dot, or the whole name when it has none.\<close>

definition upToLastDot :: "string \<Rightarrow> string" where
  "upToLastDot s =
     (if CHR ''.'' \<in> set s then rev (tl (dropWhile (\<lambda>c. c \<noteq> CHR ''.'') (rev s))) else s)"

definition NameFromMessage :: "protocolMessage \<Rightarrow> string + string" where
  "NameFromMessage msg =
     (let bodyType = MessageName (msg_Body msg) in
      if bodyType = [] then Inl ''protocol name not found'' else Inr (upToLastDot bodyType))"

end
