(* ===== verification/Event_Handlers.thy ===== *)
theory Event_Handlers
  imports Update_Protocol
begin

text \<open>
  The handlers of history events (\<open>workflowExecutionEventHandlerImpl\<close> of
  \<open>internal/internal_event_handlers.go\<close>) and \<open>ProcessEvent\<close>, which dispatches to them. An event is
  its id, time and attributes; the attributes determine the event type. Handlers of the source that
  share their name with a method of the commands helper have the prefix \<open>weh_\<close>.
\<close>

section \<open>History events\<close>

datatype startChildFailedCause =
    WORKFLOW_ALREADY_EXISTS
  | START_CHILD_NAMESPACE_NOT_FOUND
  | INVALID_VERSIONING_OVERRIDE
  | OtherStartChildCause string

datatype externalFailedCause =
    EXTERNAL_WORKFLOW_EXECUTION_NOT_FOUND
  | EXTERNAL_NAMESPACE_NOT_FOUND
  | OtherExternalCause string

record childEvent =
  ce_Namespace :: string
  ce_WorkflowId :: string
  ce_RunId :: string
  ce_WorkflowType :: string
  ce_InitiatedEventId :: int64
  ce_StartedEventId :: int64

text \<open>The event types by the part of the handler they concern; some have no handler at all.\<close>

datatype workflowEvent =
    WorkflowExecutionStarted proto "payloads option" "payloadMap option" "payloadMap option"
      \<comment> \<open>header, input, search attributes, memo\<close>
  | WorkflowExecutionCancelRequested
  | WorkflowExecutionSignaled string "payloads option" proto
  | UpsertWorkflowSearchAttributes "payloadMap option"
  | WorkflowPropertiesModified "payloadMap option"

datatype taskEvent =
    WorkflowTaskStarted bool "32 word list" bool int64
      \<comment> \<open>continue-as-new suggested, its reasons, deployment version changed, history size\<close>
  | WorkflowTaskFailed bool string       \<comment> \<open>whether the cause is a reset, new run id\<close>

datatype activityEvent =
    ActivityTaskScheduled string string    \<comment> \<open>activity id and type\<close>
  | ActivityTaskStarted
  | ActivityTaskCompleted int64 "payloads option"
  | ActivityTaskFailed int64 int64 string retryState "failure option"
      \<comment> \<open>scheduled and started event ids, identity, retry state, failure\<close>
  | ActivityTaskTimedOut int64 int64 retryState "failure option"
  | ActivityTaskCancelRequested int64
  | ActivityTaskCanceled int64 int64 string "payloads option"

datatype timerEvent =
    TimerStarted string
  | TimerFired string
  | TimerCanceled string

datatype externalEvent =
    RequestCancelExternalInitiated string string string
      \<comment> \<open>namespace, workflow id, control\<close>
  | RequestCancelExternalFailed int64 string externalFailedCause
  | ExternalCancelRequested int64 string
  | SignalExternalInitiated string string string string
      \<comment> \<open>namespace, workflow id, signal name, control\<close>
  | SignalExternalFailed int64 externalFailedCause
  | ExternalSignaled int64

datatype childWorkflowEvent =
    StartChildInitiated string string      \<comment> \<open>workflow id and type\<close>
  | StartChildFailed childEvent startChildFailedCause
  | ChildStarted childEvent
  | ChildCompleted childEvent "payloads option"
  | ChildFailed childEvent retryState "failure option"
  | ChildCanceled childEvent "payloads option"
  | ChildTimedOut childEvent retryState
  | ChildTerminated childEvent

datatype nexusOperationEvent =
    NexusScheduled string string           \<comment> \<open>service and operation\<close>
  | NexusStarted int64 string string     \<comment> \<open>scheduled event id, operation token, operation id\<close>
  | NexusCompleted int64 "payload option"
  | NexusFailed int64 "failure option"
  | NexusCanceled int64 "failure option"
  | NexusTimedOut int64 "failure option"
  | NexusCancelRequested int64
  | NexusCancelRequestCompleted int64
  | NexusCancelRequestFailed int64 "failure option"

datatype updateEvent =
    UpdateAdmitted "updateRequest option"
  | UpdateAccepted string string int64 "updateRequest option"
      \<comment> \<open>protocol instance, request message, sequencing event, accepted request\<close>
  | UpdateRejected
  | UpdateCompleted string

record taskCompletedAttributes =
  tc_BinaryChecksum :: string
  tc_LangUsedFlags :: "uint32 list"
  tc_SdkName :: string
  tc_SdkVersion :: string
  tc_DeploymentBuildId :: string             \<comment> \<open>of \<open>DeploymentVersion\<close>\<close>
  tc_WorkerDeploymentVersion :: string
  tc_WorkerVersionBuildId :: string          \<comment> \<open>of \<open>WorkerVersion\<close>\<close>

datatype noOperationEvent =
    WorkflowExecutionCompleted
  | WorkflowExecutionFailed
  | WorkflowExecutionTimedOut
  | WorkflowTaskScheduled
  | WorkflowTaskTimedOut
  | WorkflowTaskCompleted taskCompletedAttributes
  | WorkflowExecutionCanceled
  | WorkflowExecutionTerminated
  | WorkflowExecutionContinuedAsNew

datatype eventAttributes =
    WorkflowEvent workflowEvent
  | TaskEvent taskEvent
  | ActivityEvent activityEvent
  | TimerEvent timerEvent
  | ExternalEvent externalEvent
  | ChildEvent childWorkflowEvent
  | NexusEvent nexusOperationEvent
  | UpdateEvent updateEvent
  | MarkerRecorded string "(string, payloads option) fmap option" "failure option"
      \<comment> \<open>marker name, details, failure\<close>
  | NoOperation noOperationEvent
  | UnknownEventType string

record historyEvent =
  ev_EventId :: int64
  ev_EventTime :: int
  ev_WorkerMayIgnore :: bool
  ev_Attributes :: eventAttributes

text \<open>The predicates of sent messages, on events.\<close>

fun checkUpdateEvent :: "eventPredicate \<Rightarrow> updateEvent \<Rightarrow> bool" where
  "checkUpdateEvent (AcceptedExpected inst msgID seqID) (UpdateAccepted i m s _) \<longleftrightarrow>
     i = inst \<and> m = msgID \<and> s = seqID"
| "checkUpdateEvent (CompletedExpected inst) (UpdateCompleted i) \<longleftrightarrow> i = inst"
| "checkUpdateEvent _ _ \<longleftrightarrow> False"

definition checkEvent :: "eventPredicate \<Rightarrow> eventAttributes \<Rightarrow> bool" where
  "checkEvent p attrs = (case attrs of UpdateEvent u \<Rightarrow> checkUpdateEvent p u | _ \<Rightarrow> False)"

type_synonym outcome = "(goError option \<times> env) res"

definition noError :: "env res \<Rightarrow> outcome" where
  "noError r = bind_res r (\<lambda>wc. Inr (None, wc))"

definition helperEvent :: "(helper \<Rightarrow> ('a \<times> helper) res) \<Rightarrow> env \<Rightarrow> outcome" where
  "helperEvent f wc = bind_res (withHelper f wc) (\<lambda>(_, wc1). Inr (None, wc1))"

section \<open>Activities and timers\<close>

definition getActivityAndScheduledEventIDs ::
    "helper \<Rightarrow> activityEvent \<Rightarrow> (string \<times> int64) res" where
  "getActivityAndScheduledEventIDs h attrs =
     bind_res
       (case attrs of
          ActivityTaskCanceled s _ _ _ \<Rightarrow> Inr s
        | ActivityTaskCompleted s _ \<Rightarrow> Inr s
        | ActivityTaskFailed s _ _ _ _ \<Rightarrow> Inr s
        | ActivityTaskTimedOut s _ _ _ \<Rightarrow> Inr s
        | _ \<Rightarrow> panicIllegalState ''[TMPRL1100] unexpected event type'') (\<lambda>scheduledEventID.
     case scheduledEventIDToActivityID h scheduledEventID of
       None \<Rightarrow> panicIllegalState ''[TMPRL1100] unable to find activityID for the event''
     | Some activityID \<Rightarrow> Inr (activityID, scheduledEventID))"

text \<open>
  The three ways an activity closes differ in the result they hand to the callback, which is made
  from the activity's data and id.
\<close>

definition activityClosed ::
    "env \<Rightarrow> activityEvent \<Rightarrow> (scheduledActivity \<Rightarrow> string \<Rightarrow> payloads option \<times> goError option)
      \<Rightarrow> outcome" where
  "activityClosed wc attrs result =
     bind_res (getActivityAndScheduledEventIDs (wc_commandsHelper wc) attrs)
       (\<lambda>(activityID, scheduledEventID).
     bind_res (withHelper (\<lambda>h. handleActivityTaskClosed h activityID scheduledEventID) wc) (\<lambda>(p, wc1).
     bind_res (bind_res (getData wc1 p) asActivity) (\<lambda>s.
       if sa_handled s then Inr (None, wc1)
       else noError (resolveWith wc1 p ScheduledActivity
         (scheduledActivity_handle s (fst (result s activityID)) (snd (result s activityID)))))))"

definition weh_handleActivityTaskCompleted :: "env \<Rightarrow> int64 \<Rightarrow> payloads option \<Rightarrow> outcome" where
  "weh_handleActivityTaskCompleted wc scheduledEventID result =
     activityClosed wc (ActivityTaskCompleted scheduledEventID result) (\<lambda>_ _. (result, None))"

definition weh_handleActivityTaskFailed ::
    "env \<Rightarrow> int64 \<Rightarrow> int64 \<Rightarrow> string \<Rightarrow> retryState \<Rightarrow> failure option \<Rightarrow> outcome" where
  "weh_handleActivityTaskFailed wc scheduledEventID startedEventID identity retry failure =
     activityClosed wc (ActivityTaskFailed scheduledEventID startedEventID identity retry failure)
       (\<lambda>s activityID. (None, Some (NewActivityError scheduledEventID startedEventID identity
          (sa_activityType s) activityID retry (fc_FailureToError (sa_failureConverter s) failure))))"

definition weh_handleActivityTaskTimedOut ::
    "env \<Rightarrow> int64 \<Rightarrow> int64 \<Rightarrow> retryState \<Rightarrow> failure option \<Rightarrow> outcome" where
  "weh_handleActivityTaskTimedOut wc scheduledEventID startedEventID retry failure =
     activityClosed wc (ActivityTaskTimedOut scheduledEventID startedEventID retry failure)
       (\<lambda>s activityID. (None, Some (NewActivityError scheduledEventID startedEventID []
          (sa_activityType s) activityID retry (fc_FailureToError (sa_failureConverter s) failure))))"

definition weh_handleActivityTaskCanceled ::
    "env \<Rightarrow> int64 \<Rightarrow> int64 \<Rightarrow> string \<Rightarrow> payloads option \<Rightarrow> outcome" where
  "weh_handleActivityTaskCanceled wc schedID startedEventID identity dets =
     bind_res (getActivityAndScheduledEventIDs (wc_commandsHelper wc)
         (ActivityTaskCanceled schedID startedEventID identity dets)) (\<lambda>(activityID, scheduledEventID).
     bind_res (withHelper (\<lambda>h. handleActivityTaskCanceled h activityID scheduledEventID) wc)
       (\<lambda>(p, wc1).
     bind_res (bind_res (getData wc1 p) asActivity) (\<lambda>s.
       if sa_handled s then Inr (None, wc1)
       else bind_res (deref (wc_commandsHelper wc1) p) (\<lambda>d.
         if machine_isDone d \<or> \<not> sa_waitForCancelRequest s
         then noError (resolveWith wc1 p ScheduledActivity (scheduledActivity_handle s None
           (Some (NewActivityError schedID startedEventID identity (sa_activityType s) activityID
              RETRY_STATE_NON_RETRYABLE_FAILURE (Some (NewCanceledError (EncodedValues dets)))))))
         else Inr (None, wc1)))))"

definition handleTimerFired :: "env \<Rightarrow> string \<Rightarrow> outcome" where
  "handleTimerFired wc timerID =
     bind_res (withHelper (\<lambda>h. handleTimerClosed h timerID) wc) (\<lambda>(p, wc1).
     bind_res (bind_res (getData wc1 p) asTimer) (\<lambda>s.
       if st_handled s then Inr (None, wc1)
       else noError (resolveWith wc1 p ScheduledTimer (scheduledTimer_handle s None None))))"

section \<open>Child workflows\<close>

fun startChildFailure :: "startChildFailedCause \<Rightarrow> goError" where
  "startChildFailure WORKFLOW_ALREADY_EXISTS = ChildWorkflowExecutionAlreadyStartedError"
| "startChildFailure START_CHILD_NAMESPACE_NOT_FOUND = NamespaceNotFoundError"
| "startChildFailure INVALID_VERSIONING_OVERRIDE = InvalidVersioningOverrideError"
| "startChildFailure (OtherStartChildCause c) =
     GoError (''unable to start child workflow for unknown cause: '' @ c)"

definition weh_handleStartChildWorkflowExecutionFailed ::
    "env \<Rightarrow> childEvent \<Rightarrow> startChildFailedCause \<Rightarrow> outcome" where
  "weh_handleStartChildWorkflowExecutionFailed wc e cause =
     bind_res (withHelper (\<lambda>h. handleStartChildWorkflowExecutionFailed h (ce_WorkflowId e)) wc)
       (\<lambda>(p, wc1).
     bind_res (bind_res (getData wc1 p) asChild) (\<lambda>s.
       if sc_handled s then Inr (None, wc1)
       else
         bind_res (scheduledChildWorkflow_handleFailedToStart s None
           (Some (NewChildWorkflowExecutionError (ce_Namespace e) (ce_WorkflowId e) []
              (ce_WorkflowType e) (ce_InitiatedEventId e) 0 RETRY_STATE_NON_RETRYABLE_FAILURE
              (Some (startChildFailure cause))))) (\<lambda>(s1, cs).
         bind_res (setData wc1 p (ScheduledChildWorkflow s1)) (\<lambda>wc2. Inr (None, callBack wc2 cs)))))"

definition weh_handleChildWorkflowExecutionStarted :: "env \<Rightarrow> childEvent \<Rightarrow> outcome" where
  "weh_handleChildWorkflowExecutionStarted wc e =
     bind_res (withHelper (\<lambda>h. handleChildWorkflowExecutionStarted h (ce_WorkflowId e)) wc)
       (\<lambda>(p, wc1).
     bind_res (bind_res (getData wc1 p) asChild) (\<lambda>s.
       Inr (None, if sc_handled s then wc1 else
         callBack wc1 [ChildStartedCall (sc_startedCallback s)
           \<lparr>we_ID = ce_WorkflowId e, we_RunID = ce_RunId e\<rparr> None])))"

text \<open>The ways a child closes differ in the transition of its command and in the result.\<close>

definition childClosed ::
    "(helper \<Rightarrow> string \<Rightarrow> (ptr \<times> helper) res) \<Rightarrow> env \<Rightarrow> childEvent
      \<Rightarrow> (scheduledChildWorkflow \<Rightarrow> payloads option \<times> goError option) \<Rightarrow> outcome" where
  "childClosed f wc e result =
     bind_res (withHelper (\<lambda>h. f h (ce_WorkflowId e)) wc) (\<lambda>(p, wc1).
     bind_res (bind_res (getData wc1 p) asChild) (\<lambda>s.
       if sc_handled s then Inr (None, wc1)
       else noError (resolveWith wc1 p ScheduledChildWorkflow
         (scheduledChildWorkflow_handle s (fst (result s)) (snd (result s))))))"

definition childError :: "childEvent \<Rightarrow> retryState \<Rightarrow> goError option \<Rightarrow> payloads option \<times> goError option" where
  "childError e retry cause =
     (None, Some (NewChildWorkflowExecutionError (ce_Namespace e) (ce_WorkflowId e) (ce_RunId e)
        (ce_WorkflowType e) (ce_InitiatedEventId e) (ce_StartedEventId e) retry cause))"

definition weh_handleChildWorkflowExecutionCompleted ::
    "env \<Rightarrow> childEvent \<Rightarrow> payloads option \<Rightarrow> outcome" where
  "weh_handleChildWorkflowExecutionCompleted wc e result =
     childClosed handleChildWorkflowExecutionClosed wc e (\<lambda>_. (result, None))"

definition weh_handleChildWorkflowExecutionFailed ::
    "env \<Rightarrow> childEvent \<Rightarrow> retryState \<Rightarrow> failure option \<Rightarrow> outcome" where
  "weh_handleChildWorkflowExecutionFailed wc e retry failure =
     childClosed handleChildWorkflowExecutionClosed wc e
       (\<lambda>s. childError e retry (fc_FailureToError (sc_failureConverter s) failure))"

definition weh_handleChildWorkflowExecutionCanceled ::
    "env \<Rightarrow> childEvent \<Rightarrow> payloads option \<Rightarrow> outcome" where
  "weh_handleChildWorkflowExecutionCanceled wc e dets =
     childClosed handleChildWorkflowExecutionCanceled wc e
       (\<lambda>_. childError e RETRY_STATE_NON_RETRYABLE_FAILURE (Some (NewCanceledError (EncodedValues dets))))"

definition weh_handleChildWorkflowExecutionTimedOut :: "env \<Rightarrow> childEvent \<Rightarrow> retryState \<Rightarrow> outcome" where
  "weh_handleChildWorkflowExecutionTimedOut wc e retry =
     childClosed handleChildWorkflowExecutionClosed wc e
       (\<lambda>_. childError e retry
         (Some (NewTimeoutError ''Child workflow timeout''
            TIMEOUT_TYPE_START_TO_CLOSE None (ErrorDetailsValues []))))"

definition weh_handleChildWorkflowExecutionTerminated :: "env \<Rightarrow> childEvent \<Rightarrow> outcome" where
  "weh_handleChildWorkflowExecutionTerminated wc e =
     childClosed handleChildWorkflowExecutionClosed wc e
       (\<lambda>_. childError e RETRY_STATE_NON_RETRYABLE_FAILURE (Some newTerminatedError))"

section \<open>Nexus operations\<close>

definition onNexusOperation ::
    "(helper \<Rightarrow> int64 \<Rightarrow> (ptr \<times> helper) res) \<Rightarrow> env \<Rightarrow> int64
      \<Rightarrow> (env \<Rightarrow> ptr \<Rightarrow> scheduledNexusOperation \<Rightarrow> env res) \<Rightarrow> outcome" where
  "onNexusOperation f wc scheduledEventID k =
     bind_res (withHelper (\<lambda>h. f h scheduledEventID) wc) (\<lambda>(p, wc1).
     bind_res (bind_res (getData wc1 p) asNexus) (\<lambda>s. noError (k wc1 p s)))"

definition weh_handleNexusOperationStarted :: "env \<Rightarrow> int64 \<Rightarrow> string \<Rightarrow> string \<Rightarrow> outcome" where
  "weh_handleNexusOperationStarted wc scheduledEventID operationToken operationId =
     onNexusOperation handleNexusOperationStarted wc scheduledEventID (\<lambda>wc1 p s.
       case sn_startedCallback s of
         None \<Rightarrow> Inr wc1
       | Some cb \<Rightarrow>
           bind_res (setData wc1 p (ScheduledNexusOperation (s\<lparr>sn_startedCallback := None\<rparr>))) (\<lambda>wc2.
           Inr (callBack wc2 [NexusStartedCall cb
             (if operationToken = [] then operationId else operationToken) None])))"

definition weh_handleNexusOperationCompleted ::
    "env \<Rightarrow> int64 \<Rightarrow> payload option \<Rightarrow> failure option \<Rightarrow> outcome" where
  "weh_handleNexusOperationCompleted wc scheduledEventID result failure =
     onNexusOperation handleNexusOperationCompleted wc scheduledEventID (\<lambda>wc1 p s.
       resolveNexus wc1 p s result
         (if failure = None then None else fc_FailureToError (sn_failureConverter s) failure))"

definition weh_handleNexusOperationCancelRequested :: "env \<Rightarrow> int64 \<Rightarrow> outcome" where
  "weh_handleNexusOperationCancelRequested wc scheduledEventID =
     onNexusOperation handleNexusOperationCancelRequested wc scheduledEventID (\<lambda>wc1 p s.
       if sn_cancellationType s = NexusOperationCancellationTypeTryCancel
       then resolveNexus wc1 p s None (Some ErrCanceled) else Inr wc1)"

definition weh_handleNexusOperationCancelRequestDelivered ::
    "env \<Rightarrow> int64 \<Rightarrow> failure option \<Rightarrow> outcome" where
  "weh_handleNexusOperationCancelRequestDelivered wc scheduledEventID failure =
     (if scheduledEventID = 0 then Inr (None, wc)
      else onNexusOperation handleNexusOperationCancelRequestDelivered wc scheduledEventID (\<lambda>wc1 p s.
        if sn_cancellationType s = NexusOperationCancellationTypeWaitRequested
        then resolveNexus wc1 p s None
          (if failure = None then Some ErrCanceled
           else fc_FailureToError (sn_failureConverter s) failure)
        else Inr wc1))"

section \<open>External workflows\<close>

fun externalFailure :: "string \<Rightarrow> externalFailedCause \<Rightarrow> goError" where
  "externalFailure verb EXTERNAL_WORKFLOW_EXECUTION_NOT_FOUND = UnknownExternalWorkflowExecutionError"
| "externalFailure verb EXTERNAL_NAMESPACE_NOT_FOUND = NamespaceNotFoundError"
| "externalFailure verb (OtherExternalCause c) =
     GoError (''unable to '' @ verb @ '' external workflow for unknown cause: '' @ c)"

definition weh_handleRequestCancelExternalWorkflowExecutionInitiated ::
    "env \<Rightarrow> int64 \<Rightarrow> string \<Rightarrow> string \<Rightarrow> outcome" where
  "weh_handleRequestCancelExternalWorkflowExecutionInitiated wc eventID workflowID cancellationID =
     helperEvent (\<lambda>h. handleRequestCancelExternalWorkflowExecutionInitiated h eventID workflowID
       cancellationID) wc"

text \<open>A cancellation of an external workflow has a future to resolve, that of a child has none.\<close>

definition cancellationResolved ::
    "(helper \<Rightarrow> (bool \<times> ptr \<times> helper) res) \<Rightarrow> env \<Rightarrow> goError option \<Rightarrow> outcome" where
  "cancellationResolved f wc err =
     bind_res (withHelper (\<lambda>h. bind_res (f h) (\<lambda>(b, p, h1). Inr ((b, p), h1))) wc)
       (\<lambda>((isExternal, p), wc1).
     if \<not> isExternal then Inr (None, wc1)
     else bind_res (bind_res (getData wc1 p) asCancellation) (\<lambda>s.
       if scn_handled s then Inr (None, wc1)
       else noError (resolveWith wc1 p ScheduledCancellation (scheduledCancellation_handle s None err))))"

definition weh_handleExternalWorkflowExecutionCancelRequested ::
    "env \<Rightarrow> int64 \<Rightarrow> string \<Rightarrow> outcome" where
  "weh_handleExternalWorkflowExecutionCancelRequested wc initiatedEventID workflowID =
     cancellationResolved (\<lambda>h.
       handleExternalWorkflowExecutionCancelRequested h initiatedEventID workflowID) wc None"

definition weh_handleRequestCancelExternalWorkflowExecutionFailed ::
    "env \<Rightarrow> int64 \<Rightarrow> string \<Rightarrow> externalFailedCause \<Rightarrow> outcome" where
  "weh_handleRequestCancelExternalWorkflowExecutionFailed wc initiatedEventID workflowID cause =
     cancellationResolved (\<lambda>h.
       handleRequestCancelExternalWorkflowExecutionFailed h initiatedEventID workflowID) wc
       (Some (externalFailure ''cancel'' cause))"

definition signalResolved ::
    "(helper \<Rightarrow> (ptr \<times> helper) res) \<Rightarrow> env \<Rightarrow> goError option \<Rightarrow> outcome" where
  "signalResolved f wc err =
     bind_res (withHelper f wc) (\<lambda>(p, wc1).
     bind_res (bind_res (getData wc1 p) asSignal) (\<lambda>s.
       if ss_handled s then Inr (None, wc1)
       else noError (resolveWith wc1 p ScheduledSignal (scheduledSignal_handle s None err))))"

definition weh_handleSignalExternalWorkflowExecutionCompleted :: "env \<Rightarrow> int64 \<Rightarrow> outcome" where
  "weh_handleSignalExternalWorkflowExecutionCompleted wc initiatedEventID =
     signalResolved (\<lambda>h. handleSignalExternalWorkflowExecutionCompleted h initiatedEventID) wc None"

definition weh_handleSignalExternalWorkflowExecutionFailed ::
    "env \<Rightarrow> int64 \<Rightarrow> externalFailedCause \<Rightarrow> outcome" where
  "weh_handleSignalExternalWorkflowExecutionFailed wc initiatedEventID cause =
     signalResolved (\<lambda>h. handleSignalExternalWorkflowExecutionFailed h initiatedEventID) wc
       (Some (externalFailure ''signal'' cause))"

section \<open>Entering workflow code\<close>

definition runWorkflow :: "workflowCode \<Rightarrow> env \<Rightarrow> env res" where
  "runWorkflow wd wc =
     (if wc_workflowDefinition wc then wf_OnWorkflowTaskStarted wd wc else Inl NilDereference)"

definition handleWorkflowExecutionStarted ::
    "workflowCode \<Rightarrow> env \<Rightarrow> proto \<Rightarrow> payloads option \<Rightarrow> outcome" where
  "handleWorkflowExecutionStarted wd wc header input =
     (case wf_getWorkflowDefinition wd (wi_WorkflowType (wc_workflowInfo wc)) of
        Some err \<Rightarrow> Inr (Some err, wc\<lparr>wc_workflowDefinition := False\<rparr>)
      | None \<Rightarrow>
          noError (wf_Execute wd
            (snd (TryUse (wc\<lparr>wc_workflowDefinition := True\<rparr>) SDKFlagProtocolMessageCommand))
            header input))"

definition handleWorkflowExecutionCancelRequested :: "workflowCode \<Rightarrow> env \<Rightarrow> outcome" where
  "handleWorkflowExecutionCancelRequested wd wc =
     (if wc_cancelHandler wc then noError (wf_cancelHandler wd wc) else Inl NilDereference)"

definition handleWorkflowExecutionSignaled ::
    "workflowCode \<Rightarrow> env \<Rightarrow> string \<Rightarrow> payloads option \<Rightarrow> proto \<Rightarrow> outcome" where
  "handleWorkflowExecutionSignaled wd wc signalName input header =
     (if wc_signalHandler wc then wf_signalHandler wd wc signalName input header
      else Inl NilDereference)"

section \<open>Markers\<close>

text \<open>\<open>_ = FromPayloads(p, &v)\<close>: the variable keeps its value when decoding fails.\<close>

definition decodeOr :: "dataConverter \<Rightarrow> payloads option \<Rightarrow> goValue \<Rightarrow> goValue" where
  "decodeOr dc p v = (case dc_FromPayloads dc p [v] of Inr (w # _) \<Rightarrow> w | _ \<Rightarrow> v)"

fun intValue :: "goValue \<Rightarrow> int64" where
  "intValue (GoInt64 i) = i" | "intValue _ = 0"

fun stringValue :: "goValue \<Rightarrow> string" where
  "stringValue (GoString s) = s" | "stringValue _ = []"

fun boolValue :: "goValue \<Rightarrow> bool" where
  "boolValue (GoBool b) \<longleftrightarrow> b" | "boolValue _ \<longleftrightarrow> False"

fun payloadsValue :: "goValue \<Rightarrow> payloads option" where
  "payloadsValue (GoPayloads p) = p" | "payloadsValue _ = None"

definition missingKey :: "string \<Rightarrow> string" where
  "missingKey k = ''key \"'' @ k @ ''\": marker key is missing in details''"

type_synonym markerDetails = "(string, payloads option) fmap"

text \<open>The markers that only record: an error text, or the environment with the recorded value.\<close>

definition sideEffectMarker :: "env \<Rightarrow> markerDetails \<Rightarrow> string + env" where
  "sideEffectMarker wc dets =
     (case fmlookup dets sideEffectMarkerIDName of
        None \<Rightarrow> Inl (missingKey sideEffectMarkerIDName)
      | Some idPayload \<Rightarrow>
         (case fmlookup dets sideEffectMarkerDataName of
            None \<Rightarrow> Inl (missingKey sideEffectMarkerDataName)
          | Some data \<Rightarrow>
              let sideEffectID = intValue (decodeOr (dataConverterOf wc) idPayload (GoInt64 0)) in
              Inr (wc\<lparr>wc_sideEffectResult := fmupd sideEffectID data (wc_sideEffectResult wc)\<rparr>)))"

definition versionMarkerEvent :: "env \<Rightarrow> int64 \<Rightarrow> markerDetails \<Rightarrow> (string + env) res" where
  "versionMarkerEvent wc eventID dets =
     (case fmlookup dets versionMarkerChangeIDName of
        None \<Rightarrow> Inr (Inl (missingKey versionMarkerChangeIDName))
      | Some changeIDPayload \<Rightarrow>
         (case fmlookup dets versionMarkerDataName of
            None \<Rightarrow> Inr (Inl (missingKey versionMarkerDataName))
          | Some versionPayload \<Rightarrow>
              let dc = dataConverterOf wc;
                  searchAttrUpdated =
                    (case fmlookup dets versionSearchAttributeUpdatedName of
                       None \<Rightarrow> True | Some p \<Rightarrow> boolValue (decodeOr dc p (GoBool True)));
                  changeID = stringValue (decodeOr dc changeIDPayload (GoString []));
                  version = intValue (decodeOr dc versionPayload (GoInt64 0));
                  wc1 = wc\<lparr>wc_changeVersions := fmupd changeID version (wc_changeVersions wc)\<rparr>
              in bind_res (handleVersionMarker (wc_commandsHelper wc1) eventID changeID searchAttrUpdated)
                   (\<lambda>h. Inr (Inr (wc1\<lparr>wc_commandsHelper := h\<rparr>)))))"

definition counterHintOf :: "env \<Rightarrow> markerDetails \<Rightarrow> string \<Rightarrow> string + int" where
  "counterHintOf wc dets sideEffectDataID =
     (case fmlookup dets mutableSideEffectCallCounterName of
        None \<Rightarrow> Inr (countOf wc sideEffectDataID)
      | Some p \<Rightarrow>
         (case dc_FromPayloads (dataConverterOf wc) p [GoInt64 0] of
            Inl err \<Rightarrow> Inl err
          | Inr vs \<Rightarrow> Inr (case vs of [] \<Rightarrow> 0 | v # _ \<Rightarrow> sint (intValue v))))"

definition recordMutable :: "env \<Rightarrow> string \<Rightarrow> string \<Rightarrow> int \<Rightarrow> payloads option \<Rightarrow> env" where
  "recordMutable wc idWithCounter i counterHint contents =
     wc\<lparr>wc_mutableSideEffect := fmupd i
          (fmupd counterHint contents
            (case fmlookup (wc_mutableSideEffect wc) i of None \<Rightarrow> fmempty | Some m \<Rightarrow> m))
          (wc_mutableSideEffect wc),
        wc_mutableSideEffectsRecorded := finsert idWithCounter (wc_mutableSideEffectsRecorded wc)\<rparr>"

definition mutableSideEffectMarker :: "env \<Rightarrow> markerDetails \<Rightarrow> string + env" where
  "mutableSideEffectMarker wc dets =
     (let dc = dataConverterOf wc in
      case fmlookup dets sideEffectMarkerIDName of
        Some (Some idPayload) \<Rightarrow>
         (case fmlookup dets sideEffectMarkerDataName of
            Some (Some dataPayload) \<Rightarrow>
             (case dc_FromPayloads dc (Some idPayload) [GoString []] of
                Inl err \<Rightarrow> Inl err
              | Inr ids \<Rightarrow>
                 (case dc_FromPayloads dc (Some dataPayload) [GoString [], GoPayloads (Some [])] of
                    Inl err \<Rightarrow> Inl err
                  | Inr vs \<Rightarrow>
                      let idWithCounter = stringValue (if ids = [] then GoString [] else hd ids);
                          dataID = stringValue (if vs = [] then GoString [] else hd vs);
                          contents = payloadsValue (if length vs < 2 then GoPayloads (Some []) else vs ! 1)
                      in (case counterHintOf wc dets dataID of
                            Inl err \<Rightarrow> Inl err
                          | Inr hint \<Rightarrow> Inr (recordMutable wc idWithCounter dataID hint contents))))
          | _ \<Rightarrow> Inl (missingKey sideEffectMarkerDataName))
      | _ \<Rightarrow> Inl (missingKey sideEffectMarkerIDName))"

text \<open>
  The result of a local activity, from history or from the worker that ran it: the pending task is
  removed, its callback called and the workflow code resumed at the recorded time.
\<close>

definition localActivityResultOf ::
    "localActivityTask \<Rightarrow> localActivityMarkerData \<Rightarrow> markerDetails \<Rightarrow> failure option
      \<Rightarrow> localActivityResultWrapper res" where
  "localActivityResultOf la lamd dets failure =
     (if failure \<noteq> None then
        (case lp_FailureConverter (la_params la) of
           None \<Rightarrow> Inl NilDereference
         | Some fc \<Rightarrow> Inr \<lparr>lar_Err = fc_FailureToError fc failure, lar_Result = None,
             lar_Attempt = lamd_Attempt lamd, lar_Backoff = lamd_Backoff lamd\<rparr>)
      else Inr \<lparr>lar_Err = None,
        lar_Result = (case fmlookup dets localActivityResultName of None \<Rightarrow> None | Some p \<Rightarrow> p),
        lar_Attempt = 0, lar_Backoff = 0\<rparr>)"

fun markerDataValue :: "goValue list \<Rightarrow> localActivityMarkerData" where
  "markerDataValue (GoMarkerData d # _) = d"
| "markerDataValue _ = \<lparr>lamd_ActivityID = [], lamd_ActivityType = [], lamd_ReplayTime = 0,
     lamd_Attempt = 0, lamd_Backoff = 0\<rparr>"

definition resolveLocalActivity ::
    "int \<Rightarrow> env \<Rightarrow> localActivityTask \<Rightarrow> localActivityMarkerData \<Rightarrow> markerDetails \<Rightarrow> failure option
      \<Rightarrow> userMetadata option \<Rightarrow> env res" where
  "resolveLocalActivity now wc la lamd dets failure startMetadata =
     bind_res (withHelper (\<lambda>h. recordLocalActivityMarker h (lamd_ActivityID lamd) dets failure
         startMetadata (lp_EventGroupMarkers (la_params la))) wc) (\<lambda>(_, wc1).
     bind_res (localActivityResultOf la lamd dets failure) (\<lambda>lar.
     let wc2 = wc1\<lparr>wc_completedLaAttemptsThisWFT :=
                     wc_completedLaAttemptsThisWFT wc1 + attemptsOf la,
                   wc_pendingLaTasks := fmdrop (lamd_ActivityID lamd) (wc_pendingLaTasks wc1),
                   wc_unstartedLaTasks := wc_unstartedLaTasks wc1 |-| {|lamd_ActivityID lamd|}\<rparr>
     in Inr (SetCurrentReplayTime now (callBack wc2 [LocalActivityCall (la_callback la) lar])
               (lamd_ReplayTime lamd))))"

definition handleLocalActivityMarker ::
    "workflowCode \<Rightarrow> int \<Rightarrow> env \<Rightarrow> markerDetails \<Rightarrow> failure option \<Rightarrow> (string + env) res" where
  "handleLocalActivityMarker wd now wc dets failure =
     (case fmlookup dets localActivityMarkerDataName of
        None \<Rightarrow> Inr (Inl (missingKey localActivityMarkerDataName))
      | Some markerData \<Rightarrow>
         (case dc_FromPayloads (dataConverterOf wc) markerData [GoMarkerData (markerDataValue [])] of
            Inl err \<Rightarrow> Inr (Inl err)
          | Inr vs \<Rightarrow>
              let lamd = markerDataValue vs in
              (case fmlookup (wc_pendingLaTasks wc) (lamd_ActivityID lamd) of
                 None \<Rightarrow> Inr (Inr wc)
               | Some la \<Rightarrow>
                  (if lamd_ActivityType lamd \<noteq> [] \<and>
                      lamd_ActivityType lamd \<noteq> lp_ActivityType (la_params la)
                   then panicIllegalState (''[TMPRL1100] code executed local activity '' @
                     lp_ActivityType (la_params la) @ '', but history event found '' @
                     lamd_ActivityType lamd)
                   else
                     (case BuildUserMetadata (lp_Summary (la_params la)) [] (dataConverterOf wc) of
                        Inl err \<Rightarrow> Inr (Inl err)
                      | Inr startMetadata \<Rightarrow>
                          bind_res (resolveLocalActivity now wc la lamd dets failure startMetadata)
                            (\<lambda>wc1. bind_res (runWorkflow wd wc1) (\<lambda>wc2. Inr (Inr wc2))))))))"

definition markerOutcome :: "env \<Rightarrow> string \<Rightarrow> int64 \<Rightarrow> string + env \<Rightarrow> goError option \<times> env" where
  "markerOutcome wc markerName eventID r =
     (case r of
        Inl err \<Rightarrow> (Some (GoError (''marker name \"'' @ markerName @ ''\" for eventId '' @
            formatInt eventID @ '': '' @ err)), wc)
      | Inr wc1 \<Rightarrow> (None, wc1))"

definition handleMarkerRecorded ::
    "workflowCode \<Rightarrow> int \<Rightarrow> env \<Rightarrow> int64 \<Rightarrow> string \<Rightarrow> markerDetails option \<Rightarrow> failure option \<Rightarrow> outcome" where
  "handleMarkerRecorded wd now wc eventID markerName dets failure =
     bind_res
       (case dets of
          None \<Rightarrow> Inr (Inl ''marker details are nil'')
        | Some dets \<Rightarrow>
           (if markerName = sideEffectMarkerName then Inr (sideEffectMarker wc dets)
            else if markerName = versionMarkerName then versionMarkerEvent wc eventID dets
            else if markerName = localActivityMarkerName
              then handleLocalActivityMarker wd now wc dets failure
            else if markerName = mutableSideEffectMarkerName
              then Inr (mutableSideEffectMarker wc dets)
            else Inr (Inl ''unknown marker name''))) (\<lambda>r.
     Inr (markerOutcome wc markerName eventID r))"

section \<open>Processing an event\<close>

definition handleUpsertWorkflowSearchAttributes :: "env \<Rightarrow> payloadMap option \<Rightarrow> outcome" where
  "handleUpsertWorkflowSearchAttributes wc attr =
     noError (updateWorkflowInfoWithSearchAttributes wc attr)"

definition handleWorkflowPropertiesModified :: "env \<Rightarrow> payloadMap option \<Rightarrow> outcome" where
  "handleWorkflowPropertiesModified wc memo = noError (updateWorkflowInfoWithMemo wc memo)"

primrec workflowEventHandler :: "workflowCode \<Rightarrow> env \<Rightarrow> workflowEvent \<Rightarrow> outcome" where
  "workflowEventHandler wd wc (WorkflowExecutionStarted header input searchAttributes memo) =
     handleWorkflowExecutionStarted wd wc header input"
| "workflowEventHandler wd wc WorkflowExecutionCancelRequested =
     handleWorkflowExecutionCancelRequested wd wc"
| "workflowEventHandler wd wc (WorkflowExecutionSignaled name input header) =
     handleWorkflowExecutionSignaled wd wc name input header"
| "workflowEventHandler wd wc (UpsertWorkflowSearchAttributes attr) =
     handleUpsertWorkflowSearchAttributes wc attr"
| "workflowEventHandler wd wc (WorkflowPropertiesModified memo) =
     handleWorkflowPropertiesModified wc memo"

definition taskStartedInfo ::
    "int64 \<Rightarrow> bool \<Rightarrow> 32 word list \<Rightarrow> bool \<Rightarrow> int64 \<Rightarrow> workflowInfo \<Rightarrow> workflowInfo" where
  "taskStartedInfo eventID suggested reasons versionChanged historySize info =
     info\<lparr>wi_currentHistoryLength := eventID, wi_continueAsNewSuggested := suggested,
          wi_continueAsNewSuggestedReasons := reasons,
          wi_targetWorkerDeploymentVersionChanged := versionChanged,
          wi_currentHistorySize := historySize\<rparr>"

primrec taskEventHandler ::
    "workflowCode \<Rightarrow> int \<Rightarrow> env \<Rightarrow> int64 \<Rightarrow> int \<Rightarrow> taskEvent \<Rightarrow> outcome" where
  "taskEventHandler wd now wc eventID eventTime
     (WorkflowTaskStarted suggested reasons versionChanged historySize) =
     (let wc1 = SetCurrentReplayTime now wc eventTime;
          wc2 = wc1\<lparr>wc_workflowInfo := taskStartedInfo eventID suggested reasons versionChanged
                     historySize (wc_workflowInfo wc1)\<rparr> in
      bind_res (setCurrentWorkflowTaskStartedEventID (wc_commandsHelper wc2) eventID) (\<lambda>h.
      noError (runWorkflow wd (wc2\<lparr>wc_commandsHelper := h\<rparr>))))"
| "taskEventHandler wd now wc eventID eventTime (WorkflowTaskFailed reset newRunID) =
     Inr (None,
       if reset then
         wc\<lparr>wc_workflowInfo := (wc_workflowInfo wc)\<lparr>wi_currentRunID := newRunID\<rparr>,
            wc_randoms := reseedRandoms (cf_sha256 (wc_config wc)) (wc_randoms wc) newRunID\<rparr>
       else wc)"

primrec activityEventHandler :: "env \<Rightarrow> int64 \<Rightarrow> activityEvent \<Rightarrow> outcome" where
  "activityEventHandler wc eventID (ActivityTaskScheduled activityID activityType) =
     helperEvent (\<lambda>h. handleActivityTaskScheduled h activityID eventID) wc"
| "activityEventHandler wc eventID ActivityTaskStarted = Inr (None, wc)"
| "activityEventHandler wc eventID (ActivityTaskCompleted s result) =
     weh_handleActivityTaskCompleted wc s result"
| "activityEventHandler wc eventID (ActivityTaskFailed s st identity retry failure) =
     weh_handleActivityTaskFailed wc s st identity retry failure"
| "activityEventHandler wc eventID (ActivityTaskTimedOut s st retry failure) =
     weh_handleActivityTaskTimedOut wc s st retry failure"
| "activityEventHandler wc eventID (ActivityTaskCancelRequested s) =
     helperEvent (\<lambda>h. handleActivityTaskCancelRequested h s) wc"
| "activityEventHandler wc eventID (ActivityTaskCanceled s st identity dets) =
     weh_handleActivityTaskCanceled wc s st identity dets"

primrec timerEventHandler :: "env \<Rightarrow> timerEvent \<Rightarrow> outcome" where
  "timerEventHandler wc (TimerStarted timerID) = helperEvent (\<lambda>h. handleTimerStarted h timerID) wc"
| "timerEventHandler wc (TimerFired timerID) = handleTimerFired wc timerID"
| "timerEventHandler wc (TimerCanceled timerID) = helperEvent (\<lambda>h. handleTimerCanceled h timerID) wc"

primrec externalEventHandler :: "env \<Rightarrow> int64 \<Rightarrow> externalEvent \<Rightarrow> outcome" where
  "externalEventHandler wc eventID (RequestCancelExternalInitiated namespace workflowID control) =
     weh_handleRequestCancelExternalWorkflowExecutionInitiated wc eventID workflowID control"
| "externalEventHandler wc eventID (RequestCancelExternalFailed initiatedEventID workflowID cause) =
     weh_handleRequestCancelExternalWorkflowExecutionFailed wc initiatedEventID workflowID cause"
| "externalEventHandler wc eventID (ExternalCancelRequested initiatedEventID workflowID) =
     weh_handleExternalWorkflowExecutionCancelRequested wc initiatedEventID workflowID"
| "externalEventHandler wc eventID (SignalExternalInitiated namespace workflowID signalName signalID) =
     helperEvent (\<lambda>h. handleSignalExternalWorkflowExecutionInitiated h eventID signalID) wc"
| "externalEventHandler wc eventID (SignalExternalFailed initiatedEventID cause) =
     weh_handleSignalExternalWorkflowExecutionFailed wc initiatedEventID cause"
| "externalEventHandler wc eventID (ExternalSignaled initiatedEventID) =
     weh_handleSignalExternalWorkflowExecutionCompleted wc initiatedEventID"

primrec childEventHandler :: "env \<Rightarrow> childWorkflowEvent \<Rightarrow> outcome" where
  "childEventHandler wc (StartChildInitiated workflowID workflowType) =
     helperEvent (\<lambda>h. handleStartChildWorkflowExecutionInitiated h workflowID) wc"
| "childEventHandler wc (StartChildFailed e cause) =
     weh_handleStartChildWorkflowExecutionFailed wc e cause"
| "childEventHandler wc (ChildStarted e) = weh_handleChildWorkflowExecutionStarted wc e"
| "childEventHandler wc (ChildCompleted e result) =
     weh_handleChildWorkflowExecutionCompleted wc e result"
| "childEventHandler wc (ChildFailed e retry failure) =
     weh_handleChildWorkflowExecutionFailed wc e retry failure"
| "childEventHandler wc (ChildCanceled e dets) = weh_handleChildWorkflowExecutionCanceled wc e dets"
| "childEventHandler wc (ChildTimedOut e retry) = weh_handleChildWorkflowExecutionTimedOut wc e retry"
| "childEventHandler wc (ChildTerminated e) = weh_handleChildWorkflowExecutionTerminated wc e"

primrec nexusEventHandler :: "env \<Rightarrow> int64 \<Rightarrow> nexusOperationEvent \<Rightarrow> outcome" where
  "nexusEventHandler wc eventID (NexusScheduled service operation) =
     bind_res (handleNexusOperationScheduled (wc_commandsHelper wc) eventID (formatInt eventID)) (\<lambda>h.
     Inr (None, wc\<lparr>wc_commandsHelper := h\<rparr>))"
| "nexusEventHandler wc eventID (NexusStarted s token opID) =
     weh_handleNexusOperationStarted wc s token opID"
| "nexusEventHandler wc eventID (NexusCompleted s result) =
     weh_handleNexusOperationCompleted wc s result None"
| "nexusEventHandler wc eventID (NexusFailed s failure) =
     weh_handleNexusOperationCompleted wc s None failure"
| "nexusEventHandler wc eventID (NexusCanceled s failure) =
     weh_handleNexusOperationCompleted wc s None failure"
| "nexusEventHandler wc eventID (NexusTimedOut s failure) =
     weh_handleNexusOperationCompleted wc s None failure"
| "nexusEventHandler wc eventID (NexusCancelRequested s) =
     weh_handleNexusOperationCancelRequested wc s"
| "nexusEventHandler wc eventID (NexusCancelRequestCompleted s) =
     weh_handleNexusOperationCancelRequestDelivered wc s None"
| "nexusEventHandler wc eventID (NexusCancelRequestFailed s failure) =
     weh_handleNexusOperationCancelRequestDelivered wc s failure"

definition ErrUnknownHistoryEvent :: goError where
  "ErrUnknownHistoryEvent = GoError ''unknown history event''"

primrec eventHandler ::
    "workflowCode \<Rightarrow> int \<Rightarrow> env \<Rightarrow> int64 \<Rightarrow> int \<Rightarrow> bool \<Rightarrow> eventAttributes \<Rightarrow> outcome" where
  "eventHandler wd now wc eventID eventTime mayIgnore (WorkflowEvent e) = workflowEventHandler wd wc e"
| "eventHandler wd now wc eventID eventTime mayIgnore (TaskEvent e) =
     taskEventHandler wd now wc eventID eventTime e"
| "eventHandler wd now wc eventID eventTime mayIgnore (ActivityEvent e) =
     activityEventHandler wc eventID e"
| "eventHandler wd now wc eventID eventTime mayIgnore (TimerEvent e) = timerEventHandler wc e"
| "eventHandler wd now wc eventID eventTime mayIgnore (ExternalEvent e) =
     externalEventHandler wc eventID e"
| "eventHandler wd now wc eventID eventTime mayIgnore (ChildEvent e) = childEventHandler wc e"
| "eventHandler wd now wc eventID eventTime mayIgnore (NexusEvent e) = nexusEventHandler wc eventID e"
| "eventHandler wd now wc eventID eventTime mayIgnore (UpdateEvent e) = Inr (None, wc)"
| "eventHandler wd now wc eventID eventTime mayIgnore (MarkerRecorded name dets failure) =
     handleMarkerRecorded wd now wc eventID name dets failure"
| "eventHandler wd now wc eventID eventTime mayIgnore (NoOperation e) = Inr (None, wc)"
| "eventHandler wd now wc eventID eventTime mayIgnore (UnknownEventType t) =
     Inr (if mayIgnore then None else Some ErrUnknownHistoryEvent, wc)"

text \<open>
  The deferred recover of \<open>ProcessEvent\<close>: a panic completes the workflow task with a workflow panic
  error and returns no error; the environment is not used again (\<open>Panicked\<close>).
\<close>

datatype processResult = Panicked go_panic | Returned "goError option" env

definition recovered :: "outcome \<Rightarrow> processResult" where
  "recovered r = (case r of Inl p \<Rightarrow> Panicked p | Inr (err, wc) \<Rightarrow> Returned err wc)"

definition isWorkflowTaskStarted :: "eventAttributes \<Rightarrow> bool" where
  "isWorkflowTaskStarted attrs =
     (case attrs of TaskEvent (WorkflowTaskStarted _ _ _ _) \<Rightarrow> True | _ \<Rightarrow> False)"

definition ProcessEvent ::
    "workflowCode \<Rightarrow> int \<Rightarrow> env \<Rightarrow> historyEvent option \<Rightarrow> bool \<Rightarrow> bool \<Rightarrow> processResult" where
  "ProcessEvent wd now wc event isReplay isLast =
     (case event of
        None \<Rightarrow> Returned (Some (GoError ''nil event provided'')) wc
      | Some e \<Rightarrow> recovered
          (bind_res (eventHandler wd now (wc\<lparr>wc_isReplay := isReplay\<rparr>) (ev_EventId e)
              (ev_EventTime e) (ev_WorkerMayIgnore e) (ev_Attributes e)) (\<lambda>(err, wc1).
           if err \<noteq> None then Inr (err, wc1)
           else if isLast \<and> \<not> isWorkflowTaskStarted (ev_Attributes e) then noError (runWorkflow wd wc1)
           else Inr (None, wc1))))"

definition protocolConstructorForMessage ::
    "env \<Rightarrow> protocolMessage \<Rightarrow> string + updateProtocol" where
  "protocolConstructorForMessage wc msg =
     (case NameFromMessage msg of
        Inl err \<Rightarrow> Inl err
      | Inr protoName \<Rightarrow>
         (if protoName = updateProtocolV1
          then Inr (newUpdateProtocol wc (msg_ProtocolInstanceId msg))
          else Inl (''unsupported protocol: '' @ protoName)))"

definition ProcessMessage :: "workflowCode \<Rightarrow> env \<Rightarrow> protocolMessage \<Rightarrow> processResult" where
  "ProcessMessage wd wc msg =
     (case protocolConstructorForMessage wc msg of
        Inl _ \<Rightarrow> Returned None wc
      | Inr fresh \<Rightarrow> recovered
          (HandleMessage wd (FindOrAdd wc (msg_ProtocolInstanceId msg) fresh)
            (msg_ProtocolInstanceId msg) msg))"

section \<open>Local activity results\<close>

record localActivityResult =
  lr_result :: "payloads option"
  lr_err :: "goError option"
  lr_task :: localActivityTask
  lr_backoff :: int64

definition laMarkerData :: "int \<Rightarrow> env \<Rightarrow> localActivityResult \<Rightarrow> localActivityMarkerData" where
  "laMarkerData now wc lar =
     \<lparr>lamd_ActivityID = la_activityID (lr_task lar),
      lamd_ActivityType = lp_ActivityType (la_params (lr_task lar)),
      lamd_ReplayTime = wc_currentReplayTime wc + (now - wc_currentLocalTime wc),
      lamd_Attempt = la_attempt (lr_task lar),
      lamd_Backoff = (if lr_err lar \<noteq> None then lr_backoff lar else 0)\<rparr>"

definition ProcessLocalActivityResult ::
    "workflowCode \<Rightarrow> int \<Rightarrow> env \<Rightarrow> localActivityResult \<Rightarrow> processResult res" where
  "ProcessLocalActivityResult wd now wc lar =
     (case encodeArg wc (GoMarkerData (laMarkerData now wc lar)) of
        Inl err \<Rightarrow> Inr (Returned (Some (GoError err)) wc)
      | Inr markerData \<Rightarrow>
         (case lp_FailureConverter (la_params (lr_task lar)) of
            None \<Rightarrow> Inl NilDereference
          | Some fc \<Rightarrow>
              let dets = fmupd localActivityMarkerDataName markerData
                    (if lr_err lar = None \<and> lr_result lar \<noteq> None
                     then fmupd localActivityResultName (lr_result lar) fmempty else fmempty)
              in Inr (ProcessEvent wd now wc
                   (Some \<lparr>ev_EventId = 0, ev_EventTime = 0, ev_WorkerMayIgnore = False,
                      ev_Attributes = MarkerRecorded localActivityMarkerName (Some dets)
                        (fc_ErrorToFailure fc (lr_err lar))\<rparr>) False False)))"

end
