(* ===== verification/Env_Invariant.thy ===== *)
theory Env_Invariant
  imports Helper_Data Event_Handlers
begin

text \<open>
  The invariant of the workflow environment: its helper is well-formed, the data of every command is
  of the type the event handlers assert, and the callback of a command was called exactly when the
  command is marked handled. Every operation workflow code may call keeps it, given that the code
  passes a callback to one operation only.
\<close>

section \<open>The invariant\<close>

definition dataOk :: "commandType \<Rightarrow> scheduled option \<Rightarrow> bool" where
  "dataOk t x =
     (case t of
        commandTypeActivity \<Rightarrow> (\<exists>s. x = Some (ScheduledActivity s))
      | commandTypeTimer \<Rightarrow> (\<exists>s. x = Some (ScheduledTimer s))
      | commandTypeChildWorkflow \<Rightarrow> (\<exists>s. x = Some (ScheduledChildWorkflow s))
      | commandTypeCancellation \<Rightarrow> (\<exists>s. x = Some (ScheduledCancellation s))
      | commandTypeSignal \<Rightarrow> (\<exists>s. x = Some (ScheduledSignal s))
      | commandTypeNexusOperation \<Rightarrow> (\<exists>s. x = Some (ScheduledNexusOperation s))
      | _ \<Rightarrow> x = None)"

lemma dataOk_simps [simp]:
  "dataOk commandTypeActivity x \<longleftrightarrow> (\<exists>s. x = Some (ScheduledActivity s))"
  "dataOk commandTypeTimer x \<longleftrightarrow> (\<exists>s. x = Some (ScheduledTimer s))"
  "dataOk commandTypeChildWorkflow x \<longleftrightarrow> (\<exists>s. x = Some (ScheduledChildWorkflow s))"
  "dataOk commandTypeCancellation x \<longleftrightarrow> (\<exists>s. x = Some (ScheduledCancellation s))"
  "dataOk commandTypeSignal x \<longleftrightarrow> (\<exists>s. x = Some (ScheduledSignal s))"
  "dataOk commandTypeNexusOperation x \<longleftrightarrow> (\<exists>s. x = Some (ScheduledNexusOperation s))"
  by (simp_all add: dataOk_def)

lemma dataOk_None: "\<not> withData t \<Longrightarrow> dataOk t x \<longleftrightarrow> x = None"
  by (cases t) (simp_all add: dataOk_def withData_def)

definition typed :: "helper \<Rightarrow> bool" where
  "typed h \<longleftrightarrow> (\<forall>q d. machines h q = Some d \<longrightarrow> dataOk (id_commandType (m_id d)) (m_data d))"

text \<open>The callback that gets the result of a command, and whether it was called.\<close>

fun resultHandler :: "scheduled \<Rightarrow> handler option" where
  "resultHandler (ScheduledTimer s) = Some (st_callback s)"
| "resultHandler (ScheduledActivity s) = Some (sa_callback s)"
| "resultHandler (ScheduledNexusOperation s) = None"
| "resultHandler (ScheduledChildWorkflow s) = Some (sc_resultCallback s)"
| "resultHandler (ScheduledCancellation s) = Some (scn_callback s)"
| "resultHandler (ScheduledSignal s) = Some (ss_callback s)"

fun isHandled :: "scheduled \<Rightarrow> bool" where
  "isHandled (ScheduledTimer s) = st_handled s"
| "isHandled (ScheduledActivity s) = sa_handled s"
| "isHandled (ScheduledNexusOperation s) = False"
| "isHandled (ScheduledChildWorkflow s) = sc_handled s"
| "isHandled (ScheduledCancellation s) = scn_handled s"
| "isHandled (ScheduledSignal s) = ss_handled s"

fun isResultCall :: "handler \<Rightarrow> call \<Rightarrow> bool" where
  "isResultCall cb (ResultCall cb' r e) \<longleftrightarrow> cb' = cb"
| "isResultCall cb _ \<longleftrightarrow> False"

definition resultCount :: "call list \<Rightarrow> handler \<Rightarrow> nat" where
  "resultCount cs cb = length (filter (isResultCall cb) cs)"

lemma resultCount_append [simp]: "resultCount (cs @ cs') cb = resultCount cs cb + resultCount cs' cb"
  by (simp add: resultCount_def)

lemma resultCount_simps [simp]:
  "resultCount [] cb = 0"
  "resultCount (c # cs) cb = (if isResultCall cb c then 1 else 0) + resultCount cs cb"
  by (simp_all add: resultCount_def)

definition slots :: "helper \<Rightarrow> ptr \<rightharpoonup> scheduled" where
  "slots h q = (case machines h q of None \<Rightarrow> None | Some d \<Rightarrow> m_data d)"

definition ledger :: "(ptr \<rightharpoonup> scheduled) \<Rightarrow> call list \<Rightarrow> bool" where
  "ledger S cs \<longleftrightarrow>
     (\<forall>cb. resultCount cs cb \<le> 1) \<and>
     (\<forall>q s cb. S q = Some s \<longrightarrow> resultHandler s = Some cb \<longrightarrow>
        resultCount cs cb = (if isHandled s then 1 else 0)) \<and>
     (\<forall>q q' s s' cb. S q = Some s \<longrightarrow> S q' = Some s' \<longrightarrow> resultHandler s = Some cb \<longrightarrow>
        resultHandler s' = Some cb \<longrightarrow> q = q')"

definition ok :: "helper \<Rightarrow> call list \<Rightarrow> bool" where
  "ok h cs \<longleftrightarrow> wf_helper h \<and> typed h \<and> ledger (slots h) cs"

abbreviation env_ok :: "env \<Rightarrow> bool" where
  "env_ok wc \<equiv> ok (wc_commandsHelper wc) (wc_calls wc)"

definition fresh :: "helper \<Rightarrow> call list \<Rightarrow> handler \<Rightarrow> bool" where
  "fresh h cs cb \<longleftrightarrow> resultCount cs cb = 0 \<and>
     (\<forall>q s. slots h q = Some s \<longrightarrow> resultHandler s \<noteq> Some cb)"

abbreviation fresh_in :: "env \<Rightarrow> handler \<Rightarrow> bool" where
  "fresh_in wc cb \<equiv> fresh (wc_commandsHelper wc) (wc_calls wc) cb"

lemma ok_wf: "ok h cs \<Longrightarrow> wf_helper h"
  by (simp add: ok_def)

lemma ok_typed: "ok h cs \<Longrightarrow> machines h q = Some d \<Longrightarrow> dataOk (id_commandType (m_id d)) (m_data d)"
  by (simp add: ok_def typed_def)

section \<open>Steps that keep it\<close>

lemma keeps_slots: "keeps P h h' \<Longrightarrow> slots h' = slots h"
proof
  fix q assume k: "keeps P h h'"
  show "slots h' q = slots h q"
  proof (cases "machines h q")
    case None
    with keeps_newD [OF k None] show ?thesis by (auto simp: slots_def split: option.splits)
  next
    case (Some d)
    with keepsD [OF k Some] show ?thesis by (auto simp: slots_def)
  qed
qed

lemma keeps_typed: "keeps {} h h' \<Longrightarrow> typed h \<Longrightarrow> typed h'"
  unfolding typed_def
proof (intro allI impI)
  fix q d' assume k: "keeps {} h h'" and t: "\<forall>q d. machines h q = Some d \<longrightarrow>
    dataOk (id_commandType (m_id d)) (m_data d)" and d': "machines h' q = Some d'"
  show "dataOk (id_commandType (m_id d')) (m_data d')"
  proof (cases "machines h q")
    case None
    with keeps_newD [OF k None d'] show ?thesis by (simp add: dataOk_None)
  next
    case (Some d)
    with keepsD [OF k Some] d' t show ?thesis by force
  qed
qed

lemma ok_keeps: "keeps {} h h' \<Longrightarrow> wf_helper h' \<Longrightarrow> ok h cs \<Longrightarrow> ok h' cs"
  by (simp add: ok_def keeps_typed keeps_slots)

lemma fresh_keeps: "keeps P h h' \<Longrightarrow> fresh h' cs cb = fresh h cs cb"
  by (simp add: fresh_def keeps_slots)

definition noResult :: "call list \<Rightarrow> bool" where
  "noResult cs \<longleftrightarrow> (\<forall>cb. resultCount cs cb = 0)"

lemma ok_calls: "noResult cs' \<Longrightarrow> ok h (cs @ cs') = ok h cs"
  by (simp add: ok_def ledger_def noResult_def)

lemma ok_call_fresh: "ok h cs \<Longrightarrow> fresh h cs cb \<Longrightarrow> ok h (cs @ [ResultCall cb r e])"
  by (auto simp: ok_def ledger_def fresh_def)

lemma wf_setData:
  "wf_helper h \<Longrightarrow> machines h p = Some d \<Longrightarrow> wf_helper (putMachine h p (d\<lparr>m_data := x\<rparr>))"
  by (rule wf_putMachine_same) (auto simp: wf_helper_def dest: kind_id_of_store)

lemma slots_put: "slots (putMachine h p d) = (slots h)(p := m_data d)"
  by (rule ext) (simp add: slots_def)

text \<open>A new command gets its data.\<close>

lemma ok_setData_new:
  assumes k: "ok h cs" and a: "awaitsData t p h h'" and wf: "wf_helper h'"
    and d: "machines h' p = Some d" and s: "dataOk t (Some s)" "\<not> isHandled s"
    and cb: "\<And>cb. resultHandler s = Some cb \<Longrightarrow> fresh h cs cb"
  shows "ok (putMachine h' p (d\<lparr>m_data := Some s\<rparr>)) cs"
proof -
  let ?h = "putMachine h' p (d\<lparr>m_data := Some s\<rparr>)"
  from a have kp: "keeps {p} h h'" and id: "id_commandType (m_id d) = t"
    and new: "machines h p = None"
    using d by (auto simp: awaitsData_def)
  have "typed ?h" unfolding typed_def
  proof (intro allI impI)
    fix q d' assume q: "machines ?h q = Some d'"
    show "dataOk (id_commandType (m_id d')) (m_data d')"
    proof (cases "q = p")
      case True
      with q s(1) id show ?thesis by auto
    next
      case False
      with q have q': "machines h' q = Some d'" by simp
      show ?thesis
      proof (cases "machines h q")
        case None
        with keeps_newD [OF kp None q'] False show ?thesis by (simp add: dataOk_None)
      next
        case (Some d0)
        with keepsD [OF kp Some] q' ok_typed [OF k Some] show ?thesis by simp
      qed
    qed
  qed
  moreover have "slots ?h = (slots h)(p \<mapsto> s)" using keeps_slots [OF kp] by (simp add: slots_put)
  then have "ledger (slots ?h) cs"
    using k cb s(2) new unfolding ok_def ledger_def fresh_def by (simp add: slots_def) blast
  ultimately show ?thesis using wf_setData [OF wf d] by (simp add: ok_def)
qed

text \<open>A command is resolved: its data is marked handled and its callback called.\<close>

lemma ok_resolve:
  assumes k: "ok h cs" and d: "machines h p = Some d" "m_data d = Some s"
    and s: "\<not> isHandled s" "resultHandler s = Some cb"
    and s': "isHandled s'" "resultHandler s' = Some cb"
    and t: "dataOk (id_commandType (m_id d)) (Some s')"
  shows "ok (putMachine h p (d\<lparr>m_data := Some s'\<rparr>)) (cs @ [ResultCall cb r e])"
proof -
  let ?h = "putMachine h p (d\<lparr>m_data := Some s'\<rparr>)"
  have sl: "slots h p = Some s" using d by (simp add: slots_def)
  have "typed ?h" using k t by (auto simp: typed_def ok_def)
  moreover have l: "ledger (slots h) cs" using k by (simp add: ok_def)
  have "ledger ((slots h)(p \<mapsto> s')) (cs @ [ResultCall cb r e])"
    unfolding ledger_def
  proof (intro conjI allI impI)
    fix cb' show "resultCount (cs @ [ResultCall cb r e]) cb' \<le> 1"
      using l sl s by (auto simp: ledger_def)
  next
    fix q x cb' assume q: "((slots h)(p \<mapsto> s')) q = Some x" and x: "resultHandler x = Some cb'"
    have "cb' \<noteq> cb" if "q \<noteq> p"
      using l sl s q x that unfolding ledger_def by (metis fun_upd_apply)
    with l q x sl s s' show "resultCount (cs @ [ResultCall cb r e]) cb' = (if isHandled x then 1 else 0)"
      unfolding ledger_def by (cases "q = p") auto
  next
    fix q q' x x' cb'
    assume "((slots h)(p \<mapsto> s')) q = Some x" "((slots h)(p \<mapsto> s')) q' = Some x'"
      "resultHandler x = Some cb'" "resultHandler x' = Some cb'"
    then show "q = q'" using l sl s s' unfolding ledger_def by (metis fun_upd_apply option.inject)
  qed
  then have "ledger (slots ?h) (cs @ [ResultCall cb r e])" by (simp add: slots_put)
  ultimately show ?thesis using wf_setData [OF ok_wf [OF k] d(1)] by (simp add: ok_def)
qed

text \<open>The data of a nexus operation has no result callback of this kind.\<close>

lemma ok_setNexus:
  assumes k: "ok h cs" and d: "machines h p = Some d" "m_data d = Some (ScheduledNexusOperation s)"
    and cs': "noResult cs'"
  shows "ok (putMachine h p (d\<lparr>m_data := Some (ScheduledNexusOperation s')\<rparr>)) (cs @ cs')"
proof -
  let ?h = "putMachine h p (d\<lparr>m_data := Some (ScheduledNexusOperation s')\<rparr>)"
  have "dataOk (id_commandType (m_id d)) (m_data d)" by (rule ok_typed [OF k d(1)])
  then have "dataOk (id_commandType (m_id d)) (Some (ScheduledNexusOperation s'))"
    by (cases "id_commandType (m_id d)") (simp_all add: dataOk_def d(2))
  then have "typed ?h" using k by (auto simp: typed_def ok_def)
  moreover have "ledger (slots ?h) cs"
    using k d unfolding ok_def ledger_def slots_put by (auto simp: slots_def split: if_splits)
  ultimately show ?thesis
    using wf_setData [OF ok_wf [OF k] d(1)] by (simp add: ok_calls cs') (simp add: ok_def)
qed

end
