(* ===== verification/Env_Operations.thy ===== *)
theory Env_Operations
  imports Env_Invariant
begin

text \<open>Every operation workflow code calls keeps the invariant of the environment.\<close>

section \<open>Elementary facts\<close>

lemma withHelper_eq_Inr:
  "withHelper f wc = Inr (a, wc') \<longleftrightarrow>
     (\<exists>h. f (wc_commandsHelper wc) = Inr (a, h) \<and> wc' = wc\<lparr>wc_commandsHelper := h\<rparr>)"
  by (auto simp: withHelper_def res_simps)

lemma getData_eq_Inr:
  "getData wc p = Inr x \<longleftrightarrow> (\<exists>d. machines (wc_commandsHelper wc) p = Some d \<and> m_data d = x)"
  by (auto simp: getData_def res_simps)

lemma setData_eq_Inr:
  "setData wc p s = Inr wc' \<longleftrightarrow> (\<exists>d. machines (wc_commandsHelper wc) p = Some d \<and>
     wc' = wc\<lparr>wc_commandsHelper := putMachine (wc_commandsHelper wc) p (d\<lparr>m_data := Some s\<rparr>)\<rparr>)"
  by (auto simp: setData_def res_simps)

lemma as_eq_Inr:
  "asTimer x = Inr st \<longleftrightarrow> x = Some (ScheduledTimer st)"
  "asActivity x = Inr sa \<longleftrightarrow> x = Some (ScheduledActivity sa)"
  "asNexus x = Inr sn \<longleftrightarrow> x = Some (ScheduledNexusOperation sn)"
  "asChild x = Inr sc \<longleftrightarrow> x = Some (ScheduledChildWorkflow sc)"
  "asCancellation x = Inr scn \<longleftrightarrow> x = Some (ScheduledCancellation scn)"
  "asSignal x = Inr ss \<longleftrightarrow> x = Some (ScheduledSignal ss)"
  by ((cases x; simp), rename_tac y, case_tac y; simp)+

lemma callBack_sel [simp]:
  "wc_commandsHelper (callBack wc cs) = wc_commandsHelper wc"
  "wc_calls (callBack wc cs) = wc_calls wc @ cs"
  by (simp_all add: callBack_def)

lemma TryUse_sel [simp]:
  "wc_commandsHelper (snd (TryUse wc f)) = wc_commandsHelper wc"
  "wc_calls (snd (TryUse wc f)) = wc_calls wc"
  "wc_config (snd (TryUse wc f)) = wc_config wc"
  "wc_workflowInfo (snd (TryUse wc f)) = wc_workflowInfo wc"
  "wc_isReplay (snd (TryUse wc f)) = wc_isReplay wc"
  "wc_changeVersions (snd (TryUse wc f)) = wc_changeVersions wc"
  by (simp_all add: TryUse_def split: prod.splits)

lemma TryUseD:
  assumes "TryUse wc f = (b, wc')"
  shows "wc_commandsHelper wc' = wc_commandsHelper wc" "wc_calls wc' = wc_calls wc"
    "wc_config wc' = wc_config wc" "wc_isReplay wc' = wc_isReplay wc"
    "wc_changeVersions wc' = wc_changeVersions wc" "wc_workflowInfo wc' = wc_workflowInfo wc"
  using assms TryUse_sel [of wc f] by simp_all

lemma noResult_simps [simp]:
  "noResult []" "noResult (ChildStartedCall a b c # cs) = noResult cs"
  "noResult (NexusStartedCall a' b' c # cs) = noResult cs"
  "noResult (NexusCompletedCall a' b'' c # cs) = noResult cs"
  "noResult (LocalActivityCall a' l # cs) = noResult cs"
  "noResult (CancelFuncCall a' # cs) = noResult cs"
  "noResult (QueuedUpdateCall a' # cs) = noResult cs"
  "noResult (CompleteCall r e # cs) = noResult cs"
  "noResult (cs @ cs') \<longleftrightarrow> noResult cs \<and> noResult cs'"
  by (auto simp: noResult_def)

lemma noResult_queued [simp]: "noResult (map QueuedUpdateCall fs)"
  by (induction fs) simp_all

section \<open>Ids, flags and messages\<close>

lemma ok_GenerateSequence:
  assumes "GenerateSequence wc = Inr (n, wc')" and "env_ok wc"
  shows "env_ok wc'" and "fresh_in wc' cb = fresh_in wc cb" and "wc_calls wc' = wc_calls wc"
proof -
  from assms(1) obtain h where h: "getNextID (wc_commandsHelper wc) = Inr (n, h)"
    and wc': "wc' = wc\<lparr>wc_commandsHelper := h\<rparr>"
    by (auto simp: GenerateSequence_def withHelper_eq_Inr)
  from ok_keeps [OF keeps_getNextID [OF h] wf_getNextID [OF h ok_wf [OF assms(2)]] assms(2)]
  show "env_ok wc'" by (simp add: wc')
  show "fresh_in wc' cb = fresh_in wc cb" "wc_calls wc' = wc_calls wc"
    using fresh_keeps [OF keeps_getNextID [OF h]] by (simp_all add: wc')
qed

lemma GenerateSequenceID_eq_Inr:
  "GenerateSequenceID wc = Inr (i, wc') \<longleftrightarrow>
     (\<exists>n. GenerateSequence wc = Inr (n, wc') \<and> i = formatInt n)"
  by (auto simp: GenerateSequenceID_def res_simps)

lemma ok_GenerateSequenceID:
  assumes "GenerateSequenceID wc = Inr (i, wc')" and "env_ok wc"
  shows "env_ok wc'" and "fresh_in wc' cb = fresh_in wc cb" and "wc_calls wc' = wc_calls wc"
  using assms(1) ok_GenerateSequence [OF _ assms(2)] by (auto simp: GenerateSequenceID_eq_Inr)

text \<open>An operation of the helper that creates no machine for data.\<close>

lemma ok_withHelper:
  assumes f: "withHelper f wc = Inr (a, wc')" and k: "env_ok wc"
    and keep: "\<And>h. f (wc_commandsHelper wc) = Inr (a, h) \<Longrightarrow> keeps {} (wc_commandsHelper wc) h"
    and wf: "\<And>h. f (wc_commandsHelper wc) = Inr (a, h) \<Longrightarrow> wf_helper h"
  shows "env_ok wc'"
proof -
  from f obtain h where h: "f (wc_commandsHelper wc) = Inr (a, h)"
    and wc': "wc' = wc\<lparr>wc_commandsHelper := h\<rparr>" by (auto simp: withHelper_eq_Inr)
  from ok_keeps [OF keep [OF h] wf [OF h] k] show ?thesis by (simp add: wc')
qed

lemma ok_Send:
  assumes "Send wc msg opts = Inr wc'" and k: "env_ok wc"
  shows "env_ok wc'"
proof -
  obtain b wc1 where t: "TryUse wc SDKFlagProtocolMessageCommand = (b, wc1)" by (metis surj_pair)
  note tu = TryUseD [OF t]
  have k1: "env_ok wc1" using k by (simp add: tu)
  let ?f = "\<lambda>h. addProtocolMessage h (msg_Id msg)"
  have "env_ok wc2" if "withHelper ?f wc1 = Inr (p, wc2)" for p wc2
    using that k1
    by (rule ok_withHelper) (auto intro: keeps_addProtocolMessage wf_addProtocolMessage ok_wf [OF k1])
  with assms(1) t k1 show ?thesis
    by (auto simp: Send_def Let_def res_simps split: if_splits)
qed

section \<open>External workflows\<close>

lemma ok_RequestCancelChildWorkflow:
  assumes "RequestCancelChildWorkflow wc n w = Inr wc'" and k: "env_ok wc"
  shows "env_ok wc'"
proof -
  let ?f = "\<lambda>h. requestCancelExternalWorkflowExecution h n w [] [] True []"
  from assms(1) obtain p where f: "withHelper ?f wc = Inr (p, wc')"
    by (auto simp: RequestCancelChildWorkflow_def res_simps)
  show ?thesis using f k
  proof (rule ok_withHelper)
    fix h assume h: "?f (wc_commandsHelper wc) = Inr (p, h)"
    then show "keeps {} (wc_commandsHelper wc) h"
      using ok_wf [OF k]
      by (auto simp: requestCancelExternalWorkflowExecution_def intro: keeps_onCommand_cancel)
    from h ok_wf [OF k] show "wf_helper h" by (rule wf_requestCancelExternalWorkflowExecution)
  qed
qed

text \<open>
  An operation of the helper that schedules a command which resolves a future, followed by the data
  for it.
\<close>

lemma ok_schedule:
  assumes f: "withHelper f wc = Inr (a, wc1)" and k: "env_ok wc"
    and aw: "\<And>h. f (wc_commandsHelper wc) = Inr (a, h) \<Longrightarrow> awaitsData t p (wc_commandsHelper wc) h"
    and wf: "\<And>h. f (wc_commandsHelper wc) = Inr (a, h) \<Longrightarrow> wf_helper h"
    and s: "setData wc1 p s = Inr wc'" "dataOk t (Some s)" "\<not> isHandled s"
    and cb: "\<And>cb. resultHandler s = Some cb \<Longrightarrow> fresh_in wc cb"
  shows "env_ok wc'"
proof -
  from f obtain h where h: "f (wc_commandsHelper wc) = Inr (a, h)"
    and wc1: "wc1 = wc\<lparr>wc_commandsHelper := h\<rparr>" by (auto simp: withHelper_eq_Inr)
  from s(1) obtain d where d: "machines h p = Some d"
    and wc': "wc' = wc1\<lparr>wc_commandsHelper := putMachine h p (d\<lparr>m_data := Some s\<rparr>)\<rparr>"
    by (auto simp: setData_eq_Inr wc1)
  from ok_setData_new [OF k aw [OF h] wf [OF h] d s(2,3) cb] show ?thesis by (simp add: wc' wc1)
qed

lemma ok_RequestCancelExternalWorkflow:
  assumes op: "RequestCancelExternalWorkflow wc n w r g cb = Inr wc'" and k: "env_ok wc"
    and cb: "fresh_in wc cb"
  shows "env_ok wc'"
proof -
  from op obtain i wc1 p wc2 where g: "GenerateSequenceID wc = Inr (i, wc1)"
    and f: "withHelper (\<lambda>h. requestCancelExternalWorkflowExecution h n w r i False g) wc1 = Inr (p, wc2)"
    and s: "setData wc2 p (ScheduledCancellation \<lparr>scn_callback = cb, scn_handled = False\<rparr>) = Inr wc'"
    by (auto simp: RequestCancelExternalWorkflow_def res_simps)
  note k1 = ok_GenerateSequenceID [OF g k]
  show ?thesis
    using f k1(1) _ _ s
    by (rule ok_schedule [where t = commandTypeCancellation])
      (auto simp: k1(2) cb intro: awaits_requestCancelExternalWorkflowExecution
        wf_requestCancelExternalWorkflowExecution ok_wf [OF k1(1)])
qed

lemma ok_SignalExternalWorkflow:
  assumes op: "SignalExternalWorkflow wc n w r sn inp hdr c g cb = Inr wc'" and k: "env_ok wc"
    and cb: "fresh_in wc cb"
  shows "env_ok wc'"
proof -
  from op obtain i wc1 p wc2 where g: "GenerateSequenceID wc = Inr (i, wc1)"
    and f: "withHelper (\<lambda>h. signalExternalWorkflowExecution h n w r sn inp hdr i c g) wc1 = Inr (p, wc2)"
    and s: "setData wc2 p (ScheduledSignal \<lparr>ss_callback = cb, ss_handled = False\<rparr>) = Inr wc'"
    by (auto simp: SignalExternalWorkflow_def res_simps)
  note k1 = ok_GenerateSequenceID [OF g k]
  show ?thesis
    using f k1(1) _ _ s
    by (rule ok_schedule [where t = commandTypeSignal])
      (auto simp: k1(2) cb intro: awaits_signalExternalWorkflowExecution
        wf_signalExternalWorkflowExecution ok_wf [OF k1(1)])
qed

section \<open>Search attributes and memos\<close>

lemma updateInfo_sel:
  "updateWorkflowInfoWithSearchAttributes wc m = Inr wc' \<Longrightarrow>
     wc_commandsHelper wc' = wc_commandsHelper wc \<and> wc_calls wc' = wc_calls wc"
  "updateWorkflowInfoWithMemo wc m = Inr wc' \<Longrightarrow>
     wc_commandsHelper wc' = wc_commandsHelper wc \<and> wc_calls wc' = wc_calls wc"
  by (auto simp: updateWorkflowInfoWithSearchAttributes_def updateWorkflowInfoWithMemo_def res_simps)

lemma ok_UpsertSearchAttributes:
  assumes op: "UpsertSearchAttributes wc attrs g = Inr (e, wc')" and k: "env_ok wc"
  shows "env_ok wc'"
proof (cases "validateAndSerializeSearchAttributes (cf_defaultDataConverter (wc_config wc)) attrs")
  case (Inl err)
  with op k show ?thesis by (simp add: UpsertSearchAttributes_def)
next
  case (Inr attr)
  with op obtain i wc1 p wc2 where i: "i = i \<and> (wc1 = wc \<or> GenerateSequenceID wc = Inr (i, wc1))"
    and f: "withHelper (\<lambda>h. upsertSearchAttributes h i attr g) wc1 = Inr (p, wc2)"
    and u: "updateWorkflowInfoWithSearchAttributes wc2 attr = Inr wc'"
    by (auto simp: UpsertSearchAttributes_def res_simps
        split: option.splits goValue.splits list.splits)
  from i k have k1: "env_ok wc1" by (auto dest: ok_GenerateSequenceID)
  have "env_ok wc2" using f k1
    by (rule ok_withHelper)
      (auto intro: keeps_upsertSearchAttributes wf_upsertSearchAttributes ok_wf [OF k1])
  with updateInfo_sel(1) [OF u] show ?thesis by simp
qed

lemma ok_UpsertTypedSearchAttributes:
  "UpsertTypedSearchAttributes wc attrs g = Inr (e, wc') \<Longrightarrow> env_ok wc \<Longrightarrow> env_ok wc'"
  by (auto simp: UpsertTypedSearchAttributes_def intro: ok_UpsertSearchAttributes
      split: sum.splits if_splits)

lemma ok_UpsertMemo:
  assumes op: "UpsertMemo wc m g = Inr (e, wc')" and k: "env_ok wc"
  shows "env_ok wc'"
proof -
  obtain b wc0 where t: "TryUse wc SDKFlagMemoUserDCEncode = (b, wc0)" by (metis surj_pair)
  have k0: "env_ok wc0" using k by (simp add: TryUseD [OF t])
  show ?thesis
  proof (cases "validateAndSerializeMemo (cf_defaultDataConverter (wc_config wc0)) m
      (dataConverterOf wc0) b")
    case (Inl err)
    with op t k0 show ?thesis by (simp add: UpsertMemo_def)
  next
    case (Inr memo)
    with op t obtain i wc1 p wc2 where g: "GenerateSequenceID wc0 = Inr (i, wc1)"
      and f: "withHelper (\<lambda>h. modifyProperties h i memo g) wc1 = Inr (p, wc2)"
      and u: "updateWorkflowInfoWithMemo wc2 memo = Inr wc'"
      by (auto simp: UpsertMemo_def res_simps)
    have k1: "env_ok wc1" by (rule ok_GenerateSequenceID [OF g k0])
    have "env_ok wc2" using f k1
      by (rule ok_withHelper) (auto intro: keeps_modifyProperties wf_modifyProperties ok_wf [OF k1])
    with updateInfo_sel(2) [OF u] show ?thesis by simp
  qed
qed

section \<open>Child workflows\<close>

lemma ok_childNotStarted:
  assumes "env_ok wc" and "fresh_in wc cb"
  shows "env_ok (childNotStarted wc cb st err)"
proof -
  obtain b wc1 where t: "TryUse wc SDKFlagChildWorkflowErrorExecution = (b, wc1)"
    by (metis surj_pair)
  let ?cs = "if b then [ChildStartedCall st \<lparr>we_ID = [], we_RunID = []\<rparr>
    (Some ChildWorkflowExecutionAlreadyStartedError)] else []"
  have "noResult ?cs" by simp
  then have "ok (wc_commandsHelper wc) (wc_calls wc @ ?cs)"
    and "fresh (wc_commandsHelper wc) (wc_calls wc @ ?cs) cb"
    using assms ok_calls by (auto simp: fresh_def noResult_def)
  then have "ok (wc_commandsHelper wc) ((wc_calls wc @ ?cs) @ [ResultCall cb None (Some err)])"
    by (rule ok_call_fresh)
  then show ?thesis by (simp add: childNotStarted_def t TryUseD [OF t])
qed

lemma ok_startChild:
  assumes op: "startChild wc params attrs cb st = Inr wc'" and k: "env_ok wc"
    and cb: "fresh_in wc cb"
  shows "env_ok wc'"
proof (cases "BuildUserMetadata (wp_StaticSummary params) (wp_StaticDetails params)
    (dataConverterOf wc)")
  case (Inl err)
  with op ok_call_fresh [OF k cb] show ?thesis by (auto simp: startChild_def)
next
  case (Inr meta)
  let ?f = "\<lambda>h. startChildWorkflowExecution h attrs meta (wp_EventGroupMarkers params)"
  from op Inr obtain r wc1 where f: "withHelper ?f wc = Inr (r, wc1)"
    by (auto simp: startChild_def res_simps)
  then obtain h where h: "?f (wc_commandsHelper wc) = Inr (r, h)"
    and wc1: "wc1 = wc\<lparr>wc_commandsHelper := h\<rparr>" by (auto simp: withHelper_eq_Inr)
  show ?thesis
  proof (cases r)
    case (Inl w)
    then have "wc1 = wc" using h existing_startChildWorkflowExecution wc1 by fastforce
    with op Inr f Inl ok_childNotStarted [OF k cb] show ?thesis by (auto simp: startChild_def)
  next
    case r: (Inr p)
    with op Inr f obtain s where s: "setData wc1 p (ScheduledChildWorkflow s) = Inr wc'"
      and s': "sc_resultCallback s = cb" "\<not> sc_handled s"
      by (auto simp: startChild_def)
    show ?thesis using f k _ _ s
      by (rule ok_schedule [where t = commandTypeChildWorkflow])
        (auto simp: s' cb r intro: awaits_startChildWorkflowExecution
          wf_startChildWorkflowExecution ok_wf [OF k])
  qed
qed

lemma ok_ExecuteChildWorkflow:
  assumes op: "ExecuteChildWorkflow wc params cb st = Inr wc'" and k: "env_ok wc"
    and cb: "fresh_in wc cb"
  shows "env_ok wc'"
proof -
  from op obtain i wc1 where g: "i = i \<and> (wc1 = wc \<or> (\<exists>n. GenerateSequenceID wc = Inr (n, wc1)))"
    and rest: "(let (useUserDC, wc2) = TryUse wc1 SDKFlagMemoUserDCEncode;
         defaultDC = cf_defaultDataConverter (wc_config wc2) in
     case GetWorkflowMemo defaultDC (wp_Memo params) (Some (dataConverterOf wc2)) useUserDC of
       Inl err \<Rightarrow> Inr (childNotStarted wc2 cb st (GoError err))
     | Inr memo \<Rightarrow>
        (case SerializeSearchAttributes defaultDC (wp_SearchAttributes params)
                (wp_TypedSearchAttributes params) of
           Inl err \<Rightarrow> Inr (childNotStarted wc2 cb st (GoError err))
         | Inr searchAttr \<Rightarrow>
             startChild wc2 params (childWorkflowAttributes params i memo searchAttr
               (wi_TaskQueueName (wc_workflowInfo wc2))) cb st)) = Inr wc'"
    by (auto simp: ExecuteChildWorkflow_def bind_res_eq_Inr split: if_splits)
  from g k cb have k1: "env_ok wc1" "fresh_in wc1 cb" by (auto dest: ok_GenerateSequenceID)
  obtain b wc2 where t: "TryUse wc1 SDKFlagMemoUserDCEncode = (b, wc2)" by (metis surj_pair)
  have "env_ok wc2" "fresh_in wc2 cb" using k1 by (simp_all add: TryUseD [OF t])
  with rest t show ?thesis
    by (auto simp: Let_def intro: ok_childNotStarted ok_startChild split: sum.splits)
qed

section \<open>Nexus operations\<close>

lemma ok_ExecuteNexusOperation:
  assumes op: "ExecuteNexusOperation wc params cb st = Inr (n, wc')" and k: "env_ok wc"
  shows "env_ok wc'"
proof -
  from op obtain seq wc1 where g: "GenerateSequence wc = Inr (seq, wc1)"
    by (auto simp: ExecuteNexusOperation_def bind_res_eq_Inr)
  note k1 = ok_GenerateSequence [OF g k]
  show ?thesis
  proof (cases "BuildUserMetadata (np_Summary params) [] (dataConverterOf wc1)")
    case (Inl err)
    with op g k1 show ?thesis by (auto simp: ExecuteNexusOperation_def ok_calls)
  next
    case (Inr meta)
    with op g obtain a p wc2 s where
      f: "withHelper (\<lambda>h. scheduleNexusOperation h seq a meta (np_eventGroupMarkers params)) wc1 =
        Inr (p, wc2)"
      and s: "setData wc2 p (ScheduledNexusOperation s) = Inr wc'"
      by (auto simp: ExecuteNexusOperation_def res_simps)
    show ?thesis using f k1(1) _ _ s
      by (rule ok_schedule [where t = commandTypeNexusOperation])
        (auto intro: awaits_scheduleNexusOperation wf_scheduleNexusOperation ok_wf [OF k1(1)])
  qed
qed

lemma releaseNexusCallbacks_noResult: "noResult (snd (releaseNexusCallbacks s r e))"
  by (auto simp: releaseNexusCallbacks_def split: option.splits)

lemma ok_resolveNexus:
  assumes op: "resolveNexus wc p s r e = Inr wc'" and k: "env_ok wc"
    and d: "machines (wc_commandsHelper wc) p = Some d" "m_data d = Some (ScheduledNexusOperation s)"
  shows "env_ok wc'"
proof -
  obtain s1 cs where rel: "releaseNexusCallbacks s r e = (s1, cs)" by (metis surj_pair)
  with releaseNexusCallbacks_noResult [of s r e] have "noResult cs" by simp
  from ok_setNexus [OF k d this, of s1] op rel d(1) show ?thesis
    by (auto simp: resolveNexus_def res_simps setData_eq_Inr)
qed

lemma ok_RequestCancelNexusOperation:
  assumes op: "RequestCancelNexusOperation wc seq = Inr wc'" and k: "env_ok wc"
  shows "env_ok wc'"
proof -
  from op obtain p wc1 s d where f: "withHelper (\<lambda>h. requestCancelNexusOperation h seq) wc = Inr (p, wc1)"
    and d: "machines (wc_commandsHelper wc1) p = Some d" "m_data d = Some (ScheduledNexusOperation s)"
    and rest: "(if m_state d = commandStateCreated \<or> m_state d = commandStateCommandSent
       then resolveNexus wc1 p s None (Some ErrCanceled) else Inr wc1) = Inr wc'"
    by (auto simp: RequestCancelNexusOperation_def res_simps getData_eq_Inr as_eq_Inr)
  have "env_ok wc1" using f k
    by (rule ok_withHelper)
      (auto intro: keeps_requestCancelNexusOperation wf_requestCancelNexusOperation ok_wf [OF k])
  with rest d show ?thesis by (auto intro: ok_resolveNexus split: if_splits)
qed

lemma ok_AbandonNexusOperation:
  assumes op: "AbandonNexusOperation wc seq = Inr wc'" and k: "env_ok wc"
  shows "env_ok wc'"
proof -
  from op obtain p d s where
    d: "machines (wc_commandsHelper wc) p = Some d" "m_data d = Some (ScheduledNexusOperation s)"
    and s: "setData wc p (ScheduledNexusOperation
      (s\<lparr>sn_startedCallback := None, sn_completedCallback := None\<rparr>)) = Inr wc'"
    by (auto simp: AbandonNexusOperation_def res_simps getData_eq_Inr as_eq_Inr)
  from ok_setNexus [OF k d noResult_simps(1)] s d(1) show ?thesis by (auto simp: setData_eq_Inr)
qed

section \<open>Activities and timers\<close>

lemma ok_ExecuteActivity:
  assumes op: "ExecuteActivity wc params cb = Inr (i, wc')" and k: "env_ok wc"
    and cb: "fresh_in wc cb"
  shows "env_ok wc'"
proof -
  from op obtain sid wc1 where
    g: "(if ap_ScheduleID params = 0 then GenerateSequence wc else Inr (ap_ScheduleID params, wc)) =
      Inr (sid, wc1)"
    by (auto simp: ExecuteActivity_def bind_res_eq_Inr)
  from g k cb have k1: "env_ok wc1" "fresh_in wc1 cb"
    by (auto dest: ok_GenerateSequence split: if_splits)
  show ?thesis
  proof (cases "BuildUserMetadata (ap_Summary params) [] (dataConverterOf wc1)")
    case (Inl err)
    with op g ok_call_fresh [OF k1] show ?thesis by (auto simp: ExecuteActivity_def Let_def)
  next
    case (Inr meta)
    with op g obtain a p wc2 s where
      f: "withHelper (\<lambda>h. scheduleActivityTask h sid a meta (ap_EventGroupMarkers params)) wc1 =
        Inr (p, wc2)"
      and s: "setData wc2 p (ScheduledActivity s) = Inr wc'" "sa_callback s = cb" "\<not> sa_handled s"
      by (auto simp: ExecuteActivity_def res_simps Let_def)
    show ?thesis using f k1(1) _ _ s(1)
      by (rule ok_schedule [where t = commandTypeActivity])
        (auto simp: s k1 intro: awaits_scheduleActivityTask wf_scheduleActivityTask ok_wf [OF k1(1)])
  qed
qed

text \<open>Resolving the command a machine stands for.\<close>

lemma ok_resolveWith:
  assumes op: "resolveWith wc p wrap r = Inr wc'" and k: "env_ok wc"
    and d: "machines (wc_commandsHelper wc) p = Some d" "m_data d = Some (wrap s)"
    and r: "\<And>s1 c. r = Inr (s1, c) \<Longrightarrow> \<exists>cb x e. c = ResultCall cb x e \<and>
      \<not> isHandled (wrap s) \<and> resultHandler (wrap s) = Some cb \<and>
      isHandled (wrap s1) \<and> resultHandler (wrap s1) = Some cb \<and>
      dataOk (id_commandType (m_id d)) (Some (wrap s1))"
  shows "env_ok wc'"
proof -
  from op obtain s1 c wc1 where rr: "r = Inr (s1, c)" and s: "setData wc p (wrap s1) = Inr wc1"
    and wc': "wc' = callBack wc1 [c]"
    by (auto simp: resolveWith_def res_simps)
  from r [OF rr] obtain cb x e where c: "c = ResultCall cb x e" and h: "\<not> isHandled (wrap s)"
    "resultHandler (wrap s) = Some cb" "isHandled (wrap s1)" "resultHandler (wrap s1) = Some cb"
    "dataOk (id_commandType (m_id d)) (Some (wrap s1))" by blast
  from ok_resolve [OF k d h] s d(1) show ?thesis by (auto simp: wc' c setData_eq_Inr)
qed

lemma dataOk_wrap:
  assumes "dataOk t (Some s)"
  shows "s = ScheduledActivity sa \<Longrightarrow> dataOk t (Some (ScheduledActivity sa'))"
    and "s = ScheduledTimer st \<Longrightarrow> dataOk t (Some (ScheduledTimer st'))"
    and "s = ScheduledChildWorkflow sc \<Longrightarrow> dataOk t (Some (ScheduledChildWorkflow sc'))"
    and "s = ScheduledCancellation scn \<Longrightarrow> dataOk t (Some (ScheduledCancellation scn'))"
    and "s = ScheduledSignal ss \<Longrightarrow> dataOk t (Some (ScheduledSignal ss'))"
  using assms by (cases t; simp add: dataOk_def)+

lemma ok_resolveActivity:
  assumes "resolveWith wc p ScheduledActivity (scheduledActivity_handle s r e) = Inr wc'"
    and k: "env_ok wc" and d: "machines (wc_commandsHelper wc) p = Some d"
    "m_data d = Some (ScheduledActivity s)"
  shows "env_ok wc'"
  using assms ok_typed [OF k d(1)]
  by (elim ok_resolveWith)
    (auto simp: scheduledActivity_handle_def d(2) intro: dataOk_wrap split: if_splits)

lemma ok_resolveTimer:
  assumes "resolveWith wc p ScheduledTimer (scheduledTimer_handle s r e) = Inr wc'"
    and k: "env_ok wc" and d: "machines (wc_commandsHelper wc) p = Some d"
    "m_data d = Some (ScheduledTimer s)"
  shows "env_ok wc'"
  using assms ok_typed [OF k d(1)]
  by (elim ok_resolveWith)
    (auto simp: scheduledTimer_handle_def d(2) intro: dataOk_wrap split: if_splits)

lemma ok_resolveChild:
  assumes "resolveWith wc p ScheduledChildWorkflow (scheduledChildWorkflow_handle s r e) = Inr wc'"
    and k: "env_ok wc" and d: "machines (wc_commandsHelper wc) p = Some d"
    "m_data d = Some (ScheduledChildWorkflow s)"
  shows "env_ok wc'"
  using assms ok_typed [OF k d(1)]
  by (elim ok_resolveWith)
    (auto simp: scheduledChildWorkflow_handle_def d(2) intro: dataOk_wrap split: if_splits)

lemma ok_resolveCancellation:
  assumes "resolveWith wc p ScheduledCancellation (scheduledCancellation_handle s r e) = Inr wc'"
    and k: "env_ok wc" and d: "machines (wc_commandsHelper wc) p = Some d"
    "m_data d = Some (ScheduledCancellation s)"
  shows "env_ok wc'"
  using assms ok_typed [OF k d(1)]
  by (elim ok_resolveWith)
    (auto simp: scheduledCancellation_handle_def d(2) intro: dataOk_wrap split: if_splits)

lemma ok_resolveSignal:
  assumes "resolveWith wc p ScheduledSignal (scheduledSignal_handle s r e) = Inr wc'"
    and k: "env_ok wc" and d: "machines (wc_commandsHelper wc) p = Some d"
    "m_data d = Some (ScheduledSignal s)"
  shows "env_ok wc'"
  using assms ok_typed [OF k d(1)]
  by (elim ok_resolveWith)
    (auto simp: scheduledSignal_handle_def d(2) intro: dataOk_wrap split: if_splits)

lemma ok_RequestCancelActivity:
  assumes op: "RequestCancelActivity wc i = Inr wc'" and k: "env_ok wc"
  shows "env_ok wc'"
proof -
  from op obtain p wc1 s d where f: "withHelper (\<lambda>h. requestCancelActivityTask h i) wc = Inr (p, wc1)"
    and d: "machines (wc_commandsHelper wc1) p = Some d" "m_data d = Some (ScheduledActivity s)"
    and rest: "wc' = wc1 \<or> resolveWith wc1 p ScheduledActivity
      (scheduledActivity_handle s None (Some ErrCanceled)) = Inr wc'"
    by (auto simp: RequestCancelActivity_def res_simps getData_eq_Inr as_eq_Inr split: if_splits)
  have "env_ok wc1" using f k
    by (rule ok_withHelper)
      (auto simp: requestCancelActivityTask_def intro: keeps_onCommand_cancel wf_onCommand_cancel
        ok_wf [OF k])
  with rest d show ?thesis by (auto intro: ok_resolveActivity)
qed

lemma ok_RequestCancelTimer:
  assumes op: "RequestCancelTimer wc i = Inr wc'" and k: "env_ok wc"
  shows "env_ok wc'"
proof -
  from op obtain p wc1 s d where f: "withHelper (\<lambda>h. cancelTimer h i) wc = Inr (p, wc1)"
    and d: "machines (wc_commandsHelper wc1) p = Some d" "m_data d = Some (ScheduledTimer s)"
    and rest: "wc' = wc1 \<or> resolveWith wc1 p ScheduledTimer
      (scheduledTimer_handle s None (Some ErrCanceled)) = Inr wc'"
    by (auto simp: RequestCancelTimer_def res_simps getData_eq_Inr as_eq_Inr split: if_splits)
  have "env_ok wc1" using f k
    by (rule ok_withHelper)
      (auto simp: cancelTimer_def intro: keeps_onCommand_cancel wf_onCommand_cancel ok_wf [OF k])
  with rest d show ?thesis by (auto intro: ok_resolveTimer)
qed

lemma ok_NewTimer:
  assumes op: "NewTimer wc d sm g cb = Inr (r, wc')" and k: "env_ok wc" and cb: "fresh_in wc cb"
  shows "env_ok wc'"
proof (cases "sint d < 0 \<or> d = 0")
  case True
  with op ok_call_fresh [OF k cb] show ?thesis by (auto simp: NewTimer_def split: if_splits)
next
  case False
  with op obtain i wc1 a p wc2 where g: "GenerateSequenceID wc = Inr (i, wc1)"
    and f: "withHelper (\<lambda>h. startTimer h a sm (dataConverterOf wc1) g) wc1 = Inr (p, wc2)"
    and s: "setData wc2 p (ScheduledTimer \<lparr>st_callback = cb, st_handled = False\<rparr>) = Inr wc'"
    by (auto simp: NewTimer_def res_simps)
  note k1 = ok_GenerateSequenceID [OF g k]
  show ?thesis using f k1(1) _ _ s
    by (rule ok_schedule [where t = commandTypeTimer])
      (auto simp: k1(2) cb intro: awaits_startTimer wf_startTimer ok_wf [OF k1(1)])
qed

lemma ok_ExecuteLocalActivity:
  "ExecuteLocalActivity now wc params cb = (i, wc') \<Longrightarrow> env_ok wc \<Longrightarrow> env_ok wc'"
  by (auto simp: ExecuteLocalActivity_def getNextLocalActivityID_def Let_def)

lemma ok_RequestCancelLocalActivity: "env_ok wc \<Longrightarrow> env_ok (RequestCancelLocalActivity wc i)"
  by (auto simp: RequestCancelLocalActivity_def localActivityTask_cancel_def ok_calls
      split: option.splits)

lemma ok_SetCurrentReplayTime: "env_ok wc \<Longrightarrow> env_ok (SetCurrentReplayTime now wc t)"
  by (simp add: SetCurrentReplayTime_def)

section \<open>Recorded values\<close>

lemma ok_recordNewVersion:
  assumes op: "recordNewVersion ks wc c v g = Inr wc'" and k: "env_ok wc"
  shows "env_ok wc'"
proof -
  obtain b wc1 where t: "TryUse wc SDKFlagLimitChangeVersionSASize = (b, wc1)" by (metis surj_pair)
  have k1: "env_ok wc1" using k by (simp add: TryUseD [OF t])
  have "env_ok wc2"
    if "withHelper (\<lambda>h. recordVersionMarker h c v (dataConverterOf wc1) x g) wc1 = Inr (p, wc2)"
    for x p wc2
    using that k1
    by (rule ok_withHelper) (auto intro: keeps_recordVersionMarker wf_recordVersionMarker ok_wf [OF k1])
  with op t k show ?thesis
    by (auto simp: recordNewVersion_def Let_def res_simps intro: ok_UpsertSearchAttributes
        split: sum.splits if_splits)
qed

lemma ok_GetVersion:
  "GetVersion ks wc c mn mx g = Inr (v, wc') \<Longrightarrow> env_ok wc \<Longrightarrow> env_ok wc'"
  by (auto simp: GetVersion_def res_simps intro: ok_recordNewVersion split: option.splits if_splits)

lemma ok_recordSideEffect:
  assumes op: "recordSideEffect wc i r sm g cb = Inr wc'" and k: "env_ok wc" and cb: "fresh_in wc cb"
  shows "env_ok wc'"
proof -
  from op obtain u p wc1 where
    f: "withHelper (\<lambda>h. recordSideEffectMarker h i r (dataConverterOf wc) u g) wc = Inr (p, wc1)"
    and wc': "wc' = callBack wc1 [ResultCall cb r None]"
    by (cases "BuildUserMetadata sm [] (dataConverterOf wc)") (auto simp: recordSideEffect_def res_simps)
  have k1: "env_ok wc1" using f k
    by (rule ok_withHelper)
      (auto intro: keeps_recordSideEffectMarker wf_recordSideEffectMarker ok_wf [OF k])
  moreover have "fresh_in wc1 cb"
    using f cb fresh_keeps [OF keeps_recordSideEffectMarker [OF _ ok_wf [OF k]]]
    by (auto simp: withHelper_eq_Inr)
  ultimately show ?thesis by (simp add: wc' ok_call_fresh)
qed

lemma ok_SideEffect:
  assumes op: "SideEffect wc f cb sm g = Inr wc'" and k: "env_ok wc" and cb: "fresh_in wc cb"
  shows "env_ok wc'"
  using assms ok_call_fresh [OF k cb]
  by (auto simp: SideEffect_def getNextSideEffectID_def Let_def fail_defs
      elim!: ok_recordSideEffect split: if_splits option.splits)

lemma lookupMutableSideEffect_sel:
  assumes "lookupMutableSideEffect wc i = (x, wc')"
  shows "wc_commandsHelper wc' = wc_commandsHelper wc" "wc_calls wc' = wc_calls wc"
  using assms by (auto simp: lookupMutableSideEffect_def Let_def split: option.splits if_splits prod.splits)

lemma ok_recordMutableSideEffect:
  assumes op: "recordMutableSideEffect wc i n x sm g = Inr (r, wc')" and k: "env_ok wc"
  shows "env_ok wc'"
proof -
  from op obtain dets u p wc1 m where
    f: "withHelper (\<lambda>h. recordMutableSideEffectMarker h i (word_of_int n) dets (dataConverterOf wc) u g)
      wc = Inr (p, wc1)" and wc': "wc' = wc1\<lparr>wc_mutableSideEffect := m\<rparr>"
    by (cases "BuildUserMetadata sm [] (dataConverterOf wc)")
      (auto simp: recordMutableSideEffect_def res_simps)
  have "env_ok wc1" using f k
    by (rule ok_withHelper)
      (auto intro: keeps_recordMutableSideEffectMarker wf_recordMutableSideEffectMarker ok_wf [OF k])
  then show ?thesis by (simp add: wc')
qed

lemma ok_MutableSideEffect:
  assumes op: "MutableSideEffect wc i f eq sm g = Inr (r, wc')" and k: "env_ok wc"
  shows "env_ok wc'"
proof -
  let ?wc1 = "wc\<lparr>wc_mutableSideEffectCallCounter :=
    fmupd i (countOf wc i + 1) (wc_mutableSideEffectCallCounter wc)\<rparr>"
  obtain x wc2 where l: "lookupMutableSideEffect ?wc1 i = (x, wc2)" by (metis surj_pair)
  have k2: "env_ok wc2" using k lookupMutableSideEffect_sel [OF l] by simp
  from op l k2 show ?thesis
    by (auto simp: MutableSideEffect_def Let_def res_simps fail_defs
        intro: ok_recordMutableSideEffect dest: ok_GenerateSequence
        split: option.splits if_splits)
qed

section \<open>Bookkeeping\<close>

lemma ok_HandleQueuedUpdates: "env_ok wc \<Longrightarrow> env_ok (HandleQueuedUpdates wc n)"
  by (auto simp: HandleQueuedUpdates_def ok_calls split: option.splits)

lemma ok_drainLoop: "env_ok wc \<Longrightarrow> env_ok (snd (drainLoop ks wc b))"
  by (induction ks wc b rule: drainLoop.induct) (simp_all add: Let_def ok_HandleQueuedUpdates)

lemma ok_bookkeeping:
  "env_ok wc \<Longrightarrow> env_ok (snd (takeOutgoingMessages wc))"
  "env_ok wc \<Longrightarrow> env_ok (snd (getNewSdkNameAndReset wc))"
  "env_ok wc \<Longrightarrow> env_ok (snd (getNewSdkVersionAndReset wc))"
  "env_ok wc \<Longrightarrow> env_ok (Complete wc r e)"
  "env_ok wc \<Longrightarrow> env_ok (RegisterCancelHandler wc)"
  "env_ok wc \<Longrightarrow> env_ok (RegisterSignalHandler wc)"
  "env_ok wc \<Longrightarrow> env_ok (RegisterQueryHandler wc)"
  "env_ok wc \<Longrightarrow> env_ok (RegisterUpdateHandler wc)"
  "env_ok wc \<Longrightarrow> env_ok (QueueUpdate wc n f)"
  "env_ok wc \<Longrightarrow> env_ok (snd (DrainUnhandledUpdates ks wc))"
  "env_ok wc \<Longrightarrow> env_ok (AddSession wc si)"
  "env_ok wc \<Longrightarrow> env_ok (RemoveSession wc n)"
  "env_ok wc \<Longrightarrow> env_ok (ResetLAWFTAttemptCounts wc)"
  "env_ok wc \<Longrightarrow> env_ok (snd (GetRandomStream wc n))"
  "env_ok wc \<Longrightarrow> env_ok (snd (TryUse wc fl))"
  "env_ok wc \<Longrightarrow> env_ok (ClearCompleted wc)"
  by (simp_all add: takeOutgoingMessages_def getNewSdkNameAndReset_def getNewSdkVersionAndReset_def
      Complete_def RegisterCancelHandler_def RegisterSignalHandler_def RegisterQueryHandler_def
      RegisterUpdateHandler_def QueueUpdate_def DrainUnhandledUpdates_def ok_drainLoop AddSession_def
      RemoveSession_def ResetLAWFTAttemptCounts_def GetRandomStream_def ClearCompleted_def ok_calls
      split: prod.splits)

section \<open>Update callbacks\<close>

lemma putProtocol_sel [simp]:
  "wc_commandsHelper (putProtocol wc up) = wc_commandsHelper wc"
  "wc_calls (putProtocol wc up) = wc_calls wc"
  by (simp_all add: putProtocol_def)

lemma ok_Accept: "Accept wc inst = Inr wc' \<Longrightarrow> env_ok wc \<Longrightarrow> env_ok wc'"
  by (auto simp: Accept_def res_simps intro: ok_Send)

lemma ok_Reject: "Reject wc inst e = Inr wc' \<Longrightarrow> env_ok wc \<Longrightarrow> env_ok wc'"
  by (auto simp: Reject_def res_simps intro: ok_Send)

lemma ok_up_Complete: "up_Complete wc inst v e = Inr wc' \<Longrightarrow> env_ok wc \<Longrightarrow> env_ok wc'"
  by (auto simp: up_Complete_def res_simps intro: ok_Send)

end
