(* ===== verification/Env_Steps.thy ===== *)
theory Env_Steps
  imports Env_Operations
begin

text \<open>
  The environment as a transition system. Workflow code takes a step by calling an operation of its
  environment; the event handler takes one by processing an event, a message or the result of a
  local activity, during which it runs workflow code. The invariant holds in every environment that
  such steps reach.
\<close>

section \<open>Steps of workflow code\<close>

inductive api_step :: "env \<Rightarrow> env \<Rightarrow> bool" where
  generate: "GenerateSequence wc = Inr (n, wc') \<Longrightarrow> api_step wc wc'"
| cancelChild: "RequestCancelChildWorkflow wc ns w = Inr wc' \<Longrightarrow> api_step wc wc'"
| cancelExternal:
    "RequestCancelExternalWorkflow wc ns w r g cb = Inr wc' \<Longrightarrow> fresh_in wc cb \<Longrightarrow> api_step wc wc'"
| signalExternal:
    "SignalExternalWorkflow wc ns w r s inp hdr c g cb = Inr wc' \<Longrightarrow> fresh_in wc cb \<Longrightarrow> api_step wc wc'"
| upsertSearchAttributes: "UpsertSearchAttributes wc attrs g = Inr (e, wc') \<Longrightarrow> api_step wc wc'"
| upsertTyped: "UpsertTypedSearchAttributes wc tattrs g = Inr (e, wc') \<Longrightarrow> api_step wc wc'"
| upsertMemo: "UpsertMemo wc m g = Inr (e, wc') \<Longrightarrow> api_step wc wc'"
| executeChild:
    "ExecuteChildWorkflow wc wparams cb st = Inr wc' \<Longrightarrow> fresh_in wc cb \<Longrightarrow> api_step wc wc'"
| executeNexus: "ExecuteNexusOperation wc nparams cb st = Inr (seq, wc') \<Longrightarrow> api_step wc wc'"
| cancelNexus: "RequestCancelNexusOperation wc seq = Inr wc' \<Longrightarrow> api_step wc wc'"
| abandonNexus: "AbandonNexusOperation wc seq = Inr wc' \<Longrightarrow> api_step wc wc'"
| executeActivity:
    "ExecuteActivity wc aparams cb = Inr (i, wc') \<Longrightarrow> fresh_in wc cb \<Longrightarrow> api_step wc wc'"
| cancelActivity: "RequestCancelActivity wc i = Inr wc' \<Longrightarrow> api_step wc wc'"
| executeLocal: "ExecuteLocalActivity now wc lparams cb = (i, wc') \<Longrightarrow> api_step wc wc'"
| cancelLocal: "api_step wc (RequestCancelLocalActivity wc i)"
| newTimer: "NewTimer wc d sm g cb = Inr (r', wc') \<Longrightarrow> fresh_in wc cb \<Longrightarrow> api_step wc wc'"
| cancelTimer: "RequestCancelTimer wc i = Inr wc' \<Longrightarrow> api_step wc wc'"
| getVersion: "GetVersion ks wc c mn mx g = Inr (v, wc') \<Longrightarrow> api_step wc wc'"
| sideEffect: "SideEffect wc f cb sm g = Inr wc' \<Longrightarrow> fresh_in wc cb \<Longrightarrow> api_step wc wc'"
| mutableSideEffect: "MutableSideEffect wc i x eq sm g = Inr (p, wc') \<Longrightarrow> api_step wc wc'"
| tryUse: "api_step wc (snd (TryUse wc fl))"
| complete: "api_step wc (Complete wc res err)"
| registerCancel: "api_step wc (RegisterCancelHandler wc)"
| registerSignal: "api_step wc (RegisterSignalHandler wc)"
| registerQuery: "api_step wc (RegisterQueryHandler wc)"
| registerUpdate: "api_step wc (RegisterUpdateHandler wc)"
| queueUpdate: "api_step wc (QueueUpdate wc nm cb)"
| handleQueued: "api_step wc (HandleQueuedUpdates wc nm)"
| drain: "api_step wc (snd (DrainUnhandledUpdates ks wc))"
| addSession: "api_step wc (AddSession wc si)"
| removeSession: "api_step wc (RemoveSession wc nm)"
| randomStream: "api_step wc (snd (GetRandomStream wc nm))"
| accept: "Accept wc inst = Inr wc' \<Longrightarrow> api_step wc wc'"
| reject: "Reject wc inst err = Inr wc' \<Longrightarrow> api_step wc wc'"
| updateComplete: "up_Complete wc inst x err = Inr wc' \<Longrightarrow> api_step wc wc'"

lemmas ok_simple_operations =
  ok_GenerateSequence(1) ok_RequestCancelChildWorkflow ok_UpsertSearchAttributes
  ok_UpsertTypedSearchAttributes ok_UpsertMemo ok_ExecuteNexusOperation
  ok_RequestCancelNexusOperation ok_AbandonNexusOperation ok_RequestCancelActivity
  ok_ExecuteLocalActivity ok_RequestCancelTimer ok_GetVersion ok_MutableSideEffect ok_Accept
  ok_Reject ok_up_Complete

lemmas ok_callback_operations =
  ok_RequestCancelExternalWorkflow ok_SignalExternalWorkflow ok_ExecuteChildWorkflow
  ok_ExecuteActivity ok_NewTimer ok_SideEffect

lemma ok_api_step: "api_step wc wc' \<Longrightarrow> env_ok wc \<Longrightarrow> env_ok wc'"
proof (induction rule: api_step.induct)
qed ((erule (1) ok_simple_operations | erule (2) ok_callback_operations |
  erule ok_bookkeeping ok_HandleQueuedUpdates ok_RequestCancelLocalActivity)+)

abbreviation api_steps :: "env \<Rightarrow> env \<Rightarrow> bool" where
  "api_steps \<equiv> api_step\<^sup>*\<^sup>*"

lemma ok_api_steps: "api_steps wc wc' \<Longrightarrow> env_ok wc \<Longrightarrow> env_ok wc'"
  by (induction rule: rtranclp.induct) (auto intro: ok_api_step)

text \<open>
  Workflow code reaches its environment only through these operations: from an environment that
  satisfies the invariant, each entry point of the code is a sequence of them.
\<close>

definition uses_api :: "workflowCode \<Rightarrow> bool" where
  "uses_api wd \<longleftrightarrow> (\<forall>wc. env_ok wc \<longrightarrow>
     (\<forall>hdr inp wc'. wf_Execute wd wc hdr inp = Inr wc' \<longrightarrow> api_steps wc wc') \<and>
     (\<forall>wc'. wf_OnWorkflowTaskStarted wd wc = Inr wc' \<longrightarrow> api_steps wc wc') \<and>
     (\<forall>wc'. wf_cancelHandler wd wc = Inr wc' \<longrightarrow> api_steps wc wc') \<and>
     (\<forall>s inp hdr e wc'. wf_signalHandler wd wc s inp hdr = Inr (e, wc') \<longrightarrow> api_steps wc wc') \<and>
     (\<forall>n u args hdr i wc'. wf_updateHandler wd wc n u args hdr i = Inr wc' \<longrightarrow> api_steps wc wc'))"

section \<open>Event handlers keep the invariant\<close>

lemma noError_eq_Inr: "noError r = Inr (e, wc') \<longleftrightarrow> e = None \<and> r = Inr wc'"
  by (auto simp: noError_def res_simps)

text \<open>
  A history event moves the command of an existing machine, without touching data; then the handler
  looks at the data.
\<close>

definition quiet :: "(helper \<Rightarrow> ('a \<times> helper) res) \<Rightarrow> bool" where
  "quiet f \<longleftrightarrow> (\<forall>h a h'. f h = Inr (a, h') \<longrightarrow> wf_helper h \<longrightarrow> keeps {} h h' \<and> wf_helper h')"

lemma ok_quiet: "quiet f \<Longrightarrow> withHelper f wc = Inr (a, wc') \<Longrightarrow> env_ok wc \<Longrightarrow> env_ok wc'"
  using ok_wf [of "wc_commandsHelper wc" "wc_calls wc"]
  by (elim ok_withHelper) (auto simp: quiet_def)

lemma ok_helperEvent: "quiet f \<Longrightarrow> helperEvent f wc = Inr (e, wc') \<Longrightarrow> env_ok wc \<Longrightarrow> env_ok wc'"
  by (auto simp: helperEvent_def res_simps intro: ok_quiet)

lemma quiet_history:
  "quiet (\<lambda>h. handleActivityTaskScheduled h a e)" "quiet (\<lambda>h. handleActivityTaskClosed h a e)"
  "quiet (\<lambda>h. handleActivityTaskCancelRequested h e)" "quiet (\<lambda>h. handleActivityTaskCanceled h a e)"
  "quiet (\<lambda>h. handleTimerClosed h a)"
  "quiet (\<lambda>h. handleRequestCancelExternalWorkflowExecutionInitiated h e a b)"
  "quiet (\<lambda>h. handleSignalExternalWorkflowExecutionInitiated h e a)"
  "quiet (\<lambda>h. handleSignalExternalWorkflowExecutionCompleted h e)"
  "quiet (\<lambda>h. handleSignalExternalWorkflowExecutionFailed h e)"
  "quiet (\<lambda>h. handleNexusOperationStarted h e)" "quiet (\<lambda>h. handleNexusOperationCompleted h e)"
  "quiet (\<lambda>h. handleNexusOperationCancelRequested h e)"
  "quiet (\<lambda>h. handleNexusOperationCancelRequestDelivered h e)"
  unfolding quiet_def
  by (auto intro: keeps_handleActivityTaskScheduled keeps_handleActivityTaskClosed
      keeps_handleActivityTaskCancelRequested keeps_handleActivityTaskCanceled keeps_handleTimerClosed
      keeps_handleRequestCancelExternalWorkflowExecutionInitiated
      keeps_handleSignalExternalWorkflowExecutionInitiated
      keeps_handleSignalExternalWorkflowExecutionCompleted
      keeps_handleSignalExternalWorkflowExecutionFailed keeps_handleNexusOperationStarted
      keeps_handleNexusOperationCompleted keeps_handleNexusOperationCancelRequested
      keeps_handleNexusOperationCancelRequestDelivered wf_history_operations)

lemma quiet_on_command:
  "quiet (\<lambda>h. handleTimerStarted h a)" "quiet (\<lambda>h. handleTimerCanceled h a)"
  "quiet (\<lambda>h. handleStartChildWorkflowExecutionInitiated h a)"
  "quiet (\<lambda>h. handleStartChildWorkflowExecutionFailed h a)"
  "quiet (\<lambda>h. handleChildWorkflowExecutionStarted h a)"
  "quiet (\<lambda>h. handleChildWorkflowExecutionClosed h a)"
  "quiet (\<lambda>h. handleChildWorkflowExecutionCanceled h a)"
  unfolding quiet_def on_command_defs by (auto intro: keeps_on_command wf_on_command)

lemma quiet_cancellation:
  "quiet (\<lambda>h. bind_res (handleExternalWorkflowExecutionCancelRequested h e w)
     (\<lambda>(b, p, h1). Inr ((b, p), h1)))"
  "quiet (\<lambda>h. bind_res (handleRequestCancelExternalWorkflowExecutionFailed h e w)
     (\<lambda>(b, p, h1). Inr ((b, p), h1)))"
  unfolding quiet_def
  by (auto simp: res_simps intro: keeps_handleExternalWorkflowExecutionCancelRequested
      keeps_handleRequestCancelExternalWorkflowExecutionFailed wf_history_operations)

lemma ok_activityClosed:
  assumes op: "activityClosed wc a r = Inr (e, wc')" and k: "env_ok wc"
  shows "env_ok wc'"
proof -
  from op obtain i sid p wc1 d s where
    f: "withHelper (\<lambda>h. handleActivityTaskClosed h i sid) wc = Inr (p, wc1)"
    and d: "machines (wc_commandsHelper wc1) p = Some d" "m_data d = Some (ScheduledActivity s)"
    and rest: "wc' = wc1 \<or> resolveWith wc1 p ScheduledActivity
      (scheduledActivity_handle s (fst (r s i)) (snd (r s i))) = Inr wc'"
    by (auto simp: activityClosed_def res_simps getData_eq_Inr as_eq_Inr noError_eq_Inr split: if_splits)
  have "env_ok wc1" using quiet_history(2) f k by (rule ok_quiet)
  with rest d show ?thesis by (auto intro: ok_resolveActivity)
qed

lemma ok_activityCanceled:
  assumes op: "weh_handleActivityTaskCanceled wc s0 st i0 ds = Inr (e, wc')" and k: "env_ok wc"
  shows "env_ok wc'"
proof -
  from op obtain i sid p wc1 d s where
    f: "withHelper (\<lambda>h. handleActivityTaskCanceled h i sid) wc = Inr (p, wc1)"
    and d: "machines (wc_commandsHelper wc1) p = Some d" "m_data d = Some (ScheduledActivity s)"
    and rest: "(if sa_handled s then Inr (None, wc1)
       else bind_res (deref (wc_commandsHelper wc1) p) (\<lambda>d.
         if machine_isDone d \<or> \<not> sa_waitForCancelRequest s
         then noError (resolveWith wc1 p ScheduledActivity (scheduledActivity_handle s None
           (Some (NewActivityError s0 st i0 (sa_activityType s) i
              RETRY_STATE_NON_RETRYABLE_FAILURE (Some (NewCanceledError (EncodedValues ds)))))))
         else Inr (None, wc1))) = Inr (e, wc')"
    by (auto simp only: weh_handleActivityTaskCanceled_def bind_res_eq_Inr split_paired_Ex
        prod.case getData_eq_Inr as_eq_Inr)
  have "env_ok wc1" using quiet_history(4) f k by (rule ok_quiet)
  with rest d show ?thesis
    by (auto simp: noError_eq_Inr intro: ok_resolveActivity split: if_splits)
qed

lemma ok_handleTimerFired:
  assumes op: "handleTimerFired wc i = Inr (e, wc')" and k: "env_ok wc"
  shows "env_ok wc'"
proof -
  from op obtain p wc1 d s where
    f: "withHelper (\<lambda>h. handleTimerClosed h i) wc = Inr (p, wc1)"
    and d: "machines (wc_commandsHelper wc1) p = Some d" "m_data d = Some (ScheduledTimer s)"
    and rest: "wc' = wc1 \<or> resolveWith wc1 p ScheduledTimer (scheduledTimer_handle s None None) = Inr wc'"
    by (auto simp: handleTimerFired_def res_simps getData_eq_Inr as_eq_Inr noError_eq_Inr split: if_splits)
  have "env_ok wc1" using quiet_history(5) f k by (rule ok_quiet)
  with rest d show ?thesis by (auto intro: ok_resolveTimer)
qed

lemma ok_activityEventHandler:
  "activityEventHandler wc i a = Inr (e, wc') \<Longrightarrow> env_ok wc \<Longrightarrow> env_ok wc'"
  by (cases a)
    (auto simp: weh_handleActivityTaskCompleted_def weh_handleActivityTaskFailed_def
      weh_handleActivityTaskTimedOut_def intro: ok_activityClosed ok_activityCanceled
      ok_helperEvent [OF quiet_history(1)] ok_helperEvent [OF quiet_history(3)])

lemma ok_timerEventHandler:
  "timerEventHandler wc a = Inr (e, wc') \<Longrightarrow> env_ok wc \<Longrightarrow> env_ok wc'"
  by (cases a)
    (auto intro: ok_handleTimerFired ok_helperEvent [OF quiet_on_command(1)]
      ok_helperEvent [OF quiet_on_command(2)])

lemma ok_childClosed:
  assumes op: "childClosed f wc ce r = Inr (e, wc')" and k: "env_ok wc"
    and q: "quiet (\<lambda>h. f h (ce_WorkflowId ce))"
  shows "env_ok wc'"
proof -
  from op obtain p wc1 d s where
    f: "withHelper (\<lambda>h. f h (ce_WorkflowId ce)) wc = Inr (p, wc1)"
    and d: "machines (wc_commandsHelper wc1) p = Some d" "m_data d = Some (ScheduledChildWorkflow s)"
    and rest: "wc' = wc1 \<or> resolveWith wc1 p ScheduledChildWorkflow
      (scheduledChildWorkflow_handle s (fst (r s)) (snd (r s))) = Inr wc'"
    by (auto simp: childClosed_def res_simps getData_eq_Inr as_eq_Inr noError_eq_Inr split: if_splits)
  have "env_ok wc1" using q f k by (rule ok_quiet)
  with rest d show ?thesis by (auto intro: ok_resolveChild)
qed

lemma ok_childStartFailed:
  assumes op: "weh_handleStartChildWorkflowExecutionFailed wc ce c = Inr (e, wc')" and k: "env_ok wc"
  shows "env_ok wc'"
proof -
  from op obtain p wc1 d s where
    f: "withHelper (\<lambda>h. handleStartChildWorkflowExecutionFailed h (ce_WorkflowId ce)) wc = Inr (p, wc1)"
    and d: "machines (wc_commandsHelper wc1) p = Some d" "m_data d = Some (ScheduledChildWorkflow s)"
    and rest: "wc' = wc1 \<or> \<not> sc_handled s \<and> (\<exists>err. wc' = callBack (wc1\<lparr>wc_commandsHelper :=
        putMachine (wc_commandsHelper wc1) p (d\<lparr>m_data := Some (ScheduledChildWorkflow
          (s\<lparr>sc_handled := True\<rparr>))\<rparr>)\<rparr>) [ResultCall (sc_resultCallback s) None err,
         ChildStartedCall (sc_startedCallback s) \<lparr>we_ID = [], we_RunID = []\<rparr> err])"
    by (fastforce simp: weh_handleStartChildWorkflowExecutionFailed_def res_simps getData_eq_Inr
        as_eq_Inr setData_eq_Inr scheduledChildWorkflow_handleFailedToStart_def split: if_splits)
  have k1: "env_ok wc1" using quiet_on_command(4) f k by (rule ok_quiet)
  show ?thesis
  proof (cases "wc' = wc1")
    case False
    with rest obtain err where nh: "\<not> sc_handled s"
      and wc': "wc' = callBack (wc1\<lparr>wc_commandsHelper :=
        putMachine (wc_commandsHelper wc1) p (d\<lparr>m_data := Some (ScheduledChildWorkflow
          (s\<lparr>sc_handled := True\<rparr>))\<rparr>)\<rparr>) [ResultCall (sc_resultCallback s) None err,
         ChildStartedCall (sc_startedCallback s) \<lparr>we_ID = [], we_RunID = []\<rparr> err]" by blast
    have "dataOk (id_commandType (m_id d)) (Some (ScheduledChildWorkflow (s\<lparr>sc_handled := True\<rparr>)))"
      using ok_typed [OF k1 d(1)] d(2) by (auto intro: dataOk_wrap)
    from ok_resolve [OF k1 d _ _ _ _ this, of "sc_resultCallback s" None err] nh
    have "ok (wc_commandsHelper wc') (wc_calls wc1 @ [ResultCall (sc_resultCallback s) None err])"
      by (simp add: wc')
    then show ?thesis
      using ok_calls [of "[ChildStartedCall (sc_startedCallback s) \<lparr>we_ID = [], we_RunID = []\<rparr> err]"
          "wc_commandsHelper wc'" "wc_calls wc1 @ [ResultCall (sc_resultCallback s) None err]"]
      by (simp add: wc')
  qed (use k1 in simp)
qed

lemma ok_childStarted:
  assumes op: "weh_handleChildWorkflowExecutionStarted wc ce = Inr (e, wc')" and k: "env_ok wc"
  shows "env_ok wc'"
proof -
  from op obtain p wc1 where
    f: "withHelper (\<lambda>h. handleChildWorkflowExecutionStarted h (ce_WorkflowId ce)) wc = Inr (p, wc1)"
    and rest: "wc' = wc1 \<or> (\<exists>cb x. wc' = callBack wc1 [ChildStartedCall cb x None])"
    by (auto simp: weh_handleChildWorkflowExecutionStarted_def res_simps split: if_splits)
  have "env_ok wc1" using quiet_on_command(5) f k by (rule ok_quiet)
  with rest show ?thesis by (auto simp: ok_calls)
qed

lemma ok_childEventHandler:
  "childEventHandler wc a = Inr (e, wc') \<Longrightarrow> env_ok wc \<Longrightarrow> env_ok wc'"
  by (cases a)
    (auto simp: weh_handleChildWorkflowExecutionCompleted_def weh_handleChildWorkflowExecutionFailed_def
      weh_handleChildWorkflowExecutionCanceled_def weh_handleChildWorkflowExecutionTimedOut_def
      weh_handleChildWorkflowExecutionTerminated_def
      intro: ok_helperEvent [OF quiet_on_command(3)] ok_childStartFailed ok_childStarted
      ok_childClosed [OF _ _ quiet_on_command(6)] ok_childClosed [OF _ _ quiet_on_command(7)])

text \<open>Nexus operations.\<close>

lemma ok_onNexusOperation:
  assumes op: "onNexusOperation f wc sid c = Inr (e, wc')" and k: "env_ok wc"
    and q: "quiet (\<lambda>h. f h sid)"
    and c: "\<And>wc1 p d s wc2. c wc1 p s = Inr wc2 \<Longrightarrow> env_ok wc1 \<Longrightarrow>
      machines (wc_commandsHelper wc1) p = Some d \<Longrightarrow> m_data d = Some (ScheduledNexusOperation s) \<Longrightarrow>
      env_ok wc2"
  shows "env_ok wc'"
proof -
  from op obtain p wc1 d s where f: "withHelper (\<lambda>h. f h sid) wc = Inr (p, wc1)"
    and d: "machines (wc_commandsHelper wc1) p = Some d" "m_data d = Some (ScheduledNexusOperation s)"
    and r: "c wc1 p s = Inr wc'"
    by (auto simp: onNexusOperation_def res_simps getData_eq_Inr as_eq_Inr noError_eq_Inr)
  have "env_ok wc1" using q f k by (rule ok_quiet)
  with c [OF r] d show ?thesis by blast
qed

lemma ok_nexusStarted:
  assumes op: "weh_handleNexusOperationStarted wc sid t o' = Inr (e, wc')" and k: "env_ok wc"
  shows "env_ok wc'"
  using op [unfolded weh_handleNexusOperationStarted_def] k quiet_history(10)
proof (rule ok_onNexusOperation)
  fix wc1 p d s wc2
  assume "(case sn_startedCallback s of
         None \<Rightarrow> Inr wc1
       | Some cb \<Rightarrow>
           bind_res (setData wc1 p (ScheduledNexusOperation (s\<lparr>sn_startedCallback := None\<rparr>))) (\<lambda>wc2.
           Inr (callBack wc2 [NexusStartedCall cb (if t = [] then o' else t) None]))) = Inr wc2"
    and k1: "env_ok wc1" and d: "machines (wc_commandsHelper wc1) p = Some d"
    "m_data d = Some (ScheduledNexusOperation s)"
  then show "env_ok wc2"
    using ok_setNexus [OF k1 d, of "[NexusStartedCall cb x None]" for cb x]
    by (auto simp: res_simps setData_eq_Inr split: option.splits)
qed

lemma ok_nexusEventHandler:
  assumes "nexusEventHandler wc i a = Inr (e, wc')" and k: "env_ok wc"
  shows "env_ok wc'"
proof (cases a)
  case (NexusScheduled sv op)
  with assms(1) obtain h where h: "handleNexusOperationScheduled (wc_commandsHelper wc) i (formatInt i) =
      Inr h" and wc': "wc' = wc\<lparr>wc_commandsHelper := h\<rparr>"
    by (auto simp: res_simps)
  from ok_keeps [OF keeps_handleNexusOperationScheduled [OF h]
      wf_handleNexusOperationScheduled [OF h ok_wf [OF k]] k]
  show ?thesis by (simp add: wc')
qed (use assms in \<open>auto simp: weh_handleNexusOperationCompleted_def
    weh_handleNexusOperationCancelRequested_def weh_handleNexusOperationCancelRequestDelivered_def
    intro: ok_nexusStarted ok_resolveNexus
    elim!: ok_onNexusOperation [OF _ _ quiet_history(11)] ok_onNexusOperation [OF _ _ quiet_history(12)]
      ok_onNexusOperation [OF _ _ quiet_history(13)] split: if_splits\<close>)

text \<open>External workflows.\<close>

lemma ok_cancellationResolved:
  assumes op: "cancellationResolved f wc err = Inr (e, wc')" and k: "env_ok wc"
    and q: "quiet (\<lambda>h. bind_res (f h) (\<lambda>(b, p, h1). Inr ((b, p), h1)))"
  shows "env_ok wc'"
proof -
  from op obtain b p wc1 where
    f: "withHelper (\<lambda>h. bind_res (f h) (\<lambda>(b, p, h1). Inr ((b, p), h1))) wc = Inr ((b, p), wc1)"
    and rest: "wc' = wc1 \<or> (\<exists>d s. machines (wc_commandsHelper wc1) p = Some d \<and>
      m_data d = Some (ScheduledCancellation s) \<and>
      resolveWith wc1 p ScheduledCancellation (scheduledCancellation_handle s None err) = Inr wc')"
    by (auto simp: cancellationResolved_def bind_res_eq_Inr getData_eq_Inr as_eq_Inr noError_eq_Inr
        split: if_splits)
  have "env_ok wc1" using q f k by (rule ok_quiet)
  with rest show ?thesis by (auto intro: ok_resolveCancellation)
qed

lemma ok_signalResolved:
  assumes op: "signalResolved f wc err = Inr (e, wc')" and k: "env_ok wc" and q: "quiet f"
  shows "env_ok wc'"
proof -
  from op obtain p wc1 d s where f: "withHelper f wc = Inr (p, wc1)"
    and d: "machines (wc_commandsHelper wc1) p = Some d" "m_data d = Some (ScheduledSignal s)"
    and rest: "wc' = wc1 \<or>
      resolveWith wc1 p ScheduledSignal (scheduledSignal_handle s None err) = Inr wc'"
    by (auto simp: signalResolved_def res_simps getData_eq_Inr as_eq_Inr noError_eq_Inr split: if_splits)
  have "env_ok wc1" using q f k by (rule ok_quiet)
  with rest d show ?thesis by (auto intro: ok_resolveSignal)
qed

lemma ok_externalEventHandler:
  "externalEventHandler wc i a = Inr (e, wc') \<Longrightarrow> env_ok wc \<Longrightarrow> env_ok wc'"
  by (cases a)
    (auto simp: weh_handleRequestCancelExternalWorkflowExecutionInitiated_def
      weh_handleRequestCancelExternalWorkflowExecutionFailed_def
      weh_handleExternalWorkflowExecutionCancelRequested_def
      weh_handleSignalExternalWorkflowExecutionFailed_def
      weh_handleSignalExternalWorkflowExecutionCompleted_def
      intro: ok_helperEvent [OF quiet_history(6)] ok_helperEvent [OF quiet_history(7)]
      ok_cancellationResolved [OF _ _ quiet_cancellation(1)]
      ok_cancellationResolved [OF _ _ quiet_cancellation(2)]
      ok_signalResolved [OF _ _ quiet_history(8)] ok_signalResolved [OF _ _ quiet_history(9)])

text \<open>The handlers that run workflow code.\<close>

lemma ok_runWorkflow:
  "runWorkflow wd wc = Inr wc' \<Longrightarrow> uses_api wd \<Longrightarrow> env_ok wc \<Longrightarrow> env_ok wc'"
  using ok_api_steps [of wc wc'] by (auto simp: runWorkflow_def uses_api_def split: if_splits)

lemma ok_workflowEventHandler:
  assumes op: "workflowEventHandler wd wc a = Inr (e, wc')" and u: "uses_api wd" and k: "env_ok wc"
  shows "env_ok wc'"
proof (cases a)
  case (WorkflowExecutionStarted hdr inp sa memo)
  let ?wc = "snd (TryUse (wc\<lparr>wc_workflowDefinition := True\<rparr>) SDKFlagProtocolMessageCommand)"
  from op WorkflowExecutionStarted consider "wc' = wc\<lparr>wc_workflowDefinition := False\<rparr>"
    | "wf_Execute wd ?wc hdr inp = Inr wc'"
    by (auto simp: handleWorkflowExecutionStarted_def noError_eq_Inr split: option.splits)
  then show ?thesis
  proof cases
    case 2
    with u k have "api_steps ?wc wc'" by (simp add: uses_api_def)
    then show ?thesis by (rule ok_api_steps) (simp add: k)
  qed (simp add: k)
next
  case WorkflowExecutionCancelRequested
  with op u k have "api_steps wc wc'"
    by (auto simp: handleWorkflowExecutionCancelRequested_def noError_eq_Inr uses_api_def
        split: if_splits)
  then show ?thesis using k by (rule ok_api_steps)
next
  case (WorkflowExecutionSignaled n inp hdr)
  with op u k have "api_steps wc wc'"
    by (auto simp: handleWorkflowExecutionSignaled_def uses_api_def split: if_splits)
  then show ?thesis using k by (rule ok_api_steps)
qed (use op k in \<open>auto simp: handleUpsertWorkflowSearchAttributes_def
    handleWorkflowPropertiesModified_def noError_eq_Inr updateInfo_sel\<close>)

lemma ok_taskEventHandler:
  assumes op: "taskEventHandler wd now wc i t a = Inr (e, wc')" and u: "uses_api wd" and k: "env_ok wc"
  shows "env_ok wc'"
proof (cases a)
  case (WorkflowTaskStarted b rs v n)
  let ?h = "wc_commandsHelper wc"
  from op WorkflowTaskStarted obtain h wc1 where
    h: "setCurrentWorkflowTaskStartedEventID ?h i = Inr h"
    and run: "runWorkflow wd (wc1\<lparr>wc_commandsHelper := h\<rparr>) = Inr wc'"
    and c: "wc_calls wc1 = wc_calls wc"
    by (auto simp: SetCurrentReplayTime_def res_simps noError_eq_Inr Let_def split: if_splits)
  have "ok h (wc_calls wc)"
    using keeps_setCurrentWorkflowTaskStartedEventID [OF h]
      wf_setCurrentWorkflowTaskStartedEventID [OF h ok_wf [OF k]] k by (rule ok_keeps)
  with ok_runWorkflow [OF run u] show ?thesis by (simp add: c)
qed (use op k in \<open>auto split: if_splits\<close>)

lemma ok_resolveLocalActivity:
  assumes op: "resolveLocalActivity now wc la m ds f u = Inr wc'" and k: "env_ok wc"
  shows "env_ok wc'"
proof -
  let ?f = "\<lambda>h. recordLocalActivityMarker h (lamd_ActivityID m) ds f u (lp_EventGroupMarkers (la_params la))"
  from op obtain p wc1 lar where f: "withHelper ?f wc = Inr (p, wc1)"
    and l: "localActivityResultOf la m ds f = Inr lar"
    unfolding resolveLocalActivity_def Let_def bind_res_eq_Inr
    by (auto simp only: split_paired_Ex prod.case bind_res_eq_Inr)
  have wc': "wc_commandsHelper wc' = wc_commandsHelper wc1"
      "wc_calls wc' = wc_calls wc1 @ [LocalActivityCall (la_callback la) lar]"
    using op f l by (auto simp: resolveLocalActivity_def SetCurrentReplayTime_def Let_def)
  have "quiet ?f" unfolding quiet_def
    by (auto intro: keeps_recordLocalActivityMarker wf_recordLocalActivityMarker)
  then have "env_ok wc1" using f k by (rule ok_quiet)
  then show ?thesis by (simp add: wc' ok_calls)
qed

lemma ok_handleLocalActivityMarker:
  assumes "handleLocalActivityMarker wd now wc ds f = Inr (Inr wc')" and "uses_api wd" and "env_ok wc"
  shows "env_ok wc'"
  using assms
  by (auto simp: handleLocalActivityMarker_def res_simps Let_def panicIllegalState_def
      split: option.splits sum.splits if_splits intro: ok_runWorkflow ok_resolveLocalActivity)

lemma ok_versionMarkerEvent:
  assumes op: "versionMarkerEvent wc i ds = Inr (Inr wc')" and k: "env_ok wc"
  shows "env_ok wc'"
proof -
  from op obtain c b h vs where h: "handleVersionMarker (wc_commandsHelper wc) i c b = Inr h"
    and wc': "wc' = wc\<lparr>wc_changeVersions := vs, wc_commandsHelper := h\<rparr>"
    by (fastforce simp: versionMarkerEvent_def res_simps Let_def split: option.splits)
  from ok_keeps [OF keeps_handleVersionMarker [OF h] wf_handleVersionMarker [OF h ok_wf [OF k]] k]
  show ?thesis by (simp add: wc')
qed

lemma recorded_sel:
  "sideEffectMarker wc ds = Inr wc' \<Longrightarrow>
     wc_commandsHelper wc' = wc_commandsHelper wc \<and> wc_calls wc' = wc_calls wc"
  "mutableSideEffectMarker wc ds = Inr wc' \<Longrightarrow>
     wc_commandsHelper wc' = wc_commandsHelper wc \<and> wc_calls wc' = wc_calls wc"
  by (auto simp: sideEffectMarker_def mutableSideEffectMarker_def recordMutable_def Let_def
      split: option.splits sum.splits)

lemma ok_handleMarkerRecorded:
  assumes op: "handleMarkerRecorded wd now wc i n dets f = Inr (e, wc')" and u: "uses_api wd"
    and k: "env_ok wc"
  shows "env_ok wc'"
proof -
  from op obtain r where out: "markerOutcome wc n i r = (e, wc')"
    and r: "\<And>wc1. r = Inr wc1 \<Longrightarrow> \<exists>ds. sideEffectMarker wc ds = Inr wc1 \<or>
      versionMarkerEvent wc i ds = Inr (Inr wc1) \<or>
      handleLocalActivityMarker wd now wc ds f = Inr (Inr wc1) \<or>
      mutableSideEffectMarker wc ds = Inr wc1"
    by (auto simp: handleMarkerRecorded_def bind_res_eq_Inr split: option.splits if_splits)
  from out consider "wc' = wc" | "r = Inr wc'"
    by (auto simp: markerOutcome_def split: sum.splits)
  then show ?thesis
  proof cases
    case 2
    from r [OF 2] k u show ?thesis
      by (auto simp: recorded_sel dest: recorded_sel
          intro: ok_versionMarkerEvent ok_handleLocalActivityMarker)
  qed (simp add: k)
qed

lemma ok_eventHandler:
  "eventHandler wd now wc i t mi a = Inr (e, wc') \<Longrightarrow> uses_api wd \<Longrightarrow> env_ok wc \<Longrightarrow> env_ok wc'"
  by (cases a)
    (auto intro: ok_workflowEventHandler ok_taskEventHandler ok_activityEventHandler
      ok_timerEventHandler ok_externalEventHandler ok_childEventHandler ok_nexusEventHandler
      ok_handleMarkerRecorded)

section \<open>Steps of the event handler\<close>

lemma recovered_eq: "recovered r = Returned e wc \<longleftrightarrow> r = Inr (e, wc)"
  by (auto simp: recovered_def split: sum.splits)

lemma ok_ProcessEvent:
  assumes op: "ProcessEvent wd now wc ev rp l = Returned e wc'" and u: "uses_api wd" and k: "env_ok wc"
  shows "env_ok wc'"
proof (cases ev)
  case (Some v)
  with op obtain e1 wc1 where
    h: "eventHandler wd now (wc\<lparr>wc_isReplay := rp\<rparr>) (ev_EventId v) (ev_EventTime v)
      (ev_WorkerMayIgnore v) (ev_Attributes v) = Inr (e1, wc1)"
    and r: "wc' = wc1 \<or> runWorkflow wd wc1 = Inr wc'"
    by (auto simp: ProcessEvent_def recovered_eq res_simps noError_eq_Inr split: if_splits)
  have "env_ok wc1" using ok_eventHandler [OF h u] k by simp
  with r u show ?thesis by (auto intro: ok_runWorkflow)
qed (use op k in \<open>auto simp: ProcessEvent_def\<close>)

lemma ok_HandleMessage:
  assumes op: "HandleMessage wd wc inst msg = Inr (e, wc')" and u: "uses_api wd" and k: "env_ok wc"
  shows "env_ok wc'"
proof (cases "UnmarshalRequest (msg_Body msg)")
  case (Inr req)
  with op obtain up wc2 up2 where
    h: "wf_updateHandler wd (putProtocol wc up) (ur_name req) (ur_updateID req) (ur_args req)
      (ur_header req) inst = Inr wc2"
    and wc': "wc' = putProtocol wc2 up2"
    by (fastforce simp: HandleMessage_def res_simps Let_def split: if_splits)
  from h u k have "api_steps (putProtocol wc up) wc2" by (simp add: uses_api_def)
  then have "env_ok wc2" by (rule ok_api_steps) (simp add: k)
  then show ?thesis by (simp add: wc')
qed (use op k in \<open>auto simp: HandleMessage_def\<close>)

lemma FindOrAdd_sel [simp]:
  "wc_commandsHelper (FindOrAdd wc i up) = wc_commandsHelper wc"
  "wc_calls (FindOrAdd wc i up) = wc_calls wc"
  by (simp_all add: FindOrAdd_def split: option.splits)

lemma ok_ProcessMessage:
  assumes "ProcessMessage wd wc msg = Returned e wc'" and "uses_api wd" and "env_ok wc"
  shows "env_ok wc'"
  using assms
  by (auto simp: ProcessMessage_def recovered_eq split: sum.splits intro: ok_HandleMessage)

lemma ok_ProcessLocalActivityResult:
  assumes "ProcessLocalActivityResult wd now wc lar = Inr (Returned e wc')" and "uses_api wd"
    and "env_ok wc"
  shows "env_ok wc'"
  using assms
  by (auto simp: ProcessLocalActivityResult_def Let_def split: sum.splits option.splits
      intro: ok_ProcessEvent)

text \<open>
  The environments an event handler reaches from a new one: by events, messages, results of local
  activities, by collecting the commands of a task, and by everything else the task handler does
  around a task. That bookkeeping (setting flags and names, dropping finished protocols, emptying the
  outbox, starting local activities and resetting their attempt counters) writes neither the helper
  nor a callback, so one rule admits every such change.
\<close>

inductive env_reachable :: "workflowCode \<Rightarrow> env \<Rightarrow> bool" for wd :: workflowCode where
  init: "env_reachable wd (newWorkflowExecutionEventHandler cfg info sdkMetadata)"
| event: "env_reachable wd wc \<Longrightarrow> ProcessEvent wd now wc ev rp l = Returned e wc' \<Longrightarrow>
    env_reachable wd wc'"
| message: "env_reachable wd wc \<Longrightarrow> ProcessMessage wd wc msg = Returned e wc' \<Longrightarrow>
    env_reachable wd wc'"
| localResult: "env_reachable wd wc \<Longrightarrow>
    ProcessLocalActivityResult wd now wc lar = Inr (Returned e wc') \<Longrightarrow> env_reachable wd wc'"
| collect: "env_reachable wd wc \<Longrightarrow> getCommands (wc_commandsHelper wc) m = Inr (cs, h) \<Longrightarrow>
    env_reachable wd (wc\<lparr>wc_commandsHelper := h\<rparr>)"
| bookkeeping: "env_reachable wd wc \<Longrightarrow> wc_commandsHelper wc' = wc_commandsHelper wc \<Longrightarrow>
    wc_calls wc' = wc_calls wc \<Longrightarrow> env_reachable wd wc'"

lemma ok_newWorkflowExecutionEventHandler: "env_ok (newWorkflowExecutionEventHandler cfg info m)"
  by (simp add: newWorkflowExecutionEventHandler_def ok_def typed_def ledger_def slots_def
      wf_newCommandsHelper) (simp add: newCommandsHelper_def)

lemma ok_reachable: "env_reachable wd wc \<Longrightarrow> uses_api wd \<Longrightarrow> env_ok wc"
proof (induction rule: env_reachable.induct)
  case (collect wc m cs h)
  then have "keeps {} (wc_commandsHelper wc) h" "wf_helper h"
    by (auto intro: keeps_getCommands wf_getCommands ok_wf)
  with collect show ?case by (auto intro: ok_keeps)
qed (auto intro: ok_newWorkflowExecutionEventHandler ok_ProcessEvent ok_ProcessMessage
    ok_ProcessLocalActivityResult)

end
