(* ===== verification/Env_Versions.thy ===== *)
theory Env_Versions
  imports Env_Steps
begin

text \<open>
  The versions an environment has decided are kept: of everything workflow code and the event handler
  do, only \<open>GetVersion\<close> and the event of a version marker write \<open>changeVersions\<close>, and \<open>GetVersion\<close>
  only adds an entry.
\<close>

section \<open>What reaches into the environment\<close>

named_theorems versions \<open>an operation leaves the decided versions as they are\<close>

lemma versions_withHelper [versions]:
  "withHelper f wc = Inr (a, wc') \<Longrightarrow> wc_changeVersions wc' = wc_changeVersions wc"
  by (auto simp: withHelper_eq_Inr)

lemma versions_setData [versions]:
  "setData wc p s = Inr wc' \<Longrightarrow> wc_changeVersions wc' = wc_changeVersions wc"
  by (auto simp: setData_eq_Inr)

lemma versions_simps [simp]:
  "wc_changeVersions (callBack wc cs) = wc_changeVersions wc"
  "wc_changeVersions (putProtocol wc up) = wc_changeVersions wc"
  "wc_changeVersions (SetCurrentReplayTime now wc t) = wc_changeVersions wc"
  "wc_changeVersions (FindOrAdd wc i up) = wc_changeVersions wc"
  by (simp_all add: callBack_def putProtocol_def SetCurrentReplayTime_def FindOrAdd_def
      split: option.splits)

lemma versions_TryUse [versions]:
  "TryUse wc f = (b, wc') \<Longrightarrow> wc_changeVersions wc' = wc_changeVersions wc"
  by (rule TryUseD(5))

lemma versions_resolveWith [versions]:
  "resolveWith wc p w r = Inr wc' \<Longrightarrow> wc_changeVersions wc' = wc_changeVersions wc"
  by (auto simp: resolveWith_def res_simps dest: versions)

lemma versions_GenerateSequence [versions]:
  "GenerateSequence wc = Inr (n, wc') \<Longrightarrow> wc_changeVersions wc' = wc_changeVersions wc"
  by (auto simp: GenerateSequence_def dest: versions)

lemma versions_GenerateSequenceID [versions]:
  "GenerateSequenceID wc = Inr (i, wc') \<Longrightarrow> wc_changeVersions wc' = wc_changeVersions wc"
  by (auto simp: GenerateSequenceID_eq_Inr dest: versions)

lemma versions_Send [versions]:
  "Send wc msg opts = Inr wc' \<Longrightarrow> wc_changeVersions wc' = wc_changeVersions wc"
  by (auto simp: Send_def Let_def res_simps dest!: versions split: prod.splits if_splits)

section \<open>The operations of workflow code\<close>

lemma versions_RequestCancelChildWorkflow [versions]:
  "RequestCancelChildWorkflow wc ns w = Inr wc' \<Longrightarrow> wc_changeVersions wc' = wc_changeVersions wc"
  by (auto simp: RequestCancelChildWorkflow_def res_simps dest: versions)

lemma versions_RequestCancelExternalWorkflow [versions]:
  "RequestCancelExternalWorkflow wc ns w r g cb = Inr wc' \<Longrightarrow>
     wc_changeVersions wc' = wc_changeVersions wc"
  by (auto simp: RequestCancelExternalWorkflow_def res_simps Let_def dest!: versions split: if_splits)

lemma versions_SignalExternalWorkflow [versions]:
  "SignalExternalWorkflow wc ns w r s inp hdr c g cb = Inr wc' \<Longrightarrow>
     wc_changeVersions wc' = wc_changeVersions wc"
  by (auto simp: SignalExternalWorkflow_def res_simps Let_def dest!: versions
      split: if_splits sum.splits)

lemma versions_updateInfo [versions]:
  "updateWorkflowInfoWithSearchAttributes wc attr = Inr wc' \<Longrightarrow>
     wc_changeVersions wc' = wc_changeVersions wc"
  "updateWorkflowInfoWithMemo wc attr = Inr wc' \<Longrightarrow> wc_changeVersions wc' = wc_changeVersions wc"
  by (auto simp: updateWorkflowInfoWithSearchAttributes_def updateWorkflowInfoWithMemo_def res_simps)

lemma versions_UpsertSearchAttributes [versions]:
  "UpsertSearchAttributes wc attrs g = Inr (e, wc') \<Longrightarrow> wc_changeVersions wc' = wc_changeVersions wc"
  by (auto simp: UpsertSearchAttributes_def res_simps dest!: versions
      split: sum.splits option.splits goValue.splits list.splits)

lemma versions_UpsertTypedSearchAttributes [versions]:
  "UpsertTypedSearchAttributes wc attrs g = Inr (e, wc') \<Longrightarrow>
     wc_changeVersions wc' = wc_changeVersions wc"
  by (auto simp: UpsertTypedSearchAttributes_def dest: versions split: sum.splits if_splits)

lemma versions_UpsertMemo [versions]:
  "UpsertMemo wc m g = Inr (e, wc') \<Longrightarrow> wc_changeVersions wc' = wc_changeVersions wc"
  by (auto simp: UpsertMemo_def Let_def res_simps dest!: versions split: prod.splits sum.splits)

lemma versions_childNotStarted [simp]:
  "wc_changeVersions (childNotStarted wc cb st err) = wc_changeVersions wc"
  by (auto simp: childNotStarted_def Let_def dest: versions split: prod.splits)

lemma versions_startChild [versions]:
  assumes "startChild wc params attrs cb st = Inr wc'"
  shows "wc_changeVersions wc' = wc_changeVersions wc"
proof (cases "BuildUserMetadata (wp_StaticSummary params) (wp_StaticDetails params)
    (dataConverterOf wc)")
  case (Inr m)
  with assms obtain r wc1 where h: "withHelper (\<lambda>h. startChildWorkflowExecution h attrs m
      (wp_EventGroupMarkers params)) wc = Inr (r, wc1)"
    by (auto simp: startChild_def res_simps)
  with assms Inr show ?thesis by (cases r) (auto simp: startChild_def dest!: versions)
qed (use assms in \<open>auto simp: startChild_def\<close>)

lemma versions_ExecuteChildWorkflow [versions]:
  assumes "ExecuteChildWorkflow wc params cb st = Inr wc'"
  shows "wc_changeVersions wc' = wc_changeVersions wc"
proof -
  let ?start = "if wp_WorkflowID params = []
    then bind_res (GenerateSequenceID wc) (\<lambda>(n, wc1).
      Inr (wi_currentRunID (wc_workflowInfo wc1) @ ''_'' @ n, wc1))
    else Inr (wp_WorkflowID params, wc)"
  from assms obtain i wc1 where i: "?start = Inr (i, wc1)"
    unfolding ExecuteChildWorkflow_def by (auto simp only: bind_res_eq_Inr)
  then have v1: "wc_changeVersions wc1 = wc_changeVersions wc"
    by (auto simp: res_simps dest: versions split: if_splits)
  obtain b wc2 where t: "TryUse wc1 SDKFlagMemoUserDCEncode = (b, wc2)" by (metis surj_pair)
  from assms have "wc_changeVersions wc' = wc_changeVersions wc2"
    unfolding ExecuteChildWorkflow_def i bind_res.simps prod.case t Let_def
    by (auto dest: versions split: sum.splits)
  with v1 versions_TryUse [OF t] show ?thesis by simp
qed

lemma versions_ExecuteNexusOperation [versions]:
  assumes "ExecuteNexusOperation wc params cb st = Inr (s, wc')"
  shows "wc_changeVersions wc' = wc_changeVersions wc"
proof -
  from assms obtain n wc1 where n: "GenerateSequence wc = Inr (n, wc1)"
    unfolding ExecuteNexusOperation_def by (auto simp only: bind_res_eq_Inr)
  from assms have "wc_changeVersions wc' = wc_changeVersions wc1"
    unfolding ExecuteNexusOperation_def n bind_res.simps prod.case
    by (auto simp: res_simps dest!: versions split: sum.splits)
  with versions_GenerateSequence [OF n] show ?thesis by simp
qed

lemma versions_resolveNexus [versions]:
  "resolveNexus wc p s r e = Inr wc' \<Longrightarrow> wc_changeVersions wc' = wc_changeVersions wc"
  by (auto simp: resolveNexus_def res_simps dest!: versions split: prod.splits)

lemma versions_RequestCancelNexusOperation [versions]:
  "RequestCancelNexusOperation wc s = Inr wc' \<Longrightarrow> wc_changeVersions wc' = wc_changeVersions wc"
  by (auto simp: RequestCancelNexusOperation_def res_simps dest!: versions split: if_splits)

lemma versions_AbandonNexusOperation [versions]:
  "AbandonNexusOperation wc s = Inr wc' \<Longrightarrow> wc_changeVersions wc' = wc_changeVersions wc"
  by (auto simp: AbandonNexusOperation_def res_simps dest!: versions)

lemma versions_ExecuteActivity [versions]:
  assumes "ExecuteActivity wc params cb = Inr (i, wc')"
  shows "wc_changeVersions wc' = wc_changeVersions wc"
proof -
  let ?start = "if ap_ScheduleID params = 0 then GenerateSequence wc
    else Inr (ap_ScheduleID params, wc)"
  from assms obtain n wc1 where n: "?start = Inr (n, wc1)"
    unfolding ExecuteActivity_def by (auto simp only: bind_res_eq_Inr)
  then have v1: "wc_changeVersions wc1 = wc_changeVersions wc"
    by (auto dest: versions split: if_splits)
  from assms have "wc_changeVersions wc' = wc_changeVersions wc1"
    unfolding ExecuteActivity_def n bind_res.simps prod.case Let_def
    by (auto simp: res_simps dest!: versions split: sum.splits)
  with v1 show ?thesis by simp
qed

lemma versions_RequestCancelActivity [versions]:
  "RequestCancelActivity wc i = Inr wc' \<Longrightarrow> wc_changeVersions wc' = wc_changeVersions wc"
  by (auto simp: RequestCancelActivity_def res_simps dest!: versions split: if_splits)

lemma versions_ExecuteLocalActivity [versions]:
  "ExecuteLocalActivity now wc params cb = (i, wc') \<Longrightarrow> wc_changeVersions wc' = wc_changeVersions wc"
  by (auto simp: ExecuteLocalActivity_def getNextLocalActivityID_def Let_def)

lemma versions_NewTimer [versions]:
  "NewTimer wc d sm g cb = Inr (r, wc') \<Longrightarrow> wc_changeVersions wc' = wc_changeVersions wc"
  by (auto simp: NewTimer_def res_simps dest!: versions split: if_splits)

lemma versions_RequestCancelTimer [versions]:
  "RequestCancelTimer wc i = Inr wc' \<Longrightarrow> wc_changeVersions wc' = wc_changeVersions wc"
  by (auto simp: RequestCancelTimer_def res_simps dest!: versions split: if_splits)

lemma versions_SideEffect [versions]:
  "SideEffect wc f cb sm g = Inr wc' \<Longrightarrow> wc_changeVersions wc' = wc_changeVersions wc"
  by (auto simp: SideEffect_def recordSideEffect_def getNextSideEffectID_def Let_def res_simps fail_defs
      dest!: versions split: option.splits sum.splits if_splits)

lemma versions_recordMutableSideEffect [versions]:
  "recordMutableSideEffect wc i n x sm g = Inr (p, wc') \<Longrightarrow>
     wc_changeVersions wc' = wc_changeVersions wc"
  by (cases "BuildUserMetadata sm [] (dataConverterOf wc)")
    (auto simp: recordMutableSideEffect_def res_simps dest!: versions)

lemma versions_lookupMutableSideEffect [versions]:
  "lookupMutableSideEffect wc i = (x, wc') \<Longrightarrow> wc_changeVersions wc' = wc_changeVersions wc"
  by (auto simp: lookupMutableSideEffect_def Let_def split: option.splits if_splits prod.splits)

lemma versions_MutableSideEffect [versions]:
  assumes "MutableSideEffect wc i x eq sm g = Inr (p, wc')"
  shows "wc_changeVersions wc' = wc_changeVersions wc"
proof -
  let ?wc1 = "wc\<lparr>wc_mutableSideEffectCallCounter :=
    fmupd i (countOf wc i + 1) (wc_mutableSideEffectCallCounter wc)\<rparr>"
  obtain found wc2 where l: "lookupMutableSideEffect ?wc1 i = (found, wc2)" by (metis surj_pair)
  from assms have "wc_changeVersions wc' = wc_changeVersions wc2"
    unfolding MutableSideEffect_def Let_def l prod.case
    by (auto simp: res_simps fail_defs dest!: versions split: option.splits if_splits)
  with versions_lookupMutableSideEffect [OF l] show ?thesis by simp
qed

lemma versions_HandleQueuedUpdates [simp]:
  "wc_changeVersions (HandleQueuedUpdates wc nm) = wc_changeVersions wc"
  by (simp add: HandleQueuedUpdates_def split: option.splits)

lemma versions_drainLoop [simp]:
  "wc_changeVersions (snd (drainLoop ks wc b)) = wc_changeVersions wc"
  by (induction ks arbitrary: wc b) (simp_all add: Let_def)

lemma versions_bookkeeping [simp]:
  "wc_changeVersions (RequestCancelLocalActivity wc i) = wc_changeVersions wc"
  "wc_changeVersions (Complete wc res err) = wc_changeVersions wc"
  "wc_changeVersions (RegisterCancelHandler wc) = wc_changeVersions wc"
  "wc_changeVersions (RegisterSignalHandler wc) = wc_changeVersions wc"
  "wc_changeVersions (RegisterQueryHandler wc) = wc_changeVersions wc"
  "wc_changeVersions (RegisterUpdateHandler wc) = wc_changeVersions wc"
  "wc_changeVersions (QueueUpdate wc nm cb) = wc_changeVersions wc"
  "wc_changeVersions (snd (DrainUnhandledUpdates ks wc)) = wc_changeVersions wc"
  "wc_changeVersions (AddSession wc si) = wc_changeVersions wc"
  "wc_changeVersions (RemoveSession wc nm) = wc_changeVersions wc"
  "wc_changeVersions (snd (GetRandomStream wc nm)) = wc_changeVersions wc"
  by (simp_all add: RequestCancelLocalActivity_def Complete_def RegisterCancelHandler_def
      RegisterSignalHandler_def RegisterQueryHandler_def RegisterUpdateHandler_def QueueUpdate_def
      DrainUnhandledUpdates_def AddSession_def RemoveSession_def GetRandomStream_def Let_def
      split: option.splits prod.splits)

lemma versions_protocol [versions]:
  "Accept wc inst = Inr wc' \<Longrightarrow> wc_changeVersions wc' = wc_changeVersions wc"
  "Reject wc inst err = Inr wc' \<Longrightarrow> wc_changeVersions wc' = wc_changeVersions wc"
  "up_Complete wc inst x err = Inr wc' \<Longrightarrow> wc_changeVersions wc' = wc_changeVersions wc"
  by (auto simp: Accept_def Reject_def up_Complete_def res_simps dest!: versions)

lemma versions_recordNewVersion [versions]:
  "recordNewVersion ks wc c v g = Inr wc' \<Longrightarrow> wc_changeVersions wc' = wc_changeVersions wc"
  by (auto simp: recordNewVersion_def Let_def res_simps dest!: versions
      split: sum.splits prod.splits if_splits)

text \<open>\<open>GetVersion\<close> decides the version it is asked for, once, and leaves every other one.\<close>

lemma GetVersion_decides:
  "GetVersion ks wc c mn mx g = Inr (v, wc') \<Longrightarrow>
     sint mn \<le> sint v \<and> sint v \<le> sint mx \<and> fmlookup (wc_changeVersions wc') c = Some v"
  by (auto simp: GetVersion_def res_simps validateVersion_def fail_defs
      split: option.splits if_splits)

lemma GetVersion_keeps:
  "GetVersion ks wc c mn mx g = Inr (v, wc') \<Longrightarrow> fmlookup (wc_changeVersions wc) c' = Some v' \<Longrightarrow>
     fmlookup (wc_changeVersions wc') c' = Some v'"
  by (auto simp: GetVersion_def res_simps dest!: versions split: option.splits if_splits)

lemma api_step_versions:
  assumes "api_step wc wc'" and "fmlookup (wc_changeVersions wc) c = Some v"
  shows "fmlookup (wc_changeVersions wc') c = Some v"
  using assms
proof (cases rule: api_step.cases)
  case getVersion
  with assms(2) show ?thesis by (blast intro: GetVersion_keeps)
qed (auto dest!: versions)

lemma api_steps_versions:
  "api_steps wc wc' \<Longrightarrow> fmlookup (wc_changeVersions wc) c = Some v \<Longrightarrow>
     fmlookup (wc_changeVersions wc') c = Some v"
  by (induction rule: rtranclp_induct) (auto intro: api_step_versions)

section \<open>The event handlers\<close>

lemma versions_helperEvent [versions]:
  "helperEvent f wc = Inr (e, wc') \<Longrightarrow> wc_changeVersions wc' = wc_changeVersions wc"
  by (auto simp: helperEvent_def res_simps dest: versions)

lemma versions_resolved [versions]:
  "activityClosed wc a r = Inr (e, wc') \<Longrightarrow> wc_changeVersions wc' = wc_changeVersions wc"
  "weh_handleActivityTaskCanceled wc s0 st i0 ds = Inr (e, wc') \<Longrightarrow>
     wc_changeVersions wc' = wc_changeVersions wc"
  "handleTimerFired wc i = Inr (e, wc') \<Longrightarrow> wc_changeVersions wc' = wc_changeVersions wc"
  "childClosed f' wc ce r' = Inr (e, wc') \<Longrightarrow> wc_changeVersions wc' = wc_changeVersions wc"
  "weh_handleStartChildWorkflowExecutionFailed wc ce cause = Inr (e, wc') \<Longrightarrow>
     wc_changeVersions wc' = wc_changeVersions wc"
  "weh_handleChildWorkflowExecutionStarted wc ce = Inr (e, wc') \<Longrightarrow>
     wc_changeVersions wc' = wc_changeVersions wc"
  "cancellationResolved g' wc err = Inr (e, wc') \<Longrightarrow> wc_changeVersions wc' = wc_changeVersions wc"
  "signalResolved g wc err = Inr (e, wc') \<Longrightarrow> wc_changeVersions wc' = wc_changeVersions wc"
  by (auto simp: activityClosed_def weh_handleActivityTaskCanceled_def handleTimerFired_def
      childClosed_def weh_handleStartChildWorkflowExecutionFailed_def
      weh_handleChildWorkflowExecutionStarted_def cancellationResolved_def signalResolved_def
      res_simps noError_eq_Inr dest!: versions split: if_splits)

lemma versions_onNexusOperation:
  "onNexusOperation f wc sid k = Inr (e, wc') \<Longrightarrow>
     (\<And>wc1 p s wc2. k wc1 p s = Inr wc2 \<Longrightarrow> wc_changeVersions wc2 = wc_changeVersions wc1) \<Longrightarrow>
     wc_changeVersions wc' = wc_changeVersions wc"
  by (auto simp: onNexusOperation_def res_simps noError_eq_Inr dest!: versions)

lemma versions_nexusEventHandler [versions]:
  "nexusEventHandler wc i a = Inr (e, wc') \<Longrightarrow> wc_changeVersions wc' = wc_changeVersions wc"
  by (cases a)
    (auto simp: weh_handleNexusOperationStarted_def weh_handleNexusOperationCompleted_def
      weh_handleNexusOperationCancelRequested_def weh_handleNexusOperationCancelRequestDelivered_def
      res_simps dest!: versions elim!: versions_onNexusOperation split: option.splits if_splits)

lemma versions_eventHandlers [versions]:
  "activityEventHandler wc i ae = Inr (e, wc') \<Longrightarrow> wc_changeVersions wc' = wc_changeVersions wc"
  "timerEventHandler wc te = Inr (e, wc') \<Longrightarrow> wc_changeVersions wc' = wc_changeVersions wc"
  "externalEventHandler wc i ee = Inr (e, wc') \<Longrightarrow> wc_changeVersions wc' = wc_changeVersions wc"
  "childEventHandler wc che = Inr (e, wc') \<Longrightarrow> wc_changeVersions wc' = wc_changeVersions wc"
proof -
  show "activityEventHandler wc i ae = Inr (e, wc') \<Longrightarrow> wc_changeVersions wc' = wc_changeVersions wc"
    by (cases ae) (auto simp: weh_handleActivityTaskCompleted_def weh_handleActivityTaskFailed_def
        weh_handleActivityTaskTimedOut_def dest: versions)
  show "timerEventHandler wc te = Inr (e, wc') \<Longrightarrow> wc_changeVersions wc' = wc_changeVersions wc"
    by (cases te) (auto dest: versions)
  show "externalEventHandler wc i ee = Inr (e, wc') \<Longrightarrow> wc_changeVersions wc' = wc_changeVersions wc"
    by (cases ee) (auto simp: weh_handleRequestCancelExternalWorkflowExecutionInitiated_def
        weh_handleRequestCancelExternalWorkflowExecutionFailed_def
        weh_handleExternalWorkflowExecutionCancelRequested_def
        weh_handleSignalExternalWorkflowExecutionFailed_def
        weh_handleSignalExternalWorkflowExecutionCompleted_def dest: versions)
  show "childEventHandler wc che = Inr (e, wc') \<Longrightarrow> wc_changeVersions wc' = wc_changeVersions wc"
    by (cases che) (auto simp: weh_handleChildWorkflowExecutionCompleted_def
        weh_handleChildWorkflowExecutionFailed_def weh_handleChildWorkflowExecutionCanceled_def
        weh_handleChildWorkflowExecutionTimedOut_def weh_handleChildWorkflowExecutionTerminated_def
        dest: versions)
qed

text \<open>The handlers that run workflow code.\<close>

definition decided :: "string \<Rightarrow> int64 \<Rightarrow> env \<Rightarrow> bool" where
  "decided c v wc \<longleftrightarrow> fmlookup (wc_changeVersions wc) c = Some v"

lemma decided_cong: "wc_changeVersions wc' = wc_changeVersions wc \<Longrightarrow> decided c v wc' = decided c v wc"
  by (simp add: decided_def)

lemma decided_api_steps: "api_steps wc wc' \<Longrightarrow> decided c v wc \<Longrightarrow> decided c v wc'"
  unfolding decided_def by (rule api_steps_versions)

lemma decided_runWorkflow:
  "runWorkflow wd wc = Inr wc' \<Longrightarrow> uses_api wd \<Longrightarrow> env_ok wc \<Longrightarrow> decided c v wc \<Longrightarrow> decided c v wc'"
  using decided_api_steps [of wc wc'] by (auto simp: runWorkflow_def uses_api_def split: if_splits)

lemma decided_workflowEventHandler:
  assumes op: "workflowEventHandler wd wc a = Inr (e, wc')" and u: "uses_api wd" and k: "env_ok wc"
    and d: "decided c v wc"
  shows "decided c v wc'"
proof (cases a)
  case (WorkflowExecutionStarted hdr inp sa memo)
  let ?wc = "snd (TryUse (wc\<lparr>wc_workflowDefinition := True\<rparr>) SDKFlagProtocolMessageCommand)"
  from op WorkflowExecutionStarted consider "wc' = wc\<lparr>wc_workflowDefinition := False\<rparr>"
    | "wf_Execute wd ?wc hdr inp = Inr wc'"
    by (auto simp: handleWorkflowExecutionStarted_def noError_eq_Inr split: option.splits)
  then show ?thesis
  proof cases
    case 2
    with u k have "api_steps ?wc wc'" by (simp add: uses_api_def)
    then show ?thesis by (rule decided_api_steps) (use d in \<open>simp add: decided_def\<close>)
  qed (use d in \<open>simp add: decided_def\<close>)
next
  case WorkflowExecutionCancelRequested
  with op u k have "api_steps wc wc'"
    by (auto simp: handleWorkflowExecutionCancelRequested_def noError_eq_Inr uses_api_def
        split: if_splits)
  then show ?thesis using d by (rule decided_api_steps)
next
  case (WorkflowExecutionSignaled n inp hdr)
  with op u k have "api_steps wc wc'"
    by (auto simp: handleWorkflowExecutionSignaled_def uses_api_def split: if_splits)
  then show ?thesis using d by (rule decided_api_steps)
qed (use op d in \<open>auto simp: handleUpsertWorkflowSearchAttributes_def decided_def
    handleWorkflowPropertiesModified_def noError_eq_Inr dest!: versions\<close>)

lemma decided_taskEventHandler:
  assumes op: "taskEventHandler wd now wc i t a = Inr (e, wc')" and u: "uses_api wd" and k: "env_ok wc"
    and d: "decided c v wc"
  shows "decided c v wc'"
proof (cases a)
  case (WorkflowTaskStarted b rs w n)
  let ?h = "wc_commandsHelper wc"
  from op WorkflowTaskStarted obtain h wc1 where
    h: "setCurrentWorkflowTaskStartedEventID ?h i = Inr h"
    and run: "runWorkflow wd (wc1\<lparr>wc_commandsHelper := h\<rparr>) = Inr wc'"
    and c: "wc_calls wc1 = wc_calls wc" "wc_changeVersions wc1 = wc_changeVersions wc"
    by (auto simp: SetCurrentReplayTime_def res_simps noError_eq_Inr Let_def split: if_splits)
  have "ok h (wc_calls wc)"
    using keeps_setCurrentWorkflowTaskStartedEventID [OF h]
      wf_setCurrentWorkflowTaskStartedEventID [OF h ok_wf [OF k]] k by (rule ok_keeps)
  with decided_runWorkflow [OF run u, of c v] d show ?thesis by (simp add: c decided_def)
qed (use op d in \<open>auto simp: decided_def split: if_splits\<close>)

lemma versions_resolveLocalActivity:
  assumes "resolveLocalActivity now wc la m ds f u = Inr wc'"
  shows "wc_changeVersions wc' = wc_changeVersions wc"
  using assms unfolding resolveLocalActivity_def Let_def
  by (auto simp: res_simps dest!: versions)

lemma decided_handleLocalActivityMarker:
  assumes "handleLocalActivityMarker wd now wc ds f = Inr (Inr wc')" and "uses_api wd" and "env_ok wc"
    and "decided c v wc"
  shows "decided c v wc'"
proof -
  from assms(1) have "wc' = wc \<or> (\<exists>la m u wc1. resolveLocalActivity now wc la m ds f u = Inr wc1 \<and>
      runWorkflow wd wc1 = Inr wc')"
    by (auto simp: handleLocalActivityMarker_def res_simps Let_def panicIllegalState_def
        split: option.splits sum.splits if_splits)
  with assms(2-4) show ?thesis
    by (auto intro: decided_runWorkflow ok_resolveLocalActivity
        simp: decided_cong [OF versions_resolveLocalActivity])
qed

text \<open>The event of a version marker that names the change id \<open>c\<close>.\<close>

fun recordsVersion :: "dataConverter \<Rightarrow> string \<Rightarrow> eventAttributes \<Rightarrow> bool" where
  "recordsVersion dc c (MarkerRecorded name (Some dets) failure) \<longleftrightarrow> name = versionMarkerName \<and>
     (case fmlookup dets versionMarkerChangeIDName of
        None \<Rightarrow> False
      | Some p \<Rightarrow> stringValue (decodeOr dc p (GoString [])) = c)"
| "recordsVersion dc c _ \<longleftrightarrow> False"

lemma decided_versionMarkerEvent:
  assumes "versionMarkerEvent wc i ds = Inr (Inr wc')" and "decided c v wc"
    and "\<not> recordsVersion (dataConverterOf wc) c (MarkerRecorded versionMarkerName (Some ds) f)"
  shows "decided c v wc'"
  using assms
  by (auto simp: versionMarkerEvent_def res_simps Let_def decided_def split: option.splits)

lemma versions_recorded:
  "sideEffectMarker wc ds = Inr wc' \<Longrightarrow> wc_changeVersions wc' = wc_changeVersions wc"
  "mutableSideEffectMarker wc ds = Inr wc' \<Longrightarrow> wc_changeVersions wc' = wc_changeVersions wc"
  by (auto simp: sideEffectMarker_def mutableSideEffectMarker_def recordMutable_def Let_def
      split: option.splits sum.splits)

lemma decided_handleMarkerRecorded:
  assumes op: "handleMarkerRecorded wd now wc i n dets f = Inr (e, wc')" and u: "uses_api wd"
    and k: "env_ok wc" and d: "decided c v wc"
    and not: "\<not> recordsVersion (dataConverterOf wc) c (MarkerRecorded n dets f)"
  shows "decided c v wc'"
proof -
  from op obtain r where out: "markerOutcome wc n i r = (e, wc')"
    and r: "\<And>wc1. r = Inr wc1 \<Longrightarrow> \<exists>ds. sideEffectMarker wc ds = Inr wc1 \<or>
      n = versionMarkerName \<and> dets = Some ds \<and> versionMarkerEvent wc i ds = Inr (Inr wc1) \<or>
      handleLocalActivityMarker wd now wc ds f = Inr (Inr wc1) \<or>
      mutableSideEffectMarker wc ds = Inr wc1"
    by (auto simp: handleMarkerRecorded_def bind_res_eq_Inr split: option.splits if_splits)
  from out consider "wc' = wc" | "r = Inr wc'"
    by (auto simp: markerOutcome_def split: sum.splits)
  then show ?thesis
  proof cases
    case 2
    from r [OF 2] obtain ds where "sideEffectMarker wc ds = Inr wc' \<or>
      n = versionMarkerName \<and> dets = Some ds \<and> versionMarkerEvent wc i ds = Inr (Inr wc') \<or>
      handleLocalActivityMarker wd now wc ds f = Inr (Inr wc') \<or>
      mutableSideEffectMarker wc ds = Inr wc'" by blast
    with k u d not show ?thesis
      by (auto simp: decided_cong [OF versions_recorded(1)] decided_cong [OF versions_recorded(2)]
          intro: decided_handleLocalActivityMarker decided_versionMarkerEvent [of wc i ds wc' c v f])
  qed (simp add: d)
qed

lemma decided_eventHandler:
  assumes "eventHandler wd now wc i t mi a = Inr (e, wc')" and "uses_api wd" and "env_ok wc"
    and "decided c v wc" and "\<not> recordsVersion (dataConverterOf wc) c a"
  shows "decided c v wc'"
  using assms
  by (cases a)
    (auto intro: decided_workflowEventHandler decided_taskEventHandler decided_handleMarkerRecorded
      simp: decided_cong [OF versions_nexusEventHandler] decided_cong [OF versions_eventHandlers(1)]
      decided_cong [OF versions_eventHandlers(2)] decided_cong [OF versions_eventHandlers(3)]
      decided_cong [OF versions_eventHandlers(4)])

section \<open>Later environments\<close>

lemma decided_ProcessEvent:
  assumes op: "ProcessEvent wd now wc ev rp l = Returned e wc'" and u: "uses_api wd" and k: "env_ok wc"
    and d: "decided c v wc"
    and not: "\<And>x. ev = Some x \<Longrightarrow> \<not> recordsVersion (dataConverterOf wc) c (ev_Attributes x)"
  shows "decided c v wc'"
proof (cases ev)
  case (Some x)
  with op obtain e1 wc1 where
    h: "eventHandler wd now (wc\<lparr>wc_isReplay := rp\<rparr>) (ev_EventId x) (ev_EventTime x)
      (ev_WorkerMayIgnore x) (ev_Attributes x) = Inr (e1, wc1)"
    and r: "wc' = wc1 \<or> runWorkflow wd wc1 = Inr wc'"
    by (auto simp: ProcessEvent_def recovered_eq res_simps noError_eq_Inr split: if_splits)
  have "env_ok wc1" using ok_eventHandler [OF h u] k by simp
  moreover have "decided c v wc1"
    using decided_eventHandler [OF h u] k d not [OF Some] by (simp add: decided_def)
  ultimately show ?thesis using r u by (auto intro: decided_runWorkflow)
qed (use op d in \<open>auto simp: ProcessEvent_def\<close>)

lemma decided_ProcessMessage:
  assumes op: "ProcessMessage wd wc msg = Returned e wc'" and u: "uses_api wd" and k: "env_ok wc"
    and d: "decided c v wc"
  shows "decided c v wc'"
proof -
  have "decided c v wc2" if h: "HandleMessage wd wc1 inst msg = Inr (e, wc2)"
    and k1: "env_ok wc1" and d1: "decided c v wc1" for wc1 inst wc2
  proof (cases "UnmarshalRequest (msg_Body msg)")
    case (Inr req)
    with h obtain up wc3 up2 where
      run: "wf_updateHandler wd (putProtocol wc1 up) (ur_name req) (ur_updateID req) (ur_args req)
        (ur_header req) inst = Inr wc3"
      and wc2: "wc2 = putProtocol wc3 up2"
      by (fastforce simp: HandleMessage_def res_simps Let_def split: if_splits)
    from run u k1 have "api_steps (putProtocol wc1 up) wc3" by (simp add: uses_api_def)
    then have "decided c v wc3" by (rule decided_api_steps) (use d1 in \<open>simp add: decided_def\<close>)
    then show ?thesis by (simp add: wc2 decided_def)
  qed (use h d1 in \<open>auto simp: HandleMessage_def\<close>)
  with op k d show ?thesis
    by (auto simp: ProcessMessage_def recovered_eq decided_def split: sum.splits)
qed

lemma decided_ProcessLocalActivityResult:
  assumes "ProcessLocalActivityResult wd now wc lar = Inr (Returned e wc')" and "uses_api wd"
    and "env_ok wc" and "decided c v wc"
  shows "decided c v wc'"
  using assms
  by (auto simp: ProcessLocalActivityResult_def Let_def localActivityMarkerName_def
      versionMarkerName_def split: sum.splits option.splits intro: decided_ProcessEvent)

text \<open>
  What can happen to an environment after \<open>c\<close> was decided: workflow code runs, events of any kind but
  a version marker of \<open>c\<close> are processed, in either mode, and the task handler does what it does around
  a task.
\<close>

inductive later_step :: "workflowCode \<Rightarrow> string \<Rightarrow> env \<Rightarrow> env \<Rightarrow> bool"
  for wd :: workflowCode and c :: string where
  code: "api_step wc wc' \<Longrightarrow> later_step wd c wc wc'"
| event: "ProcessEvent wd now wc ev rp l = Returned e wc' \<Longrightarrow>
    (\<And>x. ev = Some x \<Longrightarrow> \<not> recordsVersion (dataConverterOf wc) c (ev_Attributes x)) \<Longrightarrow>
    later_step wd c wc wc'"
| message: "ProcessMessage wd wc msg = Returned e wc' \<Longrightarrow> later_step wd c wc wc'"
| localResult: "ProcessLocalActivityResult wd now wc lar = Inr (Returned e wc') \<Longrightarrow>
    later_step wd c wc wc'"
| collect: "getCommands (wc_commandsHelper wc) m = Inr (cs, h) \<Longrightarrow>
    later_step wd c wc (wc\<lparr>wc_commandsHelper := h\<rparr>)"
| bookkeeping: "wc_commandsHelper wc' = wc_commandsHelper wc \<Longrightarrow> wc_calls wc' = wc_calls wc \<Longrightarrow>
    wc_changeVersions wc' = wc_changeVersions wc \<Longrightarrow> later_step wd c wc wc'"

lemma later_step_keeps:
  assumes "later_step wd c wc wc'" and "uses_api wd" and "env_ok wc" and "decided c v wc"
  shows "env_ok wc' \<and> decided c v wc'"
  using assms(1)
proof cases
  case (collect m cs h)
  then have "keeps {} (wc_commandsHelper wc) h" "wf_helper h"
    using assms(3) by (auto intro: keeps_getCommands wf_getCommands ok_wf)
  with collect assms(3,4) show ?thesis by (auto simp: decided_def intro: ok_keeps)
next
  case code
  with assms(3,4) show ?thesis by (auto intro: ok_api_step decided_api_steps)
next
  case event
  with assms(2-4) show ?thesis by (blast intro: ok_ProcessEvent decided_ProcessEvent)
next
  case message
  with assms(2-4) show ?thesis by (blast intro: ok_ProcessMessage decided_ProcessMessage)
next
  case localResult
  with assms(2-4) show ?thesis
    by (blast intro: ok_ProcessLocalActivityResult decided_ProcessLocalActivityResult)
next
  case bookkeeping
  with assms(3,4) show ?thesis by (simp add: decided_def)
qed

lemma later_steps_keep:
  "(later_step wd c)\<^sup>*\<^sup>* wc wc' \<Longrightarrow> uses_api wd \<Longrightarrow> env_ok wc \<Longrightarrow> decided c v wc \<Longrightarrow>
     env_ok wc' \<and> decided c v wc'"
  by (induction rule: rtranclp_induct) (auto dest: later_step_keeps)

end
