(* ===== verification/Example_Env.thy ===== *)
theory Example_Env
  imports Event_Handlers
begin

text \<open>
  A concrete configuration for the runs that witness the properties of the environment: a data
  converter that writes strings as they are, integers as their bits and booleans as a letter, and
  an environment made from it.
\<close>

section \<open>A converter\<close>

definition bitText :: "'a::len word \<Rightarrow> string" where
  "bitText w = map (\<lambda>n. if bit w n then CHR ''1'' else CHR ''0'') [0..<LENGTH('a)]"

definition textBits :: "string \<Rightarrow> 'a::len word" where
  "textBits s = horner_sum of_bool 2 (map (\<lambda>c. c = CHR ''1'') s)"

lemma textBits_bitText [simp]: "textBits (bitText w) = (w :: 'a::len word)"
proof -
  have "map (\<lambda>c. c = CHR ''1'') (bitText w) = map (bit w) [0..<LENGTH('a)]"
    by (simp add: bitText_def)
  then show ?thesis by (simp add: textBits_def horner_sum_bit_eq_take_bit)
qed

definition intText :: "int \<Rightarrow> string" where
  "intText i = (if i < 0 then ''-'' else []) @ replicate (nat \<bar>i\<bar>) (CHR ''x'')"

definition textInt :: "string \<Rightarrow> int" where
  "textInt s = (case s of [] \<Rightarrow> 0
     | c # cs \<Rightarrow> if c = CHR ''-'' then - int (length cs) else int (length s))"

lemma textInt_intText [simp]: "textInt (intText i) = i"
  by (cases "nat \<bar>i\<bar>") (auto simp: textInt_def intText_def)

definition plain :: "string \<Rightarrow> payload" where
  "plain s = \<lparr>payload_metadata = [], payload_data = Some s\<rparr>"

definition markerPayload :: "localActivityMarkerData \<Rightarrow> payload" where
  "markerPayload d = \<lparr>payload_metadata = [(''id'', lamd_ActivityID d), (''type'', lamd_ActivityType d),
     (''time'', intText (lamd_ReplayTime d)), (''attempt'', bitText (lamd_Attempt d)),
     (''backoff'', bitText (lamd_Backoff d))], payload_data = None\<rparr>"

fun encodeGo :: "goValue \<Rightarrow> string + payload" where
  "encodeGo (GoString s) = Inr (plain s)"
| "encodeGo (GoInt64 i) = Inr (plain (bitText i))"
| "encodeGo (GoBool b) = Inr (plain (if b then ''t'' else ''f''))"
| "encodeGo (GoStrings ss) = Inr (plain (concat ss))"
| "encodeGo (GoMarkerData d) = Inr (markerPayload d)"
| "encodeGo (GoEncodedFailure m s) =
     Inr \<lparr>payload_metadata = [(''message'', m), (''stack'', s)], payload_data = None\<rparr>"
| "encodeGo _ = Inl ''unable to encode''"

definition dataOf :: "payload \<Rightarrow> string" where
  "dataOf p = (case payload_data p of None \<Rightarrow> [] | Some s \<Rightarrow> s)"

definition metaOf :: "payload \<Rightarrow> string \<Rightarrow> string" where
  "metaOf p k = (case map_of (payload_metadata p) k of None \<Rightarrow> [] | Some s \<Rightarrow> s)"

fun decodeGo :: "payload \<Rightarrow> goValue \<Rightarrow> string + goValue" where
  "decodeGo p (GoString _) = Inr (GoString (dataOf p))"
| "decodeGo p (GoInt64 _) = Inr (GoInt64 (textBits (dataOf p)))"
| "decodeGo p (GoBool _) = Inr (GoBool (dataOf p = ''t''))"
| "decodeGo p (GoMarkerData _) = Inr (GoMarkerData
     \<lparr>lamd_ActivityID = metaOf p ''id'', lamd_ActivityType = metaOf p ''type'',
      lamd_ReplayTime = textInt (metaOf p ''time''), lamd_Attempt = textBits (metaOf p ''attempt''),
      lamd_Backoff = textBits (metaOf p ''backoff'')\<rparr>)"
| "decodeGo p (GoEncodedFailure _ _) = Inr (GoEncodedFailure (metaOf p ''message'') (metaOf p ''stack''))"
| "decodeGo p v = Inl ''unable to decode''"

text \<open>A list of strings is written only for the service, so it is an error to write one as an argument.\<close>

definition exampleCodec :: dataConverter where
  "exampleCodec =
     \<lparr>dc_ToPayload = (\<lambda>v. map_sum id Some (encodeGo v)),
      dc_ToPayloads = (\<lambda>vs. case vs of
         [GoStrings _] \<Rightarrow> Inl ''unable to encode'' | [v] \<Rightarrow> map_sum id (\<lambda>p. Some [p]) (encodeGo v)
       | _ \<Rightarrow> Inl ''one value expected''),
      dc_FromPayload = decodeGo,
      dc_FromPayloads = (\<lambda>ps vs. case (ps, vs) of
         (Some (p # _), [v]) \<Rightarrow> map_sum id (\<lambda>w. [w]) (decodeGo p v) | _ \<Rightarrow> Inl ''one value expected'')\<rparr>"

lemma exampleCodec_decodes:
  assumes "dc_ToPayloads exampleCodec [v] = Inr p" and "zeroOf u = zeroOf v"
  shows "dc_FromPayloads exampleCodec p [u] = Inr [v]"
  using assms
  by (cases v; cases u) (auto simp: exampleCodec_def plain_def dataOf_def markerPayload_def metaOf_def)

lemma exampleCodec_strings:
  "\<exists>p. dc_ToPayload exampleCodec (GoStrings ss) = Inr p"
  by (simp add: exampleCodec_def)

section \<open>An environment\<close>

definition exampleFailures :: failureConverter where
  "exampleFailures = \<lparr>fc_ErrorToFailure = (\<lambda>e. case e of None \<Rightarrow> None
       | Some (GoError m) \<Rightarrow> Some (Failure m [] [] None NoFailureInfo None)
       | Some _ \<Rightarrow> Some (Failure [] [] [] None NoFailureInfo None)),
     fc_FailureToError = map_option (\<lambda>f. GoError (f_Message f))\<rparr>"

definition exampleConfig :: config where
  "exampleConfig =
     \<lparr>cf_dataConverter = exampleCodec, cf_failureConverter = exampleFailures,
      cf_rootDataConverter = exampleCodec, cf_rootFailureConverter = exampleFailures,
      cf_defaultDataConverter = exampleCodec, cf_withNexusContext = (\<lambda>_ d. d),
      cf_withNexusContextFailure = (\<lambda>_ f. f), cf_preferredVersionProvider = None,
      cf_flagsAllowed = sdkFlagsDefault, cf_sha256 = (\<lambda>s. s)\<rparr>"

definition exampleInfo :: workflowInfo where
  "exampleInfo =
     \<lparr>wi_TaskQueueName = ''tq'', wi_WorkflowType = ''Greet'', wi_currentRunID = ''run'',
      wi_currentHistoryLength = 0, wi_continueAsNewSuggested = False,
      wi_continueAsNewSuggestedReasons = [], wi_targetWorkerDeploymentVersionChanged = False,
      wi_currentHistorySize = 0, wi_SearchAttributes = None, wi_Memo = None,
      wi_WorkflowTaskTimeout = 10000000000, wi_RetryPolicy = None, wi_BinaryChecksum = [],
      wi_currentTaskBuildID = [], wi_nexusContext = None\<rparr>"

definition exampleEnv :: env where
  "exampleEnv = newWorkflowExecutionEventHandler exampleConfig exampleInfo True"

definition replayEnv :: env where
  "replayEnv = exampleEnv\<lparr>wc_isReplay := True\<rparr>"

lemma exampleEnv_sel [simp]:
  "wc_config exampleEnv = exampleConfig" "\<not> wc_isReplay exampleEnv" "wc_isReplay replayEnv"
  "wc_config replayEnv = exampleConfig" "cf_dataConverter exampleConfig = exampleCodec"
  "cf_defaultDataConverter exampleConfig = exampleCodec"
  "wc_commandsHelper exampleEnv = newCommandsHelper" "wc_commandsHelper replayEnv = newCommandsHelper"
  "wc_calls exampleEnv = []" "wc_calls replayEnv = []"
  by (simp_all add: exampleEnv_def replayEnv_def newWorkflowExecutionEventHandler_def
      exampleConfig_def)

end
