(* ===== verification/Record_Replay.thy ===== *)
theory Record_Replay
  imports Env_Versions Event_Ids Example_Env
begin

text \<open>
  What a workflow task records is what its replay reads back. The markers of versions and side
  effects are followed from the operation that creates them, through the command sent to the service
  and the event it comes back as, to the replay of the operation.
\<close>

section \<open>Markers among the commands\<close>

lemma commandsOf_addNew:
  assumes wf: "wf_helper h" and k: "kind_id (m_kind d) (m_id d)"
    and c: "machine_getCommand d = Some c" and add: "addNew h d = Inr (p, h')"
  shows "commandsOf h' = commandsOf h @ [c]"
proof -
  obtain q h1 where alloc: "allocMachine h d = (q, h1)" by (metis surj_pair)
  with add have add1: "addCommand h1 q = Inr h'" by (auto simp: addNew_def res_simps)
  note facts = allocMachine_facts [OF wf k alloc]
  from alloc have h1: "h1 = h\<lparr>machines := (machines h)(q \<mapsto> d), nextPtr := Suc q\<rparr>"
    by (auto simp: allocMachine_def)
  have "commandOf h1 r = commandOf h r" if "r \<in> set (orderedCommands h)" for r
    using that facts(3) by (auto simp: h1 commandOf_def)
  then have "commandsOf h1 = commandsOf h"
    by (auto simp: commandsOf_def h1 intro!: arg_cong [of _ _ concat])
  moreover have "commandsOf h' = commandsOf h1 @ [c]"
    using add1 facts(2) c
    by (auto simp: addCommand_eq_Inr incrementNextCommandEventID_def commandsOf_def
        commandOf_def [abs_def])
  ultimately show ?thesis by simp
qed

text \<open>The command of a marker, and the marker it sends.\<close>

definition markerCommand ::
    "recordMarkerAttributes \<Rightarrow> userMetadata option \<Rightarrow> eventGroupMarker list \<Rightarrow> command" where
  "markerCommand m metadata markers =
     (createNewCommandWithMetadata COMMAND_TYPE_RECORD_MARKER metadata)
       \<lparr>cmd_Attributes := RecordMarkerCommandAttributes m, cmd_EventGroupMarkers := markers\<rparr>"

lemma commandsOf_addMarker:
  assumes "wf_helper h" and "addNew h (newMarkerCommandStateMachine i m u g) = Inr (p, h')"
  shows "commandsOf h' = commandsOf h @ [markerCommand m u g]"
  using assms(1) _ _ assms(2)
  by (rule commandsOf_addNew)
    (simp_all add: new_machine_defs newCommandStateMachineBase_def kind_id_def makeCommandID_def
      getCommand_defs markerCommand_def)

definition sends :: "helper \<Rightarrow> helper \<Rightarrow> recordMarkerAttributes \<Rightarrow> bool" where
  "sends h h' m \<longleftrightarrow> (\<exists>c \<in> set (drop (length (commandsOf h)) (commandsOf h')).
     cmd_Attributes c = RecordMarkerCommandAttributes m)"

lemma sends_append: "commandsOf h' = commandsOf h @ markerCommand m u g # cs \<Longrightarrow> sends h h' m"
  by (simp add: sends_def markerCommand_def)

section \<open>Converters\<close>

text \<open>
  What the code relies on of a data converter: a value that was encoded is read back into a variable
  of its type.
\<close>

definition decodes :: "dataConverter \<Rightarrow> bool" where
  "decodes dc \<longleftrightarrow> (\<forall>v u p. dc_ToPayloads dc [v] = Inr p \<longrightarrow> zeroOf u = zeroOf v \<longrightarrow>
     dc_FromPayloads dc p [u] = Inr [v])"

lemma decodesD:
  "decodes dc \<Longrightarrow> dc_ToPayloads dc [v] = Inr p \<Longrightarrow> zeroOf u = zeroOf v \<Longrightarrow> decodeOr dc p u = v"
  by (simp add: decodes_def decodeOr_def)

section \<open>Versions\<close>

lemma validateVersion_eq_Inr:
  "validateVersion c v mn mx = Inr u \<longleftrightarrow> sint mn \<le> sint v \<and> sint v \<le> sint mx"
  by (auto simp: validateVersion_def fail_defs)

text \<open>The marker of a version, and what it makes a replay read.\<close>

definition versionMarkerOf :: "dataConverter \<Rightarrow> string \<Rightarrow> int64 \<Rightarrow> recordMarkerAttributes \<Rightarrow> bool" where
  "versionMarkerOf dc c v m \<longleftrightarrow> marker_MarkerName m = versionMarkerName \<and>
     (\<exists>cp vp. dc_ToPayloads dc [GoString c] = Inr cp \<and> dc_ToPayloads dc [GoInt64 v] = Inr vp \<and>
        fmlookup (marker_Details m) versionMarkerChangeIDName = Some cp \<and>
        fmlookup (marker_Details m) versionMarkerDataName = Some vp)"

lemma recordVersionMarker_sends:
  assumes "recordVersionMarker h c v dc b g = Inr (p, h')" and "wf_helper h"
  shows "\<exists>m. versionMarkerOf dc c v m \<and> commandsOf h' = commandsOf h @ [markerCommand m None g]"
proof -
  from assms(1) obtain cp vp ds x where pl: "dc_ToPayloads dc [GoString c] = Inr cp"
      "dc_ToPayloads dc [GoInt64 v] = Inr vp"
    and eq: "ds = fmap_of_list [(versionMarkerChangeIDName, cp), (versionMarkerDataName, vp)] \<or>
      ds = fmupd versionSearchAttributeUpdatedName x
        (fmap_of_list [(versionMarkerChangeIDName, cp), (versionMarkerDataName, vp)])"
    and add: "addNew h (newMarkerCommandStateMachine (versionMarkerName @ ''_'' @ c)
      \<lparr>marker_MarkerName = versionMarkerName, marker_Details = ds, marker_Failure = None\<rparr> None g) =
      Inr (p, h')"
    by (auto simp only: recordVersionMarker_def Let_def bind_res_eq_Inr panicOnError_eq_Inr
        sum.inject split: if_splits)
  have ds: "fmlookup ds versionMarkerChangeIDName = Some cp" "fmlookup ds versionMarkerDataName = Some vp"
    using eq by (auto simp: versionMarkerChangeIDName_def versionMarkerDataName_def
        versionSearchAttributeUpdatedName_def)
  from commandsOf_addMarker [OF assms(2) add] pl ds show ?thesis
    by (auto simp: versionMarkerOf_def intro!: exI [of _ "\<lparr>marker_MarkerName = versionMarkerName,
        marker_Details = ds, marker_Failure = None\<rparr>"])
qed

lemma commandsOf_UpsertSearchAttributes:
  assumes op: "UpsertSearchAttributes wc (createSearchAttributesForChangeVersion ks c v vs) g =
      Inr (e, wc')" and wf: "wf_helper (wc_commandsHelper wc)"
  shows "\<exists>cs. commandsOf (wc_commandsHelper wc') = commandsOf (wc_commandsHelper wc) @ cs"
proof (cases "validateAndSerializeSearchAttributes (cf_defaultDataConverter (wc_config wc))
    (createSearchAttributesForChangeVersion ks c v vs)")
  case (Inr attr)
  with op obtain p wc2 where
    f: "withHelper (\<lambda>h. upsertSearchAttributes h (getChangeVersion c v) attr g) wc = Inr (p, wc2)"
    and u: "updateWorkflowInfoWithSearchAttributes wc2 attr = Inr wc'"
    by (auto simp: UpsertSearchAttributes_def createSearchAttributesForChangeVersion_def
        getChangeVersions_def res_simps)
  from f have "addNew (wc_commandsHelper wc)
      (newUpsertSearchAttributesStateMachine attr (getChangeVersion c v) g) =
      Inr (p, wc_commandsHelper wc2)"
    by (auto simp: withHelper_eq_Inr upsertSearchAttributes_def)
  from commandsOf_addNew [OF wf _ _ this] updateInfo_sel(1) [OF u] show ?thesis
    by (auto simp: new_machine_defs newCommandStateMachineBase_def kind_id_def makeCommandID_def
        getCommand_defs)
qed (use op in \<open>auto simp: UpsertSearchAttributes_def\<close>)

lemma recordNewVersion_sends:
  assumes op: "recordNewVersion ks wc c v g = Inr wc'" and k: "env_ok wc"
    and d: "\<And>ss. \<exists>p. dc_ToPayload (cf_defaultDataConverter (wc_config wc)) (GoStrings ss) = Inr p"
  shows "\<exists>m. versionMarkerOf (dataConverterOf wc) c v m \<and>
    sends (wc_commandsHelper wc) (wc_commandsHelper wc') m"
proof -
  obtain b wc1 where t: "TryUse wc SDKFlagLimitChangeVersionSASize = (b, wc1)" by (metis surj_pair)
  obtain p where p: "dc_ToPayload (cf_defaultDataConverter (wc_config wc))
      (GoStrings (getChangeVersions ks c v (wc_changeVersions wc))) = Inr p" using d by blast
  let ?sa = "createSearchAttributesForChangeVersion ks c v (wc_changeVersions wc)"
  from op t p obtain x q wc2 e where
    f: "withHelper (\<lambda>h. recordVersionMarker h c v (dataConverterOf wc) x g) wc1 = Inr (q, wc2)"
    and u: "wc' = wc2 \<or> UpsertSearchAttributes wc2 ?sa g = Inr (e, wc')"
    by (auto simp: recordNewVersion_def Let_def res_simps validateAndSerializeSearchAttributes_def
        createSearchAttributesForChangeVersion_def serializeUntypedSearchAttributes_def
        TryUseD [OF t] split: if_splits)
  have k1: "env_ok wc1" using k by (simp add: TryUseD [OF t])
  have "env_ok wc2" using f k1
    by (rule ok_withHelper) (auto intro: keeps_recordVersionMarker wf_recordVersionMarker ok_wf [OF k1])
  then have "\<exists>cs. commandsOf (wc_commandsHelper wc') = commandsOf (wc_commandsHelper wc2) @ cs"
    using u commandsOf_UpsertSearchAttributes [OF _ ok_wf] by auto
  moreover have "recordVersionMarker (wc_commandsHelper wc) c v (dataConverterOf wc) x g =
      Inr (q, wc_commandsHelper wc2)"
    using f by (auto simp: withHelper_eq_Inr TryUseD [OF t])
  then obtain m where "versionMarkerOf (dataConverterOf wc) c v m"
    "commandsOf (wc_commandsHelper wc2) = commandsOf (wc_commandsHelper wc) @ [markerCommand m None g]"
    using recordVersionMarker_sends [OF _ ok_wf [OF k]] by blast
  ultimately show ?thesis by (auto intro: sends_append)
qed

lemma versionMarkerOf_replayed:
  assumes m: "versionMarkerOf dc c v m" and dec: "decodes dc" and dc: "dataConverterOf wr = dc"
    and e: "fmlookup (versionMarkerLookup (wc_commandsHelper wr)) e = None"
  shows "\<exists>wr'. handleMarkerRecorded wd now wr e (marker_MarkerName m) (Some (marker_Details m)) f =
      Inr (None, wr') \<and> fmlookup (wc_changeVersions wr') c = Some v"
  using m e decodesD [OF dec]
  by (auto simp: versionMarkerOf_def handleMarkerRecorded_def versionMarkerEvent_def Let_def dc
      handleVersionMarker_def markerOutcome_def versionMarkerName_def sideEffectMarkerName_def)

text \<open>
  C15. A version is decided once. The version that \<open>GetVersion\<close> returns lies in the range the caller
  supports. From then on every call for the change id returns it without changing the environment, or
  panics when its range excludes it: whatever range the later call has, and whatever happened in
  between, be it other operations of workflow code, versions decided for other change ids, events and
  messages, in either mode, or the end of tasks; only a version marker in history that names the same
  change id can set another version.
\<close>

theorem GetVersion_decided_once:
  assumes "GetVersion ks wc c mn mx g = Inr (v, wc1)" and "env_ok wc" and "uses_api wd"
    and "(later_step wd c)\<^sup>*\<^sup>* wc1 wc2"
  shows "sint mn \<le> sint v \<and> sint v \<le> sint mx \<and>
    (if sint mn' \<le> sint v \<and> sint v \<le> sint mx'
     then GetVersion ks' wc2 c mn' mx' g' = Inr (v, wc2)
     else \<exists>msg. GetVersion ks' wc2 c mn' mx' g' = Inl (IllegalState msg))"
proof -
  note v = GetVersion_decides [OF assms(1)]
  from v have "decided c v wc1" by (simp add: decided_def)
  from later_steps_keep [OF assms(4,3) ok_GetVersion [OF assms(1,2)] this]
  have "fmlookup (wc_changeVersions wc2) c = Some v" by (simp add: decided_def)
  with v show ?thesis
    by (auto simp: GetVersion_def validateVersion_def panicIllegalState_def)
qed

lemma ok_exampleEnv [simp]: "env_ok exampleEnv"
  by (simp only: exampleEnv_def ok_newWorkflowExecutionEventHandler)

text \<open>Workflow code that does nothing, for runs that do not need any.\<close>

definition idleCode :: workflowCode where
  "idleCode = \<lparr>wf_getWorkflowDefinition = (\<lambda>_. None), wf_Execute = (\<lambda>wc _ _. Inr wc),
     wf_OnWorkflowTaskStarted = Inr, wf_cancelHandler = Inr,
     wf_signalHandler = (\<lambda>wc _ _ _. Inr (None, wc)), wf_queryHandler = (\<lambda>_ _ _ _. Inl (GoError [])),
     wf_updateHandler = (\<lambda>wc _ _ _ _ _. Inr wc), wf_StackTrace = (\<lambda>_. [])\<rparr>"

lemma uses_api_idleCode: "uses_api idleCode"
  by (auto simp: uses_api_def idleCode_def)

definition exampleVersion :: "(int64 \<times> env) res" where
  "exampleVersion = GetVersion [] exampleEnv ''greeting'' 1 3 []"

lemma exampleVersion_eq: "\<exists>wc'. exampleVersion = Inr (3, wc')"
proof -
  have "case exampleVersion of Inr (v, _) \<Rightarrow> v = 3 | _ \<Rightarrow> False" by code_simp
  then show ?thesis by (auto split: sum.splits)
qed

lemma exampleVersion_again:
  "\<exists>wc1 wc2. exampleVersion = Inr (3, wc1) \<and> GetVersion [] wc1 ''farewell'' 1 9 [] = Inr (9, wc2)"
proof -
  obtain wc1 where wc1: "exampleVersion = Inr (3, wc1)" using exampleVersion_eq by blast
  have "case bind_res exampleVersion (\<lambda>(_, wc1). GetVersion [] wc1 ''farewell'' 1 9 []) of
      Inr (v', _) \<Rightarrow> v' = 9 | _ \<Rightarrow> False" by code_simp
  then have "case GetVersion [] wc1 ''farewell'' 1 9 [] of Inr (v', _) \<Rightarrow> v' = 9 | _ \<Rightarrow> False"
    unfolding wc1 bind_res.simps prod.case .
  then show ?thesis using wc1 by (cases "GetVersion [] wc1 ''farewell'' 1 9 []") auto
qed

theorem GetVersion_decided_once_witness:
  "\<exists>wc1 wc2 wc3. GetVersion [] exampleEnv ''greeting'' 1 3 [] = Inr (3, wc1) \<and>
     GetVersion [] wc1 ''farewell'' 1 9 [] = Inr (9, wc2) \<and> wc3 = wc2\<lparr>wc_isReplay := True\<rparr> \<and>
     GetVersion [] wc3 ''greeting'' 2 5 [] = Inr (3, wc3) \<and>
     (\<exists>msg. GetVersion [] wc3 ''greeting'' 4 5 [] = Inl (IllegalState msg))"
proof -
  obtain wc1 wc2 where run: "GetVersion [] exampleEnv ''greeting'' 1 3 [] = Inr (3, wc1)"
    and second: "GetVersion [] wc1 ''farewell'' 1 9 [] = Inr (9, wc2)"
    using exampleVersion_again by (auto simp: exampleVersion_def)
  let ?wc3 = "wc2\<lparr>wc_isReplay := True\<rparr>"
  have "(later_step idleCode ''greeting'')\<^sup>*\<^sup>* wc1 wc2"
    using later_step.code [OF api_step.getVersion [OF second]] by blast
  moreover have "later_step idleCode ''greeting'' wc2 ?wc3" by (rule later_step.bookkeeping) simp_all
  ultimately have later: "(later_step idleCode ''greeting'')\<^sup>*\<^sup>* wc1 ?wc3"
    by (rule rtranclp.rtrancl_into_rtrancl)
  note t = GetVersion_decided_once [OF run ok_exampleEnv uses_api_idleCode later]
  show ?thesis using run second t [of 2 5 "[]" "[]"] t [of 4 5 "[]" "[]"] by auto
qed

text \<open>
  C16. Versions replay. When a task decides a version, its commands contain a version marker from
  which a replay reads the same version: the event of that marker is accepted by an environment that
  replays with the same converter, and \<open>GetVersion\<close> then returns the version and changes nothing.
  The converter must decode what it encoded and the default converter must encode lists of strings.
\<close>

theorem version_marker_roundtrip:
  assumes run: "GetVersion ks wc c mn mx g = Inr (v, wc')" and k: "env_ok wc"
    and live: "\<not> wc_isReplay wc" and new: "fmlookup (wc_changeVersions wc) c = None"
    and default: "\<forall>ss. \<exists>p. dc_ToPayload (cf_defaultDataConverter (wc_config wc)) (GoStrings ss) = Inr p"
    and dec: "decodes (dataConverterOf wc)" and same: "dataConverterOf wr = dataConverterOf wc"
    and e: "fmlookup (versionMarkerLookup (wc_commandsHelper wr)) e = None"
  shows "\<exists>m wr'. sends (wc_commandsHelper wc) (wc_commandsHelper wc') m \<and>
    handleMarkerRecorded wd now wr e (marker_MarkerName m) (Some (marker_Details m))
      (marker_Failure m) = Inr (None, wr') \<and>
    GetVersion ks' wr' c mn mx g' = Inr (v, wr')"
proof -
  from run new live obtain wc1 where r: "recordNewVersion ks wc c v g = Inr wc1"
    and wc': "wc_commandsHelper wc' = wc_commandsHelper wc1" and v: "sint mn \<le> sint v" "sint v \<le> sint mx"
    by (auto simp: GetVersion_def res_simps validateVersion_eq_Inr)
  obtain m where m: "versionMarkerOf (dataConverterOf wc) c v m"
    and s: "sends (wc_commandsHelper wc) (wc_commandsHelper wc1) m"
    using recordNewVersion_sends [OF r k] default by blast
  obtain wr' where h: "handleMarkerRecorded wd now wr e (marker_MarkerName m)
      (Some (marker_Details m)) (marker_Failure m) = Inr (None, wr')"
    and l: "fmlookup (wc_changeVersions wr') c = Some v"
    using versionMarkerOf_replayed [OF m dec same e] by blast
  from l v have "GetVersion ks' wr' c mn mx g' = Inr (v, wr')"
    by (simp add: GetVersion_def validateVersion_def)
  with s h show ?thesis by (auto simp: wc')
qed

lemma decodes_exampleCodec: "decodes exampleCodec"
  by (auto simp: decodes_def exampleCodec_decodes)

theorem version_marker_roundtrip_witness:
  "\<exists>wc' m wr'. GetVersion [] exampleEnv ''greeting'' 1 3 [] = Inr (3, wc') \<and>
    sends newCommandsHelper (wc_commandsHelper wc') m \<and>
    handleMarkerRecorded idleCode 0 replayEnv 5 (marker_MarkerName m) (Some (marker_Details m))
      (marker_Failure m) = Inr (None, wr') \<and>
    GetVersion [] wr' ''greeting'' 1 3 [] = Inr (3, wr')"
proof -
  obtain wc' where run: "GetVersion [] exampleEnv ''greeting'' 1 3 [] = Inr (3, wc')"
    using exampleVersion_eq by (auto simp: exampleVersion_def)
  have "fmlookup (wc_changeVersions exampleEnv) ''greeting'' = None" by code_simp
  from version_marker_roundtrip [OF run ok_exampleEnv _ this, of replayEnv 5 idleCode 0 "[]" "[]"] run
  show ?thesis
    by (auto simp: decodes_exampleCodec exampleCodec_strings newCommandsHelper_def)
qed

section \<open>Side effects\<close>

lemma addNew_total:
  assumes "commands h (m_id d) = None"
  shows "\<exists>p h'. addNew h d = Inr (p, h')"
proof -
  obtain p h1 where a: "allocMachine h d = (p, h1)" by (metis surj_pair)
  then have "machines h1 p = Some d" "commands h1 = commands h" by (auto simp: allocMachine_def)
  then have "addCommand h1 p = Inr (incrementNextCommandEventID
      (incrementNextCommandEventIDIfVersionMarker
        (h1\<lparr>orderedCommands := orderedCommands h1 @ [p], commands := (commands h1)(m_id d \<mapsto> p)\<rparr>)))"
    using assms by (simp add: addCommand_eq_Inr)
  with a show ?thesis by (simp add: addNew_def)
qed

definition sideEffectMarkerFor ::
    "payloads option \<Rightarrow> payloads option \<Rightarrow> recordMarkerAttributes" where
  "sideEffectMarkerFor i r = \<lparr>marker_MarkerName = sideEffectMarkerName,
     marker_Details = fmap_of_list [(sideEffectMarkerIDName, i), (sideEffectMarkerDataName, r)],
     marker_Failure = None\<rparr>"

definition sideEffectCommandID :: "int64 \<Rightarrow> commandID" where
  "sideEffectCommandID n = makeCommandID commandTypeMarker (sideEffectMarkerName @ ''_'' @ formatInt n)"

lemma recordSideEffectMarker_eq:
  "recordSideEffectMarker h n r dc u g =
     bind_res (panicOnError (dc_ToPayloads dc [GoInt64 n])) (\<lambda>i.
       addNew h (newMarkerCommandStateMachine (sideEffectMarkerName @ ''_'' @ formatInt n)
         (sideEffectMarkerFor i r) u g))"
  by (simp add: recordSideEffectMarker_def sideEffectMarkerFor_def)

lemma recordSideEffect_runs:
  assumes "env_ok wc" and "dc_ToPayloads (dataConverterOf wc) [GoInt64 n] = Inr i"
    and "BuildUserMetadata sm [] (dataConverterOf wc) = Inr u"
    and "commands (wc_commandsHelper wc) (sideEffectCommandID n) = None"
  shows "\<exists>wc'. recordSideEffect wc n r sm g cb = Inr wc' \<and>
    wc_calls wc' = wc_calls wc @ [ResultCall cb r None] \<and>
    wc_sideEffectResult wc' = wc_sideEffectResult wc \<and>
    sends (wc_commandsHelper wc) (wc_commandsHelper wc') (sideEffectMarkerFor i r)"
proof -
  let ?d = "newMarkerCommandStateMachine (sideEffectMarkerName @ ''_'' @ formatInt n)
    (sideEffectMarkerFor i r) u g :: scheduled machine"
  have "m_id ?d = sideEffectCommandID n"
    by (simp add: new_machine_defs newCommandStateMachineBase_def sideEffectCommandID_def)
  then have "commands (wc_commandsHelper wc) (m_id ?d) = None" by (simp only: assms(4))
  then obtain p h where a: "addNew (wc_commandsHelper wc) ?d = Inr (p, h)"
    using addNew_total by blast
  from commandsOf_addMarker [OF ok_wf [OF assms(1)] a] have
    "sends (wc_commandsHelper wc) h (sideEffectMarkerFor i r)" by (rule sends_append)
  with a assms(2,3) show ?thesis
    by (simp add: recordSideEffect_def recordSideEffectMarker_eq withHelper_def callBack_def
        panicOnError_def)
qed

text \<open>A live side effect has the four facts a replay needs.\<close>

lemma SideEffect_live:
  assumes op: "SideEffect wc (r, None) cb sm g = Inr wc'" and live: "\<not> wc_isReplay wc"
    and k: "env_ok wc"
  obtains n i u where "getNextSideEffectID wc = (n, wc\<lparr>wc_sideEffectCounterID := wc_sideEffectCounterID wc + 1\<rparr>)"
    and "dc_ToPayloads (dataConverterOf wc) [GoInt64 n] = Inr i"
    and "BuildUserMetadata sm [] (dataConverterOf wc) = Inr u"
    and "sends (wc_commandsHelper wc) (wc_commandsHelper wc') (sideEffectMarkerFor i r)"
proof -
  let ?wc = "wc\<lparr>wc_sideEffectCounterID := wc_sideEffectCounterID wc + 1\<rparr>"
  obtain n where n: "getNextSideEffectID wc = (n, ?wc)" by (auto simp: getNextSideEffectID_def Let_def)
  with op live have rec: "recordSideEffect ?wc n r sm g cb = Inr wc'"
    by (simp add: SideEffect_def)
  then obtain u where u: "BuildUserMetadata sm [] (dataConverterOf wc) = Inr u"
    by (cases "BuildUserMetadata sm [] (dataConverterOf wc)") (auto simp: recordSideEffect_def)
  with rec obtain i p h where i: "dc_ToPayloads (dataConverterOf wc) [GoInt64 n] = Inr i"
    and a: "addNew (wc_commandsHelper wc) (newMarkerCommandStateMachine
      (sideEffectMarkerName @ ''_'' @ formatInt n) (sideEffectMarkerFor i r) u g) = Inr (p, h)"
    and h: "wc_commandsHelper wc' = h"
    by (auto simp: recordSideEffect_def recordSideEffectMarker_eq withHelper_eq_Inr res_simps)
  from commandsOf_addMarker [OF ok_wf [OF k] a] have
    "sends (wc_commandsHelper wc) (wc_commandsHelper wc') (sideEffectMarkerFor i r)"
    unfolding h by (rule sends_append)
  with n i u show thesis by (rule that)
qed

lemma sideEffect_replayed:
  assumes dec: "decodes dc" and dc: "dataConverterOf wr = dc" and i: "dc_ToPayloads dc [GoInt64 n] = Inr i"
  shows "handleMarkerRecorded wd now wr e sideEffectMarkerName
      (Some (marker_Details (sideEffectMarkerFor i r))) f =
    Inr (None, wr\<lparr>wc_sideEffectResult := fmupd n r (wc_sideEffectResult wr)\<rparr>)"
  using decodesD [OF dec i, of "GoInt64 0"]
  by (simp add: handleMarkerRecorded_def sideEffectMarker_def markerOutcome_def dc Let_def
      sideEffectMarkerFor_def sideEffectMarkerIDName_def sideEffectMarkerDataName_def)

text \<open>
  C17. Side effects replay. When a task runs a side effect, its commands contain a marker from which
  a replay with the same converter and counter reads the same result: after the event of that marker
  the replayed call hands the recorded result to its callback, without running the function again
  (whatever it would return now), forgets the recorded result, and sends the same marker.
\<close>

theorem side_effect_roundtrip:
  assumes run: "SideEffect wc (r, None) cb sm g = Inr wc'" and live: "\<not> wc_isReplay wc"
    and k: "env_ok wc" "env_ok wr" and dec: "decodes (dataConverterOf wc)"
    and same: "wc_config wr = wc_config wc" "wc_sideEffectCounterID wr = wc_sideEffectCounterID wc"
    and rep: "wc_isReplay wr"
    and free: "commands (wc_commandsHelper wr) (sideEffectCommandID (fst (getNextSideEffectID wc))) = None"
  shows "\<exists>m wr1 wr2. sends (wc_commandsHelper wc) (wc_commandsHelper wc') m \<and>
    handleMarkerRecorded wd now wr e (marker_MarkerName m) (Some (marker_Details m))
      (marker_Failure m) = Inr (None, wr1) \<and>
    SideEffect wr1 f cb' sm g = Inr wr2 \<and>
    wc_calls wr2 = wc_calls wr @ [ResultCall cb' r None] \<and>
    fmlookup (wc_sideEffectResult wr2) (fst (getNextSideEffectID wc)) = None \<and>
    sends (wc_commandsHelper wr) (wc_commandsHelper wr2) m"
proof -
  from SideEffect_live [OF run live k(1)] obtain n i u where
    n: "getNextSideEffectID wc = (n, wc\<lparr>wc_sideEffectCounterID := wc_sideEffectCounterID wc + 1\<rparr>)"
    and i: "dc_ToPayloads (dataConverterOf wc) [GoInt64 n] = Inr i"
    and u: "BuildUserMetadata sm [] (dataConverterOf wc) = Inr u"
    and s: "sends (wc_commandsHelper wc) (wc_commandsHelper wc') (sideEffectMarkerFor i r)" by blast
  let ?wr1 = "wr\<lparr>wc_sideEffectResult := fmupd n r (wc_sideEffectResult wr)\<rparr>"
  let ?wr = "?wr1\<lparr>wc_sideEffectCounterID := wc_sideEffectCounterID wc + 1,
    wc_sideEffectResult := fmdrop n (fmupd n r (wc_sideEffectResult wr))\<rparr>"
  obtain wr2 where "recordSideEffect ?wr n r sm g cb' = Inr wr2"
      "wc_calls wr2 = wc_calls ?wr @ [ResultCall cb' r None]"
      "wc_sideEffectResult wr2 = wc_sideEffectResult ?wr"
      "sends (wc_commandsHelper ?wr) (wc_commandsHelper wr2) (sideEffectMarkerFor i r)"
    using k(2) i u free same n recordSideEffect_runs [of ?wr n i sm u r g cb'] by auto
  moreover have "SideEffect ?wr1 f cb' sm g = recordSideEffect ?wr n r sm g cb'"
    using n same rep by (auto simp: SideEffect_def getNextSideEffectID_def Let_def)
  moreover have "handleMarkerRecorded wd now wr e sideEffectMarkerName
      (Some (marker_Details (sideEffectMarkerFor i r))) None = Inr (None, ?wr1)"
    using sideEffect_replayed [OF dec _ i] same by simp
  ultimately show ?thesis
    using s n by (intro exI [of _ "sideEffectMarkerFor i r"] exI [of _ ?wr1] exI [of _ wr2])
      (simp add: sideEffectMarkerFor_def)
qed

theorem side_effect_roundtrip_witness:
  "\<exists>wc' m wr1 wr2. SideEffect exampleEnv (Some [plain ''hi''], None) 7 [] [] = Inr wc' \<and>
    sends newCommandsHelper (wc_commandsHelper wc') m \<and>
    handleMarkerRecorded idleCode 0 replayEnv 5 (marker_MarkerName m) (Some (marker_Details m))
      (marker_Failure m) = Inr (None, wr1) \<and>
    SideEffect wr1 (None, Some (GoError ''not run'')) 8 [] [] = Inr wr2 \<and>
    wc_calls wr2 = [ResultCall 8 (Some [plain ''hi'']) None]"
proof -
  have "case SideEffect exampleEnv (Some [plain ''hi''], None) 7 [] [] of Inr _ \<Rightarrow> True | _ \<Rightarrow> False"
    by code_simp
  then obtain wc' where run: "SideEffect exampleEnv (Some [plain ''hi''], None) 7 [] [] = Inr wc'"
    by (auto split: sum.splits)
  have c: "wc_sideEffectCounterID replayEnv = wc_sideEffectCounterID exampleEnv" by code_simp
  have k: "env_ok replayEnv" using ok_exampleEnv by simp
  from side_effect_roundtrip [OF run _ ok_exampleEnv k _ _ c, of idleCode 0 5 "(None, Some (GoError ''not run''))" 8]
    run show ?thesis
    by (fastforce simp: decodes_exampleCodec newCommandsHelper_def)
qed

section \<open>Mutable side effects\<close>

text \<open>
  The recorded call that a call sees: the latest one up to it, or -1 if there is none. The value is
  the one recorded by that call.
\<close>

definition newestCall :: "int set \<Rightarrow> int \<Rightarrow> int" where
  "newestCall S current = Max (insert (- 1) {c \<in> S. c \<le> current})"

definition newest :: "(int, payloads option) fmap \<Rightarrow> int \<Rightarrow> payloads option" where
  "newest m current = (let c = newestCall (fmdom' m) current in
     if c = - 1 then None else the (fmlookup m c))"

lemma Max_insert_dominated:
  "finite S \<Longrightarrow> (c::int) \<le> k \<Longrightarrow> Max (insert k (insert c S)) = Max (insert k S)"
  by (cases "S = {}") (auto simp: max_def)

lemma latestCall_eq:
  "latestCall m current (k, p) cs = (let x = Max (insert k {c \<in> set cs. c \<le> current}) in
     (x, if x = k then p else the (fmlookup m x)))"
proof (induction cs arbitrary: k p)
  case (Cons c cs)
  let ?S = "{c \<in> set cs. c \<le> current}"
  show ?case
  proof (cases "c \<le> current")
    case True
    then have S: "{d \<in> set (c # cs). d \<le> current} = insert c ?S" by auto
    have "Max (insert k (insert c ?S)) = max k (Max (insert c ?S))" by simp
    moreover have "c \<le> Max (insert c ?S)" by simp
    moreover have "k \<ge> c \<Longrightarrow> Max (insert k (insert c ?S)) = Max (insert k ?S)"
      by (rule Max_insert_dominated) simp_all
    ultimately show ?thesis unfolding S using True
      by (cases "k < c") (auto simp: Cons.IH Let_def max_def simp del: Max_insert)
  next
    case False
    then have "{d \<in> set (c # cs). d \<le> current} = ?S" by auto
    with False show ?thesis by (simp add: Cons.IH)
  qed
qed simp

lemma latestCall_newest:
  assumes "set cs = fmdom' m"
  shows "latestCall m current (- 1, None) cs = (newestCall (fmdom' m) current, newest m current)"
  by (simp add: latestCall_eq newest_def newestCall_def assms Let_def)

lemma finite_calls [simp]: "finite {c \<in> fmdom' m. c \<le> (current::int)}"
  by (simp add: fmdom'_alt_def)

lemma newestCall_ge: "- 1 \<le> newestCall (fmdom' m) current"
  by (simp add: newestCall_def)

lemma newestCall_upper: "c \<in> fmdom' m \<Longrightarrow> c \<le> current \<Longrightarrow> c \<le> newestCall (fmdom' m) current"
  by (simp add: newestCall_def)

lemma newestCall_in:
  "newestCall (fmdom' m) current = - 1 \<or>
     newestCall (fmdom' m) current \<in> fmdom' m \<and> newestCall (fmdom' m) current \<le> current"
  using Max_in [of "insert (- 1) {c \<in> fmdom' m. c \<le> current}"] by (auto simp: newestCall_def)

lemma newestCall_eqI:
  assumes "x = - 1 \<or> x \<in> S \<and> x \<le> n" and "- 1 \<le> x" and "\<And>c. c \<in> S \<Longrightarrow> c \<le> n \<Longrightarrow> c \<le> x"
    and "finite {c \<in> S. c \<le> n}"
  shows "newestCall S n = x"
  unfolding newestCall_def using assms by (intro Max_eqI) auto

lemma newest_collected:
  assumes n: "current \<le> n" and x: "x = newestCall (fmdom' m) current"
  shows "newest (fmfilter (\<lambda>c. \<not> (c \<le> current \<and> c \<noteq> x)) m) n = newest m n"
proof -
  let ?m = "fmfilter (\<lambda>c. \<not> (c \<le> current \<and> c \<noteq> x)) m" and ?y = "newestCall (fmdom' m) n"
  have y: "x \<le> ?y" using newestCall_in [of m current] newestCall_upper [of x m n] newestCall_ge n x
    by auto
  have "newestCall (fmdom' ?m) n = ?y"
  proof (rule newestCall_eqI)
    have "?y \<le> current \<longrightarrow> ?y = - 1 \<or> ?y = x"
      using newestCall_in [of m n] newestCall_upper [of ?y m current] y x by auto
    then show "?y = - 1 \<or> ?y \<in> fmdom' ?m \<and> ?y \<le> n" using newestCall_in [of m n] by auto
    show "finite {c \<in> fmdom' ?m. c \<le> n}" by (rule finite_calls)
  qed (auto intro: newestCall_upper newestCall_ge)
  moreover have "fmlookup ?m ?y = fmlookup m ?y" if "?y \<noteq> - 1"
    using that newestCall_in [of m n] newestCall_upper [of ?y m current] y x by auto
  ultimately show ?thesis by (simp add: newest_def Let_def)
qed

lemma lookupMutableSideEffect_eq:
  assumes "fmlookup (wc_mutableSideEffect wc) i = Some m"
  shows "fst (lookupMutableSideEffect wc i) = newest m (countOf wc i)"
    and "\<exists>m'. fmlookup (wc_mutableSideEffect (snd (lookupMutableSideEffect wc i))) i = Some m' \<and>
      (\<forall>n \<ge> countOf wc i. newest m' n = newest m n)"
proof -
  let ?x = "newestCall (fmdom' m) (countOf wc i)"
  have l: "latestCall m (countOf wc i) (- 1, None) (sorted_list_of_fset (fmdom m)) =
      (?x, newest m (countOf wc i))"
    by (rule latestCall_newest) (simp add: fmdom'_alt_def)
  have e: "newest m n = None" if "fmdom m = {||}" for n
    using that by (simp add: newest_def newestCall_def fmdom'_alt_def)
  show "fst (lookupMutableSideEffect wc i) = newest m (countOf wc i)"
    using l e by (simp add: lookupMutableSideEffect_def assms Let_def)
  have "newest (fmfilter (\<lambda>c. \<not> (c \<le> countOf wc i \<and> c \<noteq> ?x)) m) n = newest m n"
    if "countOf wc i \<le> n" for n using that by (rule newest_collected) simp
  then show "\<exists>m'. fmlookup (wc_mutableSideEffect (snd (lookupMutableSideEffect wc i))) i = Some m' \<and>
      (\<forall>n \<ge> countOf wc i. newest m' n = newest m n)"
    using l assms by (simp add: lookupMutableSideEffect_def Let_def)
qed

text \<open>
  C18. A call of a mutable side effect sees the value recorded by the latest call up to it, in
  whatever order the recorded calls are visited, and the entries that the lookup frees are never
  missed: at any later call number \<open>n\<close> the lookup finds the same value as if nothing had been freed.
\<close>

theorem mutable_side_effect_lookup:
  assumes "fmlookup (wc_mutableSideEffect wc) i = Some m"
    and "n \<ge> countOf wc i" and "set cs = fmdom' m"
  shows "fst (lookupMutableSideEffect wc i) = newest m (countOf wc i) \<and>
    snd (latestCall m (countOf wc i) (- 1, None) cs) = newest m (countOf wc i) \<and>
    fst (lookupMutableSideEffect ((snd (lookupMutableSideEffect wc i))
       \<lparr>wc_mutableSideEffectCallCounter := fmupd i n (wc_mutableSideEffectCallCounter wc)\<rparr>) i) =
    fst (lookupMutableSideEffect
       (wc\<lparr>wc_mutableSideEffectCallCounter := fmupd i n (wc_mutableSideEffectCallCounter wc)\<rparr>) i)"
proof -
  let ?set = "\<lambda>w. w\<lparr>wc_mutableSideEffectCallCounter := fmupd i n (wc_mutableSideEffectCallCounter wc)\<rparr>"
  obtain m' where m': "fmlookup (wc_mutableSideEffect (snd (lookupMutableSideEffect wc i))) i = Some m'"
    and eq: "newest m' n = newest m n"
    using lookupMutableSideEffect_eq(2) [OF assms(1)] assms(2) by blast
  have "fst (lookupMutableSideEffect (?set w) i) = newest k n"
    if "fmlookup (wc_mutableSideEffect w) i = Some k" for w k
    using lookupMutableSideEffect_eq(1) [of "?set w" i k] that by (simp add: countOf_def)
  with m' eq assms(1) lookupMutableSideEffect_eq(1) [OF assms(1)] latestCall_newest [OF assms(3)]
  show ?thesis by simp
qed

definition mutableEnv :: env where
  "mutableEnv = exampleEnv
     \<lparr>wc_mutableSideEffect := fmap_of_list [(''x'', fmap_of_list
        [(1, Some [plain ''a'']), (3, Some [plain ''b'']), (8, Some [plain ''c''])])],
      wc_mutableSideEffectCallCounter := fmap_of_list [(''x'', 5)]\<rparr>"

theorem mutable_side_effect_lookup_witness:
  "fst (lookupMutableSideEffect mutableEnv ''x'') = Some [plain ''b''] \<and>
   fst (lookupMutableSideEffect ((snd (lookupMutableSideEffect mutableEnv ''x''))
      \<lparr>wc_mutableSideEffectCallCounter := fmupd ''x'' 9 (wc_mutableSideEffectCallCounter mutableEnv)\<rparr>)
      ''x'') = Some [plain ''c'']"
proof -
  let ?m = "fmap_of_list [(1, Some [plain ''a'']), (3, Some [plain ''b'']), (8, Some [plain ''c''])]
    :: (int, payloads option) fmap"
  have m: "fmlookup (wc_mutableSideEffect mutableEnv) ''x'' = Some ?m"
    and c: "countOf mutableEnv ''x'' = 5" by code_simp+
  have d: "set [8, 1, 3] = fmdom' ?m" by auto
  have n: "9 \<ge> countOf mutableEnv ''x''" by (simp add: c)
  have "snd (latestCall ?m 5 (- 1, None) [8, 1, 3]) = Some [plain ''b'']" by simp
  moreover have "fst (lookupMutableSideEffect (mutableEnv\<lparr>wc_mutableSideEffectCallCounter :=
      fmupd ''x'' 9 (wc_mutableSideEffectCallCounter mutableEnv)\<rparr>) ''x'') = Some [plain ''c'']"
    by code_simp
  ultimately show ?thesis using mutable_side_effect_lookup [OF m n d] by (simp add: c)
qed

end
