(* ===== verification/Env_Properties.thy ===== *)
theory Env_Properties
  imports Record_Replay Command_Properties
begin

text \<open>
  Properties of the workflow environment as a whole: callbacks are called at most once over the life
  of an execution, timers call theirs when they fire or are canceled, memos merge field by field, and
  resolving a local activity loses none of its attempts.
\<close>

section \<open>Memos\<close>

text \<open>The fields that an upsert removes, and the merge without its loop.\<close>

definition removes :: "payloadMap \<Rightarrow> string \<Rightarrow> bool" where
  "removes up k \<longleftrightarrow> (case fmlookup up k of Some (Some v) \<Rightarrow> payload_data v = None | _ \<Rightarrow> False)"

definition fieldsOf :: "payloadMap option \<Rightarrow> payloadMap" where
  "fieldsOf m = (case m of None \<Rightarrow> fmempty | Some flds \<Rightarrow> flds)"

definition mergedMemo :: "payloadMap option \<Rightarrow> payloadMap \<Rightarrow> payloadMap" where
  "mergedMemo current up = fmfilter (\<lambda>k. \<not> removes up k) (fmadd (fieldsOf current) up)"

lemma fmdom_empty_iff: "fmdom m = {||} \<longleftrightarrow> m = fmempty"
proof
  assume "fmdom m = {||}"
  then show "m = fmempty" by (intro fmap_ext) (metis fempty_iff fmdom_notD fmempty_lookup)
qed simp

lemma upsertFields_nil:
  "\<exists>k \<in> set ks. fmlookup up k = Some None \<Longrightarrow>
     upsertFields (map (\<lambda>k. (k, the (fmlookup up k))) ks) flds = Inl NilDereference"
  by (induction ks arbitrary: flds) (auto simp: upsertField_def split: option.splits)

lemma upsertFields_eq:
  assumes "set ks \<subseteq> fmdom' up" and "\<forall>k \<in> set ks. fmlookup up k \<noteq> Some None"
  shows "upsertFields (map (\<lambda>k. (k, the (fmlookup up k))) ks) flds =
    Inr (fmfilter (\<lambda>k. k \<in> set ks \<longrightarrow> \<not> removes up k) (fmadd flds (fmrestrict_set (set ks) up)))"
  using assms
proof (induction ks arbitrary: flds)
  case Nil
  have "flds = fmfilter (\<lambda>k. k \<in> {} \<longrightarrow> \<not> removes up k) (fmadd flds (fmrestrict_set {} up))"
    by (rule fmap_ext) simp
  then show ?case by simp
next
  case (Cons k ks)
  from Cons.prems obtain v where v: "fmlookup up k = Some (Some v)"
    by (auto simp: fmlookup_dom'_iff)
  let ?f = "if payload_data v = None then fmdrop k flds else fmupd k (Some v) flds"
  have "upsertFields (map (\<lambda>k. (k, the (fmlookup up k))) (k # ks)) flds =
      upsertFields (map (\<lambda>k. (k, the (fmlookup up k))) ks) ?f"
    by (simp add: upsertField_def v)
  also have "\<dots> = Inr (fmfilter (\<lambda>k. k \<in> set ks \<longrightarrow> \<not> removes up k)
      (fmadd ?f (fmrestrict_set (set ks) up)))"
    using Cons.prems by (intro Cons.IH) auto
  also have "fmfilter (\<lambda>k. k \<in> set ks \<longrightarrow> \<not> removes up k) (fmadd ?f (fmrestrict_set (set ks) up)) =
      fmfilter (\<lambda>x. x \<in> set (k # ks) \<longrightarrow> \<not> removes up x)
        (fmadd flds (fmrestrict_set (set (k # ks)) up))"
    by (rule fmap_ext) (auto simp: removes_def v fmlookup_dom_iff split: option.splits)
  finally show ?case .
qed

lemma fieldsOf_empty: "emptyFields m \<Longrightarrow> fieldsOf m = fmempty"
  by (auto simp: emptyFields_def fieldsOf_def fmdom_empty_iff split: option.splits)

lemma mergeMemo_eq:
  assumes ks: "set ks = fmdom' up"
  shows "mergeMemo ks current (Some up) =
    (if emptyFields current \<and> up = fmempty then Inr None
     else if \<exists>k \<in> fmdom' up. fmlookup up k = Some None then Inl NilDereference
     else Inr (Some (mergedMemo current up)))"
proof (cases "\<exists>k \<in> fmdom' up. fmlookup up k = Some None")
  case True
  then have "up \<noteq> fmempty" by auto
  with True upsertFields_nil [of ks up] show ?thesis
    by (auto simp: mergeMemo_def ks emptyFields_def fmdom_empty_iff Let_def)
next
  case False
  let ?flds = "if emptyFields current then fmempty else the current"
  have f: "?flds = fieldsOf current"
    using fieldsOf_empty [of current] by (auto simp: fieldsOf_def emptyFields_def split: option.splits)
  have "upsertFields (map (\<lambda>k. (k, the (fmlookup up k))) ks) (fieldsOf current) =
      Inr (fmfilter (\<lambda>k. k \<in> set ks \<longrightarrow> \<not> removes up k)
        (fmadd (fieldsOf current) (fmrestrict_set (set ks) up)))"
    using False by (intro upsertFields_eq) (auto simp: ks)
  also have "fmfilter (\<lambda>k. k \<in> set ks \<longrightarrow> \<not> removes up k) (fmadd (fieldsOf current)
      (fmrestrict_set (set ks) up)) = mergedMemo current up"
    by (rule fmap_ext) (auto simp: mergedMemo_def ks removes_def fmlookup_dom'_iff split: option.splits)
  finally have "upsertFields (map (\<lambda>k. (k, the (fmlookup up k))) ks) ?flds =
      Inr (mergedMemo current up)" unfolding f .
  then have "mergeMemo ks current (Some up) = Inr (Some (mergedMemo current up))"
    if "\<not> (emptyFields current \<and> emptyFields (Some up))"
    using that by (simp only: mergeMemo_def Let_def if_False option.case bind_res.simps)
  moreover have "emptyFields (Some up) \<longleftrightarrow> up = fmempty"
    by (simp add: emptyFields_def fmdom_empty_iff)
  ultimately show ?thesis using False by (auto simp: mergeMemo_def)
qed

lemma mergeMemo_order:
  "set ks = fmdom' up \<Longrightarrow> set ks' = fmdom' up \<Longrightarrow>
     mergeMemo ks current (Some up) = mergeMemo ks' current (Some up)"
  by (simp add: mergeMemo_eq)

text \<open>
  C37. Merging a memo is a field-wise update, in whatever order the upserted fields are visited: an
  upserted field replaces the current one, or removes it when its payload has no data, and the other
  fields stay; nothing upserted into nothing is no memo. A missing payload among the fields, and a
  missing upsert when there is a current memo, are dereferenced and panic.
\<close>

theorem mergeMemo_fieldwise:
  assumes "set ks = fmdom' up" and "\<forall>k \<in> fmdom' up. fmlookup up k \<noteq> Some None"
  shows "(\<exists>m. mergeMemo ks current (Some up) = Inr m \<and>
      (\<forall>k. fmlookup (fieldsOf m) k = (case fmlookup up k of
         None \<Rightarrow> fmlookup (fieldsOf current) k
       | Some p \<Rightarrow> if removes up k then None else Some p))) \<and>
    (\<forall>k. mergeMemo (k # ks) current (Some (fmupd k None up)) = Inl NilDereference) \<and>
    mergeMemo [] current None = (if emptyFields current then Inr None else Inl NilDereference)"
proof (intro conjI allI)
  show "\<exists>m. mergeMemo ks current (Some up) = Inr m \<and>
      (\<forall>k. fmlookup (fieldsOf m) k = (case fmlookup up k of
         None \<Rightarrow> fmlookup (fieldsOf current) k
       | Some p \<Rightarrow> if removes up k then None else Some p))"
  proof (cases "emptyFields current \<and> up = fmempty")
    case True
    then show ?thesis using assms by (simp add: mergeMemo_eq fieldsOf_empty) (simp add: fieldsOf_def)
  next
    case False
    have "fmlookup (mergedMemo current up) k = (case fmlookup up k of
        None \<Rightarrow> fmlookup (fieldsOf current) k | Some p \<Rightarrow> if removes up k then None else Some p)" for k
      by (auto simp: mergedMemo_def removes_def fmdom_notD split: option.splits)
    with False show ?thesis using assms by (auto simp: mergeMemo_eq fieldsOf_def [of "Some _"])
  qed
  show "mergeMemo (k # ks) current (Some (fmupd k None up)) = Inl NilDereference" for k
  proof -
    have "fmupd k None up \<noteq> fmempty" by (metis fmupd_lookup fmempty_lookup option.distinct(1))
    with mergeMemo_eq [of "k # ks" "fmupd k None up" current] assms(1) show ?thesis by auto
  qed
  show "mergeMemo [] current None = (if emptyFields current then Inr None else Inl NilDereference)"
    by (simp add: mergeMemo_def emptyFields_def)
qed

definition upsertedMemo :: payloadMap where
  "upsertedMemo = fmap_of_list [(''a'', Some (plain ''2'')),
     (''b'', Some \<lparr>payload_metadata = [], payload_data = None\<rparr>)]"

definition currentMemo :: payloadMap where
  "currentMemo = fmap_of_list [(''b'', Some (plain ''1'')), (''c'', Some (plain ''3''))]"

theorem mergeMemo_fieldwise_witness:
  "\<exists>m. mergeMemo [''b'', ''a''] (Some currentMemo) (Some upsertedMemo) = Inr m \<and>
     fmlookup (fieldsOf m) ''a'' = Some (Some (plain ''2'')) \<and> fmlookup (fieldsOf m) ''b'' = None \<and>
     fmlookup (fieldsOf m) ''c'' = Some (Some (plain ''3''))"
proof -
  have "set [''b'', ''a''] = fmdom' upsertedMemo" by (auto simp: upsertedMemo_def)
  moreover have "\<forall>k \<in> fmdom' upsertedMemo. fmlookup upsertedMemo k \<noteq> Some None"
    by (auto simp: upsertedMemo_def)
  ultimately obtain m where m: "mergeMemo [''b'', ''a''] (Some currentMemo) (Some upsertedMemo) = Inr m"
    and l: "\<And>k. fmlookup (fieldsOf m) k = (case fmlookup upsertedMemo k of
         None \<Rightarrow> fmlookup (fieldsOf (Some currentMemo)) k
       | Some p \<Rightarrow> if removes upsertedMemo k then None else Some p)"
    using mergeMemo_fieldwise [of "[''b'', ''a'']" upsertedMemo "Some currentMemo"] by blast
  with m show ?thesis
    by (simp add: l fieldsOf_def currentMemo_def upsertedMemo_def removes_def plain_def)
qed

section \<open>Timers\<close>

text \<open>Timer \<open>t\<close> of callback \<open>cb\<close> has a command in state \<open>s\<close> and was not resolved.\<close>

definition timerIn :: "helper \<Rightarrow> string \<Rightarrow> handler \<Rightarrow> commandState \<Rightarrow> bool" where
  "timerIn h t cb s \<longleftrightarrow> (\<exists>p d a u. commands h (makeCommandID commandTypeTimer t) = Some p \<and>
     machines h p = Some d \<and> m_id d = makeCommandID commandTypeTimer t \<and> m_kind d = TimerMachine a u \<and>
     m_state d = s \<and> m_data d = Some (ScheduledTimer \<lparr>st_callback = cb, st_handled = False\<rparr>))"

lemma addNew_commands: "addNew h d = Inr (p, h') \<Longrightarrow> commands h' (m_id d) = Some p"
  by (auto simp: addNew_def allocMachine_def res_simps addCommand_eq_Inr)

lemma NewTimer_created:
  assumes op: "NewTimer wc dur sm g cb = Inr (Some t, wc')" and k: "env_ok wc"
  shows "timerIn (wc_commandsHelper wc') t cb commandStateCreated \<and> wc_calls wc' = wc_calls wc"
proof -
  from op obtain wc1 p wc2 where i: "GenerateSequenceID wc = Inr (t, wc1)"
    and f: "withHelper (\<lambda>h. startTimer h \<lparr>timer_TimerId = t, timer_StartToFireTimeout = dur\<rparr> sm
      (dataConverterOf wc1) g) wc1 = Inr (p, wc2)"
    and s: "setData wc2 p (ScheduledTimer \<lparr>st_callback = cb, st_handled = False\<rparr>) = Inr wc'"
    by (auto simp: NewTimer_def res_simps split: if_splits)
  have k1: "env_ok wc1" using ok_GenerateSequenceID(1) [OF i k] .
  from f obtain u h where
    a: "addNew (wc_commandsHelper wc1) ((newTimerCommandStateMachine
      \<lparr>timer_TimerId = t, timer_StartToFireTimeout = dur\<rparr> u)\<lparr>m_eventGroupMarkers := g\<rparr>) = Inr (p, h)"
    and h: "wc2 = wc1\<lparr>wc_commandsHelper := h\<rparr>"
    by (auto simp: withHelper_eq_Inr startTimer_def res_simps)
  have c: "wc_calls wc1 = wc_calls wc"
    using i by (auto simp: GenerateSequenceID_def GenerateSequence_def withHelper_eq_Inr res_simps)
  from addNew_new [OF a ok_wf [OF k1]] addNew_commands [OF a] s c show ?thesis
    by (auto simp: timerIn_def setData_eq_Inr h new_machine_defs newCommandStateMachineBase_def)
qed

text \<open>
  The timer's command is closed by the firing, or, when its cancellation was sent already, completed;
  in the other states the event is an illegal transition.
\<close>

lemma timer_fired:
  assumes c: "commands (wc_commandsHelper wc) (makeCommandID commandTypeTimer t) = Some p"
    and d: "machines (wc_commandsHelper wc) p = Some d" "m_id d = makeCommandID commandTypeTimer t"
      "m_kind d = TimerMachine a u" "m_data d = Some (ScheduledTimer s)"
  shows "if m_state d \<in> {commandStateInitiated, commandStateCanceledAfterInitiated,
      commandStateCancellationCommandSent}
    then \<exists>wc'. timerEventHandler wc (TimerFired t) = Inr (None, wc') \<and>
      wc_calls wc' = wc_calls wc @ (if st_handled s then [] else [ResultCall (st_callback s) None None])
    else \<exists>message. timerEventHandler wc (TimerFired t) = Inl (IllegalState message)"
proof -
  let ?h1 = "dropCommand (wc_commandsHelper wc) (makeCommandID commandTypeCancelTimer t)"
  have m: "machines ?h1 p = Some d" using d(1) by simp
  show ?thesis
    using completion_of_open [OF m, of a u] c d
    by (auto simp: handleTimerFired_def withHelper_def handleTimerClosed_def removeCancel_drop
        getCommand_def getData_def resolveWith_def setData_def scheduledTimer_handle_def noError_def
        callBack_def fail_defs)
qed

lemma timer_canceled:
  assumes op: "RequestCancelTimer wc t = Inr wc'" and k: "env_ok wc"
    and c: "commands (wc_commandsHelper wc) (makeCommandID commandTypeTimer t) = Some p"
    and d: "machines (wc_commandsHelper wc) p = Some d" "m_data d = Some (ScheduledTimer s)"
  shows "wc_calls wc' = wc_calls wc @
    (if st_handled s then [] else [ResultCall (st_callback s) None (Some ErrCanceled)])"
proof -
  from op obtain q wc1 where q: "withHelper (\<lambda>h. cancelTimer h t) wc = Inr (q, wc1)"
    unfolding RequestCancelTimer_def by (auto simp only: bind_res_eq_Inr)
  then obtain h where h: "cancelTimer (wc_commandsHelper wc) t = Inr (q, h)"
    and wc1: "wc1 = wc\<lparr>wc_commandsHelper := h\<rparr>" by (auto simp: withHelper_eq_Inr)
  from h c have "q = p" by (auto simp: cancelTimer_def onCommand_def getCommand_def res_simps)
  have "keeps {} (wc_commandsHelper wc) h"
    using h ok_wf [OF k] unfolding cancelTimer_def by (rule keeps_onCommand_cancel)
  from keepsD [OF this d(1)] d(2) obtain d1 where "machines h p = Some d1"
    "m_data d1 = Some (ScheduledTimer s)" by auto
  with op q wc1 \<open>q = p\<close> show ?thesis
    by (auto simp: RequestCancelTimer_def getData_def resolveWith_def setData_def
        scheduledTimer_handle_def callBack_def split: if_splits)
qed

text \<open>
  C11. A timer calls its callback exactly once, when it fires or when it is canceled, whichever comes
  first. Take any environment that events and workflow code reach, also in the middle of a task.
  Starting a timer files it under its id with its callback, and calls nothing. Now let a timer be
  filed under its id. Its command stores a callback. When its firing is processed, that callback is
  called without an error, unless it was called before by a cancellation, and after the firing it was
  called once. Canceling the timer calls it with the canceled error, unless it was called before. The
  firing of a timer whose start is not in history yet, or that completed already, is an illegal
  transition.
\<close>

theorem timer_reaches_its_callback:
  assumes "env_reachable wd wc0" and "uses_api wd" and "api_steps wc0 wc"
  shows "(\<forall>dur sm g cb t wc1. NewTimer wc dur sm g cb = Inr (Some t, wc1) \<longrightarrow>
      timerIn (wc_commandsHelper wc1) t cb commandStateCreated \<and> wc_calls wc1 = wc_calls wc) \<and>
    (\<forall>t p d. commands (wc_commandsHelper wc) (makeCommandID commandTypeTimer t) = Some p \<longrightarrow>
      machines (wc_commandsHelper wc) p = Some d \<longrightarrow>
      (\<exists>s. m_data d = Some (ScheduledTimer s) \<and>
        (if m_state d \<in> {commandStateInitiated, commandStateCanceledAfterInitiated,
           commandStateCancellationCommandSent}
         then \<exists>wc'. timerEventHandler wc (TimerFired t) = Inr (None, wc') \<and>
           wc_calls wc' = wc_calls wc @
             (if st_handled s then [] else [ResultCall (st_callback s) None None]) \<and>
           resultCount (wc_calls wc') (st_callback s) = 1
         else \<exists>message. timerEventHandler wc (TimerFired t) = Inl (IllegalState message)) \<and>
        (\<forall>wc'. RequestCancelTimer wc t = Inr wc' \<longrightarrow> wc_calls wc' = wc_calls wc @
           (if st_handled s then [] else [ResultCall (st_callback s) None (Some ErrCanceled)]))))"
proof (intro conjI allI impI)
  have ok: "env_ok wc" by (rule ok_api_steps [OF assms(3) ok_reachable [OF assms(1,2)]])
  fix dur sm g cb t wc1 assume "NewTimer wc dur sm g cb = Inr (Some t, wc1)"
  from NewTimer_created [OF this ok]
  show "timerIn (wc_commandsHelper wc1) t cb commandStateCreated" "wc_calls wc1 = wc_calls wc"
    by simp_all
next
  have ok: "env_ok wc" by (rule ok_api_steps [OF assms(3) ok_reachable [OF assms(1,2)]])
  fix t p d
  assume c: "commands (wc_commandsHelper wc) (makeCommandID commandTypeTimer t) = Some p"
    and d: "machines (wc_commandsHelper wc) p = Some d"
  obtain a u where k: "m_id d = makeCommandID commandTypeTimer t" "m_kind d = TimerMachine a u"
    by (rule kind_of_timer [OF ok_wf [OF ok] c]) (simp add: d)
  from ok_typed [OF ok d] k(1) obtain s where s: "m_data d = Some (ScheduledTimer s)"
    by (auto simp: makeCommandID_def)
  have "slots (wc_commandsHelper wc) p = Some (ScheduledTimer s)" using d s by (simp add: slots_def)
  then have "resultCount (wc_calls wc) (st_callback s) = (if st_handled s then 1 else 0)"
    using ok unfolding ok_def ledger_def by fastforce
  with timer_fired [OF c d k s] timer_canceled [OF _ ok c d s] s
  show "\<exists>s. m_data d = Some (ScheduledTimer s) \<and>
      (if m_state d \<in> {commandStateInitiated, commandStateCanceledAfterInitiated,
         commandStateCancellationCommandSent}
       then \<exists>wc'. timerEventHandler wc (TimerFired t) = Inr (None, wc') \<and>
         wc_calls wc' = wc_calls wc @
           (if st_handled s then [] else [ResultCall (st_callback s) None None]) \<and>
         resultCount (wc_calls wc') (st_callback s) = 1
       else \<exists>message. timerEventHandler wc (TimerFired t) = Inl (IllegalState message)) \<and>
      (\<forall>wc'. RequestCancelTimer wc t = Inr wc' \<longrightarrow> wc_calls wc' = wc_calls wc @
         (if st_handled s then [] else [ResultCall (st_callback s) None (Some ErrCanceled)]))"
    by (intro exI [of _ s]) (auto split: if_splits)
qed

section \<open>Callbacks over an execution\<close>

text \<open>
  C7. A result callback is called at most once. Whatever history, messages and local activity results
  an environment processes, and whatever workflow code does with the operations of its environment
  meanwhile, as long as it passes a callback to one operation only, no callback that gets the result
  of a timer, an activity, a child workflow, a cancellation, a signal or a side effect is called
  twice; and a command is marked as handled exactly when its callback was called.
\<close>

theorem result_callback_at_most_once:
  assumes "env_reachable wd wc" and "uses_api wd"
  shows "resultCount (wc_calls wc) cb \<le> 1 \<and>
    (\<forall>q d s. machines (wc_commandsHelper wc) q = Some d \<longrightarrow> m_data d = Some s \<longrightarrow>
       resultHandler s = Some cb \<longrightarrow> (isHandled s \<longleftrightarrow> resultCount (wc_calls wc) cb = 1))"
proof -
  have l: "ledger (slots (wc_commandsHelper wc)) (wc_calls wc)"
    using ok_reachable [OF assms] by (simp add: ok_def)
  have "resultCount (wc_calls wc) cb = (if isHandled s then 1 else 0)"
    if "machines (wc_commandsHelper wc) q = Some d" "m_data d = Some s" "resultHandler s = Some cb"
    for q d s
  proof -
    have "slots (wc_commandsHelper wc) q = Some s" using that by (simp add: slots_def)
    with l that show ?thesis unfolding ledger_def by blast
  qed
  with l show ?thesis unfolding ledger_def by (auto split: if_splits)
qed

text \<open>Workflow code that starts one timer in its first task.\<close>

definition timerCode :: workflowCode where
  "timerCode = idleCode\<lparr>wf_OnWorkflowTaskStarted := (\<lambda>wc.
     if nextPtr (wc_commandsHelper wc) = 0 \<and> wc_calls wc = []
     then bind_res (NewTimer wc 1000 [] [] 7) (\<lambda>(_, wc'). Inr wc') else Inr wc)\<rparr>"

lemma fresh_in_new:
  "env_ok wc \<Longrightarrow> nextPtr (wc_commandsHelper wc) = 0 \<Longrightarrow> wc_calls wc = [] \<Longrightarrow> fresh_in wc cb"
  by (auto simp: ok_def fresh_def slots_def wf_helper_def store_ok_def split: option.splits)

lemma uses_api_timerCode: "uses_api timerCode"
  by (auto simp: uses_api_def timerCode_def idleCode_def res_simps
      intro!: r_into_rtranclp api_step.newTimer fresh_in_new)

text \<open>An execution: events one by one, the commands of the task sent after each.\<close>

fun runEvents :: "workflowCode \<Rightarrow> env \<Rightarrow> historyEvent list \<Rightarrow> env option" where
  "runEvents wd wc [] = Some wc"
| "runEvents wd wc (e # es) =
     (case ProcessEvent wd 0 wc (Some e) False False of
        Returned None wc1 \<Rightarrow>
          (case getCommands (wc_commandsHelper wc1) True of
             Inr (_, h) \<Rightarrow> runEvents wd (wc1\<lparr>wc_commandsHelper := h\<rparr>) es
           | Inl _ \<Rightarrow> None)
      | _ \<Rightarrow> None)"

lemma runEvents_reachable:
  "env_reachable wd wc \<Longrightarrow> runEvents wd wc es = Some wc' \<Longrightarrow> env_reachable wd wc'"
proof (induction es arbitrary: wc)
  case (Cons e es)
  from Cons.prems(2) obtain wc1 cs h where
    p: "ProcessEvent wd 0 wc (Some e) False False = Returned None wc1"
    and g: "getCommands (wc_commandsHelper wc1) True = Inr (cs, h)"
    and r: "runEvents wd (wc1\<lparr>wc_commandsHelper := h\<rparr>) es = Some wc'"
    by (auto split: processResult.splits option.splits sum.splits)
  show ?case using env_reachable.collect [OF env_reachable.event [OF Cons.prems(1) p] g] r
    by (rule Cons.IH)
qed simp

definition eventOf :: "int64 \<Rightarrow> eventAttributes \<Rightarrow> historyEvent" where
  "eventOf i a = \<lparr>ev_EventId = i, ev_EventTime = 0, ev_WorkerMayIgnore = False, ev_Attributes = a\<rparr>"

definition timerRun :: "env option" where
  "timerRun = runEvents timerCode exampleEnv
     [eventOf 1 (WorkflowEvent (WorkflowExecutionStarted None None None None)),
      eventOf 3 (TaskEvent (WorkflowTaskStarted False [] False 0)),
      eventOf 5 (TimerEvent (TimerStarted ''5'')), eventOf 6 (TimerEvent (TimerFired ''5''))]"

theorem result_callback_at_most_once_witness:
  "\<exists>wc. timerRun = Some wc \<and> wc_calls wc = [ResultCall 7 None None] \<and> resultCount (wc_calls wc) 7 \<le> 1"
proof -
  have "case timerRun of Some wc \<Rightarrow> wc_calls wc = [ResultCall 7 None None] | _ \<Rightarrow> False" by code_simp
  then obtain wc where wc: "timerRun = Some wc" "wc_calls wc = [ResultCall 7 None None]"
    by (auto split: option.splits)
  have "env_reachable timerCode wc"
    using wc(1) unfolding timerRun_def exampleEnv_def by (intro runEvents_reachable [OF env_reachable.init])
  from result_callback_at_most_once [OF this uses_api_timerCode, of 7] wc show ?thesis by blast
qed

section \<open>Types of the data of commands\<close>

text \<open>The type assertions that the handlers of a command's events make on its machine and its data.\<close>

definition assertionsHold :: "env \<Rightarrow> commandID \<Rightarrow> ptr \<Rightarrow> bool" where
  "assertionsHold wc i p =
     (case id_commandType i of
        commandTypeActivity \<Rightarrow> \<not> isl (bind_res (getData wc p) asActivity)
      | commandTypeTimer \<Rightarrow> \<not> isl (bind_res (getData wc p) asTimer)
      | commandTypeChildWorkflow \<Rightarrow> \<not> isl (bind_res (getData wc p) asChild) \<and>
          asChildWorkflow (wc_commandsHelper wc) p = Inr p
      | commandTypeCancellation \<Rightarrow> \<not> isl (bind_res (getData wc p) asCancellation)
      | commandTypeSignal \<Rightarrow> \<not> isl (bind_res (getData wc p) asSignal)
      | commandTypeNexusOperation \<Rightarrow> \<not> isl (bind_res (getData wc p) asNexus) \<and>
          \<not> isl (bind_res (deref (wc_commandsHelper wc) p) nexusSeq) \<and>
          nexusCancelation (wc_commandsHelper wc) p \<noteq> Inl TypeAssertion
      | _ \<Rightarrow> getData wc p = Inr None)"

lemma kind_by_type:
  assumes "kind_id k i"
  shows "id_commandType i = commandTypeChildWorkflow \<Longrightarrow> \<exists>a u. k = ChildWorkflowMachine a u"
    and "id_commandType i = commandTypeNexusOperation \<Longrightarrow> \<exists>n e a c u. k = NexusOperationMachine n e a c u"
  using assms by (cases k; auto simp: kind_id_def)+

text \<open>
  C20. Type safety of commands. In every environment that workflow code and events reach, the command
  found under an id has that id, its machine is of the type the id says, and its data is of the type
  that the handlers of its events assert: none of their type assertions panics.
\<close>

theorem commands_are_typed:
  assumes "env_reachable wd wc" and "uses_api wd" and "getCommand (wc_commandsHelper wc) i = Inr p"
  shows "(\<exists>d. deref (wc_commandsHelper wc) p = Inr d \<and> m_id d = i \<and> kind_id (m_kind d) i) \<and>
    assertionsHold wc i p"
proof -
  have ok: "env_ok wc" by (rule ok_reachable [OF assms(1,2)])
  from wf_commandsD [OF ok_wf [OF ok]] assms(3) obtain d where
    d: "machines (wc_commandsHelper wc) p = Some d" "m_id d = i" by auto
  have k: "kind_id (m_kind d) i"
    using kind_id_of_store d ok_wf [OF ok] by (auto simp: wf_helper_def)
  have "dataOk (id_commandType i) (m_data d)" using ok_typed [OF ok d(1)] d(2) by simp
  with kind_by_type [OF k] d have "assertionsHold wc i p"
    by (cases "id_commandType i")
      (auto simp: assertionsHold_def dataOk_def getData_def deref_def asChildWorkflow_def nexusSeq_def
        nexusCancelation_def split: option.splits)
  with d k show ?thesis by (simp add: deref_def)
qed

definition waitingRun :: "env option" where
  "waitingRun = runEvents timerCode exampleEnv
     [eventOf 1 (WorkflowEvent (WorkflowExecutionStarted None None None None)),
      eventOf 3 (TaskEvent (WorkflowTaskStarted False [] False 0)), eventOf 5 (TimerEvent (TimerStarted ''5''))]"

theorem commands_are_typed_witness:
  "\<exists>wc p s. waitingRun = Some wc \<and>
     getCommand (wc_commandsHelper wc) (makeCommandID commandTypeTimer ''5'') = Inr p \<and>
     bind_res (getData wc p) asTimer = Inr s"
proof -
  let ?i = "makeCommandID commandTypeTimer ''5''"
  have "case waitingRun of Some wc \<Rightarrow> \<not> isl (getCommand (wc_commandsHelper wc) ?i) | _ \<Rightarrow> False" by code_simp
  then obtain wc p where wc: "waitingRun = Some wc" "getCommand (wc_commandsHelper wc) ?i = Inr p"
    by (cases waitingRun) (simp, metis option.simps(5) sum.collapse(2))
  have "env_reachable timerCode wc"
    using wc(1) unfolding waitingRun_def exampleEnv_def by (intro runEvents_reachable [OF env_reachable.init])
  from commands_are_typed [OF this uses_api_timerCode wc(2)] have "\<not> isl (bind_res (getData wc p) asTimer)"
    by (simp add: assertionsHold_def makeCommandID_def)
  then show ?thesis using wc by (cases "bind_res (getData wc p) asTimer") auto
qed

theorem timer_reaches_its_callback_witness:
  "\<exists>wc wc'. waitingRun = Some wc \<and> wc_calls wc = [] \<and>
     timerEventHandler wc (TimerFired ''5'') = Inr (None, wc') \<and> wc_calls wc' = [ResultCall 7 None None]"
proof -
  let ?i = "makeCommandID commandTypeTimer ''5''"
  have "case waitingRun of Some wc \<Rightarrow> wc_calls wc = [] \<and>
      commands (wc_commandsHelper wc) ?i = Some 0 \<and>
      (case machines (wc_commandsHelper wc) 0 of None \<Rightarrow> False | Some d \<Rightarrow>
         m_state d = commandStateInitiated \<and> (case m_data d of
           Some (ScheduledTimer s) \<Rightarrow> st_callback s = 7 \<and> \<not> st_handled s | _ \<Rightarrow> False))
    | _ \<Rightarrow> False" by code_simp
  then obtain wc d s where wc: "waitingRun = Some wc" "wc_calls wc = []"
    "commands (wc_commandsHelper wc) ?i = Some 0" "machines (wc_commandsHelper wc) 0 = Some d"
    "m_state d = commandStateInitiated"
    "m_data d = Some (ScheduledTimer s)" "st_callback s = 7" "\<not> st_handled s"
    by (auto split: option.splits scheduled.splits)
  have "env_reachable timerCode wc"
    using wc(1) unfolding waitingRun_def exampleEnv_def by (intro runEvents_reachable [OF env_reachable.init])
  note timer = timer_reaches_its_callback [OF this uses_api_timerCode rtranclp.rtrancl_refl,
    THEN conjunct2, rule_format, OF wc(3,4)]
  from timer wc have "\<exists>wc'. timerEventHandler wc (TimerFired ''5'') = Inr (None, wc') \<and>
      wc_calls wc' = [ResultCall 7 None None]" by auto
  with wc show ?thesis by blast
qed

end
