(* ===== verification/Task_History.thy ===== *)
theory Task_History
  imports Event_Handlers
begin

text \<open>
  The history of a workflow task (\<open>history\<close> of \<open>internal/internal_task_handlers.go\<close>): it loads the
  pages of the history as they are needed, checks that the event ids have no gaps, and cuts the
  events into the workflow tasks they belong to, with the markers, messages and flags that a task
  needs ahead of its events. \<open>eventMsgIndex\<close> (\<open>internal/internal_message.go\<close>) hands out messages by
  the event they were sequenced at.

  The history iterator fetches pages from the service: what the calls of \<open>GetNextPage\<close> still to come
  return is a list, each element a page or an error.
\<close>

section \<open>Data\<close>

record finishedTask =
  ft_isFailed :: bool
  ft_binaryChecksum :: string
  ft_flags :: "sdkFlag list"
  ft_sdkVersion :: string
  ft_sdkName :: string

record preparedTask =
  pt_events :: "historyEvent list"
  pt_markers :: "historyEvent list"
  pt_flags :: "sdkFlag list"
  pt_acceptedMsgs :: "protocolMessage list"
  pt_admittedMsgs :: "protocolMessage list"
  pt_binaryChecksum :: string
  pt_sdkVersion :: string
  pt_sdkName :: string
  pt_buildID :: "string option"

text \<open>
  The slice \<open>next\<close> is nil or has elements, so nil is the empty list. \<open>PreviousStartedEventId\<close> is the
  only other field of the polled task that the history reads.
\<close>

record history =
  hs_PreviousStartedEventId :: int64
  hs_pages :: "(goError + historyEvent list) list"
  hs_loadedEvents :: "historyEvent list"
  hs_currentIndex :: nat
  hs_nextEventID :: int64
  hs_lastEventID :: int64
  hs_lastHandledEventID :: int64
  hs_next :: "historyEvent list"
  hs_nextMessages :: "protocolMessage list"
  hs_nextFlags :: "sdkFlag list"
  hs_binaryChecksum :: string
  hs_sdkVersion :: string
  hs_sdkName :: string

definition emptyFinishedTask :: finishedTask where
  "emptyFinishedTask =
     \<lparr>ft_isFailed = False, ft_binaryChecksum = [], ft_flags = [], ft_sdkVersion = [], ft_sdkName = []\<rparr>"

definition emptyPreparedTask :: preparedTask where
  "emptyPreparedTask =
     \<lparr>pt_events = [], pt_markers = [], pt_flags = [], pt_acceptedMsgs = [], pt_admittedMsgs = [],
      pt_binaryChecksum = [], pt_sdkVersion = [], pt_sdkName = [], pt_buildID = None\<rparr>"

definition newHistory ::
    "int64 \<Rightarrow> int64 \<Rightarrow> int64 \<Rightarrow> historyEvent list \<Rightarrow> (goError + historyEvent list) list \<Rightarrow> history" where
  "newHistory lastHandledEventID previousStartedEventID startedEventID events pages =
     \<lparr>hs_PreviousStartedEventId = previousStartedEventID, hs_pages = pages, hs_loadedEvents = events,
      hs_currentIndex = 0,
      hs_nextEventID = (case events of [] \<Rightarrow> 0 | e # _ \<Rightarrow> ev_EventId e),
      hs_lastEventID = startedEventID, hs_lastHandledEventID = lastHandledEventID, hs_next = [],
      hs_nextMessages = [], hs_nextFlags = [], hs_binaryChecksum = [], hs_sdkVersion = [],
      hs_sdkName = []\<rparr>"

section \<open>Kinds of events\<close>

definition isCommandEvent :: "eventAttributes \<Rightarrow> bool" where
  "isCommandEvent attrs =
     (case attrs of
        NoOperation e \<Rightarrow> (case e of
          WorkflowExecutionCompleted \<Rightarrow> True | WorkflowExecutionFailed \<Rightarrow> True
        | WorkflowExecutionCanceled \<Rightarrow> True | WorkflowExecutionContinuedAsNew \<Rightarrow> True | _ \<Rightarrow> False)
      | ActivityEvent e \<Rightarrow> (case e of
          ActivityTaskScheduled _ _ \<Rightarrow> True | ActivityTaskCancelRequested _ \<Rightarrow> True | _ \<Rightarrow> False)
      | TimerEvent e \<Rightarrow> (case e of TimerStarted _ \<Rightarrow> True | TimerCanceled _ \<Rightarrow> True | _ \<Rightarrow> False)
      | MarkerRecorded _ _ _ \<Rightarrow> True
      | ChildEvent e \<Rightarrow> (case e of StartChildInitiated _ _ \<Rightarrow> True | _ \<Rightarrow> False)
      | ExternalEvent e \<Rightarrow> (case e of
          RequestCancelExternalInitiated _ _ _ \<Rightarrow> True | SignalExternalInitiated _ _ _ _ \<Rightarrow> True
        | _ \<Rightarrow> False)
      | WorkflowEvent e \<Rightarrow> (case e of
          UpsertWorkflowSearchAttributes _ \<Rightarrow> True | WorkflowPropertiesModified _ \<Rightarrow> True | _ \<Rightarrow> False)
      | UpdateEvent e \<Rightarrow> (case e of UpdateAdmitted _ \<Rightarrow> False | _ \<Rightarrow> True)
      | NexusEvent e \<Rightarrow> (case e of
          NexusScheduled _ _ \<Rightarrow> True | NexusCancelRequested _ \<Rightarrow> True | _ \<Rightarrow> False)
      | _ \<Rightarrow> False)"

definition IsReplayEvent :: "history \<Rightarrow> historyEvent \<Rightarrow> bool" where
  "IsReplayEvent h e \<longleftrightarrow>
     sint (ev_EventId e) \<le> sint (hs_PreviousStartedEventId h) \<or> isCommandEvent (ev_Attributes e)"

definition isTaskScheduled :: "eventAttributes \<Rightarrow> bool" where
  "isTaskScheduled attrs \<longleftrightarrow> attrs = NoOperation WorkflowTaskScheduled"

definition isTaskTimedOut :: "eventAttributes \<Rightarrow> bool" where
  "isTaskTimedOut attrs \<longleftrightarrow> attrs = NoOperation WorkflowTaskTimedOut"

definition isTaskFailed :: "eventAttributes \<Rightarrow> bool" where
  "isTaskFailed attrs = (case attrs of TaskEvent (WorkflowTaskFailed _ _) \<Rightarrow> True | _ \<Rightarrow> False)"

definition taskCompletedOf :: "eventAttributes \<Rightarrow> taskCompletedAttributes option" where
  "taskCompletedOf attrs =
     (case attrs of NoOperation (WorkflowTaskCompleted a) \<Rightarrow> Some a | _ \<Rightarrow> None)"

definition isPreloadMarkerEvent :: "historyEvent \<Rightarrow> bool" where
  "isPreloadMarkerEvent e = (case ev_Attributes e of MarkerRecorded _ _ _ \<Rightarrow> True | _ \<Rightarrow> False)"

section \<open>Loading pages\<close>

lemma map_sum_eq_Inr [simp]: "map_sum id f r = Inr y \<longleftrightarrow> (\<exists>x. r = Inr x \<and> y = f x)"
  by (cases r) auto


definition hasMoreEvents :: "history \<Rightarrow> bool" where
  "hasMoreEvents h \<longleftrightarrow> hs_pages h \<noteq> []"

definition loadMoreEvents :: "history \<Rightarrow> goError + history" where
  "loadMoreEvents h =
     (case hs_pages h of
        [] \<Rightarrow> Inr h
      | Inl err # _ \<Rightarrow> Inl err
      | Inr events # pages \<Rightarrow>
          let loaded = hs_loadedEvents h @ events in
          Inr (h\<lparr>hs_pages := pages, hs_loadedEvents := loaded,
             hs_nextEventID := (if hs_nextEventID h = 0 \<and> loaded \<noteq> [] then ev_EventId (hd loaded)
               else hs_nextEventID h)\<rparr>))"

text \<open>Both loops of the code that load pages until the event at an index is there.\<close>

function loadUntil :: "nat \<Rightarrow> history \<Rightarrow> goError + history" where
  "loadUntil n h =
     (if length (hs_loadedEvents h) \<le> n \<and> hasMoreEvents h then
        (case loadMoreEvents h of Inl err \<Rightarrow> Inl err | Inr h1 \<Rightarrow> loadUntil n h1)
      else Inr h)"
  by auto
termination
  by (relation "measure (\<lambda>(n, h). length (hs_pages h))")
    (auto simp: hasMoreEvents_def loadMoreEvents_def Let_def split: list.splits sum.splits)

declare loadUntil.simps [simp del]

section \<open>The end of a workflow task\<close>

text \<open>\<open>sdkFlagFromUint\<close> is the identity on the flag numbers that are read here.\<close>

fun readFlags :: "flagMap \<Rightarrow> uint32 list \<Rightarrow> goError + sdkFlag list" where
  "readFlags allowed [] = Inr []"
| "readFlags allowed (flag # flags) =
     (if \<not> isValid allowed flag then
        Inl (OtherError ''unknownSdkFlagError'' (''unknown SDK flag: '' @ nat_str (unat flag)) None)
      else map_sum id ((#) flag) (readFlags allowed flags))"

definition finishedTaskOf :: "flagMap \<Rightarrow> eventAttributes \<Rightarrow> goError + finishedTask" where
  "finishedTaskOf allowed attrs =
     (case taskCompletedOf attrs of
        None \<Rightarrow> Inr (emptyFinishedTask\<lparr>ft_isFailed := isTaskTimedOut attrs \<or> isTaskFailed attrs\<rparr>)
      | Some a \<Rightarrow>
         (case readFlags allowed (tc_LangUsedFlags a) of
            Inl err \<Rightarrow> Inl err
          | Inr flags \<Rightarrow> Inr \<lparr>ft_isFailed = False, ft_binaryChecksum = tc_BinaryChecksum a,
              ft_flags = flags, ft_sdkVersion = tc_SdkVersion a, ft_sdkName = tc_SdkName a\<rparr>))"

definition isNextWorkflowTaskFailed ::
    "flagMap \<Rightarrow> history \<Rightarrow> goError + (finishedTask \<times> history)" where
  "isNextWorkflowTaskFailed allowed h =
     (let nextIndex = Suc (hs_currentIndex h) in
      case loadUntil nextIndex h of
        Inl err \<Rightarrow> Inl err
      | Inr h1 \<Rightarrow>
          if nextIndex < length (hs_loadedEvents h1) then
            map_sum id (\<lambda>ft. (ft, h1))
              (finishedTaskOf allowed (ev_Attributes (hs_loadedEvents h1 ! nextIndex)))
          else Inr (emptyFinishedTask, h1))"

definition verifyAllEventsProcessed :: "history \<Rightarrow> goError option" where
  "verifyAllEventsProcessed h =
     (if 0 < sint (hs_lastEventID h) \<and> sint (hs_nextEventID h) \<le> sint (hs_lastEventID h)
      then Some (GoError (''history_events: premature end of stream, expectedLastEventID='' @
        formatInt (hs_lastEventID h) @ '' but no more events after eventID='' @
        formatInt (hs_nextEventID h - 1)))
      else None)"

section \<open>Cutting the history into tasks\<close>

text \<open>
  \<open>MustMarshalAny\<close> packs a request into the body of a message; a request that is a nil pointer
  becomes an empty one.
\<close>

definition marshalRequest :: "updateRequest option \<Rightarrow> messageBody" where
  "marshalRequest r = RequestBody
     (case r of Some request \<Rightarrow> request
      | None \<Rightarrow> \<lparr>ur_name = [], ur_updateID = [], ur_args = None, ur_header = None,
                 ur_nexusContext = None\<rparr>)"

definition inferMessageFromAcceptedEvent ::
    "string \<Rightarrow> string \<Rightarrow> int64 \<Rightarrow> updateRequest option \<Rightarrow> protocolMessage" where
  "inferMessageFromAcceptedEvent protocolInstanceID requestMsgID sequencingEventID request =
     \<lparr>msg_Id = requestMsgID, msg_ProtocolInstanceId = protocolInstanceID,
      msg_EventId = sequencingEventID, msg_Body = marshalRequest request\<rparr>"

definition admittedMessage :: "int64 \<Rightarrow> updateRequest option \<Rightarrow> protocolMessage" where
  "admittedMessage eventID request =
     (let updateID = (case request of None \<Rightarrow> [] | Some r \<Rightarrow> ur_updateID r) in
      \<lparr>msg_Id = updateID @ ''/request'', msg_ProtocolInstanceId = updateID, msg_EventId = eventID,
       msg_Body = marshalRequest request\<rparr>)"

text \<open>The part of \<open>strings.SplitN(version, ".", 2)\<close> after the first dot, or nothing.\<close>

definition afterFirstDot :: "string \<Rightarrow> string" where
  "afterFirstDot s = tl (dropWhile (\<lambda>c. c \<noteq> CHR ''.'') s)"

definition buildIDOf :: "taskCompletedAttributes \<Rightarrow> string" where
  "buildIDOf a =
     (let b1 = tc_DeploymentBuildId a;
          b2 = (if b1 = [] then afterFirstDot (tc_WorkerDeploymentVersion a) else b1)
      in if b2 = [] then tc_WorkerVersionBuildId a else b2)"

definition addEvent :: "preparedTask \<Rightarrow> historyEvent \<Rightarrow> preparedTask" where
  "addEvent t e =
     (let t1 = (case ev_Attributes e of
          NoOperation (WorkflowTaskCompleted a) \<Rightarrow> t\<lparr>pt_buildID := Some (buildIDOf a)\<rparr>
        | MarkerRecorded _ _ _ \<Rightarrow> t\<lparr>pt_markers := pt_markers t @ [e]\<rparr>
        | UpdateEvent (UpdateAccepted inst msgID seqID request) \<Rightarrow>
            t\<lparr>pt_acceptedMsgs := pt_acceptedMsgs t @
                [inferMessageFromAcceptedEvent inst msgID seqID request]\<rparr>
        | UpdateEvent (UpdateAdmitted request) \<Rightarrow>
            t\<lparr>pt_admittedMsgs := pt_admittedMsgs t @ [admittedMessage (ev_EventId e) request]\<rparr>
        | _ \<Rightarrow> t)
      in t1\<lparr>pt_events := pt_events t1 @ [e]\<rparr>)"

definition addStartedEvent :: "preparedTask \<Rightarrow> historyEvent \<Rightarrow> finishedTask \<Rightarrow> preparedTask" where
  "addStartedEvent t e ft =
     t\<lparr>pt_events := pt_events t @ [e], pt_flags := pt_flags t @ ft_flags ft,
       pt_sdkName := (if ft_sdkName ft \<noteq> [] then ft_sdkName ft else pt_sdkName t),
       pt_sdkVersion := (if ft_sdkVersion ft \<noteq> [] then ft_sdkVersion ft else pt_sdkVersion t)\<rparr>"

definition advance :: "history \<Rightarrow> history" where
  "advance h = h\<lparr>hs_currentIndex := Suc (hs_currentIndex h)\<rparr>"

definition missingEvents :: "int64 \<Rightarrow> int64 \<Rightarrow> goError" where
  "missingEvents expected received =
     GoError (''missing history events, expectedNextEventID='' @ formatInt expected @
       '' but receivedNextEventID='' @ formatInt received)"

text \<open>The events still to come, in the loaded page and in the pages that are not loaded.\<close>

definition pageEvents :: "(goError + historyEvent list) list \<Rightarrow> historyEvent list" where
  "pageEvents pages = concat (map (case_sum (\<lambda>_. []) id) pages)"

definition remaining :: "history \<Rightarrow> nat" where
  "remaining h =
     length (hs_loadedEvents h) + length (pageEvents (hs_pages h)) - hs_currentIndex h"

lemma loadMoreEvents_keeps:
  "loadMoreEvents h = Inr h1 \<Longrightarrow>
     hs_loadedEvents h1 @ pageEvents (hs_pages h1) = hs_loadedEvents h @ pageEvents (hs_pages h) \<and>
     hs_currentIndex h1 = hs_currentIndex h"
  by (auto simp: loadMoreEvents_def pageEvents_def Let_def split: list.splits sum.splits)

lemma loadUntil_keeps:
  "loadUntil n h = Inr h1 \<Longrightarrow>
     hs_loadedEvents h1 @ pageEvents (hs_pages h1) = hs_loadedEvents h @ pageEvents (hs_pages h) \<and>
     hs_currentIndex h1 = hs_currentIndex h"
proof (induction n h rule: loadUntil.induct)
  case (1 n h)
  then show ?case
    by (auto simp: loadUntil.simps [of n h] dest!: loadMoreEvents_keeps split: if_splits sum.splits)
qed

lemma loadUntil_remaining: "loadUntil n h = Inr h1 \<Longrightarrow> remaining h1 = remaining h"
  using loadUntil_keeps [of n h h1] by (metis length_append remaining_def)

lemma remaining_sel [simp]:
  "remaining (advance h) = remaining h - 1" "remaining (h\<lparr>hs_nextEventID := i\<rparr>) = remaining h"
  "remaining (h\<lparr>hs_lastHandledEventID := i\<rparr>) = remaining h"
  by (simp_all add: remaining_def advance_def)

lemma loadUntil_less:
  "loadUntil n h = Inr h1 \<Longrightarrow> \<not> length (hs_loadedEvents h1) \<le> hs_currentIndex h1 \<Longrightarrow>
     remaining h1 - 1 < remaining h"
  using loadUntil_remaining [of n h h1] by (simp add: remaining_def)

lemma isNextWorkflowTaskFailed_remaining:
  "isNextWorkflowTaskFailed allowed h = Inr (ft, h1) \<Longrightarrow> remaining h1 = remaining h"
  by (auto simp: isNextWorkflowTaskFailed_def Let_def
      dest: loadUntil_remaining loadUntil_keeps split: sum.splits if_splits)

function prepareLoop ::
    "flagMap \<Rightarrow> history \<Rightarrow> preparedTask \<Rightarrow> goError + (preparedTask \<times> history)" where
  "prepareLoop allowed h t =
     (case loadUntil (hs_currentIndex h) h of
        Inl err \<Rightarrow> Inl err
      | Inr h1 \<Rightarrow>
          if length (hs_loadedEvents h1) \<le> hs_currentIndex h1 then
            (case verifyAllEventsProcessed h1 of Some err \<Rightarrow> Inl err | None \<Rightarrow> Inr (t, h1))
          else
            let event = hs_loadedEvents h1 ! hs_currentIndex h1;
                eventID = ev_EventId event;
                h2 = h1\<lparr>hs_nextEventID := hs_nextEventID h1 + 1\<rparr>;
                h3 = h2\<lparr>hs_lastHandledEventID := eventID\<rparr> in
            if eventID \<noteq> hs_nextEventID h1 then Inl (missingEvents (hs_nextEventID h1) eventID)
            else if sint eventID \<le> sint (hs_lastHandledEventID h1) then prepareLoop allowed (advance h2) t
            else if isWorkflowTaskStarted (ev_Attributes event) then
              (case isNextWorkflowTaskFailed allowed h3 of
                 Inl err \<Rightarrow> Inl err
               | Inr (ft, h4) \<Rightarrow>
                   if \<not> ft_isFailed ft then
                     Inr (addStartedEvent t event ft,
                       (advance h4)\<lparr>hs_binaryChecksum := ft_binaryChecksum ft\<rparr>)
                   else prepareLoop allowed (advance h4) t)
            else if isTaskScheduled (ev_Attributes event) \<or> isTaskTimedOut (ev_Attributes event)
            then prepareLoop allowed (advance h3) t
            else prepareLoop allowed (advance h3) (addEvent t event))"
  by auto
termination
  by (relation "measure (\<lambda>(allowed, h, t). remaining h)")
    (auto dest: loadUntil_less dest!: isNextWorkflowTaskFailed_remaining)

declare prepareLoop.simps [simp del]

text \<open>The loaded events that were handled are dropped when the task is complete.\<close>

definition shrink :: "history \<Rightarrow> history" where
  "shrink h = h\<lparr>hs_loadedEvents := drop (hs_currentIndex h) (hs_loadedEvents h), hs_currentIndex := 0\<rparr>"

definition prepareTask :: "flagMap \<Rightarrow> history \<Rightarrow> goError + (preparedTask \<times> history)" where
  "prepareTask allowed h =
     (if hs_currentIndex h = length (hs_loadedEvents h) \<and> \<not> hasMoreEvents h then
        (case verifyAllEventsProcessed h of
           Some err \<Rightarrow> Inl err
         | None \<Rightarrow> Inr (emptyPreparedTask, h))
      else map_sum id (\<lambda>(t, h1). (t, shrink h1)) (prepareLoop allowed h emptyPreparedTask))"

text \<open>What \<open>nextTask\<close> keeps of the task it prepared ahead.\<close>

definition keepNext :: "history \<Rightarrow> preparedTask \<Rightarrow> history" where
  "keepNext h t =
     h\<lparr>hs_next := pt_events t, hs_nextMessages := pt_admittedMsgs t, hs_nextFlags := pt_flags t,
       hs_sdkName := pt_sdkName t, hs_sdkVersion := pt_sdkVersion t\<rparr>"

definition firstTask :: "flagMap \<Rightarrow> history \<Rightarrow> goError + history" where
  "firstTask allowed h =
     (if hs_next h = [] then map_sum id (\<lambda>(t, h1). keepNext h1 t) (prepareTask allowed h) else Inr h)"

definition currentTask :: "history \<Rightarrow> preparedTask" where
  "currentTask h =
     \<lparr>pt_events = hs_next h, pt_markers = [], pt_flags = hs_nextFlags h, pt_acceptedMsgs = [],
      pt_admittedMsgs = hs_nextMessages h, pt_binaryChecksum = hs_binaryChecksum h,
      pt_sdkVersion = hs_sdkVersion h, pt_sdkName = hs_sdkName h, pt_buildID = None\<rparr>"

definition nextTask :: "flagMap \<Rightarrow> history \<Rightarrow> goError + (preparedTask \<times> history)" where
  "nextTask allowed h =
     (case firstTask allowed h of
        Inl err \<Rightarrow> Inl err
      | Inr h1 \<Rightarrow>
          if hs_next h1 = [] then Inr (currentTask h1, h1)
          else
            (case prepareTask allowed h1 of
               Inl err \<Rightarrow> Inl err
             | Inr (t, h2) \<Rightarrow>
                 Inr ((currentTask h1)\<lparr>pt_markers := pt_markers t, pt_acceptedMsgs := pt_acceptedMsgs t,
                        pt_buildID := pt_buildID t\<rparr>, keepNext h2 t)))"

section \<open>Messages by event\<close>

text \<open>
  \<open>takeLTE\<close> moves the messages it keeps to the front of the slice while it runs over it, and cuts the
  slice behind them: the state is the array, the number of kept messages and what it returns.
\<close>

definition takeStep :: "int64 \<Rightarrow> nat \<Rightarrow> protocolMessage list \<times> nat \<times> protocolMessage list
    \<Rightarrow> protocolMessage list \<times> nat \<times> protocolMessage list" where
  "takeStep eventID i s =
     (case s of (emi, n, out) \<Rightarrow>
        if sint eventID < sint (msg_EventId (emi ! i)) then (emi[n := emi ! i], Suc n, out)
        else (emi, n, out @ [emi ! i]))"

definition takeLTE ::
    "protocolMessage list \<Rightarrow> int64 \<Rightarrow> protocolMessage list \<times> protocolMessage list" where
  "takeLTE emi eventID =
     (case fold (takeStep eventID) [0..<length emi] (emi, 0, []) of (emi1, n, out) \<Rightarrow>
        (out, take n emi1))"

end
