(* ===== verification/Replay_Match.thy ===== *)
theory Replay_Match
  imports Task_History
begin

text \<open>
  The check that a replay produced the commands that history records (\<open>matchReplayWithHistory\<close> of
  \<open>internal/internal_task_handlers.go\<close>). Commands and events are compared in order, except for those
  that versions and mutable side effects may add or drop. The getters of protobuf messages return
  zero values when a command has other attributes than its type says, and reading a field of such
  missing attributes panics. The texts of mismatch errors leave out the printed event and command.
\<close>

section \<open>What is not compared\<close>

definition flexibleMarker :: "string \<Rightarrow> bool" where
  "flexibleMarker markerName \<longleftrightarrow>
     markerName = versionMarkerName \<or> markerName = mutableSideEffectMarkerName"

definition GetMarkerName :: "commandAttributes \<Rightarrow> string" where
  "GetMarkerName a = (case a of RecordMarkerCommandAttributes m \<Rightarrow> marker_MarkerName m | _ \<Rightarrow> [])"

definition skipDeterministicCheckForCommand :: "command \<Rightarrow> bool" where
  "skipDeterministicCheckForCommand d \<longleftrightarrow>
     cmd_CommandType d = COMMAND_TYPE_RECORD_MARKER \<and> flexibleMarker (GetMarkerName (cmd_Attributes d))"

definition skipDeterministicCheckForEvent :: "flagMap \<Rightarrow> sdkFlags \<Rightarrow> eventAttributes \<Rightarrow> bool" where
  "skipDeterministicCheckForEvent allowed sf attrs =
     (case attrs of
        MarkerRecorded markerName _ _ \<Rightarrow> flexibleMarker markerName
      | NoOperation e \<Rightarrow> (case e of
          WorkflowExecutionCompleted \<Rightarrow> True | WorkflowExecutionContinuedAsNew \<Rightarrow> True
        | WorkflowExecutionFailed \<Rightarrow> True | WorkflowExecutionCanceled \<Rightarrow> True
        | WorkflowExecutionTimedOut \<Rightarrow> True | _ \<Rightarrow> False)
      | UpdateEvent e \<Rightarrow> (case e of
          UpdateAdmitted _ \<Rightarrow> True
        | _ \<Rightarrow> \<not> fst (tryUse allowed sf SDKFlagProtocolMessageCommand False))
      | _ \<Rightarrow> False)"

text \<open>
  The event at the front and the one behind it: a version marker with the search attribute update
  that goes with it.
\<close>

fun upsertsChangeVersion :: "eventAttributes \<Rightarrow> bool res" where
  "upsertsChangeVersion (WorkflowEvent (UpsertWorkflowSearchAttributes None)) = Inl NilDereference"
| "upsertsChangeVersion (WorkflowEvent (UpsertWorkflowSearchAttributes (Some attrs))) =
     Inr (fmlookup attrs TemporalChangeVersion \<noteq> None)"
| "upsertsChangeVersion _ = Inr False"

definition skipDeterministicCheckForUpsertChangeVersion :: "historyEvent list \<Rightarrow> bool res" where
  "skipDeterministicCheckForUpsertChangeVersion events =
     (case events of
        e # f # _ \<Rightarrow> (case ev_Attributes e of
          MarkerRecorded markerName _ _ \<Rightarrow>
            if markerName = versionMarkerName then upsertsChangeVersion (ev_Attributes f) else Inr False
        | _ \<Rightarrow> Inr False)
      | _ \<Rightarrow> Inr False)"

section \<open>Comparing a command with an event\<close>

definition lastPartOfName :: "string \<Rightarrow> string" where
  "lastPartOfName name =
     (let part = rev (takeWhile (\<lambda>c. c \<noteq> CHR ''.'') (rev name)) in
      if CHR ''.'' \<notin> set name \<or> part = [] then name else part)"

definition ReplayNamespace :: string where "ReplayNamespace = ''ReplayNamespace''"

definition IsReplayNamespace :: "string \<Rightarrow> bool" where
  "IsReplayNamespace dn \<longleftrightarrow> ReplayNamespace = dn"

definition checkNamespacesInCommandAndEvent :: "string \<Rightarrow> string \<Rightarrow> bool" where
  "checkNamespacesInCommandAndEvent eventNamespace commandNamespace \<longleftrightarrow>
     \<not> (commandNamespace = [] \<or> IsReplayNamespace commandNamespace) \<and>
     eventNamespace \<noteq> commandNamespace"

definition matchProtocolMessage :: "commandAttributes \<Rightarrow> eventAttributes \<Rightarrow> outboxEntry list \<Rightarrow> bool" where
  "matchProtocolMessage a e obes =
     (let msgid = (case a of ProtocolMessageCommandAttributes i \<Rightarrow> i | _ \<Rightarrow> []) in
      case List.find (\<lambda>entry. msg_Id (oe_msg entry) = msgid) obes of
        None \<Rightarrow> False
      | Some entry \<Rightarrow> checkEvent (oe_eventPredicate entry) e)"

definition matchScheduleActivity :: "commandAttributes \<Rightarrow> eventAttributes \<Rightarrow> bool res" where
  "matchScheduleActivity a e =
     (case e of
        ActivityEvent (ActivityTaskScheduled activityID activityType) \<Rightarrow>
          (case a of
             ScheduleActivityTaskCommandAttributes c \<Rightarrow> Inr (activityID = act_ActivityId c \<and>
               lastPartOfName activityType = lastPartOfName (act_ActivityType c))
           | _ \<Rightarrow> if activityID \<noteq> [] then Inr False else Inl NilDereference)
      | _ \<Rightarrow> Inr False)"

definition matchRequestCancelActivity :: "commandAttributes \<Rightarrow> eventAttributes \<Rightarrow> bool" where
  "matchRequestCancelActivity a e =
     (case e of
        ActivityEvent (ActivityTaskCancelRequested scheduledEventID) \<Rightarrow> scheduledEventID =
          (case a of RequestCancelActivityTaskCommandAttributes i \<Rightarrow> i | _ \<Rightarrow> 0)
      | _ \<Rightarrow> False)"

definition matchStartTimer :: "commandAttributes \<Rightarrow> eventAttributes \<Rightarrow> bool" where
  "matchStartTimer a e =
     (case e of
        TimerEvent (TimerStarted timerID) \<Rightarrow> timerID =
          (case a of StartTimerCommandAttributes c \<Rightarrow> timer_TimerId c | _ \<Rightarrow> [])
      | _ \<Rightarrow> False)"

definition matchCancelTimer :: "commandAttributes \<Rightarrow> eventAttributes \<Rightarrow> bool" where
  "matchCancelTimer a e =
     (case e of
        TimerEvent (TimerCanceled timerID) \<Rightarrow> timerID =
          (case a of CancelTimerCommandAttributes i \<Rightarrow> i | _ \<Rightarrow> [])
      | _ \<Rightarrow> False)"

definition matchRecordMarker :: "commandAttributes \<Rightarrow> eventAttributes \<Rightarrow> bool" where
  "matchRecordMarker a e =
     (case e of MarkerRecorded markerName _ _ \<Rightarrow> markerName = GetMarkerName a | _ \<Rightarrow> False)"

definition matchRequestCancelExternal :: "commandAttributes \<Rightarrow> eventAttributes \<Rightarrow> bool" where
  "matchRequestCancelExternal a e =
     (case e of
        ExternalEvent (RequestCancelExternalInitiated namespace workflowID _) \<Rightarrow>
          (let (ns, w) = (case a of
             RequestCancelExternalWorkflowExecutionCommandAttributes c \<Rightarrow>
               (rce_Namespace c, rce_WorkflowId c)
           | _ \<Rightarrow> ([], [])) in
           \<not> checkNamespacesInCommandAndEvent namespace ns \<and> workflowID = w)
      | _ \<Rightarrow> False)"

definition matchSignalExternal :: "commandAttributes \<Rightarrow> eventAttributes \<Rightarrow> bool res" where
  "matchSignalExternal a e =
     (case e of
        ExternalEvent (SignalExternalInitiated namespace workflowID signalName _) \<Rightarrow>
          (case a of
             SignalExternalWorkflowExecutionCommandAttributes c \<Rightarrow>
               Inr (\<not> checkNamespacesInCommandAndEvent namespace (sig_Namespace c) \<and>
                 signalName = sig_SignalName c \<and> workflowID = sig_WorkflowId c)
           | _ \<Rightarrow> if signalName \<noteq> [] then Inr False else Inl NilDereference)
      | _ \<Rightarrow> Inr False)"

definition matchStartChild :: "commandAttributes \<Rightarrow> eventAttributes \<Rightarrow> bool res" where
  "matchStartChild a e =
     (case e of
        ChildEvent (StartChildInitiated _ workflowType) \<Rightarrow>
          (case a of
             StartChildWorkflowExecutionCommandAttributes c \<Rightarrow>
               Inr (lastPartOfName workflowType = lastPartOfName (child_WorkflowType c))
           | _ \<Rightarrow> Inl NilDereference)
      | _ \<Rightarrow> Inr False)"

definition matchScheduleNexus :: "commandAttributes \<Rightarrow> eventAttributes \<Rightarrow> bool" where
  "matchScheduleNexus a e =
     (case e of
        NexusEvent (NexusScheduled service operation) \<Rightarrow>
          (case a of
             ScheduleNexusOperationCommandAttributes c \<Rightarrow>
               service = nexus_Service c \<and> operation = nexus_Operation c
           | _ \<Rightarrow> service = [] \<and> operation = [])
      | _ \<Rightarrow> False)"

definition matchRequestCancelNexus :: "commandAttributes \<Rightarrow> eventAttributes \<Rightarrow> bool" where
  "matchRequestCancelNexus a e =
     (case e of
        NexusEvent (NexusCancelRequested scheduledEventID) \<Rightarrow> scheduledEventID =
          (case a of RequestCancelNexusOperationCommandAttributes i \<Rightarrow> i | _ \<Rightarrow> 0)
      | _ \<Rightarrow> False)"

definition isCommandMatchEvent :: "command \<Rightarrow> historyEvent \<Rightarrow> outboxEntry list \<Rightarrow> bool res" where
  "isCommandMatchEvent d event obes =
     (let a = cmd_Attributes d; e = ev_Attributes event in
      case cmd_CommandType d of
        COMMAND_TYPE_PROTOCOL_MESSAGE \<Rightarrow> Inr (matchProtocolMessage a e obes)
      | COMMAND_TYPE_SCHEDULE_ACTIVITY_TASK \<Rightarrow> matchScheduleActivity a e
      | COMMAND_TYPE_REQUEST_CANCEL_ACTIVITY_TASK \<Rightarrow> Inr (matchRequestCancelActivity a e)
      | COMMAND_TYPE_START_TIMER \<Rightarrow> Inr (matchStartTimer a e)
      | COMMAND_TYPE_CANCEL_TIMER \<Rightarrow> Inr (matchCancelTimer a e)
      | COMMAND_TYPE_COMPLETE_WORKFLOW_EXECUTION \<Rightarrow> Inr (e = NoOperation WorkflowExecutionCompleted)
      | COMMAND_TYPE_FAIL_WORKFLOW_EXECUTION \<Rightarrow> Inr (e = NoOperation WorkflowExecutionFailed)
      | COMMAND_TYPE_RECORD_MARKER \<Rightarrow> Inr (matchRecordMarker a e)
      | COMMAND_TYPE_REQUEST_CANCEL_EXTERNAL_WORKFLOW_EXECUTION \<Rightarrow> Inr (matchRequestCancelExternal a e)
      | COMMAND_TYPE_SIGNAL_EXTERNAL_WORKFLOW_EXECUTION \<Rightarrow> matchSignalExternal a e
      | COMMAND_TYPE_CANCEL_WORKFLOW_EXECUTION \<Rightarrow> Inr (e = NoOperation WorkflowExecutionCanceled)
      | COMMAND_TYPE_CONTINUE_AS_NEW_WORKFLOW_EXECUTION \<Rightarrow>
          Inr (e = NoOperation WorkflowExecutionContinuedAsNew)
      | COMMAND_TYPE_START_CHILD_WORKFLOW_EXECUTION \<Rightarrow> matchStartChild a e
      | COMMAND_TYPE_UPSERT_WORKFLOW_SEARCH_ATTRIBUTES \<Rightarrow>
          Inr (case e of WorkflowEvent (UpsertWorkflowSearchAttributes _) \<Rightarrow> True | _ \<Rightarrow> False)
      | COMMAND_TYPE_MODIFY_WORKFLOW_PROPERTIES \<Rightarrow>
          Inr (case e of WorkflowEvent (WorkflowPropertiesModified _) \<Rightarrow> True | _ \<Rightarrow> False)
      | COMMAND_TYPE_SCHEDULE_NEXUS_OPERATION \<Rightarrow> Inr (matchScheduleNexus a e)
      | COMMAND_TYPE_REQUEST_CANCEL_NEXUS_OPERATION \<Rightarrow> Inr (matchRequestCancelNexus a e))"

section \<open>Comparing commands with history\<close>

definition historyMismatchError :: "string \<Rightarrow> goError" where
  "historyMismatchError s = OtherError ''historyMismatchError'' s None"

definition missingCommand :: goError where
  "missingCommand = historyMismatchError ''[TMPRL1100] nondeterministic workflow: missing replay command''"

definition extraCommand :: goError where
  "extraCommand = historyMismatchError ''[TMPRL1100] nondeterministic workflow: extra replay command''"

definition differentCommand :: goError where
  "differentCommand =
     historyMismatchError ''[TMPRL1100] nondeterministic workflow: history event is not the replay command''"

text \<open>The loop, on the events and the commands that are still to be compared.\<close>

function matchLoop :: "flagMap \<Rightarrow> sdkFlags \<Rightarrow> outboxEntry list \<Rightarrow> command list \<Rightarrow> historyEvent list
    \<Rightarrow> goError option res" where
  "matchLoop allowed sf msgs [] [] = Inr None"
| "matchLoop allowed sf msgs ds (e # es) =
     bind_res (skipDeterministicCheckForUpsertChangeVersion (e # es)) (\<lambda>upsert.
     if upsert then matchLoop allowed sf msgs ds (tl es)
     else if skipDeterministicCheckForEvent allowed sf (ev_Attributes e)
     then matchLoop allowed sf msgs ds es
     else
       (case ds of
          [] \<Rightarrow> Inr (Some missingCommand)
        | d # ds1 \<Rightarrow>
            if skipDeterministicCheckForCommand d then matchLoop allowed sf msgs ds1 (e # es)
            else bind_res (isCommandMatchEvent d e msgs) (\<lambda>matches.
              if matches then matchLoop allowed sf msgs ds1 es else Inr (Some differentCommand))))"
| "matchLoop allowed sf msgs (d # ds) [] =
     (if skipDeterministicCheckForCommand d then matchLoop allowed sf msgs ds []
      else Inr (Some extraCommand))"
  by pat_completeness auto
termination
  by (relation "measure (\<lambda>(allowed, sf, msgs, ds, es). length ds + length es)") auto

definition matchReplayWithHistory ::
    "flagMap \<Rightarrow> command list \<Rightarrow> historyEvent list \<Rightarrow> outboxEntry list \<Rightarrow> sdkFlags
      \<Rightarrow> goError option res" where
  "matchReplayWithHistory allowed replayCommands historyEvents msgs sf =
     matchLoop allowed sf msgs replayCommands historyEvents"

end
