(* ===== verification/History_Pages.thy ===== *)
theory History_Pages
  imports Task_History
begin

text \<open>
  How the history of a workflow task reads its pages: a history is described by the events still to
  come in one list, and preparing a task depends on nothing else. So it does not matter where the
  service cuts the history into pages.
\<close>

section \<open>Pages\<close>

definition flat :: "history \<Rightarrow> historyEvent list" where
  "flat h = drop (hs_currentIndex h) (hs_loadedEvents h) @ pageEvents (hs_pages h)"

definition nextID :: "history \<Rightarrow> int64" where
  "nextID h = (if hs_nextEventID h = 0 \<and> flat h \<noteq> [] then ev_EventId (hd (flat h)) else hs_nextEventID h)"

definition noWrap :: "int64 \<Rightarrow> nat \<Rightarrow> bool" where
  "noWrap n k \<longleftrightarrow> (\<forall>i. 0 < i \<and> i \<le> k \<longrightarrow> n + of_nat i \<noteq> 0)"

definition readable :: "history \<Rightarrow> bool" where
  "readable h \<longleftrightarrow> hs_currentIndex h \<le> length (hs_loadedEvents h) \<and>
     (\<forall>p \<in> set (hs_pages h). \<not> isl p) \<and>
     (hs_nextEventID h = 0 \<longrightarrow> hs_loadedEvents h = []) \<and>
     (flat h \<noteq> [] \<longrightarrow> nextID h \<noteq> 0)"

lemma pageEvents_simps [simp]:
  "pageEvents [] = []" "pageEvents (Inr es # ps) = es @ pageEvents ps"
  by (simp_all add: pageEvents_def)

text \<open>The fields that preparing a task does not change.\<close>

definition kept :: "history \<Rightarrow> int64 \<times> int64 \<times> historyEvent list \<times> protocolMessage list \<times> sdkFlag list
    \<times> string \<times> string" where
  "kept h = (hs_PreviousStartedEventId h, hs_lastEventID h, hs_next h, hs_nextMessages h,
     hs_nextFlags h, hs_sdkVersion h, hs_sdkName h)"

text \<open>A history after some of its pages were loaded.\<close>

definition loadedFrom :: "history \<Rightarrow> history \<Rightarrow> bool" where
  "loadedFrom h h1 \<longleftrightarrow> readable h1 \<and> flat h1 = flat h \<and> nextID h1 = nextID h \<and>
     length (hs_loadedEvents h) \<le> length (hs_loadedEvents h1) \<and>
     hs_currentIndex h1 = hs_currentIndex h \<and> hs_lastHandledEventID h1 = hs_lastHandledEventID h \<and>
     hs_binaryChecksum h1 = hs_binaryChecksum h \<and> kept h1 = kept h"

lemma loadedFrom_refl: "readable h \<Longrightarrow> loadedFrom h h"
  by (simp add: loadedFrom_def)

lemma loadedFrom_trans: "loadedFrom h h1 \<Longrightarrow> loadedFrom h1 h2 \<Longrightarrow> loadedFrom h h2"
  by (simp add: loadedFrom_def)

lemma loadedFrom_readable: "loadedFrom h h1 \<Longrightarrow> readable h1"
  by (simp add: loadedFrom_def)

lemma loadMoreEvents_loads:
  assumes "readable h" and "hasMoreEvents h"
  shows "\<exists>h1. loadMoreEvents h = Inr h1 \<and> loadedFrom h h1"
proof -
  from assms obtain es ps where ps: "hs_pages h = Inr es # ps"
    by (cases "hs_pages h"; cases "hd (hs_pages h)") (auto simp: readable_def hasMoreEvents_def)
  define n where "n = (if hs_nextEventID h = 0 \<and> hs_loadedEvents h @ es \<noteq> []
    then ev_EventId (hd (hs_loadedEvents h @ es)) else hs_nextEventID h)"
  define h1 where "h1 = h\<lparr>hs_pages := ps, hs_loadedEvents := hs_loadedEvents h @ es, hs_nextEventID := n\<rparr>"
  have f: "flat h1 = flat h" using assms(1) ps by (simp add: flat_def readable_def h1_def)
  have n: "nextID h1 = nextID h \<and> (n = 0 \<longrightarrow> hs_loadedEvents h @ es = [])"
  proof (cases "hs_nextEventID h = 0 \<and> hs_loadedEvents h @ es \<noteq> []")
    case True
    then have l: "hs_loadedEvents h = []" "hs_currentIndex h = 0" "es \<noteq> []" using assms(1)
      by (auto simp: readable_def)
    with ps True have "nextID h = n" "flat h \<noteq> []" by (auto simp: nextID_def flat_def n_def)
    moreover from this have "n \<noteq> 0" using assms(1) by (auto simp: readable_def)
    ultimately show ?thesis by (simp add: nextID_def h1_def)
  next
    case False
    then have n: "n = hs_nextEventID h" by (auto simp: n_def)
    then have "nextID h1 = nextID h" unfolding nextID_def f by (simp add: h1_def)
    with n False show ?thesis by auto
  qed
  then have "readable h1" using assms(1) ps f by (auto simp: readable_def) (auto simp: h1_def)
  moreover have "loadMoreEvents h = Inr h1"
    using ps unfolding h1_def n_def by (simp add: loadMoreEvents_def Let_def)
  moreover have "loadedFrom h h1"
    using n f calculation(1) unfolding loadedFrom_def by (simp add: h1_def kept_def)
  ultimately show ?thesis by blast
qed

lemma loadUntil_loads:
  "readable h \<Longrightarrow> \<exists>h1. loadUntil k h = Inr h1 \<and> loadedFrom h h1 \<and>
     (k < length (hs_loadedEvents h1) \<or> hs_pages h1 = [])"
proof (induction k h rule: loadUntil.induct)
  case (1 k h)
  show ?case
  proof (cases "length (hs_loadedEvents h) \<le> k \<and> hasMoreEvents h")
    case True
    then obtain h1 where l: "loadMoreEvents h = Inr h1" "loadedFrom h h1"
      using loadMoreEvents_loads [OF "1.prems"] by blast
    from "1.IH" [OF True l(1) loadedFrom_readable [OF l(2)]] obtain h2 where
        h2: "loadUntil k h1 = Inr h2" "loadedFrom h1 h2"
        "k < length (hs_loadedEvents h2) \<or> hs_pages h2 = []" by blast
    from True l(1) h2(1) have "loadUntil k h = Inr h2" by (simp add: loadUntil.simps [of k h])
    with h2(3) loadedFrom_trans [OF l(2) h2(2)] show ?thesis by blast
  next
    case False
    then have "loadUntil k h = Inr h" by (auto simp: loadUntil.simps [of k h])
    with False loadedFrom_refl [OF "1.prems"] show ?thesis by (auto simp: hasMoreEvents_def)
  qed
qed

section \<open>The events as one list\<close>

definition finishedBy :: "flagMap \<Rightarrow> historyEvent list \<Rightarrow> goError + finishedTask" where
  "finishedBy allowed es =
     (case es of [] \<Rightarrow> Inr emptyFinishedTask | e # _ \<Rightarrow> finishedTaskOf allowed (ev_Attributes e))"

lemma isNextWorkflowTaskFailed_loads:
  assumes "readable h" and f: "flat h = e # es"
  shows "\<exists>h1. loadedFrom h h1 \<and>
    isNextWorkflowTaskFailed allowed h = map_sum id (\<lambda>ft. (ft, h1)) (finishedBy allowed es)"
proof -
  let ?i = "hs_currentIndex h"
  obtain h1 where l: "loadUntil (Suc ?i) h = Inr h1" and h1: "loadedFrom h h1"
    and more: "Suc ?i < length (hs_loadedEvents h1) \<or> hs_pages h1 = []"
    using loadUntil_loads [OF assms(1)] by blast
  have fl: "drop ?i (hs_loadedEvents h1) @ pageEvents (hs_pages h1) = e # es"
    using h1 f by (auto simp: loadedFrom_def flat_def)
  show ?thesis
  proof (cases "Suc ?i < length (hs_loadedEvents h1)")
    case True
    then have "drop ?i (hs_loadedEvents h1) = hs_loadedEvents h1 ! ?i # hs_loadedEvents h1 ! Suc ?i #
        drop (Suc (Suc ?i)) (hs_loadedEvents h1)"
      by (simp add: Cons_nth_drop_Suc)
    with fl obtain fs where "es = hs_loadedEvents h1 ! Suc ?i # fs" by auto
    then have "finishedBy allowed es = finishedTaskOf allowed (ev_Attributes (hs_loadedEvents h1 ! Suc ?i))"
      by (simp add: finishedBy_def)
    with True l h1 show ?thesis by (auto simp: isNextWorkflowTaskFailed_def)
  next
    case False
    with more fl have "drop ?i (hs_loadedEvents h1) = e # es" by simp
    then have "length (e # es) = length (hs_loadedEvents h1) - ?i" by (metis length_drop)
    with False have "length es = 0" by (simp del: length_0_conv)
    then have "es = []" by simp
    with False l h1 show ?thesis by (auto simp: isNextWorkflowTaskFailed_def finishedBy_def)
  qed
qed

fun cutTask :: "flagMap \<Rightarrow> history \<Rightarrow> int64 \<Rightarrow> int64 \<Rightarrow> string \<Rightarrow> preparedTask \<Rightarrow> historyEvent list
    \<Rightarrow> goError + (preparedTask \<times> int64 \<times> int64 \<times> string \<times> historyEvent list)" where
  "cutTask allowed h n l c t [] =
     (case verifyAllEventsProcessed (h\<lparr>hs_nextEventID := n\<rparr>) of
        Some err \<Rightarrow> Inl err | None \<Rightarrow> Inr (t, n, l, c, []))"
| "cutTask allowed h n l c t (e # es) =
     (if ev_EventId e \<noteq> n then Inl (missingEvents n (ev_EventId e))
      else if sint n \<le> sint l then cutTask allowed h (n + 1) l c t es
      else if isWorkflowTaskStarted (ev_Attributes e) then
        (case finishedBy allowed es of
           Inl err \<Rightarrow> Inl err
         | Inr ft \<Rightarrow>
             if \<not> ft_isFailed ft
             then Inr (addStartedEvent t e ft, n + 1, n, ft_binaryChecksum ft, es)
             else cutTask allowed h (n + 1) n c t es)
      else if isTaskScheduled (ev_Attributes e) \<or> isTaskTimedOut (ev_Attributes e)
      then cutTask allowed h (n + 1) n c t es
      else cutTask allowed h (n + 1) n c (addEvent t e) es)"

lemma cutTask_last:
  "hs_lastEventID h = hs_lastEventID h' \<Longrightarrow> cutTask allowed h n l c t es = cutTask allowed h' n l c t es"
  by (induction es arbitrary: n l c t) (auto simp: verifyAllEventsProcessed_def split: sum.split)

text \<open>What a history says about the events to come.\<close>

definition at :: "history \<Rightarrow> int64 \<Rightarrow> int64 \<Rightarrow> string \<Rightarrow> historyEvent list \<Rightarrow> bool" where
  "at h n l c es \<longleftrightarrow> readable h \<and> flat h = es \<and> nextID h = n \<and> hs_lastHandledEventID h = l \<and>
     hs_binaryChecksum h = c"

lemma at_advance:
  assumes h: "at h n l c (e # es)" and i: "hs_currentIndex h < length (hs_loadedEvents h)"
    and n: "n + 1 \<noteq> 0"
  shows "hs_loadedEvents h ! hs_currentIndex h = e" "hs_nextEventID h = n"
    "at (advance (h\<lparr>hs_nextEventID := n + 1\<rparr>)) (n + 1) l c es"
    "at (advance (h\<lparr>hs_nextEventID := n + 1, hs_lastHandledEventID := l'\<rparr>)) (n + 1) l' c es"
    "at (h\<lparr>hs_nextEventID := n + 1, hs_lastHandledEventID := l'\<rparr>) (n + 1) l' c (e # es)"
proof -
  from i have d: "drop (hs_currentIndex h) (hs_loadedEvents h) =
      hs_loadedEvents h ! hs_currentIndex h # drop (Suc (hs_currentIndex h)) (hs_loadedEvents h)"
    by (simp add: Cons_nth_drop_Suc)
  with h show e: "hs_loadedEvents h ! hs_currentIndex h = e" by (simp add: at_def flat_def)
  from h i show n': "hs_nextEventID h = n" by (auto simp: at_def readable_def nextID_def)
  show "at (advance (h\<lparr>hs_nextEventID := n + 1\<rparr>)) (n + 1) l c es"
    "at (advance (h\<lparr>hs_nextEventID := n + 1, hs_lastHandledEventID := l'\<rparr>)) (n + 1) l' c es"
    "at (h\<lparr>hs_nextEventID := n + 1, hs_lastHandledEventID := l'\<rparr>) (n + 1) l' c (e # es)"
    using h d i n by (auto simp: at_def readable_def flat_def nextID_def advance_def)
qed

lemma checksum_sel [simp]:
  "flat (h\<lparr>hs_binaryChecksum := b\<rparr>) = flat h" "nextID (h\<lparr>hs_binaryChecksum := b\<rparr>) = nextID h"
  "readable (h\<lparr>hs_binaryChecksum := b\<rparr>) = readable h" "kept (h\<lparr>hs_binaryChecksum := b\<rparr>) = kept h"
proof -
  show f: "flat (h\<lparr>hs_binaryChecksum := b\<rparr>) = flat h" by (simp add: flat_def)
  show n: "nextID (h\<lparr>hs_binaryChecksum := b\<rparr>) = nextID h" unfolding nextID_def f by simp
  show "readable (h\<lparr>hs_binaryChecksum := b\<rparr>) = readable h" unfolding readable_def f n by simp
qed (simp add: kept_def)

lemma at_skip:
  assumes h: "at h n l c (e # es)" and i: "hs_currentIndex h < length (hs_loadedEvents h)"
  shows "at (advance h) n l c es"
proof -
  from i have d: "drop (hs_currentIndex h) (hs_loadedEvents h) =
      hs_loadedEvents h ! hs_currentIndex h # drop (Suc (hs_currentIndex h)) (hs_loadedEvents h)"
    by (simp add: Cons_nth_drop_Suc)
  with h i show ?thesis by (auto simp: at_def readable_def flat_def nextID_def advance_def)
qed

lemma at_loaded:
  "at h n l c es \<Longrightarrow> loadedFrom h h1 \<Longrightarrow> at h1 n l c es \<and> kept h1 = kept h"
  by (auto simp: at_def loadedFrom_def)

lemma noWrap_Suc: "noWrap n (Suc k) \<Longrightarrow> n + 1 \<noteq> 0 \<and> noWrap (n + 1) k"
proof -
  assume n: "noWrap n (Suc k)"
  have "n + 1 + of_nat i \<noteq> 0" if "i \<le> k" for i
    using n [unfolded noWrap_def, rule_format, of "Suc i"] that by (simp add: add.assoc)
  from this [of 0] this show ?thesis by (simp add: noWrap_def)
qed

text \<open>What preparing a task returns, by the events of all pages in one list.\<close>

definition preparesAs :: "history \<Rightarrow> goError + (preparedTask \<times> history)
    \<Rightarrow> goError + (preparedTask \<times> int64 \<times> int64 \<times> string \<times> historyEvent list) \<Rightarrow> bool" where
  "preparesAs h r s =
     (case s of
        Inl err \<Rightarrow> r = Inl err
      | Inr (t, n, l, c, es) \<Rightarrow> \<exists>h'. r = Inr (t, h') \<and> at h' n l c es \<and> kept h' = kept h)"

lemma preparesAs_kept: "kept h = kept h1 \<Longrightarrow> preparesAs h r s = preparesAs h1 r s"
  by (auto simp: preparesAs_def split: sum.split)

lemma preparesAs_intros:
  "preparesAs h (Inl err) (Inl err)"
  "at h' n l c es \<Longrightarrow> kept h' = kept h \<Longrightarrow> preparesAs h (Inr (t, h')) (Inr (t, n, l, c, es))"
  by (auto simp: preparesAs_def)

lemma prepareLoop_cut:
  "at h n l c es \<Longrightarrow> noWrap n (length es) \<Longrightarrow>
     preparesAs h (prepareLoop allowed h t) (cutTask allowed h n l c t es)"
proof (induction es arbitrary: h n l c t)
  case Nil
  obtain h1 where l: "loadUntil (hs_currentIndex h) h = Inr h1" and h1: "loadedFrom h h1"
    using loadUntil_loads Nil.prems(1) unfolding at_def by blast
  from at_loaded [OF Nil.prems(1) h1] have a: "at h1 n l c []" "kept h1 = kept h" by auto
  then have e: "length (hs_loadedEvents h1) \<le> hs_currentIndex h1" "hs_nextEventID h1 = n"
    "hs_lastEventID h1 = hs_lastEventID h"
    by (auto simp: at_def flat_def nextID_def kept_def)
  then have "verifyAllEventsProcessed h1 = verifyAllEventsProcessed (h\<lparr>hs_nextEventID := n\<rparr>)"
    by (simp add: verifyAllEventsProcessed_def)
  with l e a show ?case
    by (auto simp: prepareLoop.simps [of allowed h t] preparesAs_def split: option.split)
next
  case (Cons e es)
  obtain h1 where l: "loadUntil (hs_currentIndex h) h = Inr h1" and h1: "loadedFrom h h1"
    and more: "hs_currentIndex h < length (hs_loadedEvents h1) \<or> hs_pages h1 = []"
    using loadUntil_loads Cons.prems(1) unfolding at_def by blast
  from at_loaded [OF Cons.prems(1) h1] have a: "at h1 n l c (e # es)" and kh: "kept h1 = kept h" by auto
  have i: "hs_currentIndex h1 < length (hs_loadedEvents h1)"
  proof -
    have "hs_pages h1 = [] \<Longrightarrow> drop (hs_currentIndex h1) (hs_loadedEvents h1) = e # es"
      using a by (simp add: at_def flat_def)
    then show ?thesis using more h1 by (metis drop_all linorder_not_le list.distinct(1) loadedFrom_def)
  qed
  from Cons.prems(2) have w: "n + 1 \<noteq> 0" "noWrap (n + 1) (length es)" using noWrap_Suc by auto
  note adv = at_advance [OF a i w(1)]
  let ?h2 = "advance (h1\<lparr>hs_nextEventID := n + 1\<rparr>)"
  let ?h3 = "h1\<lparr>hs_nextEventID := n + 1, hs_lastHandledEventID := n\<rparr>"
  have k: "kept ?h2 = kept h" "kept ?h3 = kept h" "kept (advance ?h3) = kept h"
    using kh by (simp_all add: kept_def advance_def)
  have ih: "preparesAs h (prepareLoop allowed h' t) (cutTask allowed h (n + 1) l c t es)"
    if "at h' (n + 1) l c es" "kept h' = kept h" for h' l c t
    using Cons.IH [OF that(1) w(2), of t] that(2) cutTask_last [of h h'] preparesAs_kept [of h h']
    by (simp add: kept_def)
  have loop: "prepareLoop allowed h t =
      (if ev_EventId e \<noteq> n then Inl (missingEvents n (ev_EventId e))
       else if sint n \<le> sint l then prepareLoop allowed ?h2 t
       else if isWorkflowTaskStarted (ev_Attributes e) then
         (case isNextWorkflowTaskFailed allowed ?h3 of
            Inl err \<Rightarrow> Inl err
          | Inr (ft, h4) \<Rightarrow>
              if \<not> ft_isFailed ft then
                Inr (addStartedEvent t e ft, (advance h4)\<lparr>hs_binaryChecksum := ft_binaryChecksum ft\<rparr>)
              else prepareLoop allowed (advance h4) t)
       else if isTaskScheduled (ev_Attributes e) \<or> isTaskTimedOut (ev_Attributes e)
       then prepareLoop allowed (advance ?h3) t
       else prepareLoop allowed (advance ?h3) (addEvent t e))"
    using l i adv(1,2) a by (simp add: prepareLoop.simps [of allowed h t] Let_def at_def)
  obtain h4 where h4: "loadedFrom ?h3 h4"
    and next4: "isNextWorkflowTaskFailed allowed ?h3 = map_sum id (\<lambda>ft. (ft, h4)) (finishedBy allowed es)"
    using isNextWorkflowTaskFailed_loads [of ?h3 e es allowed] adv(5) by (auto simp: at_def)
  have "hs_currentIndex h4 < length (hs_loadedEvents h4)" using h4 i by (simp add: loadedFrom_def)
  then have a4: "at (advance h4) (n + 1) n c es" "kept (advance h4) = kept h"
    using at_skip at_loaded [OF adv(5) h4] k(2) by (auto simp: kept_def advance_def)
  have a5: "at ((advance h4)\<lparr>hs_binaryChecksum := b\<rparr>) (n + 1) n b es \<and>
      kept ((advance h4)\<lparr>hs_binaryChecksum := b\<rparr>) = kept h" for b
    using a4 by (simp add: at_def)
  show ?case
    unfolding loop next4
    using a5 ih [OF adv(3) k(1)] ih [OF adv(4) k(3)] ih [OF a4]
    by (cases "finishedBy allowed es") (auto simp: preparesAs_intros)
qed

lemma at_shrink:
  "at h n l c es \<Longrightarrow> at (shrink h) n l c es \<and> kept (shrink h) = kept h"
proof -
  assume a: "at h n l c es"
  have f: "flat (shrink h) = flat h" by (simp add: flat_def shrink_def)
  have n: "nextID (shrink h) = nextID h" unfolding nextID_def f by (simp add: shrink_def)
  have "readable (shrink h)" using a unfolding readable_def f n at_def by (auto simp: shrink_def)
  with a show ?thesis by (simp add: at_def f n) (simp add: shrink_def kept_def)
qed

lemma prepareTask_cut:
  assumes a: "at h n l c es" and w: "noWrap n (length es)"
  shows "preparesAs h (prepareTask allowed h) (cutTask allowed h n l c emptyPreparedTask es)"
proof (cases "hs_currentIndex h = length (hs_loadedEvents h) \<and> \<not> hasMoreEvents h")
  case True
  with a have "es = []" "hs_nextEventID h = n" by (auto simp: at_def flat_def nextID_def hasMoreEvents_def)
  with True a show ?thesis
    by (auto simp: prepareTask_def verifyAllEventsProcessed_def preparesAs_intros)
next
  case False
  with prepareLoop_cut [OF a w, of allowed emptyPreparedTask] show ?thesis
    by (cases "cutTask allowed h n l c emptyPreparedTask es")
      (auto simp: prepareTask_def preparesAs_def at_shrink)
qed

lemma noWrap_le: "noWrap n (k + j) \<Longrightarrow> noWrap (n + of_nat j) k"
  by (auto simp: noWrap_def add.assoc simp flip: of_nat_add)

lemma cutTask_rest:
  "cutTask allowed h n l c t es = Inr (t', n', l', c', rest) \<Longrightarrow>
     \<exists>j. j + length rest = length es \<and> n' = n + of_nat j \<and> (es \<noteq> [] \<longrightarrow> 0 < j)"
proof (induction es arbitrary: n l c t)
  case Nil
  then show ?case by (auto split: option.splits)
next
  case (Cons e es)
  have step: "\<exists>j. j + length rest = length (e # es) \<and> n' = n + of_nat j \<and> 0 < j"
    if "cutTask allowed h (n + 1) l c t es = Inr (t', n', l', c', rest)" for l c t
  proof -
    from Cons.IH [OF that] obtain j where "j + length rest = length es" "n' = n + 1 + of_nat j" by blast
    then show ?thesis by (intro exI [of _ "Suc j"]) auto
  qed
  have "(\<exists>l c t. cutTask allowed h (n + 1) l c t es = Inr (t', n', l', c', rest)) \<or> n' = n + 1 \<and> rest = es"
    using Cons.prems by (auto split: if_splits sum.splits)
  then show ?case
  proof
    assume "n' = n + 1 \<and> rest = es"
    then show ?case by (intro exI [of _ "1 :: nat"]) auto
  qed (use step in blast)
qed

section \<open>Page boundaries do not matter\<close>

definition sameEvents :: "history \<Rightarrow> history \<Rightarrow> bool" where
  "sameEvents h g \<longleftrightarrow> kept h = kept g \<and>
     (\<exists>n l c es. at h n l c es \<and> at g n l c es \<and> noWrap n (length es))"

lemma prepareTask_same:
  assumes "sameEvents h g"
  shows "rel_sum (=) (rel_prod (=) sameEvents) (prepareTask allowed h) (prepareTask allowed g)"
proof -
  from assms obtain n l c es where a: "at h n l c es" "at g n l c es" "noWrap n (length es)"
    and k: "kept h = kept g" by (auto simp: sameEvents_def)
  have "cutTask allowed h n l c emptyPreparedTask es = cutTask allowed g n l c emptyPreparedTask es"
    using k by (intro cutTask_last) (simp add: kept_def)
  then have p: "preparesAs h (prepareTask allowed h) (cutTask allowed g n l c emptyPreparedTask es)"
    "preparesAs g (prepareTask allowed g) (cutTask allowed g n l c emptyPreparedTask es)"
    using prepareTask_cut [OF a(1,3), of allowed] prepareTask_cut [OF a(2,3), of allowed] by simp_all
  show ?thesis
  proof (cases "cutTask allowed g n l c emptyPreparedTask es")
    case (Inl err)
    with p show ?thesis by (simp add: preparesAs_def)
  next
    case (Inr r)
    obtain t n' l' c' rest where r: "r = (t, n', l', c', rest)" by (metis prod_cases5)
    with p Inr obtain h' g' where "prepareTask allowed h = Inr (t, h')" "at h' n' l' c' rest"
        "kept h' = kept h" "prepareTask allowed g = Inr (t, g')" "at g' n' l' c' rest" "kept g' = kept g"
      by (auto simp: preparesAs_def)
    moreover obtain j where "j + length rest = length es" "n' = n + of_nat j"
      using cutTask_rest [of allowed g n l c emptyPreparedTask es t n' l' c' rest] Inr r by auto
    moreover from this have "noWrap n' (length rest)"
      using noWrap_le [of n "length rest" j] a(3) by (simp add: add.commute)
    ultimately show ?thesis using k by (auto simp: sameEvents_def)
  qed
qed

lemma keepNext_same: "sameEvents h g \<Longrightarrow> sameEvents (keepNext h t) (keepNext g t)"
proof -
  have f: "flat (keepNext h t) = flat h" for h by (simp add: flat_def keepNext_def)
  have n: "nextID (keepNext h t) = nextID h" for h unfolding nextID_def f by (simp add: keepNext_def)
  have r: "readable (keepNext h t) = readable h" for h
    unfolding readable_def f n by (simp add: keepNext_def)
  assume "sameEvents h g"
  then show ?thesis by (auto simp: sameEvents_def at_def f n r) (auto simp: keepNext_def kept_def)
qed

lemma sameEvents_current:
  "sameEvents h g \<Longrightarrow> hs_next h = hs_next g \<and> currentTask h = currentTask g"
  by (auto simp: sameEvents_def currentTask_def kept_def at_def)

lemma nextTask_same:
  assumes "sameEvents h g"
  shows "rel_sum (=) (rel_prod (=) sameEvents) (nextTask allowed h) (nextTask allowed g)"
proof -
  have first: "rel_sum (=) sameEvents (firstTask allowed h) (firstTask allowed g)"
    using prepareTask_same [OF assms, of allowed] assms sameEvents_current [OF assms]
    by (auto simp: firstTask_def rel_sum.simps intro: keepNext_same)
  show ?thesis
  proof (cases "firstTask allowed h")
    case (Inl err)
    with first show ?thesis by (auto simp: nextTask_def rel_sum.simps)
  next
    case (Inr h1)
    with first obtain g1 where g1: "firstTask allowed g = Inr g1" and s: "sameEvents h1 g1"
      by (auto simp: rel_sum.simps)
    show ?thesis
      using prepareTask_same [OF s, of allowed] sameEvents_current [OF s] s
      by (auto simp: nextTask_def Inr g1 rel_sum.simps intro: keepNext_same)
  qed
qed

text \<open>The tasks that repeated calls of \<open>nextTask\<close> return, up to the first without events.\<close>

fun nextTasks :: "nat \<Rightarrow> flagMap \<Rightarrow> history \<Rightarrow> goError + preparedTask list" where
  "nextTasks 0 allowed h = Inr []"
| "nextTasks (Suc k) allowed h =
     (case nextTask allowed h of
        Inl err \<Rightarrow> Inl err
      | Inr (t, h1) \<Rightarrow>
          if pt_events t = [] then Inr [] else map_sum id ((#) t) (nextTasks k allowed h1))"

lemma nextTasks_same: "sameEvents h g \<Longrightarrow> nextTasks k allowed h = nextTasks k allowed g"
proof (induction k arbitrary: h g)
  case (Suc k)
  from nextTask_same [OF Suc.prems, of allowed] Suc.IH show ?case
    by (auto simp: rel_sum.simps)
qed simp

definition idsFit :: "historyEvent list \<Rightarrow> bool" where
  "idsFit es \<longleftrightarrow> (case es of [] \<Rightarrow> True
     | e # _ \<Rightarrow> 0 < sint (ev_EventId e) \<and> sint (ev_EventId e) + int (length es) < 2 ^ 63)"

lemma sint_plus:
  fixes n :: int64
  assumes "0 < sint n" and "sint n + int i < 2 ^ 63"
  shows "sint (n + of_nat i) = sint n + int i"
proof -
  have "n + of_nat i = word_of_int (sint n + int i)" by simp
  moreover have "sint (word_of_int (sint n + int i) :: int64) = signed_take_bit 63 (sint n + int i)"
    by (subst sint_sbintrunc') simp
  ultimately show ?thesis using assms by (simp add: signed_take_bit_int_eq_self)
qed

lemma noWrap_fit:
  fixes n :: int64
  assumes "0 < sint n" and "sint n + int k < 2 ^ 63"
  shows "noWrap n k"
  unfolding noWrap_def
proof (intro allI impI notI)
  fix i
  assume i: "0 < i \<and> i \<le> k" and z: "n + of_nat i = 0"
  have "sint (n + of_nat i) = sint n + int i" using i assms by (intro sint_plus) auto
  with z assms(1) show False by simp
qed

definition firstID :: "historyEvent list \<Rightarrow> int64" where
  "firstID es = (case es of [] \<Rightarrow> 0 | e # _ \<Rightarrow> ev_EventId e)"

lemma newHistory_at:
  assumes fit: "idsFit es" and es: "es = first @ concat pages"
  shows "at (newHistory l p s first (map Inr pages)) (firstID es) l [] es"
proof -
  let ?h = "newHistory l p s first (map Inr pages)"
  have "pageEvents (map Inr pages) = concat pages" by (induction pages) auto
  then have f: "flat ?h = es" by (simp add: flat_def newHistory_def es)
  have h: "hs_nextEventID ?h = firstID first" "hs_loadedEvents ?h = first"
    by (simp_all add: newHistory_def firstID_def)
  have i: "first \<noteq> [] \<Longrightarrow> firstID first = firstID es" "es \<noteq> [] \<Longrightarrow> firstID es = ev_EventId (hd es)"
      "es \<noteq> [] \<Longrightarrow> firstID es \<noteq> 0"
    using fit by (auto simp: firstID_def es idsFit_def split: list.splits)
  have n: "nextID ?h = firstID es"
    unfolding nextID_def f h using i by (cases "first = []"; cases "es = []") (auto simp: firstID_def)
  have "readable ?h" unfolding readable_def f n h using i
    by (cases "first = []") (auto simp: newHistory_def es)
  with f n show ?thesis by (simp add: at_def) (simp add: newHistory_def)
qed

lemma idsFit_noWrap: "idsFit es \<Longrightarrow> noWrap (firstID es) (length es)"
  using noWrap_fit [of "firstID es" "length es"]
  by (cases es) (auto simp: idsFit_def firstID_def noWrap_def)

lemma pages_same:
  assumes "idsFit (first @ concat pages)"
  shows "sameEvents (newHistory l p s first (map Inr pages)) (newHistory l p s (first @ concat pages) [])"
  unfolding sameEvents_def
proof (intro conjI exI)
  show "at (newHistory l p s first (map Inr pages)) (firstID (first @ concat pages)) l [] (first @ concat pages)"
    by (rule newHistory_at [OF assms refl])
  show "at (newHistory l p s (first @ concat pages) []) (firstID (first @ concat pages)) l [] (first @ concat pages)"
    using newHistory_at [of "first @ concat pages" "first @ concat pages" "[]" l p s] assms by simp
qed (use idsFit_noWrap [OF assms] in \<open>simp_all add: kept_def newHistory_def\<close>)

end
