(* ===== verification/History_Tasks.thy ===== *)
theory History_Tasks
  imports History_Pages Env_Properties
begin

text \<open>
  The tasks that a history is cut into: together they hold its events in order, each ends with the
  event that started it, the markers come one task ahead, and a history with a gap or a missing end
  is refused. Messages are handed out by event in their order.
\<close>

section \<open>The tasks contain the events in order\<close>

definition startFailed :: "historyEvent list \<Rightarrow> bool" where
  "startFailed es = (case es of [] \<Rightarrow> False
     | e # _ \<Rightarrow> isTaskTimedOut (ev_Attributes e) \<or> isTaskFailed (ev_Attributes e))"

text \<open>Events that no task contains: handled before, or of a task attempt that did not complete.\<close>

definition skipped :: "int64 \<Rightarrow> historyEvent \<Rightarrow> historyEvent list \<Rightarrow> bool" where
  "skipped l e es \<longleftrightarrow> sint (ev_EventId e) \<le> sint l \<or>
     isWorkflowTaskStarted (ev_Attributes e) \<and> startFailed es \<or>
     isTaskScheduled (ev_Attributes e) \<or> isTaskTimedOut (ev_Attributes e)"

fun delivered :: "int64 \<Rightarrow> historyEvent list \<Rightarrow> historyEvent list" where
  "delivered l [] = []"
| "delivered l (e # es) = (if skipped l e es then delivered l es else e # delivered l es)"

text \<open>The next task's events, and the events behind them.\<close>

fun cutEvents :: "int64 \<Rightarrow> historyEvent list \<Rightarrow> historyEvent list \<times> historyEvent list" where
  "cutEvents l [] = ([], [])"
| "cutEvents l (e # es) =
     (if skipped l e es then cutEvents l es
      else if isWorkflowTaskStarted (ev_Attributes e) then ([e], es)
      else (e # fst (cutEvents l es), snd (cutEvents l es)))"

lemma delivered_cut: "delivered l es = fst (cutEvents l es) @ delivered l (snd (cutEvents l es))"
  by (induction es) auto

lemma cut_started:
  "x \<in> set (butlast (fst (cutEvents l es))) \<Longrightarrow> \<not> isWorkflowTaskStarted (ev_Attributes x)"
  "snd (cutEvents l es) \<noteq> [] \<Longrightarrow>
     fst (cutEvents l es) \<noteq> [] \<and> isWorkflowTaskStarted (ev_Attributes (last (fst (cutEvents l es))))"
  by (induction es) (auto split: if_splits)

definition consecutive :: "int64 \<Rightarrow> historyEvent list \<Rightarrow> bool" where
  "consecutive n es \<longleftrightarrow> (\<forall>i < length es. ev_EventId (es ! i) = n + of_nat i)"

lemma consecutive_Cons: "consecutive n (e # es) \<longleftrightarrow> ev_EventId e = n \<and> consecutive (n + 1) es"
  by (auto simp: consecutive_def less_Suc_eq_0_disj add.assoc)

definition numbered :: "int64 \<Rightarrow> historyEvent list \<Rightarrow> bool" where
  "numbered n es \<longleftrightarrow> consecutive n es \<and>
     0 < sint n \<and> sint n + int (length es) < 2 ^ 63"

definition flagsKnown :: "flagMap \<Rightarrow> historyEvent list \<Rightarrow> bool" where
  "flagsKnown allowed es \<longleftrightarrow> (\<forall>e \<in> set es. \<forall>a. taskCompletedOf (ev_Attributes e) = Some a \<longrightarrow>
     (\<forall>f \<in> set (tc_LangUsedFlags a). isValid allowed f))"

lemma readFlags_known: "\<forall>f \<in> set fs. isValid allowed f \<Longrightarrow> readFlags allowed fs = Inr fs"
  by (induction fs) auto

lemma finishedBy_known:
  assumes "flagsKnown allowed es"
  shows "\<exists>ft. finishedBy allowed es = Inr ft \<and> (ft_isFailed ft \<longleftrightarrow> startFailed es)"
proof (cases es)
  case (Cons e es')
  show ?thesis
  proof (cases "taskCompletedOf (ev_Attributes e)")
    case None
    then show ?thesis by (simp add: Cons finishedBy_def finishedTaskOf_def startFailed_def)
  next
    case (Some a)
    then have "\<not> isTaskTimedOut (ev_Attributes e) \<and> \<not> isTaskFailed (ev_Attributes e)"
      by (auto simp: taskCompletedOf_def isTaskTimedOut_def isTaskFailed_def split: eventAttributes.splits
          noOperationEvent.splits)
    with Some assms show ?thesis
      by (simp add: Cons finishedBy_def finishedTaskOf_def startFailed_def flagsKnown_def readFlags_known)
  qed
qed (simp add: finishedBy_def emptyFinishedTask_def startFailed_def)

lemma numbered_Cons:
  assumes "numbered n (e # es)"
  shows "ev_EventId e = n" "numbered (n + 1) es" "\<forall>x \<in> set es. sint n < sint (ev_EventId x)"
proof -
  have id: "ev_EventId ((e # es) ! i) = n + of_nat i" if "i \<le> length es" for i
    using assms that by (simp add: numbered_def consecutive_def)
  have s: "sint (n + of_nat i) = sint n + int i" if "i \<le> length es" for i
    using assms that by (intro sint_plus) (auto simp: numbered_def)
  from id [of 0] show "ev_EventId e = n" by simp
  show "\<forall>x \<in> set es. sint n < sint (ev_EventId x)"
  proof
    fix x
    assume "x \<in> set es"
    then obtain i where "i < length es" "x = es ! i" by (metis in_set_conv_nth)
    with id [of "Suc i"] s [of "Suc i"] show "sint n < sint (ev_EventId x)" by simp
  qed
  have "sint (n + 1) = sint n + 1" using sint_plus [of n 1] assms by (simp add: numbered_def)
  with assms show "numbered (n + 1) es" by (simp add: numbered_def consecutive_Cons)
qed

text \<open>Two bounds that say the same about which events were handled before.\<close>

definition agree :: "int64 \<Rightarrow> int64 \<Rightarrow> historyEvent list \<Rightarrow> bool" where
  "agree l l' es \<longleftrightarrow> (\<forall>e \<in> set es. sint (ev_EventId e) \<le> sint l \<longleftrightarrow> sint (ev_EventId e) \<le> sint l')"

lemma agree_Cons:
  assumes "numbered n (e # es)" and "agree l0 l (e # es)"
  shows "agree l0 l es" "sint n \<le> sint l0 \<longleftrightarrow> sint n \<le> sint l" "\<not> sint n \<le> sint l \<Longrightarrow> agree n l es"
  using assms(2) numbered_Cons(1,3) [OF assms(1)] by (fastforce simp: agree_def)+

lemma addEvent_sel:
  "pt_events (addEvent t e) = pt_events t @ [e]"
  "pt_markers (addEvent t e) = pt_markers t @ filter isPreloadMarkerEvent [e]"
  by (auto simp: addEvent_def isPreloadMarkerEvent_def Let_def split: eventAttributes.split
      noOperationEvent.split updateEvent.split)

lemma started_no_marker: "isWorkflowTaskStarted (ev_Attributes e) \<Longrightarrow> \<not> isPreloadMarkerEvent e"
  by (auto simp: isWorkflowTaskStarted_def isPreloadMarkerEvent_def split: eventAttributes.splits)

definition cutsAs :: "int64 \<Rightarrow> historyEvent list \<Rightarrow> int64 \<Rightarrow> preparedTask
    \<Rightarrow> goError + (preparedTask \<times> int64 \<times> int64 \<times> string \<times> historyEvent list) \<Rightarrow> bool" where
  "cutsAs l es n t r \<longleftrightarrow> (\<exists>t' l' c' n'. r = Inr (t', n', l', c', snd (cutEvents l es)) \<and>
     n' + of_nat (length (snd (cutEvents l es))) = n + of_nat (length es) \<and>
     pt_events t' = pt_events t @ fst (cutEvents l es) \<and>
     pt_markers t' = pt_markers t @ filter isPreloadMarkerEvent (fst (cutEvents l es)) \<and>
     agree l' l (snd (cutEvents l es)) \<and> numbered n' (snd (cutEvents l es)))"

lemma cutTask_cut:
  assumes "numbered n es" and "flagsKnown allowed es" and "agree l0 l es"
    and "sint (hs_lastEventID h) < sint n + int (length es)"
  shows "cutsAs l es n t (cutTask allowed h n l0 c t es)"
  using assms
proof (induction es arbitrary: n l0 c t)
  case Nil
  then show ?case by (auto simp: cutsAs_def verifyAllEventsProcessed_def)
next
  case (Cons e es)
  note ne = numbered_Cons [OF Cons.prems(1)] and ag = agree_Cons [OF Cons.prems(1,3)]
  have n1: "sint (n + 1) = sint n + 1"
    using sint_plus [of n 1] Cons.prems(1) by (simp add: numbered_def)
  have fk: "flagsKnown allowed es" using Cons.prems(2) by (simp add: flagsKnown_def)
  then obtain ft where ft: "finishedBy allowed es = Inr ft" "ft_isFailed ft \<longleftrightarrow> startFailed es"
    using finishedBy_known by blast
  have ih: "cutsAs l es (n + 1) t (cutTask allowed h (n + 1) l' c t es)" if "agree l' l es" for l' c t
    using Cons.IH [OF ne(2) fk that] Cons.prems(4) n1 by simp
  have step: "cutsAs l (e # es) n t (cutTask allowed h (n + 1) l' c t es)"
    if "skipped l e es" "agree l' l es" for l'
    using ih [OF that(2), of t c] that(1) by (auto simp: cutsAs_def algebra_simps)
  show ?case
  proof (cases "sint n \<le> sint l")
    case True
    then have "skipped l e es" using ne(1) by (simp add: skipped_def)
    with step ag(1,2) True ne(1) show ?thesis by simp
  next
    case False
    note ag' = ag(3) [OF False]
    show ?thesis
    proof (cases "isWorkflowTaskStarted (ev_Attributes e)")
      case True
      show ?thesis
      proof (cases "startFailed es")
        case failed: True
        with True have "skipped l e es" by (simp add: skipped_def)
        with step ag' True False failed ft ag(2) ne(1) show ?thesis by simp
      next
        case ok: False
        have "\<not> isTaskScheduled (ev_Attributes e) \<and> \<not> isTaskTimedOut (ev_Attributes e)"
          using True by (auto simp: isWorkflowTaskStarted_def isTaskScheduled_def isTaskTimedOut_def)
        with True False ok ne(1) have "\<not> skipped l e es" by (simp add: skipped_def)
        then show ?thesis using True False ok ft ag(2) ag' ne(1,2) started_no_marker [OF True]
          by (simp add: cutsAs_def addStartedEvent_def)
      qed
    next
      case nostart: False
      show ?thesis
      proof (cases "isTaskScheduled (ev_Attributes e) \<or> isTaskTimedOut (ev_Attributes e)")
        case True
        then have "skipped l e es" by (simp add: skipped_def)
        with step ag' True False nostart ag(2) ne(1) show ?thesis by simp
      next
        case deliver: False
        with False nostart ne(1) have "\<not> skipped l e es" by (simp add: skipped_def)
        with ih [OF ag', of "addEvent t e" c] deliver False nostart ag(2) ne(1) show ?thesis
          by (auto simp: cutsAs_def addEvent_sel algebra_simps)
      qed
    qed
  qed
qed

text \<open>A history whose events to come are numbered without a gap up to the expected last one.\<close>

definition ready :: "flagMap \<Rightarrow> history \<Rightarrow> int64 \<Rightarrow> historyEvent list \<Rightarrow> bool" where
  "ready allowed h l es \<longleftrightarrow> (\<exists>n l0 c. at h n l0 c es \<and> numbered n es \<and> flagsKnown allowed es \<and>
     agree l0 l es \<and> sint (hs_lastEventID h) < sint n + int (length es))"

lemma cut_rest_flags: "flagsKnown allowed es \<Longrightarrow> flagsKnown allowed (snd (cutEvents l es))"
  by (induction es) (auto simp: flagsKnown_def)

lemma cut_rest_length:
  "length (snd (cutEvents l es)) \<le> length es" "es \<noteq> [] \<Longrightarrow> length (snd (cutEvents l es)) < length es"
  by (induction es) (auto intro: le_SucI)

lemma prepareTask_ready:
  assumes "ready allowed h l es"
  shows "\<exists>t h'. prepareTask allowed h = Inr (t, h') \<and> ready allowed h' l (snd (cutEvents l es)) \<and>
    kept h' = kept h \<and> pt_events t = fst (cutEvents l es) \<and>
    pt_markers t = filter isPreloadMarkerEvent (fst (cutEvents l es))"
proof -
  from assms obtain n l0 c where a: "at h n l0 c es" "numbered n es" "flagsKnown allowed es"
      "agree l0 l es" "sint (hs_lastEventID h) < sint n + int (length es)" by (auto simp: ready_def)
  from a(2) have w: "noWrap n (length es)" by (intro noWrap_fit) (auto simp: numbered_def)
  from cutTask_cut [OF a(2-5), of emptyPreparedTask c] obtain t n' l' c' where
    r: "cutTask allowed h n l0 c emptyPreparedTask es = Inr (t, n', l', c', snd (cutEvents l es))"
    and n': "n' + of_nat (length (snd (cutEvents l es))) = n + of_nat (length es)"
    and t: "pt_events t = fst (cutEvents l es)" "pt_markers t = filter isPreloadMarkerEvent (fst (cutEvents l es))"
    and g: "agree l' l (snd (cutEvents l es))" "numbered n' (snd (cutEvents l es))"
    by (auto simp: cutsAs_def emptyPreparedTask_def)
  from prepareTask_cut [OF a(1) w, of allowed] r obtain h' where
    h': "prepareTask allowed h = Inr (t, h')" "at h' n' l' c' (snd (cutEvents l es))" "kept h' = kept h"
    by (auto simp: preparesAs_def)
  have "sint n' + int (length (snd (cutEvents l es))) = sint n + int (length es)"
    using arg_cong [OF n', of sint] sint_plus [of n "length es"] sint_plus [of n' "length (snd (cutEvents l es))"]
      a(2) g(2) by (simp add: numbered_def)
  moreover have "hs_lastEventID h' = hs_lastEventID h" using h'(3) by (simp add: kept_def)
  ultimately have "ready allowed h' l (snd (cutEvents l es))"
    unfolding ready_def using h'(2) g cut_rest_flags [OF a(3), of l] a(5) by metis
  with h' t show ?thesis by blast
qed

lemma ready_keepNext [simp]: "ready allowed (keepNext h t) l es = ready allowed h l es"
proof -
  have f: "flat (keepNext h t) = flat h" by (simp add: flat_def keepNext_def)
  have n: "nextID (keepNext h t) = nextID h" unfolding nextID_def f by (simp add: keepNext_def)
  have r: "readable (keepNext h t) = readable h" unfolding readable_def f n by (simp add: keepNext_def)
  show ?thesis by (simp add: ready_def at_def f n r) (simp add: keepNext_def)
qed

lemma nextTask_ready:
  assumes "ready allowed h l es" and "hs_next h \<noteq> []"
  shows "\<exists>t h'. nextTask allowed h = Inr (t, h') \<and> pt_events t = hs_next h \<and>
    pt_markers t = filter isPreloadMarkerEvent (fst (cutEvents l es)) \<and>
    hs_next h' = fst (cutEvents l es) \<and> ready allowed h' l (snd (cutEvents l es))"
  using prepareTask_ready [OF assms(1)] assms(2)
  by (auto simp: nextTask_def firstTask_def currentTask_def) (auto simp: keepNext_def)

lemma nextTask_end:
  assumes "ready allowed h l []" and "hs_next h = []"
  shows "nextTasks k allowed h = Inr []"
  using prepareTask_ready [OF assms(1)] assms(2)
  by (cases k) (auto simp: nextTask_def firstTask_def currentTask_def keepNext_def)

lemma ready_first:
  assumes "ready allowed h l es" and "hs_next h = []" and "fst (cutEvents l es) \<noteq> []"
  shows "\<exists>h'. nextTasks k allowed h = nextTasks k allowed h' \<and> hs_next h' = fst (cutEvents l es) \<and>
    ready allowed h' l (snd (cutEvents l es))"
proof -
  from prepareTask_ready [OF assms(1)] obtain t h1 where p: "prepareTask allowed h = Inr (t, h1)"
    "ready allowed h1 l (snd (cutEvents l es))" "pt_events t = fst (cutEvents l es)" by blast
  let ?h' = "keepNext h1 t"
  have n: "hs_next ?h' = fst (cutEvents l es)" using p by (simp add: keepNext_def)
  have "firstTask allowed h = firstTask allowed ?h'"
    using assms(2,3) p n by (simp add: firstTask_def)
  then have "nextTask allowed h = nextTask allowed ?h'" by (simp add: nextTask_def)
  then have "nextTasks k allowed h = nextTasks k allowed ?h'" by (cases k) simp_all
  with n p show ?thesis by auto
qed

text \<open>The tasks \<open>ts\<close> that begin with a task of the events \<open>xs\<close> and hold the events \<open>es\<close>.\<close>

definition tasksOf :: "historyEvent list \<Rightarrow> historyEvent list \<Rightarrow> preparedTask list \<Rightarrow> bool" where
  "tasksOf xs es ts \<longleftrightarrow> concat (map pt_events ts) = es \<and> ts \<noteq> [] \<and> pt_events (hd ts) = xs \<and>
     (\<forall>t \<in> set ts. pt_events t \<noteq> [] \<and>
        (\<forall>x \<in> set (butlast (pt_events t)). \<not> isWorkflowTaskStarted (ev_Attributes x))) \<and>
     (\<forall>t \<in> set (butlast ts). isWorkflowTaskStarted (ev_Attributes (last (pt_events t)))) \<and>
     (\<forall>i. Suc i < length ts \<longrightarrow>
        pt_markers (ts ! i) = filter isPreloadMarkerEvent (pt_events (ts ! Suc i)))"

lemma tasksOf_Cons:
  assumes "tasksOf ys zs ts" and "pt_events t = xs" and "xs \<noteq> []"
    and "\<forall>x \<in> set (butlast xs). \<not> isWorkflowTaskStarted (ev_Attributes x)"
    and "isWorkflowTaskStarted (ev_Attributes (last xs))"
    and "pt_markers t = filter isPreloadMarkerEvent ys"
  shows "tasksOf xs (xs @ zs) (t # ts)"
proof -
  have "pt_markers ((t # ts) ! i) = filter isPreloadMarkerEvent (pt_events ((t # ts) ! Suc i))"
    if "Suc i < length (t # ts)" for i
    using assms(1,6) that by (cases i) (auto simp: tasksOf_def hd_conv_nth)
  with assms show ?thesis by (auto simp: tasksOf_def)
qed

lemma nextTasks_ready:
  assumes "ready allowed h l es" and "hs_next h = xs" and "xs \<noteq> []" and "length es < k"
    and "\<forall>x \<in> set (butlast xs). \<not> isWorkflowTaskStarted (ev_Attributes x)"
    and "es \<noteq> [] \<longrightarrow> isWorkflowTaskStarted (ev_Attributes (last xs))"
  shows "\<exists>ts. nextTasks k allowed h = Inr ts \<and> tasksOf xs (xs @ delivered l es) ts"
  using assms
proof (induction k arbitrary: h es xs)
  case (Suc k)
  let ?xs = "fst (cutEvents l es)" and ?es = "snd (cutEvents l es)"
  from nextTask_ready [OF Suc.prems(1)] Suc.prems(2,3) obtain t h' where
    t: "nextTask allowed h = Inr (t, h')" "pt_events t = xs"
      "pt_markers t = filter isPreloadMarkerEvent ?xs" "hs_next h' = ?xs" "ready allowed h' l ?es" by blast
  show ?case
  proof (cases "?xs = []")
    case True
    then have "?es = []" using cut_started(2) by blast
    then have "nextTasks k allowed h' = Inr []"
      using nextTask_end [of allowed h' l k] True t(4,5) by simp
    moreover have "delivered l es = []" using delivered_cut [of l es] True \<open>?es = []\<close> by simp
    ultimately show ?thesis using t Suc.prems(3,5) by (simp add: tasksOf_def)
  next
    case False
    then have "es \<noteq> []" by auto
    with cut_rest_length(2) [of es l] Suc.prems(4) have "length ?es < k" by linarith
    moreover have "\<forall>x \<in> set (butlast ?xs). \<not> isWorkflowTaskStarted (ev_Attributes x)"
      using cut_started(1) by blast
    moreover have "?es \<noteq> [] \<longrightarrow> isWorkflowTaskStarted (ev_Attributes (last ?xs))"
      using cut_started(2) by blast
    ultimately obtain ts where
      ts: "nextTasks k allowed h' = Inr ts" "tasksOf ?xs (?xs @ delivered l ?es) ts"
      using Suc.IH [OF t(5,4) False] by blast
    have "isWorkflowTaskStarted (ev_Attributes (last xs))" using Suc.prems(6) \<open>es \<noteq> []\<close> by blast
    from tasksOf_Cons [OF ts(2) t(2) Suc.prems(3,5) this t(3)]
    have "tasksOf xs (xs @ delivered l es) (t # ts)" unfolding delivered_cut [of l es] .
    with ts t(1,2) Suc.prems(3) show ?thesis by simp
  qed
qed simp

section \<open>A history with a gap is not accepted\<close>

text \<open>
  The tasks that repeated calls of \<open>nextTask\<close> hand out, and the error that ends them.
\<close>

fun tasksUntil :: "nat \<Rightarrow> flagMap \<Rightarrow> history \<Rightarrow> preparedTask list \<times> goError option" where
  "tasksUntil 0 allowed h = ([], None)"
| "tasksUntil (Suc k) allowed h =
     (case nextTask allowed h of
        Inl err \<Rightarrow> ([], Some err)
      | Inr (t, h1) \<Rightarrow>
          if pt_events t = [] then ([], None) else apfst ((#) t) (tasksUntil k allowed h1))"

text \<open>
  What is wrong with the events \<open>bad\<close> when \<open>n\<close> is the next id and \<open>endID\<close> the last expected one: they
  begin with another id, or there are none although the end is not reached.
\<close>

definition gapError :: "int64 \<Rightarrow> int64 \<Rightarrow> historyEvent list \<Rightarrow> goError option" where
  "gapError endID n bad =
     (case bad of
        [] \<Rightarrow> if 0 < sint endID \<and> sint n \<le> sint endID
              then Some (GoError (''history_events: premature end of stream, expectedLastEventID='' @
                formatInt endID @ '' but no more events after eventID='' @ formatInt (n - 1)))
              else None
      | e # _ \<Rightarrow> if ev_EventId e \<noteq> n then Some (missingEvents n (ev_EventId e)) else None)"

lemma cutTask_gap:
  "gapError (hs_lastEventID h) n bad = Some err \<Longrightarrow> cutTask allowed h n l c t bad = Inl err"
  by (cases bad) (auto simp: gapError_def verifyAllEventsProcessed_def split: if_splits)

lemma finishedBy_failed: "finishedBy allowed es = Inr ft \<Longrightarrow> ft_isFailed ft \<longleftrightarrow> startFailed es"
  by (cases es) (auto simp: finishedBy_def finishedTaskOf_def startFailed_def emptyFinishedTask_def
      taskCompletedOf_def isTaskTimedOut_def isTaskFailed_def split: option.splits sum.splits
      eventAttributes.splits noOperationEvent.splits)

lemma startFailed_append: "es \<noteq> [] \<Longrightarrow> startFailed (es @ bad) = startFailed es"
  by (cases es) (simp_all add: startFailed_def)

text \<open>What is left in front of a gap once a task was cut off that adds to \<open>t\<close>.\<close>

definition cutBefore :: "flagMap \<Rightarrow> historyEvent list \<Rightarrow> goError \<Rightarrow> int64 \<Rightarrow> int64 \<Rightarrow> historyEvent list
    \<Rightarrow> preparedTask \<Rightarrow> goError + (preparedTask \<times> int64 \<times> int64 \<times> string \<times> historyEvent list) \<Rightarrow> bool" where
  "cutBefore allowed bad err l n good t r \<longleftrightarrow>
     (case r of
        Inl e \<Rightarrow> flagsKnown allowed (good @ bad) \<longrightarrow> e = err
      | Inr (t', n', l', c', rest) \<Rightarrow> \<exists>good'. rest = good' @ bad \<and> length good' < length good \<and>
          numbered n' good' \<and> agree l' l good' \<and> n' + of_nat (length good') = n + of_nat (length good) \<and>
          pt_events t' \<noteq> [] \<and> pt_events t' @ delivered l good' = pt_events t @ delivered l good \<and>
          (flagsKnown allowed (good @ bad) \<longrightarrow> flagsKnown allowed (good' @ bad)))"

lemma cutBefore_Cons:
  assumes "cutBefore allowed bad err l (n + 1) es t' r"
    and "pt_events t' @ delivered l es = pt_events t @ delivered l (e # es)"
  shows "cutBefore allowed bad err l n (e # es) t r"
  using assms by (fastforce simp: cutBefore_def flagsKnown_def add.assoc split: sum.split)

lemma cutTask_started:
  assumes "numbered n (e # es)" and "agree l0 l (e # es)" and "isWorkflowTaskStarted (ev_Attributes e)"
    and "\<not> sint n \<le> sint l" and gap: "gapError (hs_lastEventID h) (n + 1 + of_nat (length es)) bad = Some err"
    and ih: "startFailed es \<Longrightarrow> cutBefore allowed bad err l n (e # es) t (cutTask allowed h (n + 1) n c t (es @ bad))"
  shows "cutBefore allowed bad err l n (e # es) t (cutTask allowed h n l0 c t (e # es @ bad))"
proof -
  note ne = numbered_Cons [OF assms(1)] and ag = agree_Cons [OF assms(1,2)]
  have cut: "cutTask allowed h n l0 c t (e # es @ bad) =
    (case finishedBy allowed (es @ bad) of
       Inl err \<Rightarrow> Inl err
     | Inr ft \<Rightarrow> if \<not> ft_isFailed ft
         then Inr (addStartedEvent t e ft, n + 1, n, ft_binaryChecksum ft, es @ bad)
         else cutTask allowed h (n + 1) n c t (es @ bad))"
    using assms(3,4) ne(1) ag(2) by simp
  show ?thesis
  proof (cases "finishedBy allowed (es @ bad)")
    case (Inl err')
    moreover have "\<not> flagsKnown allowed (es @ bad)" using finishedBy_known [of allowed "es @ bad"] Inl by auto
    ultimately show ?thesis unfolding cut by (simp add: cutBefore_def flagsKnown_def) blast
  next
    case (Inr ft)
    note f = finishedBy_failed [OF Inr]
    show ?thesis
    proof (cases "ft_isFailed ft")
      case True
      with f startFailed_append [of es bad] have "es = [] \<or> startFailed es" by blast
      then show ?thesis using ih cutTask_gap [of h "n + 1" bad err] gap unfolding cut
        by (auto simp: Inr True cutBefore_def)
    next
      case False
      have "\<not> isTaskScheduled (ev_Attributes e) \<and> \<not> isTaskTimedOut (ev_Attributes e)"
        using assms(3) by (auto simp: isWorkflowTaskStarted_def isTaskScheduled_def isTaskTimedOut_def)
      moreover have "\<not> startFailed es"
        using f False startFailed_append [of es bad] by (cases es) (auto simp: startFailed_def)
      ultimately have "\<not> skipped l e es" using assms(4) ne(1) by (simp add: skipped_def)
      then show ?thesis unfolding cut using ne(2) ag(3) assms(4)
        by (simp add: Inr False cutBefore_def addStartedEvent_def flagsKnown_def add.assoc)
    qed
  qed
qed

lemma cutTask_before:
  assumes "numbered n good" and "agree l0 l good"
    and "gapError (hs_lastEventID h) (n + of_nat (length good)) bad = Some err"
  shows "cutBefore allowed bad err l n good t (cutTask allowed h n l0 c t (good @ bad))"
  using assms
proof (induction good arbitrary: n l0 c t)
  case Nil
  then show ?case using cutTask_gap [of h n bad err] by (simp add: cutBefore_def)
next
  case (Cons e es)
  note ne = numbered_Cons [OF Cons.prems(1)] and ag = agree_Cons [OF Cons.prems(1,2)]
  have gap: "gapError (hs_lastEventID h) (n + 1 + of_nat (length es)) bad = Some err"
    using Cons.prems(3) by (simp add: add.assoc)
  have next': "cutBefore allowed bad err l n (e # es) t (cutTask allowed h (n + 1) l' c t' (es @ bad))"
    if "agree l' l es" "pt_events t' @ delivered l es = pt_events t @ delivered l (e # es)" for l' c t'
    using cutBefore_Cons [OF Cons.IH [OF ne(2) that(1) gap] that(2)] .
  show ?case
  proof (cases "isWorkflowTaskStarted (ev_Attributes e) \<and> \<not> sint n \<le> sint l")
    case False
    have "cutBefore allowed bad err l n (e # es) t (cutTask allowed h (n + 1) l0 c t (es @ bad))"
      if "sint n \<le> sint l" using next' [OF ag(1)] that ne(1) by (simp add: skipped_def)
    moreover have "cutBefore allowed bad err l n (e # es) t (cutTask allowed h (n + 1) n c t (es @ bad))"
      if "isTaskScheduled (ev_Attributes e) \<or> isTaskTimedOut (ev_Attributes e)" "\<not> sint n \<le> sint l"
      using next' [OF ag(3)] that by (simp add: skipped_def)
    moreover have "cutBefore allowed bad err l n (e # es) t (cutTask allowed h (n + 1) n c (addEvent t e) (es @ bad))"
      if "\<not> (isTaskScheduled (ev_Attributes e) \<or> isTaskTimedOut (ev_Attributes e))" "\<not> sint n \<le> sint l"
      using next' [OF ag(3), of "addEvent t e"] that False ne(1) by (simp add: skipped_def addEvent_sel)
    ultimately show ?thesis using False ne(1) ag(2) by auto
  next
    case True
    then have "cutBefore allowed bad err l n (e # es) t (cutTask allowed h (n + 1) n c t (es @ bad))"
      if "startFailed es" using next' [OF ag(3)] that by (simp add: skipped_def)
    with True show ?thesis using cutTask_started [OF Cons.prems(1,2) _ _ gap] by simp
  qed
qed

text \<open>A history whose events to come are \<open>good @ bad\<close>, with a gap behind the good ones.\<close>

definition beforeGap :: "flagMap \<Rightarrow> history \<Rightarrow> int64 \<Rightarrow> historyEvent list \<Rightarrow> historyEvent list \<Rightarrow> goError
    \<Rightarrow> bool" where
  "beforeGap allowed h l good bad err \<longleftrightarrow> (\<exists>n l0 c. at h n l0 c (good @ bad) \<and>
     noWrap n (length (good @ bad)) \<and> numbered n good \<and> agree l0 l good \<and>
     gapError (hs_lastEventID h) (n + of_nat (length good)) bad = Some err)"

lemma keepNext_at: "at (keepNext h t) n l c es = at h n l c es"
proof -
  have f: "flat (keepNext h t) = flat h" by (simp add: flat_def keepNext_def)
  have n: "nextID (keepNext h t) = nextID h" unfolding nextID_def f by (simp add: keepNext_def)
  have r: "readable (keepNext h t) = readable h" unfolding readable_def f n by (simp add: keepNext_def)
  show ?thesis by (simp add: at_def f n r) (simp add: keepNext_def)
qed

lemma prepareTask_before:
  assumes "beforeGap allowed h l good bad err"
  shows "(\<exists>e. prepareTask allowed h = Inl e \<and> (flagsKnown allowed (good @ bad) \<longrightarrow> e = err)) \<or>
    (\<exists>t h' good'. prepareTask allowed h = Inr (t, h') \<and> beforeGap allowed (keepNext h' t) l good' bad err \<and>
       pt_events t \<noteq> [] \<and> pt_events t @ delivered l good' = delivered l good \<and>
       length good' < length good \<and>
       (flagsKnown allowed (good @ bad) \<longrightarrow> flagsKnown allowed (good' @ bad)))"
proof -
  from assms obtain n l0 c where a: "at h n l0 c (good @ bad)" "noWrap n (length (good @ bad))"
      "numbered n good" "agree l0 l good"
      "gapError (hs_lastEventID h) (n + of_nat (length good)) bad = Some err"
    by (auto simp: beforeGap_def)
  note p = prepareTask_cut [OF a(1,2), of allowed]
    and b = cutTask_before [OF a(3-5), of allowed emptyPreparedTask c]
  show ?thesis
  proof (cases "cutTask allowed h n l0 c emptyPreparedTask (good @ bad)")
    case (Inl e)
    with p b show ?thesis by (simp add: preparesAs_def cutBefore_def)
  next
    case (Inr r)
    obtain t n' l' c' rest where r: "r = (t, n', l', c', rest)" by (metis prod_cases5)
    from b obtain good' where g: "rest = good' @ bad" "length good' < length good" "numbered n' good'"
        "agree l' l good'" "n' + of_nat (length good') = n + of_nat (length good)" "pt_events t \<noteq> []"
        "pt_events t @ delivered l good' = delivered l good"
        "flagsKnown allowed (good @ bad) \<longrightarrow> flagsKnown allowed (good' @ bad)"
      unfolding Inr r cutBefore_def by (auto simp: emptyPreparedTask_def)
    from p obtain h' where h': "prepareTask allowed h = Inr (t, h')" "at h' n' l' c' rest" "kept h' = kept h"
      by (auto simp: Inr r preparesAs_def)
    from cutTask_rest [of allowed h n l0 c emptyPreparedTask "good @ bad" t n' l' c' rest] obtain j where
      "j + length rest = length (good @ bad)" "n' = n + of_nat j" by (auto simp: Inr r)
    then have "noWrap n' (length rest)"
      using noWrap_le [of n "length rest" j] a(2) by (simp add: add.commute)
    moreover have "hs_lastEventID (keepNext h' t) = hs_lastEventID h"
      using h'(3) by (simp add: kept_def keepNext_def)
    ultimately have "beforeGap allowed (keepNext h' t) l good' bad err"
      unfolding beforeGap_def keepNext_at using h'(2) g a(5) by metis
    with h'(1) g show ?thesis by blast
  qed
qed

text \<open>What is handed out ends with an error, and before it come only events in front of the gap.\<close>

definition endsBefore :: "flagMap \<Rightarrow> historyEvent list \<Rightarrow> historyEvent list \<Rightarrow> goError
    \<Rightarrow> preparedTask list \<times> goError option \<Rightarrow> bool" where
  "endsBefore allowed es xs err r \<longleftrightarrow> (\<exists>ts e rest. r = (ts, Some e) \<and>
     concat (map pt_events ts) @ rest = xs \<and> (flagsKnown allowed es \<longrightarrow> e = err))"

lemma tasksUntil_before:
  assumes "beforeGap allowed h l good bad err" and "hs_next h \<noteq> []" and "length good < k"
  shows "endsBefore allowed (good @ bad) (hs_next h @ delivered l good) err (tasksUntil k allowed h)"
  using assms
proof (induction k arbitrary: h good)
  case (Suc k)
  have f: "firstTask allowed h = Inr h" using Suc.prems(2) by (simp add: firstTask_def)
  from prepareTask_before [OF Suc.prems(1)] show ?case
  proof (elim disjE exE conjE)
    fix e
    assume "prepareTask allowed h = Inl e" "flagsKnown allowed (good @ bad) \<longrightarrow> e = err"
    then show ?thesis using Suc.prems(2) f by (simp add: endsBefore_def nextTask_def)
  next
    fix t h' good'
    assume p: "prepareTask allowed h = Inr (t, h')" "beforeGap allowed (keepNext h' t) l good' bad err"
      "pt_events t \<noteq> []" "pt_events t @ delivered l good' = delivered l good" "length good' < length good"
      "flagsKnown allowed (good @ bad) \<longrightarrow> flagsKnown allowed (good' @ bad)"
    have x: "hs_next (keepNext h' t) = pt_events t" by (simp add: keepNext_def)
    with Suc.IH [OF p(2)] p(3,5) Suc.prems(3)
    have "endsBefore allowed (good' @ bad) (delivered l good) err (tasksUntil k allowed (keepNext h' t))"
      by (simp add: p(4))
    then show ?thesis using p(1,6) Suc.prems(2) f
      by (auto simp: endsBefore_def nextTask_def currentTask_def)
  qed
qed simp

lemma tasksUntil_first:
  assumes "beforeGap allowed h l good bad err" and "hs_next h = []" and "length good < k"
  shows "endsBefore allowed (good @ bad) (delivered l good) err (tasksUntil k allowed h)"
  using prepareTask_before [OF assms(1)]
proof (elim disjE exE conjE)
  fix e
  assume "prepareTask allowed h = Inl e" "flagsKnown allowed (good @ bad) \<longrightarrow> e = err"
  then show ?thesis using assms(2,3)
    by (cases k) (simp_all add: endsBefore_def nextTask_def firstTask_def)
next
  fix t h' good'
  assume p: "prepareTask allowed h = Inr (t, h')" "beforeGap allowed (keepNext h' t) l good' bad err"
    "pt_events t \<noteq> []" "pt_events t @ delivered l good' = delivered l good" "length good' < length good"
    "flagsKnown allowed (good @ bad) \<longrightarrow> flagsKnown allowed (good' @ bad)"
  have x: "hs_next (keepNext h' t) = pt_events t" by (simp add: keepNext_def)
  have "firstTask allowed h = firstTask allowed (keepNext h' t)"
    using p(1,3) x assms(2) by (simp add: firstTask_def)
  then have "tasksUntil k allowed h = tasksUntil k allowed (keepNext h' t)"
    by (cases k) (simp_all add: nextTask_def)
  moreover have "endsBefore allowed (good' @ bad) (delivered l good) err (tasksUntil k allowed (keepNext h' t))"
    using tasksUntil_before [OF p(2), of k] x p(3-5) assms(3) by simp
  ultimately show ?thesis using p(6) by (auto simp: endsBefore_def)
qed

section \<open>Messages by event\<close>

lemma takeStep_apply:
  "takeStep eventID i (emi, n, out) =
     (if sint eventID < sint (msg_EventId (emi ! i)) then (emi[n := emi ! i], Suc n, out)
      else (emi, n, out @ [emi ! i]))"
  by (simp add: takeStep_def)

lemma takeStep_fold:
  assumes "i \<le> length ms"
  shows "\<exists>emi. fold (takeStep eventID) [0..<i] (ms, 0, []) =
      (emi, length (filter (\<lambda>m. sint eventID < sint (msg_EventId m)) (take i ms)),
       filter (\<lambda>m. \<not> sint eventID < sint (msg_EventId m)) (take i ms)) \<and>
    length emi = length ms \<and> drop i emi = drop i ms \<and>
    take (length (filter (\<lambda>m. sint eventID < sint (msg_EventId m)) (take i ms))) emi =
      filter (\<lambda>m. sint eventID < sint (msg_EventId m)) (take i ms)"
  using assms
proof (induction i)
  case (Suc i)
  let ?P = "\<lambda>m. sint eventID < sint (msg_EventId m)"
  let ?n = "length (filter ?P (take i ms))"
  from Suc obtain emi where f: "fold (takeStep eventID) [0..<i] (ms, 0, []) =
      (emi, ?n, filter (\<lambda>m. \<not> ?P m) (take i ms))"
    and l: "length emi = length ms" and d: "drop i emi = drop i ms"
    and t: "take ?n emi = filter ?P (take i ms)" by auto
  have i: "i < length ms" using Suc.prems by simp
  have e: "emi ! i = ms ! i" using d i l by (metis hd_drop_conv_nth)
  have ds: "drop (Suc i) emi = drop (Suc i) ms" using d by (metis drop_Suc tl_drop)
  have n: "?n \<le> i" using i by (metis length_filter_le length_take min.absorb4 order_less_imp_le)
  have tk: "take (Suc i) ms = take i ms @ [ms ! i]" using i by (rule take_Suc_conv_app_nth)
  show ?case
  proof (cases "?P (ms ! i)")
    case True
    let ?emi = "emi[?n := ms ! i]"
    have "drop (Suc i) ?emi = drop (Suc i) ms" using ds n by simp
    moreover have "take (Suc ?n) ?emi = filter ?P (take i ms) @ [ms ! i]"
      using t n i l by (simp add: take_Suc_conv_app_nth)
    ultimately show ?thesis using True f e l by (intro exI [of _ ?emi]) (simp add: tk takeStep_apply)
  next
    case False
    then show ?thesis using f e l ds t by (intro exI [of _ emi]) (simp add: tk takeStep_apply)
  qed
qed simp

text \<open>
  C38. Taking messages splits them in two: the messages sequenced at or before the event are returned
  and the others are kept, both in the order they were in, although the kept ones are moved within
  the array that is being read.
\<close>

theorem takeLTE_splits:
  "takeLTE ms eventID = (filter (\<lambda>m. sint (msg_EventId m) \<le> sint eventID) ms,
     filter (\<lambda>m. \<not> sint (msg_EventId m) \<le> sint eventID) ms)"
  using takeStep_fold [of "length ms" ms eventID]
  by (auto simp: takeLTE_def not_less not_le)

section \<open>The properties of a history\<close>

definition exampleHistory :: "historyEvent list" where
  "exampleHistory =
     [eventOf 1 (WorkflowEvent (WorkflowExecutionStarted None None None None)),
      eventOf 2 (NoOperation WorkflowTaskScheduled),
      eventOf 3 (TaskEvent (WorkflowTaskStarted False [] False 0)),
      eventOf 4 (NoOperation WorkflowTaskTimedOut),
      eventOf 5 (NoOperation WorkflowTaskScheduled),
      eventOf 6 (TaskEvent (WorkflowTaskStarted False [] False 0))]"

lemma exampleHistory_numbered: "numbered 1 exampleHistory" "firstID exampleHistory = 1"
  by (simp_all add: numbered_def exampleHistory_def consecutive_Cons eventOf_def firstID_def)
    (simp add: consecutive_def)

text \<open>
  C3. The tasks of a history partition it. However the service cuts a gapless history into pages,
  asking for the next task until there is none returns tasks whose events are, in order, the events
  not handled before, without the events that schedule a task or report its timeout and without the
  started events of attempts that failed or timed out. Every task but the last ends with the event
  that started it (the last one may be open), contains no other such event, and carries the markers of
  the task behind it.
\<close>

theorem tasks_partition_history:
  assumes "es = first @ concat pages" and "numbered (firstID es) es" and "flagsKnown allowed es"
    and "sint started < sint (firstID es) + int (length es)"
  shows "\<exists>ts. nextTasks (length es + 1) allowed (newHistory handled previous started first (map Inr pages)) =
      Inr ts \<and> concat (map pt_events ts) = delivered handled es \<and>
    (\<forall>t \<in> set ts. pt_events t \<noteq> [] \<and>
       (\<forall>x \<in> set (butlast (pt_events t)). \<not> isWorkflowTaskStarted (ev_Attributes x))) \<and>
    (\<forall>t \<in> set (butlast ts). isWorkflowTaskStarted (ev_Attributes (last (pt_events t)))) \<and>
    (\<forall>i. Suc i < length ts \<longrightarrow>
       pt_markers (ts ! i) = filter isPreloadMarkerEvent (pt_events (ts ! Suc i)))"
proof -
  let ?h = "newHistory handled previous started first (map Inr pages)" and ?l = handled
  let ?xs = "fst (cutEvents ?l es)" and ?es = "snd (cutEvents ?l es)"
  have "idsFit es" using assms(2) by (auto simp: idsFit_def numbered_def firstID_def split: list.split)
  then have "at ?h (firstID es) ?l [] es" by (rule newHistory_at [OF _ assms(1)])
  with assms(2-4) have h: "ready allowed ?h ?l es" "hs_next ?h = []"
    unfolding ready_def by (auto simp: agree_def newHistory_def)
  show ?thesis
  proof (cases "?xs = []")
    case True
    then have e: "?es = []" using cut_started(2) by blast
    from prepareTask_ready [OF h(1)] obtain t h1 where "prepareTask allowed ?h = Inr (t, h1)"
      "pt_events t = ?xs" by blast
    then have "nextTasks (length es + 1) allowed ?h = Inr []"
      using h(2) True by (simp add: nextTask_def firstTask_def currentTask_def keepNext_def)
    then show ?thesis using delivered_cut [of ?l es] e True by simp
  next
    case False
    from ready_first [OF h False] obtain h' where
      h': "nextTasks (length es + 1) allowed ?h = nextTasks (length es + 1) allowed h'"
        "hs_next h' = ?xs" "ready allowed h' ?l ?es" by blast
    moreover have "length ?es < length es + 1" using cut_rest_length(1) [of ?l es] by simp
    ultimately obtain ts where "nextTasks (length es + 1) allowed h' = Inr ts"
        "tasksOf ?xs (?xs @ delivered ?l ?es) ts"
      using nextTasks_ready [OF h'(3,2) False] cut_started by blast
    then show ?thesis unfolding h'(1) delivered_cut [of ?l es] tasksOf_def by blast
  qed
qed

theorem tasks_partition_history_witness:
  "\<exists>ts. nextTasks 7 sdkFlagsDefault (newHistory 0 0 6 (take 2 exampleHistory)
       (map Inr [[], drop 2 exampleHistory])) = Inr ts \<and>
     concat (map pt_events ts) = [exampleHistory ! 0, exampleHistory ! 5]"
proof -
  have "flagsKnown sdkFlagsDefault exampleHistory"
    by (simp add: flagsKnown_def exampleHistory_def eventOf_def taskCompletedOf_def)
  moreover have "delivered 0 exampleHistory = [exampleHistory ! 0, exampleHistory ! 5]"
    by (simp add: exampleHistory_def eventOf_def skipped_def startFailed_def isWorkflowTaskStarted_def
        isTaskScheduled_def isTaskTimedOut_def isTaskFailed_def)
  moreover have "length exampleHistory = 6" by (simp add: exampleHistory_def)
  ultimately show ?thesis
    using tasks_partition_history [of exampleHistory "take 2 exampleHistory"
        "[[], drop 2 exampleHistory]" sdkFlagsDefault 6 0 0] exampleHistory_numbered by auto
qed

text \<open>
  C21. Page boundaries do not matter: a history read in any number of pages, empty ones included,
  gives the same tasks or the same error as the same events in one page.
\<close>

theorem page_boundaries_irrelevant:
  assumes "idsFit (first @ concat pages)"
  shows "nextTasks k allowed (newHistory handled previous started first (map Inr pages)) =
    nextTasks k allowed (newHistory handled previous started (first @ concat pages) [])"
  using assms by (intro nextTasks_same pages_same)

theorem page_boundaries_irrelevant_witness:
  "nextTasks 9 sdkFlagsDefault (newHistory 2 0 6 [] (map Inr [[], take 4 exampleHistory, drop 4 exampleHistory])) =
   nextTasks 9 sdkFlagsDefault (newHistory 2 0 6 exampleHistory [])"
  using page_boundaries_irrelevant [of "[]" "[[], take 4 exampleHistory, drop 4 exampleHistory]" 9
      sdkFlagsDefault 2 0 6] by (simp add: idsFit_def exampleHistory_def eventOf_def)

text \<open>
  C22. A history with a gap is refused before anything behind the gap is delivered. When the events up
  to some point are numbered without a gap and the next one has another id, or there is none although
  the started event is not reached, then asking for tasks ends with an error, and the tasks handed out
  before it hold nothing but an initial part of the events in front of the gap. The error is the one
  that names the two ids, unless a completed task lists an SDK flag that is not known.
\<close>

theorem gaps_are_refused:
  assumes "first @ concat pages = good @ bad" and "idsFit (good @ bad)"
    and "\<forall>i < length good. ev_EventId (good ! i) = firstID (good @ bad) + of_nat i"
    and "gapError started (firstID (good @ bad) + of_nat (length good)) bad = Some err"
  shows "\<exists>ts e rest.
    tasksUntil (length good + 1) allowed (newHistory handled previous started first (map Inr pages)) =
      (ts, Some e) \<and> concat (map pt_events ts) @ rest = delivered handled good \<and>
    (flagsKnown allowed (good @ bad) \<longrightarrow> e = err)"
proof (cases "good @ bad = []")
  case True
  have "at (newHistory handled previous started first (map Inr pages)) 0 handled [] []"
    using newHistory_at [of "[]" first pages handled previous started] assms(1) True
    by (simp add: idsFit_def firstID_def)
  note prepareTask_cut [OF this, of allowed]
  moreover have "cutTask allowed (newHistory handled previous started first (map Inr pages)) 0 handled []
      emptyPreparedTask [] = Inl err"
    using assms(4) True by (intro cutTask_gap) (simp add: newHistory_def firstID_def)
  ultimately have "prepareTask allowed (newHistory handled previous started first (map Inr pages)) = Inl err"
    by (auto simp: preparesAs_def noWrap_def)
  then show ?thesis using True by (simp add: nextTask_def firstTask_def newHistory_def)
next
  case False
  let ?h = "newHistory handled previous started first (map Inr pages)" and ?n = "firstID (good @ bad)"
  have "at ?h ?n handled [] (good @ bad)"
    by (rule newHistory_at [OF assms(2) assms(1) [symmetric]])
  moreover have "0 < sint ?n \<and> sint ?n + int (length (good @ bad)) < 2 ^ 63"
    using assms(2) False by (cases "good @ bad") (simp_all add: idsFit_def firstID_def)
  then have "numbered ?n good" using assms(3) by (auto simp: numbered_def consecutive_def)
  moreover have "hs_lastEventID ?h = started" "hs_next ?h = []" by (simp_all add: newHistory_def)
  ultimately have "beforeGap allowed ?h handled good bad err"
    unfolding beforeGap_def using idsFit_noWrap [OF assms(2)] assms(4) by (auto simp: agree_def)
  from tasksUntil_first [OF this \<open>hs_next ?h = []\<close> less_add_one] show ?thesis
    unfolding endsBefore_def .
qed

definition gappedHistory :: "historyEvent list" where
  "gappedHistory =
     [eventOf 1 (WorkflowEvent (WorkflowExecutionStarted None None None None)),
      eventOf 2 (NoOperation WorkflowTaskScheduled),
      eventOf 3 (TaskEvent (WorkflowTaskStarted False [] False 0)),
      eventOf 4 (NoOperation (WorkflowTaskCompleted
        \<lparr>tc_BinaryChecksum = [], tc_LangUsedFlags = [], tc_SdkName = [], tc_SdkVersion = [],
         tc_DeploymentBuildId = [], tc_WorkerDeploymentVersion = [], tc_WorkerVersionBuildId = []\<rparr>)),
      eventOf 5 (NoOperation WorkflowTaskScheduled),
      eventOf 6 (TaskEvent (WorkflowTaskStarted False [] False 0)),
      eventOf 8 (NoOperation WorkflowTaskScheduled),
      eventOf 9 (TaskEvent (WorkflowTaskStarted False [] False 0))]"

theorem gaps_are_refused_witness:
  "\<exists>ts rest. tasksUntil 7 sdkFlagsDefault (newHistory 0 0 9 (take 2 gappedHistory)
       (map Inr [[], drop 2 gappedHistory])) = (ts, Some (missingEvents 7 8)) \<and>
     concat (map pt_events ts) @ rest =
       [gappedHistory ! 0, gappedHistory ! 2, gappedHistory ! 3, gappedHistory ! 5] \<and>
     map (map ev_EventId) (map pt_events ts) = [[1, 3]]"
proof -
  let ?good = "take 6 gappedHistory" and ?bad = "drop 6 gappedHistory"
  let ?h = "newHistory 0 0 9 (take 2 gappedHistory) (map Inr [[], drop 2 gappedHistory])"
  have l: "length gappedHistory = 8" by (simp add: gappedHistory_def)
  have f: "firstID (?good @ ?bad) = 1" by (simp add: gappedHistory_def firstID_def eventOf_def)
  have "idsFit (?good @ ?bad)" by (simp add: gappedHistory_def idsFit_def eventOf_def)
  moreover have "consecutive 1 ?good"
    by (simp add: gappedHistory_def consecutive_Cons eventOf_def) (simp add: consecutive_def)
  then have "\<forall>i < length ?good. ev_EventId (?good ! i) = firstID (?good @ ?bad) + of_nat i"
    unfolding f consecutive_def .
  moreover have "gapError 9 (firstID (?good @ ?bad) + of_nat (length ?good)) ?bad = Some (missingEvents 7 8)"
    unfolding f by (simp add: gappedHistory_def gapError_def eventOf_def)
  moreover have "flagsKnown sdkFlagsDefault (?good @ ?bad)"
    by (simp add: flagsKnown_def gappedHistory_def eventOf_def taskCompletedOf_def)
  moreover have "delivered 0 ?good = [gappedHistory ! 0, gappedHistory ! 2, gappedHistory ! 3, gappedHistory ! 5]"
    by (simp add: gappedHistory_def eventOf_def skipped_def startFailed_def isWorkflowTaskStarted_def
        isTaskScheduled_def isTaskTimedOut_def isTaskFailed_def)
  moreover have "map (map ev_EventId) (map pt_events (fst (tasksUntil 7 sdkFlagsDefault ?h))) = [[1, 3]]"
    by code_simp
  ultimately show ?thesis
    using gaps_are_refused [of "take 2 gappedHistory" "[[], drop 2 gappedHistory]" ?good ?bad 9
        "missingEvents 7 8" sdkFlagsDefault 0 0] by (auto simp: l)
qed

end
