(* ===== verification/Replay_Properties.thy ===== *)
theory Replay_Properties
  imports Replay_Match History_Tasks
begin

text \<open>
  What the comparison of a replay with history accepts: exactly the commands that match the compared
  events one by one.
\<close>

section \<open>Commands and events without missing parts\<close>

definition attributesFit :: "command \<Rightarrow> bool" where
  "attributesFit d =
     (case cmd_CommandType d of
        COMMAND_TYPE_SCHEDULE_ACTIVITY_TASK \<Rightarrow>
          (\<exists>a. cmd_Attributes d = ScheduleActivityTaskCommandAttributes a)
      | COMMAND_TYPE_SIGNAL_EXTERNAL_WORKFLOW_EXECUTION \<Rightarrow>
          (\<exists>a. cmd_Attributes d = SignalExternalWorkflowExecutionCommandAttributes a)
      | COMMAND_TYPE_START_CHILD_WORKFLOW_EXECUTION \<Rightarrow>
          (\<exists>a. cmd_Attributes d = StartChildWorkflowExecutionCommandAttributes a)
      | _ \<Rightarrow> True)"

definition hasSearchAttributes :: "historyEvent \<Rightarrow> bool" where
  "hasSearchAttributes e \<longleftrightarrow> ev_Attributes e \<noteq> WorkflowEvent (UpsertWorkflowSearchAttributes None)"

lemma isCommandMatchEvent_returns:
  "attributesFit d \<Longrightarrow> \<exists>b. isCommandMatchEvent d e msgs = Inr b"
  by (cases "cmd_CommandType d")
    (auto simp: attributesFit_def isCommandMatchEvent_def matchScheduleActivity_def matchSignalExternal_def
      matchStartChild_def Let_def split: eventAttributes.split activityEvent.split externalEvent.split
      childWorkflowEvent.split)

lemma upsertsChangeVersion_returns:
  "hasSearchAttributes e \<Longrightarrow> \<exists>b. upsertsChangeVersion (ev_Attributes e) = Inr b"
  by (cases "ev_Attributes e" rule: upsertsChangeVersion.cases) (auto simp: hasSearchAttributes_def)

lemma skipUpsert_returns:
  assumes "\<forall>e \<in> set es. hasSearchAttributes e"
  shows "\<exists>b. skipDeterministicCheckForUpsertChangeVersion es = Inr b"
  using assms upsertsChangeVersion_returns
  by (auto simp: skipDeterministicCheckForUpsertChangeVersion_def split: list.split eventAttributes.split)

section \<open>What is compared\<close>

fun comparedEvents :: "flagMap \<Rightarrow> sdkFlags \<Rightarrow> historyEvent list \<Rightarrow> historyEvent list" where
  "comparedEvents allowed sf [] = []"
| "comparedEvents allowed sf (e # es) =
     (if skipDeterministicCheckForUpsertChangeVersion (e # es) = Inr True
      then comparedEvents allowed sf (tl es)
      else if skipDeterministicCheckForEvent allowed sf (ev_Attributes e)
      then comparedEvents allowed sf es
      else e # comparedEvents allowed sf es)"

definition comparedCommands :: "command list \<Rightarrow> command list" where
  "comparedCommands ds = filter (\<lambda>d. \<not> skipDeterministicCheckForCommand d) ds"

text \<open>
  C2. A replay is accepted exactly when its commands match history one by one, in order: after the
  markers of versions and mutable side effects are left out on both sides, and the closing and (under
  old flags) update events in history, there are as many commands as events and each command matches
  its event. Otherwise a mismatch error is returned; the comparison ends and does not panic when every
  command has the attributes of its type.
\<close>

theorem replay_accepted_iff_commands_match:
  assumes "\<forall>d \<in> set ds. attributesFit d" and "\<forall>e \<in> set es. hasSearchAttributes e"
  shows "\<exists>r. matchReplayWithHistory allowed ds es msgs sf = Inr r \<and>
    (r = None \<longleftrightarrow> list_all2 (\<lambda>d e. isCommandMatchEvent d e msgs = Inr True)
       (comparedCommands ds) (comparedEvents allowed sf es)) \<and>
    r \<in> {None, Some missingCommand, Some extraCommand, Some differentCommand}"
  unfolding matchReplayWithHistory_def
  using assms
proof (induction allowed sf msgs ds es rule: matchLoop.induct)
  case (1 allowed sf msgs)
  then show ?case by (simp add: comparedCommands_def)
next
  case (2 allowed sf msgs ds e es)
  obtain b where b: "skipDeterministicCheckForUpsertChangeVersion (e # es) = Inr b"
    using skipUpsert_returns [OF "2.prems"(2)] by blast
  have tl: "\<forall>x \<in> set (tl es). hasSearchAttributes x" using "2.prems"(2) by (cases es) auto
  show ?case
  proof (cases b)
    case True
    with "2.IH"(1) [OF b True "2.prems"(1) tl] b show ?thesis by simp
  next
    case nb: False
    show ?thesis
    proof (cases "skipDeterministicCheckForEvent allowed sf (ev_Attributes e)")
      case True
      with "2.IH"(2) [OF b nb True "2.prems"(1)] "2.prems"(2) b nb show ?thesis by simp
    next
      case se: False
      show ?thesis
      proof (cases ds)
        case Nil
        with b nb se show ?thesis by (simp add: comparedCommands_def)
      next
        case (Cons d ds1)
        show ?thesis
        proof (cases "skipDeterministicCheckForCommand d")
          case True
          with "2.IH"(3) [OF b nb se Cons True] "2.prems" b nb se Cons show ?thesis
            by (simp add: comparedCommands_def)
        next
          case False
          obtain m where m: "isCommandMatchEvent d e msgs = Inr m"
            using isCommandMatchEvent_returns "2.prems"(1) Cons by fastforce
          with "2.IH"(4) [OF b nb se Cons False m] "2.prems" b nb se Cons False show ?thesis
            by (cases m) (simp_all add: comparedCommands_def)
        qed
      qed
    qed
  qed
next
  case (3 allowed sf msgs d ds)
  then show ?case by (cases "skipDeterministicCheckForCommand d") (simp_all add: comparedCommands_def)
qed

definition timerCommand :: "string \<Rightarrow> command" where
  "timerCommand i = (createNewCommand COMMAND_TYPE_START_TIMER)
     \<lparr>cmd_Attributes := StartTimerCommandAttributes \<lparr>timer_TimerId = i, timer_StartToFireTimeout = 1\<rparr>\<rparr>"

definition versionEvent :: historyEvent where
  "versionEvent = eventOf 5 (MarkerRecorded versionMarkerName None None)"

theorem replay_accepted_iff_commands_match_witness:
  "matchReplayWithHistory sdkFlagsDefault [timerCommand ''7'', timerCommand ''8'']
     [versionEvent, eventOf 6 (TimerEvent (TimerStarted ''7'')), eventOf 7 (TimerEvent (TimerStarted ''8''))]
     [] (newSDKFlagSet True) = Inr None"
proof -
  let ?ds = "[timerCommand ''7'', timerCommand ''8'']"
  let ?es = "[versionEvent, eventOf 6 (TimerEvent (TimerStarted ''7'')), eventOf 7 (TimerEvent (TimerStarted ''8''))]"
  have d: "comparedCommands ?ds = ?ds"
    by (simp add: comparedCommands_def skipDeterministicCheckForCommand_def timerCommand_def createNewCommand_def)
  have e: "comparedEvents sdkFlagsDefault (newSDKFlagSet True) ?es = tl ?es"
    by (simp add: versionEvent_def eventOf_def skipDeterministicCheckForUpsertChangeVersion_def
        skipDeterministicCheckForEvent_def flexibleMarker_def)
  have "list_all2 (\<lambda>d e. isCommandMatchEvent d e [] = Inr True) ?ds (tl ?es)"
    by (simp add: isCommandMatchEvent_def timerCommand_def createNewCommand_def eventOf_def matchStartTimer_def)
  moreover have "\<forall>d \<in> set ?ds. attributesFit d"
    by (simp add: attributesFit_def timerCommand_def createNewCommand_def)
  moreover have "\<forall>e \<in> set ?es. hasSearchAttributes e"
    by (simp add: hasSearchAttributes_def eventOf_def versionEvent_def)
  ultimately show ?thesis
    using replay_accepted_iff_commands_match [of ?ds ?es sdkFlagsDefault "[]" "newSDKFlagSet True",
        unfolded d e] by blast
qed

end
