(* ===== verification/Failure_Converter.thy ===== *)
theory Failure_Converter
  imports Go_Errors
begin

text \<open>
  The default failure converter (\<open>internal/failure_converter.go\<close>, with the encoding of common
  attributes of \<open>converter/failure_converter.go\<close>): errors become failures of the Temporal API and
  failures become errors, cause by cause. The data converter is a parameter, and so are the text of a
  handler error of the nexus package and the JSON encodings of failures.
\<close>

section \<open>The converter\<close>

record defaultFailureConverter =
  dfc_dataConverter :: dataConverter
  dfc_encodeCommonAttributes :: bool
  dfc_handlerErrorText :: "goError \<Rightarrow> string"
  dfc_protojsonMarshal :: "failure \<Rightarrow> string + string"
  dfc_protojsonUnmarshal :: "string \<Rightarrow> string + failure"
  dfc_jsonMarshal :: "nexusFailure \<Rightarrow> string + string"

definition convertErrDetailsToPayloads ::
    "errorDetails \<Rightarrow> dataConverter \<Rightarrow> payloads option res" where
  "convertErrDetailsToPayloads dets dc =
     (case dets of
        ErrorDetailsValues vs \<Rightarrow> panicOnError (dc_ToPayloads dc vs)
      | EncodedValues p \<Rightarrow> Inr p)"

definition EncodeCommonFailureAttributes :: "dataConverter \<Rightarrow> failure \<Rightarrow> string + failure" where
  "EncodeCommonFailureAttributes dc f =
     (case dc_ToPayload dc (GoEncodedFailure (f_Message f) (f_StackTrace f)) of
        Inl err \<Rightarrow> Inl err
      | Inr p \<Rightarrow> Inr (Failure ''Encoded failure'' (f_Source f) [] p (f_Info f) (f_Cause f)))"

definition DecodeCommonFailureAttributes :: "dataConverter \<Rightarrow> failure \<Rightarrow> failure" where
  "DecodeCommonFailureAttributes dc f =
     (case f_EncodedAttributes f of
        None \<Rightarrow> f
      | Some p \<Rightarrow>
         (case dc_FromPayload dc p (GoEncodedFailure [] []) of
            Inr (GoEncodedFailure msg stack) \<Rightarrow>
              Failure msg (f_Source f) stack (f_EncodedAttributes f) (f_Info f) (f_Cause f)
          | _ \<Rightarrow> f))"

section \<open>Nexus failures\<close>

definition failureTypeString :: string where
  "failureTypeString = ''temporal.api.failure.v1.Failure''"

definition temporalFailureToNexusFailure ::
    "defaultFailureConverter \<Rightarrow> failure \<Rightarrow> string + nexusFailure" where
  "temporalFailureToNexusFailure dfc f =
     (case dfc_protojsonMarshal dfc
         (Failure [] (f_Source f) [] (f_EncodedAttributes f) (f_Info f) (f_Cause f)) of
        Inl err \<Rightarrow> Inl err
      | Inr b \<Rightarrow> Inr \<lparr>nf_Message = f_Message f, nf_StackTrace = f_StackTrace f,
                   nf_Metadata = [(''type'', failureTypeString)], nf_Details = b\<rparr>)"

definition nexusFailureMetadataToPayloads ::
    "defaultFailureConverter \<Rightarrow> nexusFailure \<Rightarrow> string + payloads option" where
  "nexusFailureMetadataToPayloads dfc f =
     (if nf_Metadata f = [] \<and> nf_Details f = [] then Inr None
      else
        (case dfc_jsonMarshal dfc (f\<lparr>nf_Message := []\<rparr>) of
           Inl err \<Rightarrow> Inl err
         | Inr data \<Rightarrow> Inr (Some [\<lparr>payload_metadata = [(''encoding'', ''json/plain'')],
                                payload_data = Some data\<rparr>])))"

definition nexusFailureToTemporalFailure ::
    "defaultFailureConverter \<Rightarrow> nexusFailure \<Rightarrow> bool \<Rightarrow> string + failure" where
  "nexusFailureToTemporalFailure dfc f retryable =
     (case (if map_of (nf_Metadata f) ''type'' = Some failureTypeString
            then dfc_protojsonUnmarshal dfc (nf_Details f)
            else map_sum id (\<lambda>p. Failure [] [] [] None
                   (ApplicationFailureInfo ''NexusFailure'' (\<not> retryable) p None 0) None)
                   (nexusFailureMetadataToPayloads dfc f)) of
        Inl err \<Rightarrow> Inl err
      | Inr api \<Rightarrow> Inr (Failure (nf_Message f) (f_Source api) (nf_StackTrace f)
                     (f_EncodedAttributes api) (f_Info api) (f_Cause api)))"

section \<open>Errors to failures\<close>

text \<open>The failure an error was made from (\<open>failureHolder\<close>).\<close>

fun originalFailure :: "goError \<Rightarrow> failure option" where
  "originalFailure (ApplicationError f _ _ _ _ _ _ _) = f"
| "originalFailure (CanceledError f _ _ _) = f"
| "originalFailure (TimeoutError f _ _ _ _) = f"
| "originalFailure (TerminatedError f) = f"
| "originalFailure (PanicErr f _ _) = f"
| "originalFailure (ServerError f _ _ _) = f"
| "originalFailure (ActivityError f _ _ _ _ _ _ _) = f"
| "originalFailure (ChildWorkflowExecutionError f _ _ _ _ _ _ _ _) = f"
| "originalFailure (NexusOperationError f _ _ _ _ _ _ _) = f"
| "originalFailure _ = None"

text \<open>
  The retry behaviors of the nexus package and of the Temporal API have the same numbers: 1 is
  retryable, 2 is not retryable, and a value that neither names is converted to 0, unspecified.
\<close>

definition nexusRetryBehavior :: "nat \<Rightarrow> nat" where
  "nexusRetryBehavior rb = (if rb = 1 then 1 else if rb = 2 then 2 else 0)"

text \<open>The failure info of each error type; encoding the details may panic.\<close>

fun failureInfoOf :: "defaultFailureConverter \<Rightarrow> goError \<Rightarrow> failureInfo res" where
  "failureInfoOf dfc (ApplicationError _ _ errType nonRetryable dets delay category _) =
     bind_res (convertErrDetailsToPayloads dets (dfc_dataConverter dfc)) (\<lambda>p.
     Inr (ApplicationFailureInfo errType nonRetryable p (if delay \<noteq> 0 then Some delay else None) category))"
| "failureInfoOf dfc (CanceledError _ _ dets _) =
     bind_res (convertErrDetailsToPayloads dets (dfc_dataConverter dfc)) (\<lambda>p.
     Inr (CanceledFailureInfo p))"
| "failureInfoOf dfc (PanicErr f v s) =
     Inr (ApplicationFailureInfo (getErrType (PanicErr f v s)) False None None 0)"
| "failureInfoOf dfc (WorkflowPanicError _ _) =
     Inr (ApplicationFailureInfo (getErrType (PanicErr None [] [])) True None None 0)"
| "failureInfoOf dfc (TimeoutError _ _ t dets _) =
     bind_res (convertErrDetailsToPayloads dets (dfc_dataConverter dfc)) (\<lambda>p.
     Inr (TimeoutFailureInfo t p))"
| "failureInfoOf dfc (TerminatedError _) = Inr TerminatedFailureInfo"
| "failureInfoOf dfc (ServerError _ _ nonRetryable _) = Inr (ServerFailureInfo nonRetryable)"
| "failureInfoOf dfc (ActivityError _ scheduled started identity activityType activityID retry _) =
     Inr (ActivityFailureInfo scheduled started identity activityType activityID retry)"
| "failureInfoOf dfc (ChildWorkflowExecutionError _ namespace workflowID runID workflowType initiated
       started retry _) =
     Inr (ChildWorkflowExecutionFailureInfo namespace workflowID runID workflowType initiated started retry)"
| "failureInfoOf dfc (NexusOperationError _ _ scheduled endpoint service operation token _) =
     Inr (NexusOperationExecutionFailureInfo scheduled endpoint service operation token token)"
| "failureInfoOf dfc (HandlerError t _ _ retryBehavior _ _) =
     Inr (NexusHandlerFailureInfo t (nexusRetryBehavior retryBehavior))"
| "failureInfoOf dfc e = Inr (ApplicationFailureInfo (getErrType e) False None None 0)"

fun failureMessage :: "defaultFailureConverter \<Rightarrow> goError \<Rightarrow> string" where
  "failureMessage dfc (HandlerError t msg st rb f c) =
     (if msg \<noteq> [] then msg else Error (dfc_handlerErrorText dfc) (HandlerError t msg st rb f c))"
| "failureMessage dfc e =
     (case message e of Some m \<Rightarrow> m | None \<Rightarrow> Error (dfc_handlerErrorText dfc) e)"

fun failureStackTrace :: "goError \<Rightarrow> string" where
  "failureStackTrace (PanicErr _ _ stack) = stack"
| "failureStackTrace (WorkflowPanicError _ stack) = stack"
| "failureStackTrace (HandlerError _ _ stack _ _ _) = stack"
| "failureStackTrace _ = []"

text \<open>The failure that is returned as it is: of a failure holder, or of a nexus handler error.\<close>

fun readyFailure :: "defaultFailureConverter \<Rightarrow> goError \<Rightarrow> failure option" where
  "readyFailure dfc (HandlerError _ _ _ _ (Some original) _) =
     (case nexusFailureToTemporalFailure dfc original True of Inl _ \<Rightarrow> None | Inr f \<Rightarrow> Some f)"
| "readyFailure dfc e = originalFailure e"

definition encodedFailure :: "defaultFailureConverter \<Rightarrow> failure \<Rightarrow> failure res" where
  "encodedFailure dfc f =
     (if dfc_encodeCommonAttributes dfc
      then panicOnError (EncodeCommonFailureAttributes (dfc_dataConverter dfc) f) else Inr f)"

function errorToFailure :: "defaultFailureConverter \<Rightarrow> goError \<Rightarrow> failure res" where
  "errorToFailure dfc e =
     (case readyFailure dfc e of
        Some f \<Rightarrow> Inr f
      | None \<Rightarrow>
          bind_res (failureInfoOf dfc e) (\<lambda>info.
          bind_res (case Unwrap e of
              None \<Rightarrow> Inr None
            | Some c \<Rightarrow> bind_res (errorToFailure dfc c) (\<lambda>f. Inr (Some f))) (\<lambda>cause.
          encodedFailure dfc
            (Failure (failureMessage dfc e) ''GoSDK'' (failureStackTrace e) None info cause))))"
  by auto
termination
  by (relation "measure (\<lambda>(dfc, e). size e)") (auto dest: size_Unwrap)

declare errorToFailure.simps [simp del]

definition ErrorToFailure :: "defaultFailureConverter \<Rightarrow> goError option \<Rightarrow> failure option res" where
  "ErrorToFailure dfc err =
     (case err of None \<Rightarrow> Inr None | Some e \<Rightarrow> bind_res (errorToFailure dfc e) (\<lambda>f. Inr (Some f)))"

section \<open>Failures to errors\<close>

fun setFailure :: "failure \<Rightarrow> goError \<Rightarrow> goError" where
  "setFailure f (ApplicationError _ a b c d e g h) = ApplicationError (Some f) a b c d e g h"
| "setFailure f (CanceledError _ a b c) = CanceledError (Some f) a b c"
| "setFailure f (TimeoutError _ a b c d) = TimeoutError (Some f) a b c d"
| "setFailure f (TerminatedError _) = TerminatedError (Some f)"
| "setFailure f (PanicErr _ a b) = PanicErr (Some f) a b"
| "setFailure f (ServerError _ a b c) = ServerError (Some f) a b c"
| "setFailure f (ActivityError _ a b c d e g h) = ActivityError (Some f) a b c d e g h"
| "setFailure f (ChildWorkflowExecutionError _ a b c d e g h i) =
     ChildWorkflowExecutionError (Some f) a b c d e g h i"
| "setFailure f (NexusOperationError _ a b c d e g h) = NexusOperationError (Some f) a b c d e g h"
| "setFailure f e = e"

definition handlerErrorPrefix :: "string \<Rightarrow> string" where
  "handlerErrorPrefix typ = ''handler error ('' @ typ @ '')''"

text \<open>
  The error of a failure whose message and stack trace were decoded, without the original failure.
  The original failure of a nexus handler error is converted from the decoded failure.
\<close>

definition errorOfInfo ::
    "defaultFailureConverter \<Rightarrow> failure \<Rightarrow> failure option \<Rightarrow> goError option \<Rightarrow> goError" where
  "errorOfInfo dfc decoded decodedCause cause =
     (let msg = f_Message decoded; stack = f_StackTrace decoded in
      case f_Info decoded of
        ApplicationFailureInfo typ nonRetryable dets delay category \<Rightarrow>
          if typ = getErrType (PanicErr None [] []) then newPanicError msg stack
          else NewApplicationErrorWithOptions msg typ nonRetryable cause (EncodedValues dets)
                 (case delay of None \<Rightarrow> 0 | Some d \<Rightarrow> d) category
      | CanceledFailureInfo dets \<Rightarrow> NewCanceledErrorWithOptions msg (EncodedValues dets) cause
      | TimeoutFailureInfo t dets \<Rightarrow> NewTimeoutError msg t cause (EncodedValues dets)
      | TerminatedFailureInfo \<Rightarrow> newTerminatedError
      | ServerFailureInfo nonRetryable \<Rightarrow> NewServerError msg nonRetryable cause
      | ResetWorkflowFailureInfo dets \<Rightarrow> NewApplicationError msg [] True cause (EncodedValues dets)
      | ActivityFailureInfo scheduled started identity activityType activityID retry \<Rightarrow>
          NewActivityError scheduled started identity activityType activityID retry cause
      | ChildWorkflowExecutionFailureInfo namespace workflowID runID workflowType initiated started retry \<Rightarrow>
          NewChildWorkflowExecutionError namespace workflowID runID workflowType initiated started
            retry cause
      | NexusOperationExecutionFailureInfo scheduled endpoint service operation operationID token \<Rightarrow>
          NexusOperationError None msg scheduled endpoint service operation
            (if token = [] then operationID else token) cause
      | NexusHandlerFailureInfo typ retryBehavior \<Rightarrow>
          HandlerError typ
            (if take (length (handlerErrorPrefix typ)) msg = handlerErrorPrefix typ then [] else msg)
            stack (nexusRetryBehavior retryBehavior)
            (case temporalFailureToNexusFailure dfc
                (Failure msg (f_Source decoded) stack (f_EncodedAttributes decoded) (f_Info decoded)
                  decodedCause) of
               Inl _ \<Rightarrow> None
             | Inr f \<Rightarrow> Some f) cause
      | NoFailureInfo \<Rightarrow> NewApplicationError msg [] False cause (ErrorDetailsValues []))"

text \<open>Whether the cause of a failure is converted: not for panics and terminations.\<close>

fun convertsCause :: "failureInfo \<Rightarrow> bool" where
  "convertsCause (ApplicationFailureInfo typ _ _ _ _) \<longleftrightarrow> typ \<noteq> getErrType (PanicErr None [] [])"
| "convertsCause TerminatedFailureInfo \<longleftrightarrow> False"
| "convertsCause _ \<longleftrightarrow> True"

text \<open>
  A nexus handler failure that cannot be marshaled is left without its message and stack trace, which
  \<open>temporalFailureToNexusFailure\<close> puts back only when it succeeds.
\<close>

definition leftBehind :: "defaultFailureConverter \<Rightarrow> failure \<Rightarrow> failure" where
  "leftBehind dfc f =
     (case f_Info f of
        NexusHandlerFailureInfo _ _ \<Rightarrow>
          (case temporalFailureToNexusFailure dfc f of
             Inl _ \<Rightarrow> Failure [] (f_Source f) [] (f_EncodedAttributes f) (f_Info f) (f_Cause f)
           | Inr _ \<Rightarrow> f)
      | _ \<Rightarrow> f)"

text \<open>
  Converting a failure decodes it and the causes that are converted in place: the function returns
  the error and the failure as it is left behind.
\<close>

primrec failureToError :: "defaultFailureConverter \<Rightarrow> failure \<Rightarrow> goError \<times> failure"
  and causeToError :: "defaultFailureConverter \<Rightarrow> failure option \<Rightarrow> (goError \<times> failure) option" where
  "failureToError dfc (Failure msg source stack attrs info cause) =
     (let original = Failure msg source stack attrs info cause;
          decoded = DecodeCommonFailureAttributes (dfc_dataConverter dfc) original;
          converted = (if convertsCause info then causeToError dfc cause else None);
          decodedCause = (case converted of Some (_, f) \<Rightarrow> Some f | None \<Rightarrow> cause)
      in (setFailure original (errorOfInfo dfc decoded decodedCause (map_option fst converted)),
          leftBehind dfc
            (Failure (f_Message decoded) source (f_StackTrace decoded) attrs info decodedCause)))"
| "causeToError dfc None = None"
| "causeToError dfc (Some f) = Some (failureToError dfc f)"

definition FailureToError :: "defaultFailureConverter \<Rightarrow> failure option \<Rightarrow> goError option" where
  "FailureToError dfc f = map_option (\<lambda>f. fst (failureToError dfc f)) f"

end
