(* ===== verification/Failure_Properties.thy ===== *)
theory Failure_Properties
  imports Failure_Converter Example_Env
begin

text \<open>
  What the default failure converter keeps: an error converted to a failure and back describes the
  same failure, also when nothing of the failure itself was remembered, and a failure converted to an
  error and back is the same failure, except for the failure of a nexus handler, which comes back
  decoded.
\<close>

section \<open>Failures that are remembered\<close>

definition isHandlerInfo :: "failureInfo \<Rightarrow> bool" where
  "isHandlerInfo info = (case info of NexusHandlerFailureInfo _ _ \<Rightarrow> True | _ \<Rightarrow> False)"

lemma readyFailure_setFailure:
  assumes "\<not> isHandlerInfo (f_Info d)"
  shows "readyFailure dfc (setFailure f (errorOfInfo dfc d dc cause)) = Some f"
  using assms
  by (auto simp: errorOfInfo_def Let_def isHandlerInfo_def newPanicError_def
      NewApplicationErrorWithOptions_def NewApplicationError_def NewCanceledErrorWithOptions_def
      NewTimeoutError_def newTerminatedError_def NewServerError_def NewActivityError_def
      NewChildWorkflowExecutionError_def split: failureInfo.split)

lemma DecodeCommonFailureAttributes_sel [simp]:
  "f_Info (DecodeCommonFailureAttributes dc f) = f_Info f"
  "f_Source (DecodeCommonFailureAttributes dc f) = f_Source f"
  "f_EncodedAttributes (DecodeCommonFailureAttributes dc f) = f_EncodedAttributes f"
  by (auto simp: DecodeCommonFailureAttributes_def split: option.split sum.split goValue.split)

text \<open>What goes into the details of a nexus failure.\<close>

definition withoutText :: "failure \<Rightarrow> failure" where
  "withoutText f = Failure [] (f_Source f) [] (f_EncodedAttributes f) (f_Info f) (f_Cause f)"

lemma remembered:
  assumes "\<not> isHandlerInfo (f_Info f)"
  shows "readyFailure dfc (fst (failureToError dfc f)) = Some f"
  using assms by (cases f) (simp add: Let_def readyFailure_setFailure)

lemma withoutText_leftBehind [simp]: "withoutText (leftBehind dfc f) = withoutText f"
  by (auto simp: leftBehind_def withoutText_def split: failureInfo.split sum.split)

lemma failureToError_info: "f_Info (snd (failureToError dfc f)) = f_Info f"
  by (cases f) (auto simp: Let_def leftBehind_def split: failureInfo.split sum.split)

lemma leftBehind_marshaled:
  "dfc_protojsonMarshal dfc (withoutText f) = Inr b \<Longrightarrow> leftBehind dfc f = f"
  by (auto simp: leftBehind_def withoutText_def temporalFailureToNexusFailure_def split: failureInfo.split)

lemma handler_comes_back_decoded:
  assumes "\<forall>g b. dfc_protojsonMarshal dfc g = Inr b \<longrightarrow> dfc_protojsonUnmarshal dfc b = Inr g"
    and "isHandlerInfo (f_Info f)"
    and "dfc_protojsonMarshal dfc (withoutText (snd (failureToError dfc f))) = Inr b"
  shows "readyFailure dfc (fst (failureToError dfc f)) = Some (snd (failureToError dfc f))"
proof -
  obtain msg source stack attrs t rb cause where
    f: "f = Failure msg source stack attrs (NexusHandlerFailureInfo t rb) cause"
    using assms(2) by (cases f) (auto simp: isHandlerInfo_def split: failureInfo.splits)
  have marshal: "dfc_protojsonMarshal dfc
      (withoutText (Failure (f_Message (DecodeCommonFailureAttributes (dfc_dataConverter dfc) f)) source
        (f_StackTrace (DecodeCommonFailureAttributes (dfc_dataConverter dfc) f)) attrs
        (NexusHandlerFailureInfo t rb)
        (case causeToError dfc cause of Some (_, c) \<Rightarrow> Some c | None \<Rightarrow> cause))) = Inr b"
    using assms(3) by (simp add: f Let_def)
  show ?thesis
    using assms(1) marshal leftBehind_marshaled [OF marshal]
    by (auto simp: f Let_def errorOfInfo_def temporalFailureToNexusFailure_def withoutText_def
        nexusFailureToTemporalFailure_def failureTypeString_def)
qed

section \<open>Errors without a remembered failure\<close>

fun forget :: "goError \<Rightarrow> goError" where
  "forget (ApplicationError _ a b c d e g cause) = ApplicationError None a b c d e g (map_option forget cause)"
| "forget (CanceledError _ a b cause) = CanceledError None a b (map_option forget cause)"
| "forget (TimeoutError _ a b c cause) = TimeoutError None a b c (map_option forget cause)"
| "forget (TerminatedError _) = TerminatedError None"
| "forget (PanicErr _ a b) = PanicErr None a b"
| "forget (ServerError _ a b cause) = ServerError None a b (map_option forget cause)"
| "forget (ActivityError _ a b c d e g cause) = ActivityError None a b c d e g (map_option forget cause)"
| "forget (ChildWorkflowExecutionError _ a b c d e g h cause) =
     ChildWorkflowExecutionError None a b c d e g h (map_option forget cause)"
| "forget (NexusOperationError _ a b c d e g cause) =
     NexusOperationError None a b c d e g (map_option forget cause)"
| "forget (WorkflowExecutionError a b c cause) = WorkflowExecutionError a b c (map_option forget cause)"
| "forget (HandlerError a b c d _ cause) = HandlerError a b c d None (map_option forget cause)"
| "forget (OtherError a b cause) = OtherError a b (map_option forget cause)"
| "forget e = e"

text \<open>
  The errors that a failure describes completely: not panics of workflow code, which come back as
  panics of an activity, not nexus errors, whose text goes into the message, and not the corner cases
  of an application error that has the type of panics and a cancellation without a message.
\<close>

fun described :: "goError \<Rightarrow> bool" where
  "described (ApplicationError f _ t _ _ _ _ _) \<longleftrightarrow> f = None \<and> t \<noteq> ''PanicError''"
| "described (CanceledError f msg _ _) \<longleftrightarrow> f = None \<and> msg \<noteq> []"
| "described (WorkflowPanicError _ _) \<longleftrightarrow> False"
| "described (NexusOperationError _ _ _ _ _ _ _ _) \<longleftrightarrow> False"
| "described (HandlerError _ _ _ _ _ _) \<longleftrightarrow> False"
| "described (OtherError t _ _) \<longleftrightarrow> t \<noteq> ''PanicError''"
| "described e \<longleftrightarrow> originalFailure e = None"

lemmas new_error_defs = newPanicError_def NewApplicationErrorWithOptions_def NewApplicationError_def
  NewCanceledErrorWithOptions_def NewTimeoutError_def newTerminatedError_def NewServerError_def
  NewActivityError_def NewChildWorkflowExecutionError_def

text \<open>One error of a chain: what its failure says, its error says again.\<close>

lemma described_again:
  assumes e: "described e" and info: "failureInfoOf dfc e = Inr info"
    and c: "Unwrap e = None \<Longrightarrow> cause = None"
    and e': "e' = forget (setFailure f (errorOfInfo dfc
      (Failure (failureMessage dfc e) source (failureStackTrace e) attrs info fc) dc cause))"
  shows "readyFailure dfc e' = None" "failureInfoOf dfc e' = Inr info"
    "failureMessage dfc e' = failureMessage dfc e" "failureStackTrace e' = failureStackTrace e"
    "Unwrap e' = map_option forget cause"
  unfolding e' using e info c
  by (cases e; force simp: errorOfInfo_def new_error_defs convertErrDetailsToPayloads_def bind_res_eq_Inr)+

lemma described_ready: "described e \<Longrightarrow> readyFailure dfc e = None"
  by (cases e) auto

lemma described_converts: "described e \<Longrightarrow> failureInfoOf dfc e = Inr info \<Longrightarrow> Unwrap e \<noteq> None \<Longrightarrow> convertsCause info"
  by (cases e) (auto simp: bind_res_eq_Inr)

text \<open>The converter decodes what it encoded of a failure.\<close>

definition decodesTexts :: "dataConverter \<Rightarrow> bool" where
  "decodesTexts dc \<longleftrightarrow>
     (\<forall>m s p. dc_ToPayload dc (GoEncodedFailure m s) = Inr p \<longrightarrow>
        (\<exists>q. p = Some q \<and>
           dc_FromPayload dc q (GoEncodedFailure [] []) = Inr (GoEncodedFailure m s)))"

definition decodesFailures :: "defaultFailureConverter \<Rightarrow> bool" where
  "decodesFailures dfc \<longleftrightarrow> (dfc_encodeCommonAttributes dfc \<longrightarrow> decodesTexts (dfc_dataConverter dfc))"

lemma encoded_decodes:
  assumes "decodesTexts dc" and "EncodeCommonFailureAttributes dc (Failure m s st None info cause) = Inr f"
  shows "f = Failure ''Encoded failure'' s [] (f_EncodedAttributes f) info cause"
    "DecodeCommonFailureAttributes dc f = Failure m s st (f_EncodedAttributes f) info cause"
proof -
  from assms(2) obtain p where p: "dc_ToPayload dc (GoEncodedFailure m st) = Inr p"
    and f: "f = Failure ''Encoded failure'' s [] p info cause"
    by (auto simp: EncodeCommonFailureAttributes_def split: sum.splits)
  from p assms(1) obtain q where q: "p = Some q"
    "dc_FromPayload dc q (GoEncodedFailure [] []) = Inr (GoEncodedFailure m st)"
    unfolding decodesTexts_def by blast
  show "f = Failure ''Encoded failure'' s [] (f_EncodedAttributes f) info cause" by (simp add: f)
  show "DecodeCommonFailureAttributes dc f = Failure m s st (f_EncodedAttributes f) info cause"
    by (simp add: f q DecodeCommonFailureAttributes_def)
qed

lemma encodedFailure_decodes:
  assumes "decodesFailures dfc" and "encodedFailure dfc (Failure m s st None info cause) = Inr f"
  obtains fm fst attrs where "f = Failure fm s fst attrs info cause"
    "DecodeCommonFailureAttributes (dfc_dataConverter dfc) f = Failure m s st attrs info cause"
proof (cases "dfc_encodeCommonAttributes dfc")
  case True
  with assms have "decodesTexts (dfc_dataConverter dfc)"
    "EncodeCommonFailureAttributes (dfc_dataConverter dfc) (Failure m s st None info cause) = Inr f"
    by (auto simp: decodesFailures_def encodedFailure_def panicOnError_def split: sum.splits)
  from encoded_decodes [OF this] show ?thesis by (rule that)
next
  case False
  with assms(2) have "f = Failure m s st None info cause" by (simp add: encodedFailure_def)
  then show ?thesis
    by (intro that [of m st None]) (simp_all add: DecodeCommonFailureAttributes_def)
qed

lemma errorToFailure_eq:
  assumes "readyFailure dfc e = None" and "failureInfoOf dfc e = Inr info"
  shows "errorToFailure dfc e =
    bind_res (case Unwrap e of
        None \<Rightarrow> Inr None | Some c \<Rightarrow> bind_res (errorToFailure dfc c) (\<lambda>f. Inr (Some f))) (\<lambda>cause.
    encodedFailure dfc (Failure (failureMessage dfc e) ''GoSDK'' (failureStackTrace e) None info cause))"
  using assms by (simp add: errorToFailure.simps [of dfc e])

lemma errorToFailure_again:
  assumes dec: "decodesFailures dfc"
  shows "\<forall>x \<in> set (errorChain e). described x \<Longrightarrow> errorToFailure dfc e = Inr f \<Longrightarrow>
    errorToFailure dfc (forget (fst (failureToError dfc f))) = Inr f"
proof (induction e arbitrary: f rule: measure_induct_rule [of size])
  case (less e)
  have e: "described e" using less.prems(1) by (simp add: errorChain.simps [of e])
  have run: "errorToFailure dfc e = Inr f" by (rule less.prems(2))
  then obtain info where info: "failureInfoOf dfc e = Inr info"
    using described_ready [OF e, of dfc] by (auto simp: errorToFailure.simps [of dfc e] bind_res_eq_Inr)
  from run errorToFailure_eq [OF described_ready [OF e] info] obtain cause where
    cause: "(case Unwrap e of None \<Rightarrow> Inr None
       | Some c \<Rightarrow> bind_res (errorToFailure dfc c) (\<lambda>f. Inr (Some f))) = Inr cause"
    and enc: "encodedFailure dfc
       (Failure (failureMessage dfc e) ''GoSDK'' (failureStackTrace e) None info cause) = Inr f"
    by (auto simp: bind_res_eq_Inr)
  obtain fm fst' attrs where f: "f = Failure fm ''GoSDK'' fst' attrs info cause"
    and decode: "DecodeCommonFailureAttributes (dfc_dataConverter dfc) f =
      Failure (failureMessage dfc e) ''GoSDK'' (failureStackTrace e) attrs info cause"
    using encodedFailure_decodes [OF dec enc] by blast
  let ?conv = "if convertsCause info then causeToError dfc cause else None"
  obtain dc where conv: "fst (failureToError dfc f) = setFailure f (errorOfInfo dfc
      (Failure (failureMessage dfc e) ''GoSDK'' (failureStackTrace e) attrs info cause) dc
      (map_option fst ?conv))"
    using decode by (simp add: f Let_def)
  have none: "map_option fst ?conv = None" if "Unwrap e = None"
    using cause that by simp
  note again = described_again [OF e info none arg_cong [OF conv, of forget]]
  have "(case Unwrap (forget (fst (failureToError dfc f))) of None \<Rightarrow> Inr None
      | Some c \<Rightarrow> bind_res (errorToFailure dfc c) (\<lambda>f. Inr (Some f))) = Inr cause"
  proof (cases "Unwrap e")
    case None
    then show ?thesis using cause none again(5) by simp
  next
    case (Some c)
    with cause obtain f1 where f1: "errorToFailure dfc c = Inr f1" "cause = Some f1"
      by (auto simp: bind_res_eq_Inr)
    have "convertsCause info" using described_converts [OF e info] Some by simp
    moreover have "errorToFailure dfc (forget (fst (failureToError dfc f1))) = Inr f1"
      using less.IH [OF size_Unwrap [OF Some] _ f1(1)] less.prems(1) Some
      by (simp add: errorChain.simps [of e])
    ultimately show ?thesis using again(5) f1(2) by simp
  qed
  then show ?case
    using enc by (simp add: errorToFailure_eq [OF again(1,2)] again(3,4))
qed

section \<open>Failures with encoded texts\<close>

text \<open>
  A failure without encoded attributes, and what it may look like when the texts of some or all of
  its causes are encoded.
\<close>

inductive encodes :: "dataConverter \<Rightarrow> failure \<Rightarrow> failure \<Rightarrow> bool" for dc where
  plain: "rel_option (encodes dc) c c' \<Longrightarrow>
    encodes dc (Failure m s st None info c) (Failure m s st None info c')"
| encoded: "rel_option (encodes dc) c c' \<Longrightarrow>
    EncodeCommonFailureAttributes dc (Failure m s st None info c') = Inr f \<Longrightarrow>
    encodes dc (Failure m s st None info c) f"

text \<open>A failure and its causes.\<close>

primrec failureChain :: "failure \<Rightarrow> failure list"
  and causeChain :: "failure option \<Rightarrow> failure list" where
  "failureChain (Failure m s st a info c) = Failure m s st a info c # causeChain c"
| "causeChain None = []"
| "causeChain (Some f) = failureChain f"

text \<open>The failure \<open>g\<close>, cause by cause with the encoded attributes of \<open>f\<close>.\<close>

primrec withAttributesOf :: "failure \<Rightarrow> failure \<Rightarrow> failure"
  and causeWithAttributesOf :: "failure option \<Rightarrow> failure option \<Rightarrow> failure option" where
  "withAttributesOf (Failure m s st a info c) f =
     Failure m s st (f_EncodedAttributes f) info (causeWithAttributesOf c (f_Cause f))"
| "causeWithAttributesOf None fc = None"
| "causeWithAttributesOf (Some c) fc =
     (case fc of None \<Rightarrow> Some c | Some f \<Rightarrow> Some (withAttributesOf c f))"

definition marshals :: "defaultFailureConverter \<Rightarrow> failure list \<Rightarrow> bool" where
  "marshals dfc fs \<longleftrightarrow> (\<forall>f \<in> set fs. isHandlerInfo (f_Info f) \<longrightarrow>
     (\<exists>b. dfc_protojsonMarshal dfc (withoutText f) = Inr b))"

definition causesConvert :: "failure list \<Rightarrow> bool" where
  "causesConvert fs \<longleftrightarrow> (\<forall>f \<in> set fs. f_Cause f \<noteq> None \<longrightarrow> convertsCause (f_Info f))"

lemma leftBehind_marshals: "marshals dfc [f] \<Longrightarrow> leftBehind dfc f = f"
  using leftBehind_marshaled [of dfc f]
  by (auto simp: marshals_def leftBehind_def isHandlerInfo_def split: failureInfo.splits)

text \<open>What is left behind of a failure has the texts in clear.\<close>

lemma left_in_clear_node:
  assumes dec: "DecodeCommonFailureAttributes (dfc_dataConverter dfc) f = Failure m s st a info c'"
    and f: "f = Failure fm s fs a info c'"
    and c: "rel_option (\<lambda>g f. causesConvert (failureChain g) \<longrightarrow>
      marshals dfc (failureChain (withAttributesOf g f)) \<longrightarrow> snd (failureToError dfc f) = withAttributesOf g f) c c'"
    and conv: "causesConvert (failureChain (Failure m s st None info c))"
    and mar: "marshals dfc (failureChain (withAttributesOf (Failure m s st None info c) f))"
  shows "snd (failureToError dfc f) = withAttributesOf (Failure m s st None info c) f"
proof -
  let ?converted = "if convertsCause info then causeToError dfc c' else None"
  have fc: "f_Cause f = c'" "f_EncodedAttributes f = a" by (simp_all add: f)
  have cause: "(case ?converted of Some (_, f) \<Rightarrow> Some f | None \<Rightarrow> c') = causeWithAttributesOf c c'"
    using c
  proof (cases rule: option.rel_cases)
    case (Some g f')
    have "convertsCause info" using conv Some by (simp add: causesConvert_def)
    moreover have "causesConvert (failureChain g)" "marshals dfc (failureChain (withAttributesOf g f'))"
      using conv mar Some fc by (simp_all add: causesConvert_def marshals_def)
    ultimately show ?thesis using Some by (simp add: case_prod_beta)
  qed simp
  have "failureToError dfc f = (setFailure f (errorOfInfo dfc (Failure m s st a info c')
        (case ?converted of Some (_, f) \<Rightarrow> Some f | None \<Rightarrow> c') (map_option fst ?converted)),
      leftBehind dfc (Failure m s st a info
        (case ?converted of Some (_, f) \<Rightarrow> Some f | None \<Rightarrow> c')))"
    using dec by (simp add: f Let_def)
  then show ?thesis
    using mar fc by (simp add: cause leftBehind_marshals marshals_def)
qed

lemma left_in_clear:
  assumes "encodes (dfc_dataConverter dfc) g f" and "decodesTexts (dfc_dataConverter dfc)"
    and "causesConvert (failureChain g)" and "marshals dfc (failureChain (withAttributesOf g f))"
  shows "snd (failureToError dfc f) = withAttributesOf g f"
  using assms(1,3,4)
proof (induction rule: encodes.induct)
  case (plain c c' m s st info)
  show ?case
    by (rule left_in_clear_node [OF _ _ option.rel_mono_strong [OF plain.IH] plain.prems])
      (simp_all add: DecodeCommonFailureAttributes_def)
next
  case (encoded c c' m s st info f)
  note d = encoded_decodes [OF assms(2) encoded.hyps]
  show ?case
    by (rule left_in_clear_node [OF d(2,1) option.rel_mono_strong [OF encoded.IH] encoded.prems]) simp
qed

section \<open>The round trips\<close>

text \<open>
  C27. Errors survive the trip through failures: an error chain in which every error is one that a
  failure describes completely, and that was converted to a failure, is converted back to an error
  that gives the same failure, cause by cause, even when the failures that the new errors remember
  are taken away and the failure is computed from their fields again. The data converter may encode
  messages and stack traces, as long as it decodes what it encoded.
\<close>

theorem errors_survive_failures:
  assumes "decodesFailures dfc" and "\<forall>x \<in> set (errorChain e). described x"
    and "ErrorToFailure dfc (Some e) = Inr f"
  shows "ErrorToFailure dfc (map_option forget (FailureToError dfc f)) = Inr f"
  using assms(3) errorToFailure_again [OF assms(1,2)]
  by (auto simp: ErrorToFailure_def FailureToError_def bind_res_eq_Inr)

definition clearFailure :: failure where
  "clearFailure = Failure ''secret'' [] ''main.go'' None (NexusHandlerFailureInfo ''INTERNAL'' 0)
     (Some (Failure ''no such user'' [] [] None (ApplicationFailureInfo ''AuthError'' True None None 0) None))"

definition encodedText :: "string \<Rightarrow> string \<Rightarrow> payload option" where
  "encodedText msg stack =
     Some \<lparr>payload_metadata = [(''message'', msg), (''stack'', stack)], payload_data = None\<rparr>"

definition handlerFailure :: failure where
  "handlerFailure = Failure ''Encoded failure'' [] [] (encodedText ''secret'' ''main.go'')
     (NexusHandlerFailureInfo ''INTERNAL'' 0)
     (Some (Failure ''Encoded failure'' [] [] (encodedText ''no such user'' [])
       (ApplicationFailureInfo ''AuthError'' True None None 0) None))"

text \<open>The failure as it comes back, and its details without the texts.\<close>

definition sentBack :: failure where
  "sentBack = Failure ''secret'' [] ''main.go'' (encodedText ''secret'' ''main.go'')
     (NexusHandlerFailureInfo ''INTERNAL'' 0)
     (Some (Failure ''no such user'' [] [] (encodedText ''no such user'' [])
       (ApplicationFailureInfo ''AuthError'' True None None 0) None))"

definition handlerDetails :: failure where
  "handlerDetails = withoutText sentBack"

definition exampleFailureConverter :: defaultFailureConverter where
  "exampleFailureConverter =
     \<lparr>dfc_dataConverter = exampleCodec, dfc_encodeCommonAttributes = True,
      dfc_handlerErrorText = (\<lambda>e. ''handler error''),
      dfc_protojsonMarshal = (\<lambda>f. if f = handlerDetails then Inr ''{}'' else Inl ''unsupported''),
      dfc_protojsonUnmarshal = (\<lambda>s. if s = ''{}'' then Inr handlerDetails else Inl ''syntax''),
      dfc_jsonMarshal = (\<lambda>f. Inl ''unsupported'')\<rparr>"

definition exampleError :: goError where
  "exampleError = ActivityError None 5 6 ''worker'' ''charge'' ''1'' RETRY_STATE_NON_RETRYABLE_FAILURE
     (Some (ApplicationError None ''card declined'' ''CardError'' True (ErrorDetailsValues [GoInt64 402]) 0 0
       (Some (OtherError ''netError'' ''connection reset'' None))))"

lemma exampleFailureConverter_decodes: "decodesFailures exampleFailureConverter"
  by (simp add: decodesFailures_def decodesTexts_def exampleFailureConverter_def exampleCodec_def metaOf_def)

lemma exampleError_described: "\<forall>x \<in> set (errorChain exampleError). described x"
  by (simp add: exampleError_def errorChain.simps)

theorem errors_survive_failures_witness:
  "\<exists>f. ErrorToFailure exampleFailureConverter (Some exampleError) = Inr (Some f) \<and>
     f_Message f = ''Encoded failure'' \<and>
     ErrorToFailure exampleFailureConverter (map_option forget (FailureToError exampleFailureConverter (Some f))) = Inr (Some f)"
proof -
  have "\<exists>f. ErrorToFailure exampleFailureConverter (Some exampleError) = Inr (Some f) \<and>
      f_Message f = ''Encoded failure''"
    by (simp add: ErrorToFailure_def exampleError_def exampleFailureConverter_def errorToFailure.simps
        convertErrDetailsToPayloads_def exampleCodec_def encodedFailure_def
        EncodeCommonFailureAttributes_def panicOnError_def)
  then show ?thesis
    using errors_survive_failures [OF exampleFailureConverter_decodes exampleError_described] by blast
qed

text \<open>
  C28. A failure that the server sent and that is returned as an error is sent back as it came, with
  its encoded attributes and causes, whatever the data converter does. Only the failure of a nexus
  handler is not: when the failure is \<open>f\<close>, which encodes the texts of the failure \<open>g\<close>, then what is
  sent back is \<open>g\<close>, whose messages and stack traces are in clear text, cause by cause, beside the
  encoded attributes of \<open>f\<close>.
\<close>

theorem failures_survive_errors:
  assumes "\<forall>g b. dfc_protojsonMarshal dfc g = Inr b \<longrightarrow> dfc_protojsonUnmarshal dfc b = Inr g"
    and "isHandlerInfo (f_Info f) \<longrightarrow> decodesTexts (dfc_dataConverter dfc) \<and>
      encodes (dfc_dataConverter dfc) g f \<and> causesConvert (failureChain g) \<and>
      marshals dfc (failureChain (withAttributesOf g f))"
  shows "ErrorToFailure dfc (FailureToError dfc (Some f)) =
    Inr (Some (if isHandlerInfo (f_Info f) then withAttributesOf g f else f))"
proof (cases "isHandlerInfo (f_Info f)")
  case False
  then show ?thesis using remembered [of f dfc]
    by (simp add: ErrorToFailure_def FailureToError_def errorToFailure.simps [of dfc "fst _"])
next
  case True
  with assms(2) have clear: "snd (failureToError dfc f) = withAttributesOf g f" by (intro left_in_clear) auto
  have "f_Info (withAttributesOf g f) = f_Info f" unfolding clear [symmetric] by (rule failureToError_info)
  then obtain b where "dfc_protojsonMarshal dfc (withoutText (snd (failureToError dfc f))) = Inr b"
    using assms(2) True unfolding clear by (cases "withAttributesOf g f") (auto simp: marshals_def)
  from handler_comes_back_decoded [OF assms(1) True this] show ?thesis
    using True by (simp add: ErrorToFailure_def FailureToError_def errorToFailure.simps [of dfc "fst _"] clear)
qed

theorem failures_survive_errors_witness:
  "ErrorToFailure exampleFailureConverter (FailureToError exampleFailureConverter (Some handlerFailure)) =
     Inr (Some (Failure ''secret'' [] ''main.go'' (encodedText ''secret'' ''main.go'')
       (NexusHandlerFailureInfo ''INTERNAL'' 0)
       (Some (Failure ''no such user'' [] [] (encodedText ''no such user'' [])
         (ApplicationFailureInfo ''AuthError'' True None None 0) None))))"
proof -
  have json: "\<forall>g b. dfc_protojsonMarshal exampleFailureConverter g = Inr b \<longrightarrow>
      dfc_protojsonUnmarshal exampleFailureConverter b = Inr g"
    by (simp add: exampleFailureConverter_def)
  have dec: "decodesTexts (dfc_dataConverter exampleFailureConverter)"
    using exampleFailureConverter_decodes by (simp add: decodesFailures_def exampleFailureConverter_def)
  have enc: "encodes (dfc_dataConverter exampleFailureConverter) clearFailure handlerFailure"
    unfolding clearFailure_def handlerFailure_def
    by (rule encodes.encoded, rule option.rel_intros, rule encodes.encoded, rule option.rel_intros)
      (simp_all add: EncodeCommonFailureAttributes_def exampleFailureConverter_def exampleCodec_def encodedText_def)
  have sent: "withAttributesOf clearFailure handlerFailure = sentBack"
    by (simp add: clearFailure_def handlerFailure_def sentBack_def)
  have "marshals exampleFailureConverter (failureChain sentBack)"
    by (simp add: marshals_def sentBack_def exampleFailureConverter_def handlerDetails_def isHandlerInfo_def)
  moreover have "causesConvert (failureChain clearFailure)"
    by (simp add: causesConvert_def clearFailure_def)
  moreover have "isHandlerInfo (f_Info handlerFailure)"
    by (simp add: isHandlerInfo_def handlerFailure_def)
  ultimately show ?thesis
    using failures_survive_errors [OF json, of handlerFailure clearFailure] dec enc
    by (simp add: sent sentBack_def)
qed

end
