(* ===== verification/Local_Tunnel.thy ===== *)
theory Local_Tunnel
  imports Go_Prelude
begin

text \<open>
  The tunnel between workflow tasks and the pollers of local activities (\<open>localActivityTunnel\<close> of
  \<open>internal/internal_task_pollers.go\<close>): a linked list of tasks under a mutex, whose links are fields
  of the tasks, and a channel of capacity one that wakes up a poller. A task is a pointer; the store
  holds the links. What runs under the mutex is one step of a goroutine; between such steps the
  goroutines interleave in any order.
\<close>

section \<open>The queue\<close>

type_synonym task = nat

record localActivityTunnel =
  taskQueueHead :: "task option"
  taskQueueTail :: "task option"
  nextQueuedTask :: "task \<Rightarrow> task option"
  taskReady :: bool                       \<comment> \<open>whether \<open>taskReadyCh\<close> holds its element\<close>
  stopped :: bool                         \<comment> \<open>whether \<open>stopCh\<close> is closed\<close>

definition newLocalActivityTunnel :: localActivityTunnel where
  "newLocalActivityTunnel =
     \<lparr>taskQueueHead = None, taskQueueTail = None, nextQueuedTask = (\<lambda>_. None), taskReady = False,
      stopped = False\<rparr>"

definition notifyTaskReady :: "localActivityTunnel \<Rightarrow> localActivityTunnel" where
  "notifyTaskReady lat = lat\<lparr>taskReady := True\<rparr>"

definition enqueueTask :: "localActivityTunnel \<Rightarrow> task \<Rightarrow> localActivityTunnel" where
  "enqueueTask lat t =
     (case taskQueueTail lat of
        None \<Rightarrow> lat\<lparr>taskQueueHead := Some t, taskQueueTail := Some t\<rparr>
      | Some l \<Rightarrow> lat\<lparr>nextQueuedTask := (nextQueuedTask lat)(l := Some t), taskQueueTail := Some t\<rparr>)"

text \<open>The part of \<open>getTask\<close> under the mutex, with the task that is the head of the list.\<close>

definition dequeueTask :: "localActivityTunnel \<Rightarrow> task \<Rightarrow> localActivityTunnel" where
  "dequeueTask lat t =
     (let head = nextQueuedTask lat t in
      lat\<lparr>taskQueueHead := head, nextQueuedTask := (nextQueuedTask lat)(t := None),
          taskQueueTail := (if head = None then None else taskQueueTail lat)\<rparr>)"

partial_function (option) unlinkTasks :: "localActivityTunnel \<Rightarrow> localActivityTunnel option" where
  "unlinkTasks lat =
     (case taskQueueHead lat of
        None \<Rightarrow> Some lat
      | Some t \<Rightarrow> unlinkTasks
          (lat\<lparr>taskQueueHead := nextQueuedTask lat t, nextQueuedTask := (nextQueuedTask lat)(t := None)\<rparr>))"

definition clearTasks :: "localActivityTunnel \<Rightarrow> localActivityTunnel option" where
  "clearTasks lat = map_option (\<lambda>l. l\<lparr>taskQueueTail := None\<rparr>) (unlinkTasks lat)"

section \<open>Goroutines\<close>

text \<open>
  Where a goroutine is in \<open>getTask\<close> and in \<open>sendTask\<close>. The logs keep the tasks in the order they were
  put into and taken from the queue.
\<close>

datatype getter =
    GetterIdle
  | GetterCheckStop
  | GetterDequeue
  | GetterNotify task
  | GetterWait
  | GetterClear
  | GetterReturned "task option"

datatype sender =
    SenderIdle
  | SenderCheckStop task
  | SenderEnqueue task
  | SenderNotify
  | SenderReturned bool

record system =
  tunnel :: localActivityTunnel
  getters :: "nat \<Rightarrow> getter"
  senders :: "nat \<Rightarrow> sender"
  sentTasks :: "task list"
  gotTasks :: "task list"

definition setGetter :: "nat \<Rightarrow> getter \<Rightarrow> system \<Rightarrow> system" where
  "setGetter g pc s = s\<lparr>getters := (getters s)(g := pc)\<rparr>"

definition setSender :: "nat \<Rightarrow> sender \<Rightarrow> system \<Rightarrow> system" where
  "setSender c pc s = s\<lparr>senders := (senders s)(c := pc)\<rparr>"

definition withTunnel :: "(localActivityTunnel \<Rightarrow> localActivityTunnel) \<Rightarrow> system \<Rightarrow> system" where
  "withTunnel f s = s\<lparr>tunnel := f (tunnel s)\<rparr>"

text \<open>The steps of running goroutines.\<close>

inductive tunnel_step :: "system \<Rightarrow> system \<Rightarrow> bool" where
  getStopped: "getters s g = GetterCheckStop \<Longrightarrow> stopped (tunnel s) \<Longrightarrow>
    tunnel_step s (setGetter g GetterClear s)"
| getRunning: "getters s g = GetterCheckStop \<Longrightarrow> \<not> stopped (tunnel s) \<Longrightarrow>
    tunnel_step s (setGetter g GetterDequeue s)"
| getTaken: "getters s g = GetterDequeue \<Longrightarrow> taskQueueHead (tunnel s) = Some t \<Longrightarrow>
    tunnel_step s ((withTunnel (\<lambda>lat. dequeueTask lat t)
      (setGetter g (if nextQueuedTask (tunnel s) t \<noteq> None then GetterNotify t else GetterReturned (Some t)) s))
      \<lparr>gotTasks := gotTasks s @ [t]\<rparr>)"
| getEmpty: "getters s g = GetterDequeue \<Longrightarrow> taskQueueHead (tunnel s) = None \<Longrightarrow>
    tunnel_step s (setGetter g GetterWait s)"
| getNotify: "getters s g = GetterNotify t \<Longrightarrow>
    tunnel_step s (withTunnel notifyTaskReady (setGetter g (GetterReturned (Some t)) s))"
| getWoken: "getters s g = GetterWait \<Longrightarrow> taskReady (tunnel s) \<Longrightarrow>
    tunnel_step s (withTunnel (\<lambda>lat. lat\<lparr>taskReady := False\<rparr>) (setGetter g GetterCheckStop s))"
| getInterrupted: "getters s g = GetterWait \<Longrightarrow> stopped (tunnel s) \<Longrightarrow>
    tunnel_step s (setGetter g GetterClear s)"
| getCleared: "getters s g = GetterClear \<Longrightarrow> clearTasks (tunnel s) = Some lat \<Longrightarrow>
    tunnel_step s (withTunnel (\<lambda>_. lat) (setGetter g (GetterReturned None) s))"
| sendStopped: "senders s c = SenderCheckStop t \<or> senders s c = SenderEnqueue t \<Longrightarrow>
    stopped (tunnel s) \<Longrightarrow> tunnel_step s (setSender c (SenderReturned False) s)"
| sendRunning: "senders s c = SenderCheckStop t \<Longrightarrow> \<not> stopped (tunnel s) \<Longrightarrow>
    tunnel_step s (setSender c (SenderEnqueue t) s)"
| sendPut: "senders s c = SenderEnqueue t \<Longrightarrow> \<not> stopped (tunnel s) \<Longrightarrow>
    tunnel_step s ((withTunnel (\<lambda>lat. enqueueTask lat t) (setSender c SenderNotify s))
      \<lparr>sentTasks := sentTasks s @ [t]\<rparr>)"
| sendNotify: "senders s c = SenderNotify \<Longrightarrow>
    tunnel_step s (withTunnel notifyTaskReady (setSender c (SenderReturned True) s))"

text \<open>
  The calls. A local activity task belongs to one workflow task, which sends it again only after it
  was taken: it is neither in the queue nor being sent by another goroutine.
\<close>

definition returnedGetter :: "getter \<Rightarrow> bool" where
  "returnedGetter pc = (case pc of GetterIdle \<Rightarrow> True | GetterReturned _ \<Rightarrow> True | _ \<Rightarrow> False)"

definition returnedSender :: "sender \<Rightarrow> bool" where
  "returnedSender pc = (case pc of SenderIdle \<Rightarrow> True | SenderReturned _ \<Rightarrow> True | _ \<Rightarrow> False)"

definition notQueued :: "localActivityTunnel \<Rightarrow> task \<Rightarrow> bool" where
  "notQueued lat t \<longleftrightarrow> nextQueuedTask lat t = None \<and> taskQueueTail lat \<noteq> Some t"

definition isSending :: "sender \<Rightarrow> task \<Rightarrow> bool" where
  "isSending pc t \<longleftrightarrow> pc = SenderCheckStop t \<or> pc = SenderEnqueue t"

inductive tunnel_call :: "system \<Rightarrow> system \<Rightarrow> bool" where
  callGetTask: "returnedGetter (getters s g) \<Longrightarrow> tunnel_call s (setGetter g GetterCheckStop s)"
| callSendTask: "returnedSender (senders s c) \<Longrightarrow> notQueued (tunnel s) t \<Longrightarrow>
    (\<And>c'. \<not> isSending (senders s c') t) \<Longrightarrow> tunnel_call s (setSender c (SenderCheckStop t) s)"
| stop: "tunnel_call s (withTunnel (\<lambda>lat. lat\<lparr>stopped := True\<rparr>) s)"

definition tunnel_start :: system where
  "tunnel_start = \<lparr>tunnel = newLocalActivityTunnel, getters = (\<lambda>_. GetterIdle), senders = (\<lambda>_. SenderIdle),
     sentTasks = [], gotTasks = []\<rparr>"

inductive tunnel_reachable :: "system \<Rightarrow> bool" where
  reachable_start: "tunnel_reachable tunnel_start"
| reachable_step: "tunnel_reachable s \<Longrightarrow> tunnel_step s s' \<Longrightarrow> tunnel_reachable s'"
| reachable_call: "tunnel_reachable s \<Longrightarrow> tunnel_call s s' \<Longrightarrow> tunnel_reachable s'"

section \<open>The list is a queue\<close>

text \<open>The links from a pointer spell a list of tasks, and no other task has a link.\<close>

fun linked :: "(task \<Rightarrow> task option) \<Rightarrow> task option \<Rightarrow> task list \<Rightarrow> bool" where
  "linked nxt p [] \<longleftrightarrow> p = None"
| "linked nxt p (t # ts) \<longleftrightarrow> p = Some t \<and> linked nxt (nxt t) ts"

definition queue :: "localActivityTunnel \<Rightarrow> task list \<Rightarrow> bool" where
  "queue lat ts \<longleftrightarrow> linked (nextQueuedTask lat) (taskQueueHead lat) ts \<and> distinct ts \<and>
     taskQueueTail lat = (if ts = [] then None else Some (last ts)) \<and>
     (\<forall>t. t \<notin> set ts \<longrightarrow> nextQueuedTask lat t = None)"

lemma linked_fun_upd [simp]: "t \<notin> set ts \<Longrightarrow> linked (nxt(t := x)) p ts \<longleftrightarrow> linked nxt p ts"
  by (induction ts arbitrary: p) auto

lemma linked_if [simp]:
  "t \<notin> set ts \<Longrightarrow> linked (\<lambda>a. if a = t then x else nxt a) p ts \<longleftrightarrow> linked nxt p ts"
  using linked_fun_upd [of t ts nxt x p] by (simp add: fun_upd_def)

lemma linked_snoc:
  "linked nxt p (ts @ [l]) \<Longrightarrow> distinct (ts @ [l]) \<Longrightarrow> nxt t = None \<Longrightarrow> t \<notin> set ts \<Longrightarrow> t \<noteq> l \<Longrightarrow>
     linked (nxt(l := Some t)) p (ts @ [l, t])"
  by (induction ts arbitrary: p) auto

lemma linked_last: "linked nxt p ts \<Longrightarrow> ts \<noteq> [] \<Longrightarrow> nxt (last ts) = None"
  by (induction ts arbitrary: p) auto

lemma linked_inner: "linked nxt p ts \<Longrightarrow> t \<in> set ts \<Longrightarrow> nxt t = None \<Longrightarrow> t = last ts"
  by (induction ts arbitrary: p) (auto split: if_splits, case_tac ts, auto)

lemma queue_new: "queue newLocalActivityTunnel []"
  by (simp add: queue_def newLocalActivityTunnel_def)

lemma queue_enqueue:
  assumes q: "queue lat ts" and t: "t \<notin> set ts"
  shows "queue (enqueueTask lat t) (ts @ [t])"
proof (cases ts rule: rev_cases)
  case Nil
  then show ?thesis using q t by (auto simp: queue_def enqueueTask_def)
next
  case (snoc us l)
  then show ?thesis
    using q t linked_snoc [of "nextQueuedTask lat" "taskQueueHead lat" us l t]
    by (auto simp: queue_def enqueueTask_def)
qed

lemma queue_dequeue:
  assumes "queue lat (t # ts)"
  shows "queue (dequeueTask lat t) ts"
  using assms by (cases ts) (auto simp: queue_def dequeueTask_def Let_def)

lemma queue_head: "queue lat ts \<Longrightarrow> taskQueueHead lat = Some t \<Longrightarrow> \<exists>us. ts = t # us"
  by (cases ts) (auto simp: queue_def)

lemma queue_no_head [simp]: "queue lat ts \<Longrightarrow> taskQueueHead lat = None \<longleftrightarrow> ts = []"
  by (cases ts) (auto simp: queue_def)

lemma queue_has_next: "queue lat (t # ts) \<Longrightarrow> nextQueuedTask lat t = None \<longleftrightarrow> ts = []"
  by (cases ts) (auto simp: queue_def)

lemma queue_notQueued: "queue lat ts \<Longrightarrow> notQueued lat t \<longleftrightarrow> t \<notin> set ts"
  by (auto simp: queue_def notQueued_def dest: linked_inner linked_last)

lemma queue_flags [simp]:
  "queue (lat\<lparr>taskReady := b\<rparr>) = queue lat" "queue (lat\<lparr>stopped := b\<rparr>) = queue lat"
  "queue (notifyTaskReady lat) = queue lat"
  by (auto simp: queue_def notifyTaskReady_def fun_eq_iff)

lemma unlinkTasks_returns:
  assumes "linked (nextQueuedTask lat) (taskQueueHead lat) ts" "distinct ts"
    "\<forall>t. t \<notin> set ts \<longrightarrow> nextQueuedTask lat t = None"
  shows "unlinkTasks lat = Some (lat\<lparr>taskQueueHead := None, nextQueuedTask := (\<lambda>_. None)\<rparr>)"
  using assms
proof (induction ts arbitrary: lat)
  case Nil
  then show ?case by (simp add: unlinkTasks.simps [of lat] fun_eq_iff)
next
  case (Cons t ts)
  let ?lat = "lat\<lparr>taskQueueHead := nextQueuedTask lat t, nextQueuedTask := (nextQueuedTask lat)(t := None)\<rparr>"
  have "unlinkTasks ?lat = Some (?lat\<lparr>taskQueueHead := None, nextQueuedTask := (\<lambda>_. None)\<rparr>)"
    using Cons.prems by (intro Cons.IH) simp_all
  then show ?case using Cons.prems by (simp add: unlinkTasks.simps [of lat])
qed

lemma clearTasks_returns:
  "queue lat ts \<Longrightarrow> clearTasks lat =
     Some (lat\<lparr>taskQueueHead := None, nextQueuedTask := (\<lambda>_. None), taskQueueTail := None\<rparr>)"
  by (simp add: clearTasks_def unlinkTasks_returns [of lat ts] queue_def)

section \<open>Every interleaving\<close>

definition orderly :: "system \<Rightarrow> task list \<Rightarrow> bool" where
  "orderly s ts \<longleftrightarrow> queue (tunnel s) ts \<and>
     (\<exists>dropped. sentTasks s = gotTasks s @ ts @ dropped \<and> (dropped \<noteq> [] \<longrightarrow> stopped (tunnel s))) \<and>
     (\<forall>c t. isSending (senders s c) t \<longrightarrow> t \<notin> set ts) \<and>
     (\<forall>c c' t. isSending (senders s c) t \<longrightarrow> isSending (senders s c') t \<longrightarrow> c = c') \<and>
     (\<forall>g. getters s g = GetterClear \<longrightarrow> stopped (tunnel s))"

lemmas system_defs = setGetter_def setSender_def withTunnel_def

lemma tunnel_flags [simp]:
  "stopped (enqueueTask lat t) = stopped lat" "stopped (dequeueTask lat t) = stopped lat"
  "stopped (notifyTaskReady lat) = stopped lat" "taskReady (notifyTaskReady lat)"
  "taskReady (enqueueTask lat t) = taskReady lat" "taskReady (dequeueTask lat t) = taskReady lat"
  "taskQueueHead (notifyTaskReady lat) = taskQueueHead lat"
  by (auto simp: enqueueTask_def dequeueTask_def notifyTaskReady_def Let_def split: option.split)

lemma isSending_simps [simp]:
  "\<not> isSending SenderIdle t" "\<not> isSending SenderNotify t" "\<not> isSending (SenderReturned b) t"
  "isSending (SenderCheckStop u) t \<longleftrightarrow> t = u" "isSending (SenderEnqueue u) t \<longleftrightarrow> t = u"
  by (auto simp: isSending_def)

lemma orderly_getter:
  "orderly s ts \<Longrightarrow> (pc = GetterClear \<Longrightarrow> stopped (tunnel s)) \<Longrightarrow> orderly (setGetter g pc s) ts"
  by (auto simp: orderly_def setGetter_def)

lemma orderly_sender:
  assumes "orderly s ts" and "\<And>t. isSending pc t \<Longrightarrow> t \<notin> set ts"
    and "\<And>t c'. isSending pc t \<Longrightarrow> isSending (senders s c') t \<Longrightarrow> c' = c"
  shows "orderly (setSender c pc s) ts"
  using assms unfolding orderly_def setSender_def by (auto split: if_splits)

lemma orderly_tunnel:
  "orderly s ts \<Longrightarrow> (\<And>ts. queue (f (tunnel s)) ts \<longleftrightarrow> queue (tunnel s) ts) \<Longrightarrow>
     (stopped (tunnel s) \<Longrightarrow> stopped (f (tunnel s))) \<Longrightarrow> orderly (withTunnel f s) ts"
  by (auto simp: orderly_def withTunnel_def)

lemma orderly_sends:
  "orderly s ts \<Longrightarrow> isSending (senders s c) t \<Longrightarrow>
     t \<notin> set ts \<and> (\<forall>c'. isSending (senders s c') t \<longrightarrow> c' = c)"
  by (auto simp: orderly_def)

lemma orderly_step:
  assumes "tunnel_step s s'" and o: "orderly s ts"
  shows "\<exists>ts'. orderly s' ts'"
  using assms(1)
proof cases
  case (getTaken g t)
  then obtain us where "ts = t # us"
    using o queue_head [of "tunnel s" ts t] by (auto simp: orderly_def)
  with getTaken o have "orderly s' us"
    by (auto simp: orderly_def system_defs queue_dequeue)
  then show ?thesis by blast
next
  case (getCleared g lat)
  have "queue (tunnel s) ts" using o by (simp add: orderly_def)
  with getCleared have "lat = (tunnel s)\<lparr>taskQueueHead := None, nextQueuedTask := (\<lambda>_. None), taskQueueTail := None\<rparr>"
    by (simp add: clearTasks_returns [of "tunnel s" ts])
  with getCleared o have "orderly s' []"
    by (auto simp: orderly_def system_defs queue_def)
  then show ?thesis by blast
next
  case (sendPut c t)
  then have "isSending (senders s c) t" by simp
  note t = orderly_sends [OF o this]
  have "sentTasks s = gotTasks s @ ts" "queue (tunnel s) ts" using sendPut o by (auto simp: orderly_def)
  with sendPut o t have "orderly s' (ts @ [t])"
    by (simp add: orderly_def system_defs queue_enqueue) (metis isSending_simps(5))
  then show ?thesis by blast
next
  case (sendRunning c t)
  then show ?thesis
    using orderly_sender [OF o, of "SenderEnqueue t" c] orderly_sends [OF o, of c t] by auto
next
  case (sendStopped c t)
  then show ?thesis using orderly_sender [OF o, of "SenderReturned False" c] by auto
next
  case (sendNotify c)
  then show ?thesis
    using orderly_tunnel [OF orderly_sender [OF o, of "SenderReturned True" c], of notifyTaskReady]
    by (auto simp: setSender_def)
next
  case (getNotify g t)
  then show ?thesis
    using orderly_tunnel [OF orderly_getter [OF o, of "GetterReturned (Some t)" g], of notifyTaskReady]
    by (auto simp: setGetter_def)
next
  case (getWoken g)
  then show ?thesis
    using orderly_tunnel [OF orderly_getter [OF o, of GetterCheckStop g], of "\<lambda>lat. lat\<lparr>taskReady := False\<rparr>"]
    by (auto simp: setGetter_def)
qed (use orderly_getter [OF o] in blast)+

lemma orderly_call:
  assumes "tunnel_call s s'" and o: "orderly s ts"
  shows "orderly s' ts"
  using assms(1)
proof cases
  case (callSendTask c t)
  then have "t \<notin> set ts" using o queue_notQueued by (auto simp: orderly_def)
  with callSendTask show ?thesis by (auto intro!: orderly_sender o)
qed (auto intro!: orderly_getter orderly_tunnel o)

lemma reachable_orderly: "tunnel_reachable s \<Longrightarrow> \<exists>ts. orderly s ts"
proof (induction rule: tunnel_reachable.induct)
  case reachable_start
  have "orderly tunnel_start []" by (simp add: orderly_def tunnel_start_def queue_new)
  then show ?case ..
qed (blast intro: orderly_step orderly_call)+

section \<open>No wake-up is lost\<close>

text \<open>A goroutine that will look at the queue or hand on the signal before it waits or returns.\<close>

definition getter_active :: "getter \<Rightarrow> bool" where
  "getter_active pc = (case pc of GetterCheckStop \<Rightarrow> True | GetterDequeue \<Rightarrow> True | GetterNotify _ \<Rightarrow> True | _ \<Rightarrow> False)"

definition signalled :: "system \<Rightarrow> bool" where
  "signalled s \<longleftrightarrow> taskReady (tunnel s) \<or> (\<exists>c. senders s c = SenderNotify) \<or> (\<exists>g. getter_active (getters s g))"

definition watchful :: "system \<Rightarrow> bool" where
  "watchful s \<longleftrightarrow> stopped (tunnel s) \<or> taskQueueHead (tunnel s) = None \<or> signalled s"

lemma active_cases:
  "getter_active pc \<longleftrightarrow> pc = GetterCheckStop \<or> pc = GetterDequeue \<or> (\<exists>t. pc = GetterNotify t)"
  by (cases pc) (simp_all add: getter_active_def)

lemma signalled_intros:
  "taskReady (tunnel s) \<Longrightarrow> signalled s" "senders s c = SenderNotify \<Longrightarrow> signalled s"
  "getter_active (getters s g) \<Longrightarrow> signalled s"
  by (auto simp: signalled_def)

lemma signalled_sender:
  "signalled s \<Longrightarrow> senders s c \<noteq> SenderNotify \<Longrightarrow> signalled (setSender c pc s)"
  by (auto simp: signalled_def setSender_def)

lemma watchful_step:
  assumes "tunnel_step s s'" and o: "orderly s ts" and w: "watchful s"
  shows "watchful s'"
  using assms(1)
proof cases
  case (getTaken g t)
  then show ?thesis
    using signalled_intros(3) [of s' g]
    by (cases "nextQueuedTask (tunnel s) t")
      (auto simp: watchful_def getter_active_def system_defs dequeueTask_def Let_def)
next
  case (getRunning g)
  then show ?thesis using signalled_intros(3) [of s' g]
    by (simp add: watchful_def getter_active_def system_defs)
next
  case (getWoken g)
  then show ?thesis using signalled_intros(3) [of s' g]
    by (simp add: watchful_def getter_active_def system_defs)
next
  case (getCleared g lat)
  then show ?thesis using o by (auto simp: watchful_def orderly_def system_defs clearTasks_returns [of _ ts])
next
  case (sendRunning c t)
  then show ?thesis using w signalled_sender [of s c] by (auto simp: watchful_def setSender_def)
next
  case (sendPut c t)
  then show ?thesis using signalled_intros(2) [of s' c] by (simp add: watchful_def system_defs)
next
  case (getNotify g t)
  then show ?thesis using signalled_intros(1) [of s'] by (simp add: watchful_def system_defs)
next
  case (sendNotify c)
  then show ?thesis using signalled_intros(1) [of s'] by (simp add: watchful_def system_defs)
qed (simp_all add: watchful_def system_defs)

lemma watchful_call:
  assumes "tunnel_call s s'" and "watchful s"
  shows "watchful s'"
  using assms(1)
proof cases
  case (callGetTask g)
  then show ?thesis using signalled_intros(3) [of s' g]
    by (simp add: watchful_def getter_active_def system_defs)
next
  case (callSendTask c t)
  then have "senders s c \<noteq> SenderNotify" by (auto simp: returnedSender_def)
  with callSendTask show ?thesis using assms(2) signalled_sender [of s c]
    by (auto simp: watchful_def setSender_def)
qed (simp add: watchful_def system_defs)

lemma reachable_watchful: "tunnel_reachable s \<Longrightarrow> watchful s"
proof (induction rule: tunnel_reachable.induct)
  case reachable_start
  show ?case by (simp add: watchful_def tunnel_start_def newLocalActivityTunnel_def)
next
  case (reachable_step s s')
  then show ?case using reachable_orderly watchful_step by blast
qed (rule watchful_call)

text \<open>What a goroutine does on its own until it has taken the first task.\<close>

lemma getter_takes:
  assumes "getters s g = GetterDequeue" "taskQueueHead (tunnel s) = Some t"
  shows "\<exists>s'. tunnel_step\<^sup>*\<^sup>* s s' \<and> gotTasks s' = gotTasks s @ [t]"
  using tunnel_step.getTaken [OF assms] by (intro exI conjI, rule r_into_rtranclp) simp_all

lemma getter_checks:
  assumes "getters s g = GetterCheckStop" "taskQueueHead (tunnel s) = Some t" "\<not> stopped (tunnel s)"
  shows "\<exists>s'. tunnel_step\<^sup>*\<^sup>* s s' \<and> gotTasks s' = gotTasks s @ [t]"
proof -
  have "tunnel_step s (setGetter g GetterDequeue s)" using assms by (intro tunnel_step.getRunning)
  moreover obtain s' where "tunnel_step\<^sup>*\<^sup>* (setGetter g GetterDequeue s) s'" "gotTasks s' = gotTasks s @ [t]"
    using getter_takes [of "setGetter g GetterDequeue s" g t] assms by (auto simp: setGetter_def)
  ultimately show ?thesis by (meson converse_rtranclp_into_rtranclp)
qed

lemma getter_wakes:
  assumes "getters s g = GetterWait" "taskReady (tunnel s)" "taskQueueHead (tunnel s) = Some t"
    "\<not> stopped (tunnel s)"
  shows "\<exists>s'. tunnel_step\<^sup>*\<^sup>* s s' \<and> gotTasks s' = gotTasks s @ [t]"
proof -
  let ?s = "withTunnel (\<lambda>lat. lat\<lparr>taskReady := False\<rparr>) (setGetter g GetterCheckStop s)"
  have "tunnel_step s ?s" using assms by (intro tunnel_step.getWoken)
  moreover obtain s' where "tunnel_step\<^sup>*\<^sup>* ?s s'" "gotTasks s' = gotTasks s @ [t]"
    using getter_checks [of ?s g t] assms by (auto simp: system_defs)
  ultimately show ?thesis by (meson converse_rtranclp_into_rtranclp)
qed

lemma getter_notified:
  assumes n: "tunnel_step s s1" and s1: "tunnel s1 = notifyTaskReady (tunnel s)" "gotTasks s1 = gotTasks s"
    "getters s1 g = GetterWait" and t: "taskQueueHead (tunnel s) = Some t" "\<not> stopped (tunnel s)"
  shows "\<exists>s'. tunnel_step\<^sup>*\<^sup>* s s' \<and> gotTasks s' = gotTasks s @ [t]"
proof -
  obtain s' where "tunnel_step\<^sup>*\<^sup>* s1 s'" "gotTasks s' = gotTasks s @ [t]"
    using getter_wakes [of s1 g t] s1 t by auto
  then show ?thesis using n by (meson converse_rtranclp_into_rtranclp)
qed

text \<open>
  C13. No wake-up is lost. However the goroutines interleave, while the tunnel is not stopped and a
  poller waits although there are tasks in the queue, the goroutines that already run suffice to
  deliver the first of them: no further call of \<open>sendTask\<close> or \<open>getTask\<close> is needed.
\<close>

theorem waiting_poller_gets_task:
  assumes "tunnel_reachable s" "\<not> stopped (tunnel s)" "getters s g = GetterWait"
    "taskQueueHead (tunnel s) = Some t"
  shows "\<exists>s'. tunnel_step\<^sup>*\<^sup>* s s' \<and> gotTasks s' = gotTasks s @ [t]"
proof -
  have "signalled s" using reachable_watchful [OF assms(1)] assms(2,4) by (simp add: watchful_def)
  then consider "taskReady (tunnel s)" | c where "senders s c = SenderNotify"
    | g' where "getters s g' = GetterCheckStop" | g' where "getters s g' = GetterDequeue"
    | g' u where "getters s g' = GetterNotify u"
    by (auto simp: signalled_def active_cases)
  then show ?thesis
  proof cases
    case 1
    then show ?thesis using getter_wakes assms by blast
  next
    case (2 c)
    then show ?thesis using getter_notified [OF tunnel_step.sendNotify [OF 2], of g t] assms by (simp add: system_defs)
  next
    case (3 g')
    then show ?thesis using getter_checks assms by blast
  next
    case (4 g')
    then show ?thesis using getter_takes assms by blast
  next
    case (5 g' u)
    then have "g \<noteq> g'" using assms(3) by auto
    then show ?thesis using getter_notified [OF tunnel_step.getNotify [OF 5], of g t] assms by (simp add: system_defs)
  qed
qed

text \<open>A poller that waits while a task was just put into the queue.\<close>

definition waitingSystem :: system where
  "waitingSystem =
     \<lparr>tunnel = enqueueTask newLocalActivityTunnel 7,
      getters = (\<lambda>_. GetterIdle)(0 := GetterWait), senders = (\<lambda>_. SenderIdle)(0 := SenderNotify),
      sentTasks = [7], gotTasks = []\<rparr>"

lemma waitingSystem_reachable: "tunnel_reachable waitingSystem"
proof -
  let ?s = "\<lambda>pc c. \<lparr>tunnel = newLocalActivityTunnel, getters = (\<lambda>_. GetterIdle)(0 := pc),
    senders = (\<lambda>_. SenderIdle)(0 := c), sentTasks = [], gotTasks = []\<rparr>"
  have "tunnel_start = ?s GetterIdle SenderIdle" by (auto simp: tunnel_start_def)
  then have "tunnel_reachable (?s GetterIdle SenderIdle)" using reachable_start by simp
  moreover have "tunnel_call (?s GetterIdle SenderIdle) (?s GetterCheckStop SenderIdle)"
    using tunnel_call.callGetTask [of "?s GetterIdle SenderIdle" 0]
    by (simp add: returnedGetter_def setGetter_def)
  moreover have "tunnel_step (?s GetterCheckStop SenderIdle) (?s GetterDequeue SenderIdle)"
    using tunnel_step.getRunning [of "?s GetterCheckStop SenderIdle" 0]
    by (simp add: setGetter_def newLocalActivityTunnel_def)
  moreover have "tunnel_step (?s GetterDequeue SenderIdle) (?s GetterWait SenderIdle)"
    using tunnel_step.getEmpty [of "?s GetterDequeue SenderIdle" 0]
    by (simp add: setGetter_def newLocalActivityTunnel_def)
  moreover have "tunnel_call (?s GetterWait SenderIdle) (?s GetterWait (SenderCheckStop 7))"
    using tunnel_call.callSendTask [of "?s GetterWait SenderIdle" 0 7]
    by (simp add: setSender_def newLocalActivityTunnel_def returnedSender_def notQueued_def)
  moreover have "tunnel_step (?s GetterWait (SenderCheckStop 7)) (?s GetterWait (SenderEnqueue 7))"
    using tunnel_step.sendRunning [of "?s GetterWait (SenderCheckStop 7)" 0 7]
    by (simp add: setSender_def newLocalActivityTunnel_def)
  moreover have "tunnel_step (?s GetterWait (SenderEnqueue 7)) waitingSystem"
    using tunnel_step.sendPut [of "?s GetterWait (SenderEnqueue 7)" 0 7]
    by (simp add: setSender_def withTunnel_def newLocalActivityTunnel_def waitingSystem_def)
  ultimately show ?thesis by (meson tunnel_reachable.intros)
qed

theorem waiting_poller_gets_task_witness:
  "tunnel_reachable waitingSystem \<and> (\<exists>s'. tunnel_step\<^sup>*\<^sup>* waitingSystem s' \<and> gotTasks s' = [7])"
proof -
  have "\<not> stopped (tunnel waitingSystem)" "getters waitingSystem 0 = GetterWait"
    "taskQueueHead (tunnel waitingSystem) = Some 7" "gotTasks waitingSystem = []"
    by (simp_all add: waitingSystem_def enqueueTask_def newLocalActivityTunnel_def)
  then show ?thesis
    using waiting_poller_gets_task [OF waitingSystem_reachable, of 0 7] waitingSystem_reachable by simp
qed

text \<open>
  C12. The linked list is a queue: in every state that the goroutines can reach, the links from the
  head spell the tasks that wait, in the order in which they were put; the tasks that were taken are
  exactly the ones put before them, in that order, and nothing is lost before the tunnel is stopped.
  The loop that clears the list always ends.
\<close>

theorem tunnel_is_fifo:
  assumes "tunnel_reachable s"
  shows "\<exists>ts dropped. linked (nextQueuedTask (tunnel s)) (taskQueueHead (tunnel s)) ts \<and>
    sentTasks s = gotTasks s @ ts @ dropped \<and> (\<not> stopped (tunnel s) \<longrightarrow> dropped = []) \<and>
    clearTasks (tunnel s) \<noteq> None"
proof -
  obtain ts where o: "orderly s ts" using reachable_orderly [OF assms] by blast
  then obtain dropped where "sentTasks s = gotTasks s @ ts @ dropped" "dropped \<noteq> [] \<longrightarrow> stopped (tunnel s)"
    and q: "queue (tunnel s) ts"
    by (auto simp: orderly_def)
  moreover have "clearTasks (tunnel s) \<noteq> None" using clearTasks_returns [OF q] by simp
  ultimately show ?thesis using q by (intro exI [of _ ts] exI [of _ dropped]) (auto simp: queue_def)
qed

theorem tunnel_is_fifo_witness:
  "\<exists>ts dropped. linked (nextQueuedTask (tunnel waitingSystem)) (taskQueueHead (tunnel waitingSystem)) ts \<and>
    [7] = ts @ dropped \<and> dropped = [] \<and> clearTasks (tunnel waitingSystem) \<noteq> None"
  using tunnel_is_fifo [OF waitingSystem_reachable]
  by (simp add: waitingSystem_def enqueueTask_def newLocalActivityTunnel_def)

end
