(* ===== verification/Task_Completion.thy ===== *)
theory Task_Completion
  imports Event_Handlers Failure_Converter
begin

text \<open>
  What a worker answers to a workflow task: \<open>completeWorkflow\<close> of the task handler
  (\<open>internal/internal_task_handlers.go\<close>), which builds the completion request with the command that
  closes the workflow, the answers to queries and the metadata of the worker;
  \<open>paginateWorkflowTaskCompletion\<close> (\<open>internal/internal_workflow_task_pagination.go\<close>), which splits a
  request that is too large for one message; and the backoff between the attempts of a local activity.
\<close>

section \<open>Requests\<close>

record query =
  q_QueryType :: string
  q_QueryArgs :: "payloads option"
  q_Header :: proto

text \<open>
  A polled task. The map of queries is the list of its entries in the order in which the code visits
  them.
\<close>

record polledTask =
  tk_TaskToken :: string
  tk_WorkflowId :: string
  tk_PollerGroupId :: string
  tk_PreviousStartedEventId :: int64
  tk_StartedEventId :: int64
  tk_History :: "historyEvent list"
  tk_Query :: "query option"
  tk_Queries :: "(string \<times> query) list"
  tk_Messages :: "protocolMessage list"

datatype queryResult = QueryAnswered "payloads option" | QueryFailed string

record workerDeploymentVersion =
  dv_DeploymentName :: string
  dv_BuildID :: string

record completedRequest =
  rq_TaskToken :: string
  rq_Commands :: "command list"
  rq_Messages :: "protocolMessage list"
  rq_Identity :: string
  rq_ReturnNewWorkflowTask :: bool
  rq_ForceCreateNewWorkflowTask :: bool
  rq_BinaryChecksum :: string
  rq_QueryResults :: "(string, queryResult) fmap"
  rq_Namespace :: string
  rq_ResourceId :: string
  rq_NonfirstLocalActivityExecutionAttempts :: uint32
  rq_LangUsedFlags :: "sdkFlag fset"
  rq_SdkName :: string
  rq_SdkVersion :: string
  rq_BuildId :: string
  rq_UseVersioning :: bool
  rq_DiscardSpeculativeWorkflowTaskWithEvents :: bool
  rq_SeriesName :: string
  rq_DeploymentOptions :: "(workerDeploymentVersion \<times> bool) option"
    \<comment> \<open>with whether the mode is versioned\<close>
  rq_WorkerControlTaskQueue :: string
  rq_VersioningBehavior :: nat
  rq_IntermediatePage :: bool
  rq_PageNumber :: "32 word"

record queryCompletedRequest =
  qc_TaskToken :: string
  qc_Namespace :: string
  qc_PollerGroupId :: string
  qc_Result :: queryResult
  qc_Failure :: "failure option"

datatype rawRequest = CompletedRequest completedRequest | QueryCompletedRequest queryCompletedRequest

section \<open>The task handler\<close>

datatype workflowPanicPolicy = BlockWorkflow | FailWorkflow | OtherPolicy

text \<open>
  The fields of \<open>workflowTaskHandlerImpl\<close> that processing a task reads. The configuration of the
  environments it creates is \<open>th_config\<close>. Parameters of the model are: workflow code, the registry of
  versioning behaviors, the text of errors, the encoding of open sessions, whether the local activity
  tunnel takes a task, the pressure points of tests, and what a panic leaves of the environment (which
  the model of the operations does not keep) with the printed panic value and stack trace. The clock
  is read by its \<open>n\<close>th reading, and for each local activity that is sent.
\<close>

record taskHandler =
  th_namespace :: string
  th_identity :: string
  th_workerBuildID :: string
  th_useBuildIDForVersioning :: bool
  th_workerDeploymentVersion :: workerDeploymentVersion
  th_defaultVersioningBehavior :: nat
  th_workflowVersioningBehavior :: "string \<Rightarrow> nat option"
  th_hasLaTunnel :: bool
  th_sendTask :: "string \<Rightarrow> bool"
  th_workflowPanicPolicy :: workflowPanicPolicy
  th_config :: config
  th_sdkMetadata :: bool
  th_buildIdBasedVersioning :: bool
  th_workerControlTaskQueue :: string
  th_code :: workflowCode
  th_errorText :: "goError \<Rightarrow> string"
  th_sessionOrder :: "string fset \<Rightarrow> string list"
  th_sessions :: "sessionInfo list \<Rightarrow> goValue"
  th_pressurePoint :: "historyEvent \<Rightarrow> bool \<Rightarrow> goError option"
  th_leftByPanic :: "go_panic \<Rightarrow> env \<Rightarrow> env"
  th_panicValue :: "go_panic \<Rightarrow> string"
  th_panicStack :: string
  th_clock :: "nat \<Rightarrow> int"
  th_sendClock :: "nat \<Rightarrow> string \<Rightarrow> int"

definition noDeployment :: workerDeploymentVersion where
  "noDeployment = \<lparr>dv_DeploymentName = [], dv_BuildID = []\<rparr>"

definition workerDeploymentOptionsToProto ::
    "bool \<Rightarrow> workerDeploymentVersion \<Rightarrow> (workerDeploymentVersion \<times> bool) option" where
  "workerDeploymentOptionsToProto useVersioning version =
     (if version \<noteq> noDeployment then Some (version, useVersioning) else None)"

definition getWorkflowResourceId :: "string \<Rightarrow> string" where
  "getWorkflowResourceId workflowId = (if workflowId = [] then [] else ''workflow:'' @ workflowId)"

text \<open>The behaviors of both enumerations are numbered alike in the SDK and in the API.\<close>

definition versioningBehaviorToProto :: "nat \<Rightarrow> nat res" where
  "versioningBehaviorToProto t =
     (if t \<le> 2 then Inr t else Inl (PanicString ''unknown versioning behavior type''))"

definition continueAsNewVersioningBehaviorToProto :: "nat \<Rightarrow> nat res" where
  "continueAsNewVersioningBehaviorToProto t =
     (if t \<le> 2 then Inr t
      else Inl (PanicString ''unknown continue-as-new versioning behavior type''))"

section \<open>The command that closes a workflow\<close>

definition withAttributes :: "enumsCommandType \<Rightarrow> commandAttributes \<Rightarrow> command" where
  "withAttributes t attrs = (createNewCommand t)\<lparr>cmd_Attributes := attrs\<rparr>"

definition continueAsNewCommand :: "env \<Rightarrow> continueAsNewError \<Rightarrow> command res" where
  "continueAsNewCommand wc contErr =
     (let info = wc_workflowInfo wc in
      case can_WorkflowType contErr of
        None \<Rightarrow> Inl NilDereference
      | Some workflowType \<Rightarrow>
          bind_res (continueAsNewVersioningBehaviorToProto (can_InitialVersioningBehavior contErr)) (\<lambda>vb.
          Inr ((withAttributes COMMAND_TYPE_CONTINUE_AS_NEW_WORKFLOW_EXECUTION
            (ContinueAsNewWorkflowExecutionCommandAttributes
              \<lparr>cont_WorkflowType = workflowType, cont_Input = can_Input contErr,
               cont_TaskQueue = can_TaskQueueName contErr,
               cont_WorkflowRunTimeout = can_WorkflowRunTimeout contErr,
               cont_WorkflowTaskTimeout = can_WorkflowTaskTimeout contErr,
               cont_BackoffStartInterval =
                 (if can_BackoffStartInterval contErr \<noteq> 0 then Some (can_BackoffStartInterval contErr) else None),
               cont_Header = can_Header contErr, cont_Memo = wi_Memo info,
               cont_SearchAttributes = sanitizeSearchAttributesForStart (wi_SearchAttributes info),
               cont_RetryPolicy = (case can_RetryPolicy contErr of
                  Some p \<Rightarrow> Some p | None \<Rightarrow> wi_RetryPolicy info),
               cont_InheritBuildId = determineInheritBuildIdFlagForCommand
                 (can_VersioningIntent contErr) (wi_TaskQueueName info) (can_TaskQueueName contErr),
               cont_InitialVersioningBehavior = vb\<rparr>))
            \<lparr>cmd_EventGroupMarkers := can_eventGroupMarkers contErr\<rparr>)))"

text \<open>The failure converter for the propagated serialization context of a nexus caller, if any.\<close>

definition closeFailureConverter :: "env \<Rightarrow> failureConverter" where
  "closeFailureConverter wc =
     (let cfg = wc_config wc; ctx = wi_nexusContext (wc_workflowInfo wc) in
      if ctx = None then cf_failureConverter cfg
      else cf_withNexusContextFailure cfg ctx (cf_rootFailureConverter cfg))"

definition closeCommand ::
    "env \<Rightarrow> bool \<Rightarrow> payloads option \<Rightarrow> goError option \<Rightarrow> command option res" where
  "closeCommand wc isWorkflowCompleted result err =
     (case errorAs isCanceled err of
        Some (CanceledError _ _ dets _) \<Rightarrow>
          bind_res (convertErrDetailsToPayloads dets (cf_rootDataConverter (wc_config wc))) (\<lambda>p.
          Inr (Some (withAttributes COMMAND_TYPE_CANCEL_WORKFLOW_EXECUTION
            (CancelWorkflowExecutionCommandAttributes p))))
      | _ \<Rightarrow>
         (case errorAs isContinueAsNew err of
            Some (ContinueAsNewError contErr) \<Rightarrow>
              bind_res (continueAsNewCommand wc contErr) (\<lambda>c. Inr (Some c))
          | _ \<Rightarrow>
              if err \<noteq> None then
                Inr (Some (withAttributes COMMAND_TYPE_FAIL_WORKFLOW_EXECUTION
                  (FailWorkflowExecutionCommandAttributes
                    (fc_ErrorToFailure (closeFailureConverter wc) err))))
              else if isWorkflowCompleted then
                Inr (Some (withAttributes COMMAND_TYPE_COMPLETE_WORKFLOW_EXECUTION
                  (CompleteWorkflowExecutionCommandAttributes result)))
              else Inr None))"

section \<open>Queries\<close>

definition QueryTypeStackTrace :: string where "QueryTypeStackTrace = ''__stack_trace''"
definition QueryTypeOpenSessions :: string where "QueryTypeOpenSessions = ''__open_sessions''"

definition ProcessQuery :: "taskHandler \<Rightarrow> env \<Rightarrow> query \<Rightarrow> (goError + payloads option) res" where
  "ProcessQuery th wc q =
     (if q_QueryType q = QueryTypeStackTrace then
        (if wc_workflowDefinition wc
         then Inr (map_sum GoError id (encodeArg wc (GoString (wf_StackTrace (th_code th) wc))))
         else Inl NilDereference)
      else if q_QueryType q = QueryTypeOpenSessions then
        Inr (map_sum GoError id (encodeArg wc (th_sessions th
          (getOpenSessions (th_sessionOrder th (fmdom (wc_openSessions wc))) wc))))
      else if wc_queryHandler wc
      then Inr (wf_queryHandler (th_code th) wc (q_QueryType q) (q_QueryArgs q) (q_Header q))
      else Inl NilDereference)"

definition queryResultOf :: "taskHandler \<Rightarrow> goError + payloads option \<Rightarrow> queryResult" where
  "queryResultOf th r =
     (case r of Inl err \<Rightarrow> QueryFailed (th_errorText th err) | Inr p \<Rightarrow> QueryAnswered p)"

fun processQueries ::
    "taskHandler \<Rightarrow> env \<Rightarrow> (string \<times> query) list \<Rightarrow> (string, queryResult) fmap res" where
  "processQueries th wc [] = Inr fmempty"
| "processQueries th wc ((queryID, q) # qs) =
     bind_res (ProcessQuery th wc q) (\<lambda>r.
     bind_res (processQueries th wc qs) (\<lambda>rs. Inr (fmupd queryID (queryResultOf th r) rs)))"

definition completeQueryTask ::
    "taskHandler \<Rightarrow> env \<Rightarrow> polledTask \<Rightarrow> query \<Rightarrow> goError option \<Rightarrow> queryCompletedRequest res" where
  "completeQueryTask th wc task q err =
     (let request = \<lambda>result failure.
        \<lparr>qc_TaskToken = tk_TaskToken task, qc_Namespace = th_namespace th,
         qc_PollerGroupId = tk_PollerGroupId task, qc_Result = result, qc_Failure = failure\<rparr> in
      case errorAs isPanic err of
        Some panicErr \<Rightarrow>
          Inr (request (QueryFailed (''Workflow panic: '' @ th_errorText th panicErr)) None)
      | None \<Rightarrow>
          bind_res (ProcessQuery th wc q) (\<lambda>r.
          Inr (request (queryResultOf th r)
            (case r of Inl e \<Rightarrow> fc_ErrorToFailure (cf_failureConverter (wc_config wc)) (Some e)
             | Inr _ \<Rightarrow> None))))"

section \<open>The completion\<close>

definition versioningBehaviorOf :: "taskHandler \<Rightarrow> string \<Rightarrow> nat res" where
  "versioningBehaviorOf th workflowType =
     (if th_useBuildIDForVersioning th \<or> th_workerDeploymentVersion th \<noteq> noDeployment then
        versioningBehaviorToProto (case th_workflowVersioningBehavior th workflowType of
           Some b \<Rightarrow> b | None \<Rightarrow> th_defaultVersioningBehavior th)
      else Inr 0)"

definition completeWorkflow ::
    "taskHandler \<Rightarrow> env \<Rightarrow> polledTask \<Rightarrow> bool \<Rightarrow> payloads option \<Rightarrow> goError option
      \<Rightarrow> command list \<Rightarrow> protocolMessage list \<Rightarrow> bool \<Rightarrow> (rawRequest \<times> env) res" where
  "completeWorkflow th wc task isWorkflowCompleted result err newCommands messages forceNewWorkflowTask =
     (case tk_Query task of
        Some q \<Rightarrow>
          bind_res (completeQueryTask th wc task q err) (\<lambda>r. Inr (QueryCompletedRequest r, wc))
      | None \<Rightarrow>
          bind_res (closeCommand wc isWorkflowCompleted result err) (\<lambda>close.
          bind_res (processQueries th wc (tk_Queries task)) (\<lambda>queryResults.
          bind_res (versioningBehaviorOf th (wi_WorkflowType (wc_workflowInfo wc))) (\<lambda>behavior.
          let (sdkName, wc1) = getNewSdkNameAndReset wc; (sdkVersion, wc2) = getNewSdkVersionAndReset wc1 in
          Inr (CompletedRequest
            \<lparr>rq_TaskToken = tk_TaskToken task,
             rq_Commands = newCommands @ (case close of None \<Rightarrow> [] | Some c \<Rightarrow> [c]),
             rq_Messages = messages, rq_Identity = th_identity th, rq_ReturnNewWorkflowTask = True,
             rq_ForceCreateNewWorkflowTask = (if close = None then forceNewWorkflowTask else False),
             rq_BinaryChecksum = (if th_buildIdBasedVersioning th then [] else th_workerBuildID th),
             rq_QueryResults = queryResults, rq_Namespace = th_namespace th,
             rq_ResourceId = getWorkflowResourceId (tk_WorkflowId task),
             rq_NonfirstLocalActivityExecutionAttempts = GatherLAAttemptsThisWFT wc,
             rq_LangUsedFlags = gatherNewSDKFlags (wc_sdkFlags wc),
             rq_SdkName = sdkName, rq_SdkVersion = sdkVersion, rq_BuildId = th_workerBuildID th,
             rq_UseVersioning = th_useBuildIDForVersioning th,
             rq_DiscardSpeculativeWorkflowTaskWithEvents = True,
             rq_SeriesName = dv_DeploymentName (th_workerDeploymentVersion th),
             rq_DeploymentOptions = workerDeploymentOptionsToProto
               (th_useBuildIDForVersioning th) (th_workerDeploymentVersion th),
             rq_WorkerControlTaskQueue = th_workerControlTaskQueue th,
             rq_VersioningBehavior = behavior, rq_IntermediatePage = False, rq_PageNumber = 0\<rparr>, wc2)))))"

section \<open>Pagination\<close>

text \<open>A request with the fields that an intermediate page has; all others keep their zero value.\<close>

definition newIntermediatePage :: "completedRequest \<Rightarrow> command list \<Rightarrow> nat \<Rightarrow> completedRequest" where
  "newIntermediatePage request cs pageNumber =
     \<lparr>rq_TaskToken = rq_TaskToken request, rq_Commands = cs, rq_Messages = [],
      rq_Identity = rq_Identity request, rq_ReturnNewWorkflowTask = False,
      rq_ForceCreateNewWorkflowTask = False, rq_BinaryChecksum = [], rq_QueryResults = fmempty,
      rq_Namespace = rq_Namespace request, rq_ResourceId = rq_ResourceId request,
      rq_NonfirstLocalActivityExecutionAttempts = 0, rq_LangUsedFlags = {||}, rq_SdkName = [],
      rq_SdkVersion = [], rq_BuildId = [], rq_UseVersioning = False,
      rq_DiscardSpeculativeWorkflowTaskWithEvents = False, rq_SeriesName = [],
      rq_DeploymentOptions = None, rq_WorkerControlTaskQueue = [], rq_VersioningBehavior = 0,
      rq_IntermediatePage = True, rq_PageNumber = of_nat pageNumber\<rparr>"

text \<open>
  The loop that distributes the commands, with the commands of the page that is being filled and
  their size. The encoded size of a command is a parameter (\<open>proto.Size\<close>).
\<close>

fun packCommands :: "(command \<Rightarrow> nat) \<Rightarrow> nat \<Rightarrow> command list \<Rightarrow> command list \<Rightarrow> nat \<Rightarrow> command list list" where
  "packCommands commandSize maxPageBytes [] current currentLen = (if current \<noteq> [] then [current] else [])"
| "packCommands commandSize maxPageBytes (c # cs) current currentLen =
     (if current \<noteq> [] \<and> maxPageBytes < currentLen + commandSize c
      then current # packCommands commandSize maxPageBytes cs [c] (commandSize c)
      else packCommands commandSize maxPageBytes cs (current @ [c]) (currentLen + commandSize c))"

definition paginateWorkflowTaskCompletion ::
    "(completedRequest \<Rightarrow> nat) \<Rightarrow> (command \<Rightarrow> nat) \<Rightarrow> completedRequest \<Rightarrow> nat
      \<Rightarrow> completedRequest list \<times> completedRequest" where
  "paginateWorkflowTaskCompletion requestSize commandSize request maxPageBytes =
     (if requestSize request \<le> maxPageBytes \<or> rq_Commands request = [] \<or>
         list_ex (\<lambda>c. maxPageBytes < commandSize c) (rq_Commands request)
      then ([], request)
      else
        let pages = packCommands commandSize maxPageBytes (rq_Commands request) [] 0;
            intermediatePages = map2 (newIntermediatePage request) pages [0..<length pages] in
        (intermediatePages,
         request\<lparr>rq_Commands := [], rq_PageNumber := of_nat (length intermediatePages),
           rq_IntermediatePage := False\<rparr>))"

section \<open>Retries of local activities\<close>

definition noRetryBackoff :: int64 where "noRetryBackoff = - 1"

fun nextRetryDelayOf :: "goError option \<Rightarrow> int64" where
  "nextRetryDelayOf (Some (ApplicationError _ _ _ _ _ delay _ _)) = delay"
| "nextRetryDelayOf _ = 0"

text \<open>
  The interval of the policy: \<open>pow\<close> is the conversion of the floating-point product of the initial
  interval and the power of the coefficient, a parameter.
\<close>

definition policyInterval :: "(int64 \<Rightarrow> 64 word \<Rightarrow> 32 word \<Rightarrow> int64) \<Rightarrow> retryPolicy \<Rightarrow> 32 word \<Rightarrow> int64" where
  "policyInterval pow p attempt =
     (let i = pow (rp_InitialInterval p) (rp_BackoffCoefficient p) (attempt - 1);
          i1 = (if sint i \<le> 0 \<and> 0 < sint (rp_MaximumInterval p) then rp_MaximumInterval p else i)
      in if 0 < sint (rp_MaximumInterval p) \<and> sint (rp_MaximumInterval p) < sint i1
         then rp_MaximumInterval p else i1)"

definition getRetryBackoffWithNowTime ::
    "(int64 \<Rightarrow> 64 word \<Rightarrow> 32 word \<Rightarrow> int64) \<Rightarrow> retryPolicy \<Rightarrow> 32 word \<Rightarrow> goError option \<Rightarrow> int \<Rightarrow> int
      \<Rightarrow> int64" where
  "getRetryBackoffWithNowTime pow p attempt err now expireTime =
     (if \<not> IsRetryable err (rp_NonRetryableErrorTypes p) then noRetryBackoff
      else if 0 < sint (rp_MaximumAttempts p) \<and> sint (rp_MaximumAttempts p) \<le> sint attempt
      then noRetryBackoff
      else
        let delay = nextRetryDelayOf err;
            backoffInterval = (if delay = 0 then policyInterval pow p attempt else delay) in
        if sint backoffInterval \<le> 0 then noRetryBackoff
        else if expireTime \<noteq> 0 \<and> expireTime < now + sint backoffInterval then noRetryBackoff
        else backoffInterval)"

definition getRetryBackoff ::
    "(int64 \<Rightarrow> 64 word \<Rightarrow> 32 word \<Rightarrow> int64) \<Rightarrow> localActivityResult \<Rightarrow> retryPolicy \<Rightarrow> int \<Rightarrow> int64" where
  "getRetryBackoff pow lar p now =
     getRetryBackoffWithNowTime pow p (la_attempt (lr_task lar)) (lr_err lar) now
       (la_expireTime (lr_task lar))"

text \<open>
  Whether a failed local activity is retried by this worker, after the returned delay, and otherwise
  the result with the backoff that is recorded for a timer.
\<close>

definition retryLocalActivity ::
    "(int64 \<Rightarrow> 64 word \<Rightarrow> 32 word \<Rightarrow> int64) \<Rightarrow> int64 \<Rightarrow> int \<Rightarrow> localActivityResult
      \<Rightarrow> int64 option \<times> localActivityResult" where
  "retryLocalActivity pow workflowTaskTimeout now lar =
     (case la_retryPolicy (lr_task lar) of
        None \<Rightarrow> (None, lar)
      | Some p \<Rightarrow>
          if lr_err lar = None \<or> IsCanceledError (lr_err lar) then (None, lar)
          else
            let retryBackoff = getRetryBackoff pow lar p now in
            if 0 < sint retryBackoff \<and> sint retryBackoff \<le> sint workflowTaskTimeout
            then (Some retryBackoff, lar)
            else (None, lar\<lparr>lr_backoff := retryBackoff\<rparr>))"

end
