(* ===== verification/Workflow_Task.thy ===== *)
theory Workflow_Task
  imports Task_Completion Replay_Match
begin

text \<open>
  Processing a workflow task: \<open>workflowExecutionContextImpl\<close> of \<open>internal/internal_task_handlers.go\<close>,
  the cached state of one workflow. \<open>ProcessWorkflowTask\<close> feeds the events and messages of the history
  to the event handler task by task, compares the commands of a replay with the history, applies the
  panic policy and completes the task.

  The workflow info is shared with the event handler: it is kept there while there is one. An operation
  that returns an error drops the context, as \<open>Unlock\<close> clears it then; a run-time panic that the event
  handler does not recover ends the worker.
\<close>

section \<open>The context\<close>

record workflowExecutionContext =
  wx_workflowInfo :: workflowInfo
  wx_eventHandler :: "env option"
  wx_isWorkflowCompleted :: bool
  wx_result :: "payloads option"
  wx_err :: "goError option"
  wx_previousStartedEventID :: int64
  wx_lastHandledEventID :: int64
  wx_newCommands :: "command list"
  wx_newMessages :: "protocolMessage list"
  wx_currentWorkflowTask :: "polledTask option"
  wx_reads :: nat                          \<comment> \<open>readings of the clock so far\<close>

type_synonym wfContext = workflowExecutionContext

text \<open>
  A workflow task with its history iterator: what the calls of \<open>GetNextPage\<close> still to come return, and
  what they return after \<open>Reset\<close>, which starts with the first page.
\<close>

type_synonym historyPages = "(goError + historyEvent list) list"

record workflowTask =
  wt_task :: polledTask
  wt_pages :: historyPages
  wt_afterReset :: "(goError + historyEvent list) \<times> historyPages"

definition clearCurrentTask :: "wfContext \<Rightarrow> wfContext" where
  "clearCurrentTask w =
     w\<lparr>wx_newCommands := [], wx_newMessages := [], wx_currentWorkflowTask := None\<rparr>"

definition infoOf :: "wfContext \<Rightarrow> workflowInfo" where
  "infoOf w = (case wx_eventHandler w of None \<Rightarrow> wx_workflowInfo w | Some wc \<Rightarrow> wc_workflowInfo wc)"

text \<open>\<open>Close\<close> ends the coroutines of the workflow code; nothing of them is kept.\<close>

definition clearState :: "wfContext \<Rightarrow> wfContext" where
  "clearState w =
     (clearCurrentTask w)\<lparr>wx_isWorkflowCompleted := False, wx_result := None, wx_err := None,
       wx_previousStartedEventID := 0, wx_lastHandledEventID := 0, wx_workflowInfo := infoOf w,
       wx_eventHandler := None\<rparr>"

definition createEventHandler :: "taskHandler \<Rightarrow> wfContext \<Rightarrow> wfContext" where
  "createEventHandler th w =
     (let w1 = clearState w in
      w1\<lparr>wx_eventHandler := Some (newWorkflowExecutionEventHandler (th_config th) (wx_workflowInfo w1)
        (th_sdkMetadata th))\<rparr>)"

definition newWorkflowExecutionContext :: "taskHandler \<Rightarrow> workflowInfo \<Rightarrow> wfContext" where
  "newWorkflowExecutionContext th info =
     createEventHandler th
       \<lparr>wx_workflowInfo = info, wx_eventHandler = None, wx_isWorkflowCompleted = False, wx_result = None,
        wx_err = None, wx_previousStartedEventID = 0, wx_lastHandledEventID = 0, wx_newCommands = [],
        wx_newMessages = [], wx_currentWorkflowTask = None, wx_reads = 0\<rparr>"

definition IsDestroyed :: "wfContext \<Rightarrow> bool" where
  "IsDestroyed w \<longleftrightarrow> wx_eventHandler w = None"

fun startedAttributes :: "eventAttributes \<Rightarrow> (payloadMap option \<times> payloadMap option) option" where
  "startedAttributes (WorkflowEvent (WorkflowExecutionStarted _ _ searchAttributes memo)) =
     Some (searchAttributes, memo)"
| "startedAttributes _ = None"

definition isFullHistory :: "historyEvent list \<Rightarrow> bool" where
  "isFullHistory events =
     (case events of [] \<Rightarrow> False | e # _ \<Rightarrow> startedAttributes (ev_Attributes e) \<noteq> None)"

definition resetHistory :: "workflowTask \<Rightarrow> goError + workflowTask" where
  "resetHistory wt =
     (case wt_afterReset wt of
        (Inl err, _) \<Rightarrow> Inl err
      | (Inr events, pages) \<Rightarrow>
          Inr (wt\<lparr>wt_task := (wt_task wt)\<lparr>tk_History := events\<rparr>, wt_pages := pages\<rparr>))"

definition resetAttributes ::
    "payloadMap option \<Rightarrow> payloadMap option \<Rightarrow> wfContext \<Rightarrow> wfContext" where
  "resetAttributes searchAttributes memo w =
     (case wx_eventHandler w of
        None \<Rightarrow> w
      | Some wc \<Rightarrow> w\<lparr>wx_eventHandler := Some (wc\<lparr>wc_workflowInfo := (wc_workflowInfo wc)
          \<lparr>wi_SearchAttributes := searchAttributes, wi_Memo := memo\<rparr>\<rparr>)\<rparr>)"

text \<open>Errors are returned; a run-time panic, for a history without events, is the outer \<open>Inl\<close>.\<close>

type_synonym 'a run = "(goError + 'a) res"

fun bind_run :: "'a run \<Rightarrow> ('a \<Rightarrow> 'b run) \<Rightarrow> 'b run" where
  "bind_run (Inl p) f = Inl p"
| "bind_run (Inr (Inl e)) f = Inr (Inl e)"
| "bind_run (Inr (Inr a)) f = f a"

lemma bind_run_eq_Ok [res_simps]:
  "bind_run r f = Inr (Inr b) \<longleftrightarrow> (\<exists>a. r = Inr (Inr a) \<and> f a = Inr (Inr b))"
  by (cases "(r, f)" rule: bind_run.cases) auto

definition resetStateIfDestroyed ::
    "taskHandler \<Rightarrow> wfContext \<Rightarrow> workflowTask \<Rightarrow> (wfContext \<times> workflowTask) run" where
  "resetStateIfDestroyed th w wt =
     (if \<not> IsDestroyed w then Inr (Inr (w, wt))
      else
        bind_run (if isFullHistory (tk_History (wt_task wt)) then Inr (Inr wt)
          else Inr (resetHistory wt)) (\<lambda>wt1.
        case tk_History (wt_task wt1) of
          [] \<Rightarrow> Inl IndexOutOfRange
        | e # _ \<Rightarrow>
           (case startedAttributes (ev_Attributes e) of
              None \<Rightarrow> Inr (Inl (GoError ''first history event is not WorkflowExecutionStarted''))
            | Some (searchAttributes, memo) \<Rightarrow>
                Inr (Inr (resetAttributes searchAttributes memo (createEventHandler th w), wt1)))))"

definition ResetIfStale ::
    "taskHandler \<Rightarrow> wfContext \<Rightarrow> workflowTask \<Rightarrow> (wfContext \<times> workflowTask) run" where
  "ResetIfStale th w wt =
     (case tk_History (wt_task wt) of
        [] \<Rightarrow> Inr (Inr (w, wt))
      | e # _ \<Rightarrow>
          if ev_EventId e \<noteq> wx_previousStartedEventID w + 1
          then resetStateIfDestroyed th (clearState w) wt
          else Inr (Inr (w, wt)))"

definition SetCurrentTask :: "wfContext \<Rightarrow> polledTask \<Rightarrow> wfContext" where
  "SetCurrentTask w task =
     w\<lparr>wx_currentWorkflowTask := Some task,
       wx_previousStartedEventID := (if tk_Query task = None then tk_StartedEventId task
         else wx_previousStartedEventID w)\<rparr>"

definition SetPreviousStartedEventID :: "wfContext \<Rightarrow> int64 \<Rightarrow> wfContext" where
  "SetPreviousStartedEventID w eventID =
     w\<lparr>wx_lastHandledEventID := wx_lastHandledEventID w - 2, wx_previousStartedEventID := eventID\<rparr>"

definition skipReplayCheck :: "polledTask \<Rightarrow> bool" where
  "skipReplayCheck task \<longleftrightarrow> tk_Query task \<noteq> None \<or> \<not> isFullHistory (tk_History task)"

section \<open>Running the event handler\<close>

text \<open>
  \<open>completeWorkflow\<close> of the context is the completion callback of the environment: the context follows
  the calls that an operation of the environment added to its log.
\<close>

fun followCall :: "call \<Rightarrow> wfContext \<Rightarrow> wfContext" where
  "followCall (CompleteCall result err) w =
     w\<lparr>wx_isWorkflowCompleted := True, wx_result := result, wx_err := err\<rparr>"
| "followCall _ w = w"

definition withHandler :: "wfContext \<Rightarrow> env \<Rightarrow> env \<Rightarrow> wfContext" where
  "withHandler w wc wc' =
     fold followCall (drop (length (wc_calls wc)) (wc_calls wc')) (w\<lparr>wx_eventHandler := Some wc'\<rparr>)"

definition afterProcessing ::
    "taskHandler \<Rightarrow> wfContext \<Rightarrow> env \<Rightarrow> processResult \<Rightarrow> goError option \<times> wfContext" where
  "afterProcessing th w wc r =
     (case r of
        Returned err wc' \<Rightarrow> (err, withHandler w wc wc')
      | Panicked p \<Rightarrow>
          let wc' = th_leftByPanic th p wc in
          (None, withHandler (withHandler w wc wc') wc'
            (Complete wc' None (Some (newWorkflowPanicError (th_panicValue th p) (th_panicStack th))))))"

definition panickedWith :: "goError option \<Rightarrow> bool" where
  "panickedWith err = (case err of None \<Rightarrow> False | Some e \<Rightarrow> isWorkflowPanic e)"

definition shouldForceReplayCheck :: "taskHandler \<Rightarrow> wfContext \<Rightarrow> bool" where
  "shouldForceReplayCheck th w \<longleftrightarrow> \<not> panickedWith (wx_err w) \<and> IsReplayNamespace (th_namespace th)"

text \<open>How a statement of the loop \<open>ProcessEvents\<close> ends.\<close>

datatype 'a flow = FlowPanic go_panic | FlowReturn goError | FlowBreak 'a | FlowNext 'a

fun then_flow :: "'a flow \<Rightarrow> ('a \<Rightarrow> 'a flow) \<Rightarrow> 'a flow" where
  "then_flow (FlowNext a) f = f a"
| "then_flow r f = r"

fun for_flow :: "('x \<Rightarrow> 'a \<Rightarrow> 'a flow) \<Rightarrow> 'x list \<Rightarrow> 'a \<Rightarrow> 'a flow" where
  "for_flow f [] a = FlowNext a"
| "for_flow f (x # xs) a = then_flow (f x a) (for_flow f xs)"

record taskState =
  ts_context :: wfContext
  ts_messages :: "protocolMessage list"       \<comment> \<open>\<open>msgs\<close>, the messages of the current task\<close>
  ts_taskMessages :: "protocolMessage list"
  ts_replayOutbox :: "outboxEntry list"
  ts_replayCommands :: "command list"
  ts_respondEvents :: "historyEvent list"
  ts_curReplayCmdsIndex :: "nat option"

definition unlessCompleted ::
    "taskHandler \<Rightarrow> taskState \<Rightarrow> goError option \<times> wfContext \<Rightarrow> taskState flow" where
  "unlessCompleted th st r =
     (case r of
        (Some err, _) \<Rightarrow> FlowReturn err
      | (None, w) \<Rightarrow>
          let st1 = st\<lparr>ts_context := w\<rparr> in
          if wx_isWorkflowCompleted w \<and> \<not> shouldForceReplayCheck th w then FlowBreak st1 else FlowNext st1)"

definition runEvent ::
    "taskHandler \<Rightarrow> historyEvent \<Rightarrow> bool \<Rightarrow> bool \<Rightarrow> taskState \<Rightarrow> taskState flow" where
  "runEvent th e isReplay isLast st =
     (let w = ts_context st in
      case wx_eventHandler w of
        None \<Rightarrow> FlowPanic NilDereference
      | Some wc \<Rightarrow>
          unlessCompleted th st (afterProcessing th (w\<lparr>wx_reads := Suc (wx_reads w)\<rparr>) wc
            (ProcessEvent (th_code th) (th_clock th (wx_reads w)) wc (Some e) isReplay isLast)))"

definition runMessage :: "taskHandler \<Rightarrow> protocolMessage \<Rightarrow> taskState \<Rightarrow> taskState flow" where
  "runMessage th msg st =
     (let w = ts_context st in
      case wx_eventHandler w of
        None \<Rightarrow> FlowPanic NilDereference
      | Some wc \<Rightarrow> unlessCompleted th st (afterProcessing th w wc (ProcessMessage (th_code th) wc msg)))"

definition markerNameOf :: "historyEvent \<Rightarrow> string" where
  "markerNameOf e = (case ev_Attributes e of MarkerRecorded name _ _ \<Rightarrow> name | _ \<Rightarrow> [])"

definition runMarkers ::
    "taskHandler \<Rightarrow> bool \<Rightarrow> historyEvent list \<Rightarrow> taskState \<Rightarrow> taskState flow" where
  "runMarkers th localActivities markers =
     for_flow (\<lambda>m. runEvent th m True False)
       (filter (\<lambda>m. (markerNameOf m = localActivityMarkerName) = localActivities) markers)"

definition runMessagesLTE :: "taskHandler \<Rightarrow> int64 \<Rightarrow> taskState \<Rightarrow> taskState flow" where
  "runMessagesLTE th eventID st =
     (case takeLTE (ts_messages st) eventID of (due, rest) \<Rightarrow>
        for_flow (runMessage th) due (st\<lparr>ts_messages := rest\<rparr>))"

definition runOneEvent ::
    "taskHandler \<Rightarrow> history \<Rightarrow> bool \<Rightarrow> bool \<Rightarrow> historyEvent \<Rightarrow> taskState \<Rightarrow> taskState flow" where
  "runOneEvent th h skip isLastEvent event st =
     (let isInReplay = IsReplayEvent h event;
          isLast = (\<not> isInReplay \<and> isLastEvent);
          st1 = (if \<not> skip \<and> isCommandEvent (ev_Attributes event)
                 then st\<lparr>ts_respondEvents := ts_respondEvents st @ [event]\<rparr> else st) in
      if isPreloadMarkerEvent event then FlowNext st1
      else
        (case th_pressurePoint th event isInReplay of
           Some err \<Rightarrow> FlowReturn err
         | None \<Rightarrow>
             then_flow (runMessagesLTE th (ev_EventId event - 1) st1) (\<lambda>st2.
             then_flow (runEvent th event isInReplay isLast st2)
               (runMessagesLTE th (ev_EventId event)))))"

fun runEventList ::
    "taskHandler \<Rightarrow> history \<Rightarrow> bool \<Rightarrow> historyEvent list \<Rightarrow> taskState \<Rightarrow> taskState flow" where
  "runEventList th h skip [] st = FlowNext st"
| "runEventList th h skip (e # es) st =
     then_flow (runOneEvent th h skip (es = []) e st) (runEventList th h skip es)"

section \<open>One task of the history\<close>

definition SDKVersion :: string where "SDKVersion = ''1.50.0''"
definition SDKName :: string where "SDKName = ''temporal-go''"

definition withEnv :: "(env \<Rightarrow> env) \<Rightarrow> taskState \<Rightarrow> taskState" where
  "withEnv f st = st\<lparr>ts_context := (ts_context st)
     \<lparr>wx_eventHandler := map_option f (wx_eventHandler (ts_context st))\<rparr>\<rparr>"

text \<open>
  The messages of a replayed task: an accepted update is delivered with the message of its admission
  if there is one. The body of a message is never missing here, since \<open>MustMarshalAny\<close> made it.
\<close>

definition admittedOr :: "protocolMessage list \<Rightarrow> protocolMessage \<Rightarrow> protocolMessage" where
  "admittedOr admitted msg =
     (case map_of (map (\<lambda>m. (msg_ProtocolInstanceId m, m)) (rev admitted)) (msg_ProtocolInstanceId msg) of
        None \<Rightarrow> msg
      | Some m \<Rightarrow> m)"

definition replayMessages :: "preparedTask \<Rightarrow> taskState \<Rightarrow> taskState" where
  "replayMessages t st =
     withEnv (\<lambda>wc. wc\<lparr>wc_sdkVersion := pt_sdkVersion t, wc_sdkName := pt_sdkName t\<rparr>)
       (st\<lparr>ts_messages := map (admittedOr (pt_admittedMsgs t)) (pt_acceptedMsgs t)\<rparr>)"

definition newSdk :: "env \<Rightarrow> env" where
  "newSdk wc =
     wc\<lparr>wc_sdkVersionUpdated := wc_sdkVersionUpdated wc \<or> wc_sdkVersion wc \<noteq> SDKVersion,
        wc_sdkVersion := SDKVersion,
        wc_sdkNameUpdated := wc_sdkNameUpdated wc \<or> wc_sdkName wc \<noteq> SDKName, wc_sdkName := SDKName\<rparr>"

definition newMessages :: "preparedTask \<Rightarrow> taskState \<Rightarrow> taskState" where
  "newMessages t st =
     withEnv newSdk (st\<lparr>ts_messages := ts_taskMessages st @ pt_admittedMsgs t, ts_taskMessages := []\<rparr>)"

definition isReplayTask :: "history \<Rightarrow> preparedTask \<Rightarrow> bool" where
  "isReplayTask h t \<longleftrightarrow> pt_events t \<noteq> [] \<and> IsReplayEvent h (last (pt_events t))"

definition prepareState :: "history \<Rightarrow> preparedTask \<Rightarrow> taskState \<Rightarrow> taskState" where
  "prepareState h t st =
     withEnv (\<lambda>wc. wc\<lparr>wc_sdkFlags := setFlags (wc_sdkFlags wc) (pt_flags t)\<rparr>)
       (if isReplayTask h t then replayMessages t st else newMessages t st)"

definition beginTask :: "taskHandler \<Rightarrow> history \<Rightarrow> preparedTask \<Rightarrow> taskState \<Rightarrow> taskState" where
  "beginTask th h t st =
     withEnv (\<lambda>wc. wc\<lparr>wc_mutableSideEffectsRecorded := {||},
        wc_workflowInfo := (wc_workflowInfo wc)
          \<lparr>wi_BinaryChecksum := (if pt_binaryChecksum t = [] then th_workerBuildID th else pt_binaryChecksum t),
           wi_currentTaskBuildID := (case pt_buildID t of
              Some b \<Rightarrow> if isReplayTask h t then b else wi_currentTaskBuildID (wc_workflowInfo wc)
            | None \<Rightarrow> wi_currentTaskBuildID (wc_workflowInfo wc))\<rparr>\<rparr>)
       (st\<lparr>ts_curReplayCmdsIndex := Some (length (ts_replayCommands st))\<rparr>)"

text \<open>At the end of a replayed task its commands are collected for the comparison with the history.\<close>

definition collectReplay :: "bool \<Rightarrow> taskState \<Rightarrow> taskState flow" where
  "collectReplay skip st =
     (let w = ts_context st in
      case wx_eventHandler w of
        None \<Rightarrow> FlowPanic NilDereference
      | Some wc \<Rightarrow>
         (case withHelper (\<lambda>h. getCommands h True) wc of
            Inl p \<Rightarrow> FlowPanic p
          | Inr (eventCommands, wc1) \<Rightarrow>
              FlowNext (st\<lparr>ts_context := w\<lparr>wx_eventHandler := Some (wc1\<lparr>wc_outbox := []\<rparr>)\<rparr>,
                ts_replayCommands := (if skip then ts_replayCommands st
                  else ts_replayCommands st @ eventCommands),
                ts_replayOutbox := (if skip then ts_replayOutbox st
                  else ts_replayOutbox st @ wc_outbox wc1)\<rparr>)))"

definition runTask ::
    "taskHandler \<Rightarrow> history \<Rightarrow> bool \<Rightarrow> preparedTask \<Rightarrow> taskState \<Rightarrow> taskState flow" where
  "runTask th h skip t st =
     then_flow (runMarkers th False (pt_markers t) (beginTask th h t st)) (\<lambda>st1.
     then_flow (runEventList th h skip (pt_events t) st1) (\<lambda>st2.
     then_flow (runMarkers th True (pt_markers t) st2) (\<lambda>st3.
     if isReplayTask h t then collectReplay skip st3 else FlowNext st3)))"

section \<open>All tasks of the history\<close>

text \<open>In the replayer, a history that ends with a started task has no commands to compare with yet.\<close>

definition isLastWFTForPartialWFE :: "taskHandler \<Rightarrow> history \<Rightarrow> preparedTask \<Rightarrow> bool" where
  "isLastWFTForPartialWFE th h t \<longleftrightarrow>
     pt_events t \<noteq> [] \<and> isWorkflowTaskStarted (ev_Attributes (last (pt_events t))) \<and> hs_next h = [] \<and>
     IsReplayNamespace (th_namespace th)"

text \<open>
  The loop \<open>ProcessEvents\<close>. Its result is the state and the history after the last task, and whether
  the history was cut off in the middle.
\<close>

partial_function (option) processTasks ::
    "taskHandler \<Rightarrow> bool \<Rightarrow> history \<Rightarrow> taskState \<Rightarrow> (bool \<times> history \<times> taskState) run option" where
  "processTasks th skip h st =
     (case nextTask (cf_flagsAllowed (th_config th)) h of
        Inl err \<Rightarrow> Some (Inr (Inl err))
      | Inr (t, h1) \<Rightarrow>
          if isLastWFTForPartialWFE th h1 t then Some (Inr (Inr (True, h1, st)))
          else if pt_events t = [] then Some (Inr (Inr (False, h1, prepareState h1 t st)))
          else
            (case runTask th h1 skip t (prepareState h1 t st) of
               FlowPanic p \<Rightarrow> Some (Inl p)
             | FlowReturn err \<Rightarrow> Some (Inr (Inl err))
             | FlowBreak st1 \<Rightarrow> Some (Inr (Inr (False, h1, st1)))
             | FlowNext st1 \<Rightarrow> processTasks th skip h1 st1))"

declare processTasks.simps [code]

section \<open>Completing the task\<close>

definition hasPendingLocalActivityWork :: "wfContext \<Rightarrow> bool" where
  "hasPendingLocalActivityWork w \<longleftrightarrow>
     \<not> wx_isWorkflowCompleted w \<and>
     (case wx_currentWorkflowTask w of None \<Rightarrow> False | Some task \<Rightarrow> tk_Query task = None) \<and>
     (case wx_eventHandler w of None \<Rightarrow> False | Some wc \<Rightarrow> fmdom (wc_pendingLaTasks wc) \<noteq> {||})"

text \<open>
  Releasing the context after a task: whether it leaves the cache, and what is kept of it. The eviction
  from the cache clears it as well.
\<close>

definition Unlock :: "int \<Rightarrow> bool \<Rightarrow> goError option \<Rightarrow> wfContext \<Rightarrow> bool \<times> wfContext" where
  "Unlock maxWorkflowCacheSize cached err w =
     (if err \<noteq> None \<or> wx_err w \<noteq> None \<or> wx_isWorkflowCompleted w \<or>
         maxWorkflowCacheSize \<le> 0 \<and> \<not> hasPendingLocalActivityWork w
      then (True, clearState w)
      else if \<not> cached then (False, clearState w)
      else (False, w))"

definition onEviction :: "wfContext \<Rightarrow> wfContext" where
  "onEviction w = clearState w"

text \<open>
  Starting the local activities: every unstarted one gets the time of its schedule, and those that the
  tunnel does not take stay unstarted.
\<close>

definition startLocalActivities :: "taskHandler \<Rightarrow> nat \<Rightarrow> env \<Rightarrow> env res" where
  "startLocalActivities th reads wc =
     (if \<not> wc_unstartedLaTasks wc |\<subseteq>| fmdom (wc_pendingLaTasks wc) then Inl NilDereference
      else Inr (wc\<lparr>
        wc_pendingLaTasks := fmmap_keys (\<lambda>activityID t.
          if activityID |\<in>| wc_unstartedLaTasks wc then t\<lparr>la_scheduledTime := th_sendClock th reads activityID\<rparr> else t)
          (wc_pendingLaTasks wc),
        wc_unstartedLaTasks := ffilter (\<lambda>activityID. \<not> th_sendTask th activityID) (wc_unstartedLaTasks wc)\<rparr>))"

definition finishTask ::
    "taskHandler \<Rightarrow> bool \<Rightarrow> polledTask \<Rightarrow> wfContext \<Rightarrow> env \<Rightarrow> (rawRequest option \<times> wfContext) res" where
  "finishTask th waitLocalActivities task w wc =
     bind_res (withHelper (\<lambda>h. getCommands h True) wc) (\<lambda>(eventCommands, wc1).
     let cs = wx_newCommands w @ eventCommands;
         (outgoing, wc2) = takeOutgoingMessages wc1;
         ms = wx_newMessages w @ outgoing in
     bind_res (completeWorkflow th (ClearCompleted wc2) task (wx_isWorkflowCompleted w) (wx_result w)
       (wx_err w) cs ms (\<not> waitLocalActivities)) (\<lambda>(request, wc3).
     Inr (Some request, (clearCurrentTask w)\<lparr>wx_eventHandler := Some wc3\<rparr>)))"

definition CompleteWorkflowTask ::
    "taskHandler \<Rightarrow> bool \<Rightarrow> wfContext \<Rightarrow> (rawRequest option \<times> wfContext) res" where
  "CompleteWorkflowTask th waitLocalActivities w =
     (case (wx_currentWorkflowTask w, wx_eventHandler w) of
        (None, _) \<Rightarrow> Inr (None, w)
      | (Some _, None) \<Rightarrow> Inl NilDereference
      | (Some task, Some wc) \<Rightarrow>
          if hasPendingLocalActivityWork w \<and> th_hasLaTunnel th then
            bind_res (startLocalActivities th (wx_reads w) wc) (\<lambda>wc1.
            let w1 = w\<lparr>wx_reads := Suc (wx_reads w), wx_eventHandler := Some wc1\<rparr> in
            if waitLocalActivities then Inr (None, w1)
            else finishTask th waitLocalActivities task w1 wc1)
          else finishTask th waitLocalActivities task w wc)"

definition applyWorkflowPanicPolicy ::
    "taskHandler \<Rightarrow> wfContext \<Rightarrow> goError option \<Rightarrow> (rawRequest option \<times> wfContext) run" where
  "applyWorkflowPanicPolicy th w mismatch =
     (let workflowError = (if mismatch = None \<and> panickedWith (wx_err w) then wx_err w else mismatch) in
      case workflowError of
        None \<Rightarrow> bind_res (CompleteWorkflowTask th True w) (\<lambda>r. Inr (Inr r))
      | Some e \<Rightarrow>
         (case th_workflowPanicPolicy th of
            BlockWorkflow \<Rightarrow> Inr (Inl e)
          | FailWorkflow \<Rightarrow>
             (case wx_eventHandler w of
                None \<Rightarrow> Inl NilDereference
              | Some wc \<Rightarrow>
                  bind_res (CompleteWorkflowTask th True (withHandler w wc (Complete wc None
                    (Some (NewApplicationError
                      ''Workflow failed on panic due to FailWorkflow workflow panic policy'' [] False
                      (Some e) (ErrorDetailsValues [])))))) (\<lambda>r. Inr (Inr r)))
          | OtherPolicy \<Rightarrow> Inl (PanicString ''unknown mismatched workflow history policy.'')))"

section \<open>The whole task\<close>

definition startState :: "taskHandler \<Rightarrow> polledTask \<Rightarrow> wfContext \<Rightarrow> env \<Rightarrow> taskState" where
  "startState th task w wc =
     (let wc1 = ResetLAWFTAttemptCounts wc in
      \<lparr>ts_context = w\<lparr>wx_eventHandler := Some (wc1
         \<lparr>wc_sdkFlags := markSDKFlagsSent (wc_sdkFlags wc1),
          wc_workflowInfo := (wc_workflowInfo wc1)\<lparr>wi_currentTaskBuildID := th_workerBuildID th\<rparr>\<rparr>)\<rparr>,
       ts_messages = [], ts_taskMessages = tk_Messages task, ts_replayOutbox = [],
       ts_replayCommands = [], ts_respondEvents = [], ts_curReplayCmdsIndex = None\<rparr>)"

text \<open>The comparison of the replay with the history, when it is due.\<close>

definition replayedCommands :: "bool \<Rightarrow> taskState \<Rightarrow> command list" where
  "replayedCommands partialHistory st =
     (case ts_curReplayCmdsIndex st of
        Some i \<Rightarrow> if partialHistory then take i (ts_replayCommands st) else ts_replayCommands st
      | None \<Rightarrow> ts_replayCommands st)"

definition replayCheck :: "taskHandler \<Rightarrow> bool \<Rightarrow> bool \<Rightarrow> taskState \<Rightarrow> goError option res" where
  "replayCheck th skip partialHistory st =
     (let w = ts_context st in
      if \<not> skip \<and> (\<not> wx_isWorkflowCompleted w \<or> shouldForceReplayCheck th w) then
        (case wx_eventHandler w of
           None \<Rightarrow> Inl NilDereference
         | Some wc \<Rightarrow> matchReplayWithHistory (cf_flagsAllowed (th_config th))
             (replayedCommands partialHistory st) (ts_respondEvents st) (ts_replayOutbox st) (wc_sdkFlags wc))
      else Inr None)"

definition endTask ::
    "taskHandler \<Rightarrow> bool \<Rightarrow> bool \<times> history \<times> taskState \<Rightarrow> (rawRequest option \<times> wfContext) run" where
  "endTask th skip r =
     (case r of (partialHistory, h, st) \<Rightarrow>
        bind_res (replayCheck th skip partialHistory st) (\<lambda>mismatch.
        let w = ts_context st; w1 = (if mismatch = None then w else w\<lparr>wx_err := mismatch\<rparr>) in
        bind_run (applyWorkflowPanicPolicy th w1 mismatch) (\<lambda>(request, w2).
        Inr (Inr (request, w2\<lparr>wx_lastHandledEventID := hs_lastHandledEventID h\<rparr>)))))"

definition taskHistory :: "wfContext \<Rightarrow> workflowTask \<Rightarrow> history" where
  "taskHistory w wt =
     newHistory (wx_lastHandledEventID w) (tk_PreviousStartedEventId (wt_task wt))
       (tk_StartedEventId (wt_task wt)) (tk_History (wt_task wt)) (wt_pages wt)"

definition ProcessWorkflowTask ::
    "taskHandler \<Rightarrow> wfContext \<Rightarrow> workflowTask \<Rightarrow> (rawRequest option \<times> wfContext) run option" where
  "ProcessWorkflowTask th w wt =
     (case ResetIfStale th w wt of
        Inl p \<Rightarrow> Some (Inl p)
      | Inr (Inl err) \<Rightarrow> Some (Inr (Inl err))
      | Inr (Inr (w1, wt1)) \<Rightarrow>
          let task = wt_task wt1; w2 = SetCurrentTask w1 task; skip = skipReplayCheck task in
          (case wx_eventHandler w2 of
             None \<Rightarrow> Some (Inl NilDereference)
           | Some wc \<Rightarrow>
               map_option (\<lambda>r. bind_run r (endTask th skip))
                 (processTasks th skip (taskHistory w2 wt1) (startState th task w2 wc))))"

text \<open>The result of a local activity, which may be retried instead.\<close>

definition wx_ProcessLocalActivityResult ::
    "(int64 \<Rightarrow> 64 word \<Rightarrow> 32 word \<Rightarrow> int64) \<Rightarrow> taskHandler \<Rightarrow> wfContext \<Rightarrow> localActivityResult
      \<Rightarrow> (rawRequest option \<times> wfContext) run" where
  "wx_ProcessLocalActivityResult pow th w lar =
     (let now = th_clock th (wx_reads w); w1 = w\<lparr>wx_reads := Suc (wx_reads w)\<rparr> in
      case (if lr_err lar = None then (None, lar)
            else retryLocalActivity pow (wi_WorkflowTaskTimeout (infoOf w)) now lar) of
        (Some _, _) \<Rightarrow> Inr (Inr (None, w1))
      | (None, lar1) \<Rightarrow>
         (case wx_eventHandler w of
            None \<Rightarrow> Inl NilDereference
          | Some wc \<Rightarrow>
              bind_res (ProcessLocalActivityResult (th_code th) (th_clock th (wx_reads w1)) wc lar1) (\<lambda>r.
              case afterProcessing th (w1\<lparr>wx_reads := Suc (wx_reads w1)\<rparr>) wc r of
                (err, w2) \<Rightarrow> applyWorkflowPanicPolicy th w2 err)))"

end
