(* ===== verification/Task_Termination.thy ===== *)
theory Task_Termination
  imports Workflow_Task History_Tasks
begin

text \<open>
  Processing a workflow task returns. Every task that the history hands out consumes events that are
  loaded or still to come, so the loop over the tasks ends, whatever the workflow code does.
\<close>

section \<open>Processing ends\<close>

definition inPage :: "history \<Rightarrow> bool" where
  "inPage h \<longleftrightarrow> hs_currentIndex h \<le> length (hs_loadedEvents h)"

lemma loadMoreEvents_longer:
  "loadMoreEvents h = Inr h1 \<Longrightarrow> length (hs_loadedEvents h) \<le> length (hs_loadedEvents h1)"
  by (auto simp: loadMoreEvents_def Let_def split: list.splits sum.splits)

lemma loadUntil_longer:
  "loadUntil n h = Inr h1 \<Longrightarrow> length (hs_loadedEvents h) \<le> length (hs_loadedEvents h1)"
proof (induction n h rule: loadUntil.induct)
  case (1 n h)
  then show ?case
    by (fastforce simp: loadUntil.simps [of n h] dest: loadMoreEvents_longer split: if_splits sum.splits)
qed

lemma loadUntil_inPage: "loadUntil n h = Inr h1 \<Longrightarrow> inPage h \<Longrightarrow> inPage h1"
  using loadUntil_longer [of n h h1] loadUntil_keeps [of n h h1] by (simp add: inPage_def)

lemma lookahead_loads:
  "isNextWorkflowTaskFailed allowed h = Inr (ft, h1) \<Longrightarrow> loadUntil (Suc (hs_currentIndex h)) h = Inr h1"
  by (auto simp: isNextWorkflowTaskFailed_def Let_def split: sum.splits if_splits)

lemma lookahead_keeps:
  assumes "isNextWorkflowTaskFailed allowed h = Inr (ft, h1)"
    and "\<not> length (hs_loadedEvents h) \<le> hs_currentIndex h"
  shows "inPage (advance h1)" "remaining h1 = remaining h"
  using lookahead_loads [OF assms(1)] assms(2)
    loadUntil_longer [of "Suc (hs_currentIndex h)" h h1] loadUntil_keeps [of "Suc (hs_currentIndex h)" h h1]
    loadUntil_remaining [of "Suc (hs_currentIndex h)" h h1]
  by (auto simp: inPage_def advance_def)

lemma prepareLoop_shorter:
  "prepareLoop allowed h t = Inr (t1, h1) \<Longrightarrow> inPage h \<Longrightarrow>
     inPage h1 \<and> remaining h1 + length (pt_events t1) \<le> remaining h + length (pt_events t)"
proof (induction allowed h t rule: prepareLoop.induct)
  case (1 allowed h t)
  obtain h2 where load: "loadUntil (hs_currentIndex h) h = Inr h2"
    using "1.prems"(1) by (auto simp: prepareLoop.simps [of allowed h t] split: sum.splits)
  note rem = loadUntil_remaining [OF load] and page = loadUntil_inPage [OF load "1.prems"(2)]
  show ?case
  proof (cases "length (hs_loadedEvents h2) \<le> hs_currentIndex h2")
    case True
    then show ?thesis
      using "1.prems" load rem page
      by (auto simp: prepareLoop.simps [of allowed h t] split: option.splits)
  next
    case False
    let ?e = "hs_loadedEvents h2 ! hs_currentIndex h2"
    let ?h3 = "h2\<lparr>hs_nextEventID := hs_nextEventID h2 + 1\<rparr>"
    let ?h4 = "?h3\<lparr>hs_lastHandledEventID := ev_EventId ?e\<rparr>"
    have pos: "0 < remaining h2" and adv: "inPage (advance ?h3)" "inPage (advance ?h4)"
      using False by (auto simp: remaining_def inPage_def advance_def)
    have id: "ev_EventId ?e = hs_nextEventID h2"
      using "1.prems"(1) load False by (auto simp: prepareLoop.simps [of allowed h t] Let_def split: if_splits)
    have nxt: "inPage (advance h5)" "remaining h5 = remaining h2"
      if "isNextWorkflowTaskFailed allowed ?h4 = Inr (ft, h5)" for ft h5
      using lookahead_keeps [OF that] False by simp_all
    note IH = "1.IH" [OF load False refl refl refl refl, unfolded not_not, OF id]
    let ?id = "sint (ev_EventId ?e) \<le> sint (hs_lastHandledEventID h2)"
    let ?started = "isWorkflowTaskStarted (ev_Attributes ?e)"
    let ?skips = "isTaskScheduled (ev_Attributes ?e) \<or> isTaskTimedOut (ev_Attributes ?e)"
    consider ?id "prepareLoop allowed (advance ?h3) t = Inr (t1, h1)"
      | ft h5 where "\<not> ?id" ?started "isNextWorkflowTaskFailed allowed ?h4 = Inr (ft, h5)"
          "ft_isFailed ft" "prepareLoop allowed (advance h5) t = Inr (t1, h1)"
      | ft h5 where "isNextWorkflowTaskFailed allowed ?h4 = Inr (ft, h5)"
          "t1 = addStartedEvent t ?e ft" "h1 = (advance h5)\<lparr>hs_binaryChecksum := ft_binaryChecksum ft\<rparr>"
      | "\<not> ?id" "\<not> ?started" ?skips "prepareLoop allowed (advance ?h4) t = Inr (t1, h1)"
      | "\<not> ?id" "\<not> ?started" "\<not> ?skips" "prepareLoop allowed (advance ?h4) (addEvent t ?e) = Inr (t1, h1)"
      using "1.prems"(1) load False
      by (auto simp: prepareLoop.simps [of allowed h t] Let_def split: if_splits sum.splits)
    then show ?thesis
    proof cases
      case 1
      then show ?thesis using IH(1) adv(1) pos rem by auto
    next
      case (2 ft h5)
      then show ?thesis using IH(2) [OF 2(1-3) refl] nxt [OF 2(3)] pos rem by auto
    next
      case (3 ft h5)
      then show ?thesis using nxt [OF 3(1)] pos rem
        by (auto simp: addStartedEvent_def inPage_def remaining_def advance_def)
    next
      case 4
      then show ?thesis using IH(3) adv(2) pos rem by auto
    next
      case 5
      then show ?thesis using IH(4) adv(2) pos rem by (auto simp: addEvent_sel)
    qed
  qed
qed

lemma prepareTask_shorter:
  assumes "prepareTask allowed h = Inr (t, h1)" and "hs_currentIndex h = 0"
  shows "hs_currentIndex h1 = 0 \<and> remaining h1 + length (pt_events t) \<le> remaining h"
proof -
  have "inPage h" using assms(2) by (simp add: inPage_def)
  then show ?thesis
    using assms prepareLoop_shorter [of allowed h emptyPreparedTask t]
    by (auto simp: prepareTask_def emptyPreparedTask_def shrink_def remaining_def inPage_def
        split: if_splits option.splits sum.splits)
qed

text \<open>Every task that has events takes them from what remains.\<close>

definition toDo :: "history \<Rightarrow> nat" where
  "toDo h = length (hs_next h) + remaining h"

lemma firstTask_shorter:
  "firstTask allowed h = Inr h1 \<Longrightarrow> hs_currentIndex h = 0 \<Longrightarrow> hs_currentIndex h1 = 0 \<and> toDo h1 \<le> toDo h"
  using prepareTask_shorter [of allowed h]
  by (auto simp: firstTask_def keepNext_def toDo_def remaining_def split: if_splits)

lemma nextTask_shorter:
  assumes "nextTask allowed h = Inr (t, h1)" and "hs_currentIndex h = 0"
  shows "hs_currentIndex h1 = 0 \<and> (pt_events t \<noteq> [] \<longrightarrow> toDo h1 < toDo h)"
proof -
  obtain h2 where first: "firstTask allowed h = Inr h2"
    using assms(1) by (auto simp: nextTask_def split: sum.splits)
  note h2 = firstTask_shorter [OF first assms(2)]
  show ?thesis
  proof (cases "hs_next h2 = []")
    case True
    then show ?thesis using assms(1) first h2 by (auto simp: nextTask_def currentTask_def)
  next
    case False
    then obtain t2 h3 where "prepareTask allowed h2 = Inr (t2, h3)" and h1: "h1 = keepNext h3 t2"
      using assms(1) first by (auto simp: nextTask_def split: sum.splits)
    with prepareTask_shorter [of allowed h2] h2 have
      "hs_currentIndex h3 = 0 \<and> remaining h3 + length (pt_events t2) \<le> remaining h2" by blast
    with False h1 h2 show ?thesis
      by (cases "hs_next h2") (auto simp: toDo_def keepNext_def remaining_def)
  qed
qed

lemma processTasks_returns:
  "hs_currentIndex h = 0 \<Longrightarrow> \<exists>r. processTasks th skip h st = Some r"
proof (induction h arbitrary: st rule: measure_induct_rule [of toDo])
  case (less h)
  show ?case
  proof (cases "nextTask (cf_flagsAllowed (th_config th)) h")
    case (Inl err)
    then show ?thesis by (simp add: processTasks.simps [of th skip h st])
  next
    case (Inr th1)
    obtain t h1 where th1: "th1 = (t, h1)" by (cases th1)
    have "pt_events t \<noteq> [] \<Longrightarrow> \<exists>r. processTasks th skip h1 st1 = Some r" for st1
      using nextTask_shorter [OF Inr [unfolded th1] less.prems] less.IH by blast
    then show ?thesis
      by (auto simp: processTasks.simps [of th skip h st] Inr th1 split: flow.split)
  qed
qed

text \<open>
  C4. Processing a workflow task ends: whatever the history, its pages and the workflow code do, the
  loop over the tasks of the history returns, with a completion, an error or a panic.
\<close>

theorem processing_ends: "\<exists>r. ProcessWorkflowTask th w wt = Some r"
proof -
  have "\<exists>r. processTasks th skip (taskHistory v wt1) st = Some r" for skip v wt1 st
    by (rule processTasks_returns) (simp add: taskHistory_def newHistory_def)
  then show ?thesis
    by (auto simp: ProcessWorkflowTask_def Let_def split: sum.split option.split)
qed

end
