(* ===== verification/Task_Replay.thy ===== *)
theory Task_Replay
  imports Task_Termination Replay_Properties
begin

text \<open>
  What a completion says about the replay before it: the events that the loop over the tasks keeps are
  the command events of the tasks it ran, and under the policy \<open>BlockWorkflow\<close> the task is completed
  only if the commands of the workflow code match them.
\<close>

section \<open>Accepted commands\<close>

lemma accepted_commands_match:
  "matchLoop allowed sf msgs ds es = Inr None \<Longrightarrow>
    list_all2 (\<lambda>d e. isCommandMatchEvent d e msgs = Inr True) (comparedCommands ds) (comparedEvents allowed sf es)"
proof (induction allowed sf msgs ds es rule: matchLoop.induct)
  case (1 allowed sf msgs)
  then show ?case by (simp add: comparedCommands_def)
next
  case (2 allowed sf msgs ds e es)
  from "2.prems" obtain b where b: "skipDeterministicCheckForUpsertChangeVersion (e # es) = Inr b"
    by (cases "skipDeterministicCheckForUpsertChangeVersion (e # es)") simp_all
  consider "b" | "\<not> b" "skipDeterministicCheckForEvent allowed sf (ev_Attributes e)"
    | (compare) "\<not> b" "\<not> skipDeterministicCheckForEvent allowed sf (ev_Attributes e)" by blast
  then show ?case
  proof cases
    case 1
    with "2.IH"(1) [OF b 1] "2.prems" b show ?thesis by simp
  next
    case n: 2
    with "2.IH"(2) [OF b n] "2.prems" b show ?thesis by simp
  next
    case compare
    with "2.prems" b obtain d ds1 where ds: "ds = d # ds1" by (cases ds) simp_all
    show ?thesis
    proof (cases "skipDeterministicCheckForCommand d")
      case True
      with "2.IH"(3) [OF b compare ds True] "2.prems" b compare ds show ?thesis
        by (simp add: comparedCommands_def)
    next
      case False
      with "2.prems" b compare ds obtain m where m: "isCommandMatchEvent d e msgs = Inr m"
        by (cases "isCommandMatchEvent d e msgs") simp_all
      with "2.IH"(4) [OF b compare ds False m] "2.prems" b compare ds False show ?thesis
        by (cases m) (simp_all add: comparedCommands_def)
    qed
  qed
next
  case (3 allowed sf msgs d ds)
  then show ?case by (cases "skipDeterministicCheckForCommand d") (simp_all add: comparedCommands_def)
qed

section \<open>The events a task is compared with\<close>

text \<open>
  The events kept for the comparison after a part of the loop. A part that breaks off is one in which
  the workflow has completed and no check is forced.
\<close>

definition stops :: "taskHandler \<Rightarrow> taskState \<Rightarrow> bool" where
  "stops th st \<longleftrightarrow> wx_isWorkflowCompleted (ts_context st) \<and> \<not> shouldForceReplayCheck th (ts_context st)"

fun responds :: "taskHandler \<Rightarrow> historyEvent list \<Rightarrow> taskState flow \<Rightarrow> bool" where
  "responds th es (FlowNext st) \<longleftrightarrow> ts_respondEvents st = es"
| "responds th es (FlowBreak st) \<longleftrightarrow> stops th st"
| "responds th es _ \<longleftrightarrow> True"

lemma responds_then:
  assumes "responds th xs r" and "\<And>st. ts_respondEvents st = xs \<Longrightarrow> responds th ys (f st)"
  shows "responds th ys (then_flow r f)"
  using assms by (cases r) simp_all

lemma responds_for:
  assumes "\<And>x a. responds th (ts_respondEvents a) (f x a)"
  shows "responds th (ts_respondEvents st) (for_flow f xs st)"
proof (induction xs arbitrary: st)
  case (Cons x xs)
  show ?case unfolding for_flow.simps by (rule responds_then [OF assms]) (metis Cons.IH)
qed simp

lemma unlessCompleted_responds: "responds th (ts_respondEvents st) (unlessCompleted th st r)"
  by (auto simp: unlessCompleted_def stops_def Let_def split: prod.split option.split)

lemma runEvent_responds: "responds th (ts_respondEvents st) (runEvent th e isReplay isLast st)"
  by (simp add: runEvent_def Let_def unlessCompleted_responds split: option.split)

lemma runMessage_responds: "responds th (ts_respondEvents st) (runMessage th msg st)"
  by (simp add: runMessage_def Let_def unlessCompleted_responds split: option.split)

lemma runMarkers_responds: "responds th (ts_respondEvents st) (runMarkers th la ms st)"
  unfolding runMarkers_def by (rule responds_for) (rule runEvent_responds)

lemma runMessagesLTE_responds: "responds th (ts_respondEvents st) (runMessagesLTE th i st)"
proof -
  have "responds th (ts_respondEvents (st\<lparr>ts_messages := rest\<rparr>))
      (for_flow (runMessage th) due (st\<lparr>ts_messages := rest\<rparr>))" for rest due
    by (rule responds_for) (rule runMessage_responds)
  then show ?thesis by (simp add: runMessagesLTE_def split: prod.split)
qed

definition compared :: "bool \<Rightarrow> historyEvent list \<Rightarrow> historyEvent list" where
  "compared skip es = (if skip then [] else filter (\<lambda>e. isCommandEvent (ev_Attributes e)) es)"

lemma runOneEvent_responds:
  "responds th (ts_respondEvents st @ compared skip [e]) (runOneEvent th h skip l e st)"
proof -
  define st1 where "st1 = (if \<not> skip \<and> isCommandEvent (ev_Attributes e)
    then st\<lparr>ts_respondEvents := ts_respondEvents st @ [e]\<rparr> else st)"
  have st1: "ts_respondEvents st @ compared skip [e] = ts_respondEvents st1"
    by (simp add: compared_def st1_def)
  have "responds th (ts_respondEvents a) (then_flow (runEvent th e r l a) (runMessagesLTE th i))" for a r l i
    by (rule responds_then [OF runEvent_responds]) (metis runMessagesLTE_responds)
  then have "responds th (ts_respondEvents st1) (then_flow (runMessagesLTE th j st1)
      (\<lambda>a. then_flow (runEvent th e r l a) (runMessagesLTE th i)))" for r l i j
    by (intro responds_then [OF runMessagesLTE_responds]) metis
  then show ?thesis unfolding st1 runOneEvent_def Let_def st1_def [symmetric]
    by (simp split: option.split)
qed

lemma runEventList_responds:
  "responds th (ts_respondEvents st @ compared skip es) (runEventList th h skip es st)"
proof (induction es arbitrary: st)
  case (Cons e es)
  have "compared skip (e # es) = compared skip [e] @ compared skip es" by (simp add: compared_def)
  then show ?case unfolding runEventList.simps
    by (intro responds_then [OF runOneEvent_responds]) (metis Cons.IH append.assoc)
qed (simp add: compared_def)

lemma collectReplay_responds: "responds th (ts_respondEvents st) (collectReplay skip st)"
  by (simp add: collectReplay_def Let_def split: option.split sum.split prod.split)

lemma runTask_responds:
  "responds th (ts_respondEvents st @ compared skip (pt_events t)) (runTask th h skip t st)"
proof -
  let ?es = "ts_respondEvents st @ compared skip (pt_events t)"
  have st0: "ts_respondEvents (beginTask th h t st) = ts_respondEvents st"
    by (simp add: beginTask_def withEnv_def)
  have last: "responds th ?es (then_flow (runMarkers th True (pt_markers t) st2) (\<lambda>st3.
      if isReplayTask h t then collectReplay skip st3 else FlowNext st3))"
    if "ts_respondEvents st2 = ?es" for st2
    by (rule responds_then [OF runMarkers_responds]) (metis that collectReplay_responds responds.simps(1))
  have "responds th ?es (then_flow (runEventList th h skip (pt_events t) st1) (\<lambda>st2.
      then_flow (runMarkers th True (pt_markers t) st2) (\<lambda>st3.
      if isReplayTask h t then collectReplay skip st3 else FlowNext st3)))"
    if "ts_respondEvents st1 = ts_respondEvents st" for st1
    by (rule responds_then [OF runEventList_responds last]) (simp add: that)
  then show ?thesis unfolding runTask_def
    by (intro responds_then [OF runMarkers_responds]) (simp add: st0)
qed

lemma prepareState_responds [simp]: "ts_respondEvents (prepareState h t st) = ts_respondEvents st"
  by (simp add: prepareState_def replayMessages_def newMessages_def withEnv_def)

lemma nextTasks_step:
  "nextTask allowed h = Inr (t, h1) \<Longrightarrow> pt_events t \<noteq> [] \<Longrightarrow> nextTasks k allowed h1 = Inr ts \<Longrightarrow>
    nextTasks (Suc k) allowed h = Inr (t # ts)"
  by simp

lemma compared_append: "compared skip (xs @ ys) = compared skip xs @ compared skip ys"
  by (simp add: compared_def)

definition tasksCompared ::
    "taskHandler \<Rightarrow> bool \<Rightarrow> history \<Rightarrow> bool \<Rightarrow> historyEvent list \<Rightarrow> historyEvent list \<Rightarrow> bool" where
  "tasksCompared th skip h partialHistory old new \<longleftrightarrow>
     (\<exists>k ts. nextTasks k (cf_flagsAllowed (th_config th)) h = Inr ts \<and>
        (partialHistory \<or> nextTasks (Suc k) (cf_flagsAllowed (th_config th)) h = Inr ts) \<and>
        new = old @ compared skip (concat (map pt_events ts)))"

lemma tasksCompared_Nil:
  assumes "p \<or> (\<exists>t h1. nextTask (cf_flagsAllowed (th_config th)) h = Inr (t, h1) \<and> pt_events t = [])"
  shows "tasksCompared th skip h p es es"
  unfolding tasksCompared_def using assms by (intro exI [of _ 0] exI [of _ "[]"]) (auto simp: compared_def)

lemma tasksCompared_Cons:
  assumes "nextTask (cf_flagsAllowed (th_config th)) h = Inr (t, h1)" and "pt_events t \<noteq> []"
    and "tasksCompared th skip h1 p (es @ compared skip (pt_events t)) new"
  shows "tasksCompared th skip h p es new"
proof -
  note nx = nextTasks_step [OF assms(1,2)]
  from assms(3) obtain k ts where
    ts: "nextTasks k (cf_flagsAllowed (th_config th)) h1 = Inr ts"
      "p \<or> nextTasks (Suc k) (cf_flagsAllowed (th_config th)) h1 = Inr ts" and
    new: "new = es @ compared skip (concat (map pt_events (t # ts)))"
    unfolding tasksCompared_def by (auto simp: compared_append simp del: nextTasks.simps)
  from new nx [OF ts(1)] ts(2) nx [of "Suc k" ts] show ?thesis
    unfolding tasksCompared_def by blast
qed

lemma processTasks_responds:
  "processTasks th skip h st = Some (Inr (Inr (p, h2, st2))) \<Longrightarrow> hs_currentIndex h = 0 \<Longrightarrow>
    stops th st2 \<or> tasksCompared th skip h p (ts_respondEvents st) (ts_respondEvents st2)"
proof (induction h arbitrary: st rule: measure_induct_rule [of toDo])
  case (less h)
  note prems = less.prems(1) [unfolded processTasks.simps [of th skip h st]]
  from prems obtain t h1 where t: "nextTask (cf_flagsAllowed (th_config th)) h = Inr (t, h1)"
    by (auto split: sum.splits)
  consider (none) "p" "st2 = st" | (ended) "pt_events t = []" "ts_respondEvents st2 = ts_respondEvents st"
    | (broken) "pt_events t \<noteq> []" "runTask th h1 skip t (prepareState h1 t st) = FlowBreak st2"
    | (more) st1 where "pt_events t \<noteq> []" "runTask th h1 skip t (prepareState h1 t st) = FlowNext st1"
        "processTasks th skip h1 st1 = Some (Inr (Inr (p, h2, st2)))"
    using prems t by (auto split: if_splits flow.splits)
  then show ?case
  proof cases
    case broken
    then show ?thesis using runTask_responds [of th "prepareState h1 t st" skip t h1] by simp
  next
    case more
    then have "ts_respondEvents st1 = ts_respondEvents st @ compared skip (pt_events t)"
      using runTask_responds [of th "prepareState h1 t st" skip t h1] by simp
    moreover have "toDo h1 < toDo h" "hs_currentIndex h1 = 0"
      using nextTask_shorter [OF t less.prems(2)] more(1) by simp_all
    ultimately show ?thesis using less.IH more(3) tasksCompared_Cons [OF t more(1)] by metis
  qed (use t tasksCompared_Nil in \<open>fastforce+\<close>)
qed

lemma completed_accepted:
  assumes "th_workflowPanicPolicy th = BlockWorkflow" and "endTask th skip (p, h, st) = Inr (Inr r)"
  shows "\<not> panickedWith (wx_err (ts_context st))"
    "skip \<or> stops th st \<or> (\<exists>wc. wx_eventHandler (ts_context st) = Some wc \<and>
      list_all2 (\<lambda>d e. isCommandMatchEvent d e (ts_replayOutbox st) = Inr True)
        (comparedCommands (replayedCommands p st))
        (comparedEvents (cf_flagsAllowed (th_config th)) (wc_sdkFlags wc) (ts_respondEvents st)))"
proof -
  from assms have check: "replayCheck th skip p st = Inr None"
    and "\<not> panickedWith (wx_err (ts_context st))"
    by (auto simp: endTask_def applyWorkflowPanicPolicy_def panickedWith_def Let_def res_simps split: if_splits option.splits)
  then show "\<not> panickedWith (wx_err (ts_context st))" by blast
  from check show "skip \<or> stops th st \<or> (\<exists>wc. wx_eventHandler (ts_context st) = Some wc \<and>
      list_all2 (\<lambda>d e. isCommandMatchEvent d e (ts_replayOutbox st) = Inr True)
        (comparedCommands (replayedCommands p st))
        (comparedEvents (cf_flagsAllowed (th_config th)) (wc_sdkFlags wc) (ts_respondEvents st)))"
    by (auto simp: replayCheck_def Let_def stops_def matchReplayWithHistory_def accepted_commands_match
        split: if_splits option.splits)
qed

text \<open>
  A replay agrees with history: its commands match, one by one and in order, the command events of the
  tasks of the history; of all its tasks, unless the history was cut off in the middle.
\<close>

definition replayMatches :: "taskHandler \<Rightarrow> history \<Rightarrow> bool \<Rightarrow> taskState \<Rightarrow> bool" where
  "replayMatches th h partialHistory st \<longleftrightarrow>
     (let allowed = cf_flagsAllowed (th_config th) in
      \<exists>k ts wc. nextTasks k allowed h = Inr ts \<and>
        (partialHistory \<or> nextTasks (Suc k) allowed h = Inr ts) \<and> wx_eventHandler (ts_context st) = Some wc \<and>
        list_all2 (\<lambda>d e. isCommandMatchEvent d e (ts_replayOutbox st) = Inr True)
          (comparedCommands (replayedCommands partialHistory st))
          (comparedEvents allowed (wc_sdkFlags wc)
             (filter (\<lambda>e. isCommandEvent (ev_Attributes e)) (concat (map pt_events ts)))))"

lemma replayMatches_I:
  assumes "tasksCompared th False h p [] (ts_respondEvents st)" and "wx_eventHandler (ts_context st) = Some wc"
    and "list_all2 (\<lambda>d e. isCommandMatchEvent d e (ts_replayOutbox st) = Inr True)
      (comparedCommands (replayedCommands p st))
      (comparedEvents (cf_flagsAllowed (th_config th)) (wc_sdkFlags wc) (ts_respondEvents st))"
  shows "replayMatches th h p st"
proof -
  from assms(1) obtain k ts where "nextTasks k (cf_flagsAllowed (th_config th)) h = Inr ts"
    "p \<or> nextTasks (Suc k) (cf_flagsAllowed (th_config th)) h = Inr ts"
    "ts_respondEvents st = filter (\<lambda>e. isCommandEvent (ev_Attributes e)) (concat (map pt_events ts))"
    by (auto simp: tasksCompared_def compared_def simp del: nextTasks.simps)
  with assms(2,3) show ?thesis unfolding replayMatches_def Let_def
    by (intro exI [of _ k] exI [of _ ts] exI [of _ wc]) simp
qed

text \<open>
  C1. Under the policy \<open>BlockWorkflow\<close> a workflow task is answered only when the workflow code did not
  panic and its replay agrees with history: unless the task comes without the full history or with a
  query, or the workflow has completed outside the replayer, the commands of the replayed tasks match,
  one by one and in order, the command events of all tasks of the history (of those before the open
  task at its end, in the replayer).
\<close>

theorem completion_agrees_with_history:
  assumes "th_workflowPanicPolicy th = BlockWorkflow"
    and "ProcessWorkflowTask th w wt = Some (Inr (Inr (request, w')))"
  shows "\<exists>w1 wt1 w2 wc p h st.
    ResetIfStale th w wt = Inr (Inr (w1, wt1)) \<and> w2 = SetCurrentTask w1 (wt_task wt1) \<and>
    wx_eventHandler w2 = Some wc \<and>
    processTasks th (skipReplayCheck (wt_task wt1)) (taskHistory w2 wt1)
      (startState th (wt_task wt1) w2 wc) = Some (Inr (Inr (p, h, st))) \<and>
    \<not> panickedWith (wx_err (ts_context st)) \<and>
    (skipReplayCheck (wt_task wt1) \<or>
     wx_isWorkflowCompleted (ts_context st) \<and> \<not> shouldForceReplayCheck th (ts_context st) \<or>
     replayMatches th (taskHistory w2 wt1) p st)"
proof -
  from assms(2) obtain w1 wt1 where w1: "ResetIfStale th w wt = Inr (Inr (w1, wt1))"
    by (auto simp: ProcessWorkflowTask_def split: sum.splits)
  let ?w = "SetCurrentTask w1 (wt_task wt1)" and ?skip = "skipReplayCheck (wt_task wt1)"
  from assms(2) w1 obtain wc p h st where wc: "wx_eventHandler ?w = Some wc" and
    loop: "processTasks th ?skip (taskHistory ?w wt1) (startState th (wt_task wt1) ?w wc) =
      Some (Inr (Inr (p, h, st)))" and
    fin: "endTask th ?skip (p, h, st) = Inr (Inr (request, w'))"
    by (auto simp: ProcessWorkflowTask_def Let_def res_simps split: option.splits)
  have "stops th st \<or> tasksCompared th ?skip (taskHistory ?w wt1) p [] (ts_respondEvents st)"
    using processTasks_responds [OF loop] by (simp add: taskHistory_def newHistory_def startState_def Let_def)
  with completed_accepted(2) [OF assms(1) fin] have
    "?skip \<or> stops th st \<or> replayMatches th (taskHistory ?w wt1) p st"
    by (cases ?skip) (auto intro: replayMatches_I)
  with completed_accepted(1) [OF assms(1) fin] w1 wc loop show ?thesis unfolding stops_def by blast
qed

definition timerHandler :: taskHandler where
  "timerHandler =
     \<lparr>th_namespace = ''ns'', th_identity = ''worker'', th_workerBuildID = [], th_useBuildIDForVersioning = False,
      th_workerDeploymentVersion = noDeployment, th_defaultVersioningBehavior = 0,
      th_workflowVersioningBehavior = Map.empty, th_hasLaTunnel = False, th_sendTask = (\<lambda>_. True),
      th_workflowPanicPolicy = BlockWorkflow, th_config = exampleConfig, th_sdkMetadata = True,
      th_buildIdBasedVersioning = False, th_workerControlTaskQueue = [], th_code = timerCode,
      th_errorText = (\<lambda>_. []), th_sessionOrder = (\<lambda>_. []), th_sessions = (\<lambda>_. GoString []),
      th_pressurePoint = (\<lambda>_ _. None), th_leftByPanic = (\<lambda>_ wc. wc), th_panicValue = (\<lambda>_. []),
      th_panicStack = [], th_clock = (\<lambda>_. 0), th_sendClock = (\<lambda>_ _. 0)\<rparr>"

definition timerTask :: workflowTask where
  "timerTask =
     \<lparr>wt_task = \<lparr>tk_TaskToken = ''token'', tk_WorkflowId = ''w'', tk_PollerGroupId = [], tk_PreviousStartedEventId = 3,
        tk_StartedEventId = 8, tk_History = [eventOf 1 (WorkflowEvent (WorkflowExecutionStarted None None None None)),
          eventOf 2 (NoOperation WorkflowTaskScheduled), eventOf 3 (TaskEvent (WorkflowTaskStarted False [] False 0)),
          eventOf 4 (NoOperation (WorkflowTaskCompleted \<lparr>tc_BinaryChecksum = [], tc_LangUsedFlags = [],
            tc_SdkName = SDKName, tc_SdkVersion = SDKVersion, tc_DeploymentBuildId = [],
            tc_WorkerDeploymentVersion = [], tc_WorkerVersionBuildId = []\<rparr>)),
          eventOf 5 (TimerEvent (TimerStarted ''5'')), eventOf 6 (TimerEvent (TimerFired ''5'')),
          eventOf 7 (NoOperation WorkflowTaskScheduled), eventOf 8 (TaskEvent (WorkflowTaskStarted False [] False 0))],
        tk_Query = None, tk_Queries = [], tk_Messages = []\<rparr>,
      wt_pages = [], wt_afterReset = (Inr [], [])\<rparr>"

definition timerContext :: wfContext where
  "timerContext = newWorkflowExecutionContext timerHandler exampleInfo"

definition replayingContext :: wfContext where
  "replayingContext = SetCurrentTask timerContext (wt_task timerTask)"

definition timerLoop :: "(bool \<times> history \<times> taskState) run option" where
  "timerLoop =
     (case wx_eventHandler replayingContext of
        None \<Rightarrow> None
      | Some wc \<Rightarrow> processTasks timerHandler False (taskHistory replayingContext timerTask)
          (startState timerHandler (wt_task timerTask) replayingContext wc))"

theorem completion_agrees_with_history_witness:
  "\<exists>st. map (\<lambda>d. cmd_CommandType d) (replayedCommands False st) = [COMMAND_TYPE_START_TIMER] \<and>
     replayMatches timerHandler (taskHistory replayingContext timerTask) False st"
proof -
  have "case ProcessWorkflowTask timerHandler timerContext timerTask of Some (Inr (Inr _)) \<Rightarrow> True | _ \<Rightarrow> False"
    by code_simp
  then obtain r w' where run: "ProcessWorkflowTask timerHandler timerContext timerTask = Some (Inr (Inr (r, w')))"
    by (auto split: option.splits sum.splits)
  have loop: "case timerLoop of
      Some (Inr (Inr (p, h, st))) \<Rightarrow> \<not> p \<and> \<not> wx_isWorkflowCompleted (ts_context st) \<and>
        map (\<lambda>d. cmd_CommandType d) (replayedCommands False st) = [COMMAND_TYPE_START_TIMER]
    | _ \<Rightarrow> False" by code_simp
  have reset: "ResetIfStale timerHandler timerContext timerTask = Inr (Inr (timerContext, timerTask))"
    by (simp add: ResetIfStale_def timerTask_def eventOf_def timerContext_def newWorkflowExecutionContext_def
        createEventHandler_def Let_def clearState_def)
  have skip: "skipReplayCheck (wt_task timerTask) = False" by code_simp
  have block: "th_workflowPanicPolicy timerHandler = BlockWorkflow" by (simp add: timerHandler_def)
  obtain w1 wt1 w2 wc p h st where w1: "Inr (Inr (timerContext, timerTask)) = Inr (Inr (w1, wt1))"
    "w2 = SetCurrentTask w1 (wt_task wt1)" "wx_eventHandler w2 = Some wc"
    "processTasks timerHandler (skipReplayCheck (wt_task wt1)) (taskHistory w2 wt1)
      (startState timerHandler (wt_task wt1) w2 wc) = Some (Inr (Inr (p, h, st)))"
    "skipReplayCheck (wt_task wt1) \<or>
     wx_isWorkflowCompleted (ts_context st) \<and> \<not> shouldForceReplayCheck timerHandler (ts_context st) \<or>
     replayMatches timerHandler (taskHistory w2 wt1) p st"
    using completion_agrees_with_history [OF block run, unfolded reset] by blast
  from w1(1,2) have w2: "wt1 = timerTask" "w2 = replayingContext" by (simp_all add: replayingContext_def)
  from loop w1(3,4) have p: "p = False" and c: "\<not> wx_isWorkflowCompleted (ts_context st)"
    and m: "map (\<lambda>d. cmd_CommandType d) (replayedCommands False st) = [COMMAND_TYPE_START_TIMER]"
    by (simp_all add: timerLoop_def w2 skip)
  from w1(5) c have "replayMatches timerHandler (taskHistory replayingContext timerTask) False st"
    unfolding w2 skip p by blast
  with m show ?thesis by (intro exI conjI)
qed

end
