(* ===== verification/Completion_Properties.thy ===== *)
theory Completion_Properties
  imports Task_Replay
begin

text \<open>
  The request that completes a workflow task: which commands it carries, how it closes the workflow,
  and how it is divided into pages when it is too large.
\<close>

section \<open>The closing command\<close>

definition isClosing :: "enumsCommandType \<Rightarrow> bool" where
  "isClosing t \<longleftrightarrow> t \<in> {COMMAND_TYPE_COMPLETE_WORKFLOW_EXECUTION, COMMAND_TYPE_FAIL_WORKFLOW_EXECUTION,
     COMMAND_TYPE_CANCEL_WORKFLOW_EXECUTION, COMMAND_TYPE_CONTINUE_AS_NEW_WORKFLOW_EXECUTION}"

text \<open>How a workflow is closed, from the error its code returned.\<close>

definition closingTypes :: "bool \<Rightarrow> goError option \<Rightarrow> enumsCommandType list" where
  "closingTypes completed err =
     (if errorAs isCanceled err \<noteq> None then [COMMAND_TYPE_CANCEL_WORKFLOW_EXECUTION]
      else if errorAs isContinueAsNew err \<noteq> None then [COMMAND_TYPE_CONTINUE_AS_NEW_WORKFLOW_EXECUTION]
      else if err \<noteq> None then [COMMAND_TYPE_FAIL_WORKFLOW_EXECUTION]
      else if completed then [COMMAND_TYPE_COMPLETE_WORKFLOW_EXECUTION] else [])"

lemma machine_command_open:
  assumes "kind_id (m_kind d) (m_id d)" and "machine_getCommand d = Some c"
  shows "\<not> isClosing (cmd_CommandType c)"
  using assms by (cases "m_kind d") (auto simp: getCommand_defs kind_id_def isClosing_def split: if_splits)

lemma commandsOf_open:
  assumes "wf_helper h" and "c \<in> set (commandsOf h)"
  shows "\<not> isClosing (cmd_CommandType c)"
proof -
  from assms(2) obtain p where "c \<in> set (commandOf h p)" by (auto simp: commandsOf_def)
  then obtain d where d: "machines h p = Some d" "machine_getCommand d = Some c"
    by (cases "machines h p") (auto simp: commandOf_def split: option.splits)
  have "store_ok h" using assms(1) by (simp add: wf_helper_def)
  from machine_command_open [OF kind_id_of_store [OF this d(1)] d(2)] show ?thesis .
qed

lemma errorAs_find: "errorAs P err = Some e \<Longrightarrow> P e"
  by (auto simp: errorAs_def find_Some_iff split: option.splits)

lemma withAttributes_type [simp]: "cmd_CommandType (withAttributes t a) = t"
  by (simp add: withAttributes_def)

lemma continueAsNewCommand_type:
  "continueAsNewCommand wc e = Inr c \<Longrightarrow> cmd_CommandType c = COMMAND_TYPE_CONTINUE_AS_NEW_WORKFLOW_EXECUTION"
  by (auto simp: continueAsNewCommand_def Let_def res_simps split: option.splits)

lemma closeCommand_types:
  assumes "closeCommand wc completed result err = Inr close"
  shows "map cmd_CommandType (case close of None \<Rightarrow> [] | Some c \<Rightarrow> [c]) = closingTypes completed err"
proof -
  have "\<exists>a b dets x. e = CanceledError a b dets x" if "errorAs isCanceled err = Some e" for e
    using errorAs_find [OF that] by (cases e) simp_all
  moreover have "\<exists>x. e = ContinueAsNewError x" if "errorAs isContinueAsNew err = Some e" for e
    using errorAs_find [OF that] by (cases e) simp_all
  ultimately show ?thesis using assms
    by (cases "errorAs isCanceled err"; cases "errorAs isContinueAsNew err")
      (fastforce simp: closeCommand_def closingTypes_def res_simps continueAsNewCommand_type split: if_splits)+
qed

lemma completeWorkflow_closes:
  assumes "completeWorkflow th wc task completed result err cs ms force = Inr (request, wc')"
    and "tk_Query task = None"
  shows "\<exists>rq close. request = CompletedRequest rq \<and> rq_Commands rq = cs @ close \<and>
    map cmd_CommandType close = closingTypes completed err \<and>
    (rq_ForceCreateNewWorkflowTask rq \<longleftrightarrow> force \<and> close = [])"
proof -
  from assms obtain close where close: "closeCommand wc completed result err = Inr close"
    by (cases "closeCommand wc completed result err") (simp_all add: completeWorkflow_def)
  with assms obtain rq where rq: "request = CompletedRequest rq"
    "rq_Commands rq = cs @ (case close of None \<Rightarrow> [] | Some c \<Rightarrow> [c])"
    "rq_ForceCreateNewWorkflowTask rq = (if close = None then force else False)"
    by (cases request) (auto simp: completeWorkflow_def Let_def case_prod_unfold bind_res_eq_Inr)
  show ?thesis
    using closeCommand_types [OF close] rq by (cases close) (auto intro: exI [of _ rq])
qed

lemma finishTask_closes:
  assumes "finishTask th wait task w wc = Inr (request, w')" and "tk_Query task = None"
    and "wf_helper (wc_commandsHelper wc)"
  shows "\<exists>rq close. request = Some (CompletedRequest rq) \<and>
    rq_Commands rq = wx_newCommands w @ commandsOf (wc_commandsHelper wc) @ close \<and>
    map cmd_CommandType close = closingTypes (wx_isWorkflowCompleted w) (wx_err w) \<and>
    (rq_ForceCreateNewWorkflowTask rq \<longleftrightarrow> \<not> wait \<and> close = []) \<and>
    wx_newCommands w' = [] \<and> wx_currentWorkflowTask w' = None"
proof -
  obtain h where h: "getCommands (wc_commandsHelper wc) True = Inr (commandsOf (wc_commandsHelper wc), h)"
    using getCommands_total [OF assms(3), of True] by blast
  from assms(1) h obtain wc2 ms r wc3 where c: "completeWorkflow th wc2 task (wx_isWorkflowCompleted w)
      (wx_result w) (wx_err w) (wx_newCommands w @ commandsOf (wc_commandsHelper wc)) ms (\<not> wait) = Inr (r, wc3)"
    and w': "request = Some r" "w' = (clearCurrentTask w)\<lparr>wx_eventHandler := Some wc3\<rparr>"
    by (auto simp: finishTask_def withHelper_def Let_def case_prod_unfold res_simps)
  from completeWorkflow_closes [OF c assms(2)] w' show ?thesis
    by (auto simp: clearCurrentTask_def)
qed

lemma startLocalActivities_helper [simp]:
  "startLocalActivities th n wc = Inr wc1 \<Longrightarrow> wc_commandsHelper wc1 = wc_commandsHelper wc"
  by (auto simp: startLocalActivities_def split: if_splits)

text \<open>
  C8. The completion of a workflow task closes the workflow at most once and last: its commands are
  those that the workflow code asked for, none of which closes a workflow, followed by one closing
  command if the code has returned, and by nothing otherwise. The command cancels, continues as new,
  fails or completes the workflow, in this order of precedence, by the chain of the returned error. A
  new task is only forced when the workflow stays open; the context is ready for its next task.
\<close>

theorem completion_closes_once:
  assumes "env_reachable wd wc" and "uses_api wd" and "wx_eventHandler w = Some wc"
    and "wx_currentWorkflowTask w = Some task" and "tk_Query task = None" and "wx_newCommands w = []"
    and "CompleteWorkflowTask th wait w = Inr (Some request, w')"
  shows "(\<forall>c \<in> set (commandsOf (wc_commandsHelper wc)). \<not> isClosing (cmd_CommandType c)) \<and>
    (\<exists>rq close. request = CompletedRequest rq \<and>
    rq_Commands rq = commandsOf (wc_commandsHelper wc) @ close \<and>
    map cmd_CommandType close = closingTypes (wx_isWorkflowCompleted w) (wx_err w) \<and>
    (rq_ForceCreateNewWorkflowTask rq \<longleftrightarrow> \<not> wait \<and> close = []) \<and>
    wx_newCommands w' = [] \<and> wx_currentWorkflowTask w' = None)"
proof -
  have wf: "wf_helper (wc_commandsHelper wc)" by (rule ok_wf [OF ok_reachable [OF assms(1,2)]])
  from assms(3,4,7) obtain w1 wc1 where f: "finishTask th wait task w1 wc1 = Inr (Some request, w')"
    and same: "wc_commandsHelper wc1 = wc_commandsHelper wc" "wx_newCommands w1 = wx_newCommands w"
    "wx_isWorkflowCompleted w1 = wx_isWorkflowCompleted w" "wx_err w1 = wx_err w"
    by (auto simp: CompleteWorkflowTask_def Let_def res_simps split: if_splits)
  have wf1: "wf_helper (wc_commandsHelper wc1)" using wf same(1) by simp
  have "\<forall>c \<in> set (commandsOf (wc_commandsHelper wc)). \<not> isClosing (cmd_CommandType c)"
    using commandsOf_open [OF wf] by blast
  with finishTask_closes [OF f assms(5) wf1] show ?thesis
    unfolding same assms(6) append_Nil option.inject by (intro conjI)
qed

text \<open>An environment whose workflow code has just started a timer.\<close>

definition startedEnv :: "env option" where
  "startedEnv =
     (case ProcessEvent timerCode 0 exampleEnv
         (Some (eventOf 1 (WorkflowEvent (WorkflowExecutionStarted None None None None)))) False False of
        Returned None wc \<Rightarrow>
         (case ProcessEvent timerCode 0 wc (Some (eventOf 3 (TaskEvent (WorkflowTaskStarted False [] False 0))))
            False False of
            Returned None wc' \<Rightarrow> Some wc' | _ \<Rightarrow> None)
      | _ \<Rightarrow> None)"

lemma startedEnv_reachable:
  assumes "startedEnv = Some wc"
  shows "env_reachable timerCode wc"
proof -
  from assms obtain wc1 where p: "ProcessEvent timerCode 0 exampleEnv
      (Some (eventOf 1 (WorkflowEvent (WorkflowExecutionStarted None None None None)))) False False = Returned None wc1"
    "ProcessEvent timerCode 0 wc1 (Some (eventOf 3 (TaskEvent (WorkflowTaskStarted False [] False 0))))
      False False = Returned None wc"
    unfolding startedEnv_def by (auto split: processResult.splits option.splits)
  show ?thesis
    by (rule env_reachable.event [OF env_reachable.event [OF env_reachable.init p(1) [unfolded exampleEnv_def]] p(2)])
qed

definition closingContext :: "env \<Rightarrow> wfContext" where
  "closingContext wc = (SetCurrentTask (newWorkflowExecutionContext timerHandler exampleInfo) (wt_task timerTask))
     \<lparr>wx_eventHandler := Some wc, wx_isWorkflowCompleted := True\<rparr>"

theorem completion_closes_once_witness:
  "\<exists>wc rq w'. startedEnv = Some wc \<and>
     CompleteWorkflowTask timerHandler True (closingContext wc) = Inr (Some (CompletedRequest rq), w') \<and>
     map cmd_CommandType (rq_Commands rq) = [COMMAND_TYPE_START_TIMER, COMMAND_TYPE_COMPLETE_WORKFLOW_EXECUTION]"
proof -
  have "case startedEnv of None \<Rightarrow> False | Some wc \<Rightarrow>
     map cmd_CommandType (commandsOf (wc_commandsHelper wc)) = [COMMAND_TYPE_START_TIMER] \<and>
     (case CompleteWorkflowTask timerHandler True (closingContext wc) of Inr (Some _, _) \<Rightarrow> True | _ \<Rightarrow> False)"
    by code_simp
  then obtain wc request w' where wc: "startedEnv = Some wc"
    and t: "map cmd_CommandType (commandsOf (wc_commandsHelper wc)) = [COMMAND_TYPE_START_TIMER]"
    and c: "CompleteWorkflowTask timerHandler True (closingContext wc) = Inr (Some request, w')"
    by (auto split: option.splits sum.splits)
  have w: "wx_eventHandler (closingContext wc) = Some wc"
    "wx_currentWorkflowTask (closingContext wc) = Some (wt_task timerTask)" "tk_Query (wt_task timerTask) = None"
    "wx_newCommands (closingContext wc) = []" "wx_isWorkflowCompleted (closingContext wc)"
    "wx_err (closingContext wc) = None"
    by (simp_all add: closingContext_def SetCurrentTask_def timerTask_def newWorkflowExecutionContext_def
        createEventHandler_def clearState_def clearCurrentTask_def Let_def)
  obtain rq close where "request = CompletedRequest rq"
    "rq_Commands rq = commandsOf (wc_commandsHelper wc) @ close"
    "map cmd_CommandType close = closingTypes (wx_isWorkflowCompleted (closingContext wc)) (wx_err (closingContext wc))"
    using completion_closes_once [OF startedEnv_reachable [OF wc] uses_api_timerCode w(1-4) c] by blast
  then show ?thesis using wc t c w(5,6) by (auto simp: closingTypes_def errorAs_def)
qed

section \<open>Pagination\<close>

abbreviation totalSize :: "(command \<Rightarrow> nat) \<Rightarrow> command list \<Rightarrow> nat" where
  "totalSize commandSize cs \<equiv> sum_list (map commandSize cs)"

lemma packCommands_concat: "concat (packCommands f m cs current n) = current @ cs"
  by (induction f m cs current n rule: packCommands.induct) auto

lemma packCommands_fits:
  assumes "\<forall>c \<in> set cs. f c \<le> m" and "n = totalSize f current" and "n \<le> m"
    and "ps \<in> set (packCommands f m cs current n)"
  shows "ps \<noteq> [] \<and> totalSize f ps \<le> m"
  using assms
proof (induction f m cs current n rule: packCommands.induct)
  case (2 f m c cs current n)
  show ?case
  proof (cases "current \<noteq> [] \<and> m < n + f c")
    case True
    then have "ps = current \<or> ps \<in> set (packCommands f m cs [c] (f c))" using "2.prems"(4) by simp
    then show ?thesis using "2.IH"(1) [OF True] "2.prems"(1-3) True by fastforce
  next
    case False
    then have "n + f c \<le> m" using "2.prems"(1,2) by (cases "current = []") simp_all
    moreover have "n + f c = totalSize f (current @ [c])" using "2.prems"(2) by simp
    moreover have "ps \<in> set (packCommands f m cs (current @ [c]) (n + f c))" using "2.prems"(4) False by simp
    ultimately show ?thesis using "2.IH"(2) [OF False] "2.prems"(1) by simp
  qed
qed (auto split: if_splits)

text \<open>
  No division of the commands into pages that fit has fewer pages: dropping its first page leaves at
  least the commands that the loop has not put on a page.
\<close>

lemma packCommands_fewest:
  assumes "concat pss = s @ current @ cs" and "\<forall>ps \<in> set pss. totalSize f ps \<le> m"
    and "current \<noteq> []" and "n = totalSize f current"
  shows "length (packCommands f m cs current n) \<le> length pss"
  using assms
proof (induction f m cs current n arbitrary: s pss rule: packCommands.induct)
  case (1 f m current n)
  then show ?case by (cases pss) auto
next
  case (2 f m c cs current n)
  show ?case
  proof (cases "m < n + f c")
    case True
    from "2.prems"(1,3) obtain p rest where pss: "pss = p # rest" by (cases pss) auto
    then have p: "p @ concat rest = (s @ current) @ c # cs" using "2.prems"(1) by simp
    have "length p \<le> length (s @ current)"
    proof (rule ccontr)
      assume "\<not> length p \<le> length (s @ current)"
      with p obtain q where "p = s @ current @ c # q"
        by (auto simp: append_eq_append_conv2 append_eq_Cons_conv)
      with "2.prems"(2,4) pss True show False by simp
    qed
    then have rest: "concat rest = drop (length p) (s @ current) @ [c] @ cs"
      using arg_cong [OF p, of "drop (length p)"] by simp
    have "\<forall>ps \<in> set rest. totalSize f ps \<le> m" using "2.prems"(2) pss by simp
    from "2.IH"(1) [OF conjI [OF "2.prems"(3) True] rest this]
    have "length (packCommands f m cs [c] (f c)) \<le> length rest" by simp
    then show ?thesis using pss True "2.prems"(3) by simp
  next
    case False
    with "2.IH"(2) [of pss s] "2.prems" show ?thesis by simp
  qed
qed

lemma packCommands_nonempty: "cs \<noteq> [] \<Longrightarrow> packCommands f m cs current n \<noteq> []"
  using packCommands_concat [of f m cs current n] by auto

lemma paginate_cases:
  assumes "paginateWorkflowTaskCompletion requestSize f request m = (pages, final)"
  shows "pages = [] \<longleftrightarrow> requestSize request \<le> m \<or> rq_Commands request = [] \<or>
      (\<exists>c \<in> set (rq_Commands request). m < f c)"
    and "pages = [] \<Longrightarrow> final = request"
    and "pages \<noteq> [] \<Longrightarrow> \<forall>c \<in> set (rq_Commands request). f c \<le> m"
    and "pages \<noteq> [] \<Longrightarrow> pages = map2 (newIntermediatePage request)
      (packCommands f m (rq_Commands request) [] 0) [0..<length (packCommands f m (rq_Commands request) [] 0)]"
    and "pages \<noteq> [] \<Longrightarrow> final = request\<lparr>rq_Commands := [], rq_PageNumber := of_nat (length pages),
      rq_IntermediatePage := False\<rparr>"
  using assms packCommands_nonempty [of "rq_Commands request" f m "[]" 0]
  by (auto simp: paginateWorkflowTaskCompletion_def Let_def list_ex_iff not_less split: if_splits)

text \<open>
  C19. Pagination of a completion. A completion that fits, has no commands or has a command larger
  than a page is sent as it is. Otherwise the pages hold its commands, all of them and in order; every
  page has commands and stays within the limit; the pages are numbered from 0 and the last request
  carries the rest with the number of pages. No division of the commands into pages within the limit
  has fewer pages.
\<close>

theorem pagination_is_optimal:
  assumes "paginateWorkflowTaskCompletion requestSize commandSize request m = (pages, final)"
  shows "(pages = [] \<longleftrightarrow> requestSize request \<le> m \<or> rq_Commands request = [] \<or>
      (\<exists>c \<in> set (rq_Commands request). m < commandSize c)) \<and>
    (if pages = [] then final = request
     else
       concat (map rq_Commands pages) = rq_Commands request \<and>
       (\<forall>i < length pages. rq_Commands (pages ! i) \<noteq> [] \<and>
          totalSize commandSize (rq_Commands (pages ! i)) \<le> m \<and> rq_Messages (pages ! i) = [] \<and>
          rq_IntermediatePage (pages ! i) \<and> rq_PageNumber (pages ! i) = of_nat i) \<and>
       final = request\<lparr>rq_Commands := [], rq_PageNumber := of_nat (length pages),
          rq_IntermediatePage := False\<rparr> \<and>
       (\<forall>pss. concat pss = rq_Commands request \<and> (\<forall>ps \<in> set pss. totalSize commandSize ps \<le> m) \<longrightarrow>
          length pages \<le> length pss))"
proof (cases "pages = []")
  case True
  then show ?thesis using paginate_cases(1,2) [OF assms] by simp
next
  case False
  let ?pack = "packCommands commandSize m (rq_Commands request) [] 0"
  note pages = paginate_cases(4) [OF assms False]
  have commands: "map rq_Commands pages = ?pack"
    unfolding pages by (rule nth_equalityI) (simp_all add: newIntermediatePage_def)
  have fits: "\<forall>ps \<in> set ?pack. ps \<noteq> [] \<and> totalSize commandSize ps \<le> m"
    using packCommands_fits [OF paginate_cases(3) [OF assms False], of 0 "[]"] by simp
  have page: "\<forall>i < length pages. rq_Commands (pages ! i) \<noteq> [] \<and>
      totalSize commandSize (rq_Commands (pages ! i)) \<le> m \<and> rq_Messages (pages ! i) = [] \<and>
      rq_IntermediatePage (pages ! i) \<and> rq_PageNumber (pages ! i) = of_nat i"
    unfolding pages using fits by (simp add: newIntermediatePage_def)
  have "length pages = length ?pack" unfolding pages by simp
  moreover obtain c cs where "rq_Commands request = c # cs"
    using False paginate_cases(1) [OF assms] by (cases "rq_Commands request") auto
  ultimately have fewest: "length pages \<le> length pss" if "concat pss = rq_Commands request"
    "\<forall>ps \<in> set pss. totalSize commandSize ps \<le> m" for pss
    using packCommands_fewest [of pss "[]" "[c]" cs commandSize m] that by simp
  show ?thesis
    using False page fewest paginate_cases(1,5) [OF assms] packCommands_concat [of commandSize m "rq_Commands request" "[]" 0]
    by (simp add: commands)
qed

text \<open>Three timers of four bytes each, in pages of eight bytes.\<close>

definition timersRequest :: completedRequest where
  "timersRequest =
     \<lparr>rq_TaskToken = ''token'', rq_Commands = map timerCommand [''5'', ''6'', ''7''], rq_Messages = [],
      rq_Identity = ''worker'', rq_ReturnNewWorkflowTask = True, rq_ForceCreateNewWorkflowTask = False,
      rq_BinaryChecksum = [], rq_QueryResults = fmempty, rq_Namespace = ''ns'', rq_ResourceId = [],
      rq_NonfirstLocalActivityExecutionAttempts = 0, rq_LangUsedFlags = {||}, rq_SdkName = [],
      rq_SdkVersion = [], rq_BuildId = [], rq_UseVersioning = False,
      rq_DiscardSpeculativeWorkflowTaskWithEvents = True, rq_SeriesName = [], rq_DeploymentOptions = None,
      rq_WorkerControlTaskQueue = [], rq_VersioningBehavior = 0, rq_IntermediatePage = False,
      rq_PageNumber = 0\<rparr>"

definition timerPages :: "completedRequest list \<times> completedRequest" where
  "timerPages = paginateWorkflowTaskCompletion (\<lambda>_. 40) (\<lambda>_. 4) timersRequest 8"

theorem pagination_is_optimal_witness:
  "length (fst timerPages) = 2 \<and> rq_PageNumber (snd timerPages) = 2 \<and>
   \<not> (\<exists>pss. concat pss = rq_Commands timersRequest \<and> list_all (\<lambda>ps. totalSize (\<lambda>_. 4) ps \<le> 8) pss \<and>
      length pss < 2)"
proof -
  have p: "paginateWorkflowTaskCompletion (\<lambda>_. 40) (\<lambda>_. 4) timersRequest 8 = (fst timerPages, snd timerPages)"
    by (simp add: timerPages_def)
  have n: "length (fst timerPages) = 2" and m: "rq_PageNumber (snd timerPages) = 2" by code_simp+
  then have "(fst timerPages = []) = False" by auto
  with pagination_is_optimal [OF p] have "\<forall>pss. concat pss = rq_Commands timersRequest \<and>
      (\<forall>ps \<in> set pss. totalSize (\<lambda>_. 4) ps \<le> 8) \<longrightarrow> length (fst timerPages) \<le> length pss"
    by (simp only: if_False) (elim conjE)
  then have "\<not> (\<exists>pss. concat pss = rq_Commands timersRequest \<and>
      list_all (\<lambda>ps. totalSize (\<lambda>_. 4) ps \<le> 8) pss \<and> length pss < 2)"
    unfolding list_all_iff n by (blast dest: leD)
  with n m show ?thesis by (intro conjI)
qed

end
