(* ===== verification/Spec2Isabelle.thy ===== *)
theory Spec2Isabelle
  imports Command_Properties Sdk_Flags Lru_Cache Env_Properties Replay_Properties Failure_Properties
    Local_Tunnel Completion_Properties
begin

text \<open>
  A model of the workflow worker of the Temporal SDK for Go (\<open>src/internal\<close>) and what makes it correct.

  \<^bold>\<open>The program.\<close> A worker executes workflow code by replaying it. The service sends the history of a
  workflow in pages, with a workflow task. The \<^emph>\<open>workflow execution context\<close> cuts the history into the
  tasks it was made by and feeds their events, markers and messages to the \<^emph>\<open>event handler\<close>. The event
  handler runs the workflow code, which calls the operations of its \<^emph>\<open>environment\<close>. An operation asks the
  \<^emph>\<open>commands helper\<close> for a command, which is a state machine: it is sent with the completion of the task,
  and later events of the history (scheduled, completed, canceled, ...) move it and resolve the callback of
  the operation. Versions, side effects and flags are recorded in history so that the code takes the same
  decisions in a replay. At the end the commands of the replayed tasks are compared with the history, the
  panic policy is applied and the completion is built, divided into pages if it is large. Contexts are kept
  in an LRU cache, and local activities reach their pollers through a tunnel.

  \<^bold>\<open>How Go is modelled.\<close> State is passed explicitly, as records that have the fields of the Go structs. A
  machine of the helper is reached through a pointer into a store, since commands are shared between the
  list, the map and the callers. \<open>int64\<close> and \<open>int32\<close> are words, so sums wrap; comparisons are signed through
  \<open>sint\<close>. Maps are finite maps, and where the code iterates over a map the order is an argument. A panic is
  the left value of \<open>'a res\<close>; an \<open>error\<close> is a value of \<open>goError\<close>, whose constructors are the error types. A
  callback is a handle: calling it appends to the log \<open>wc_calls\<close>. Readings of the clock are arguments.
  What is not in the repository or not ordinary code is a parameter: workflow code (record \<open>workflowCode\<close>),
  data and failure converters, SHA-256, the encoded size of messages, the floating-point power of the
  backoff, and what a run-time panic leaves of an environment. A property that relies on a converter states
  what it needs of it and is witnessed with the converter of \<open>Example_Env\<close>.

  \<^bold>\<open>The theories.\<close>
  \<^item> \<open>Go_Prelude\<close>: panics and results, decimal printing, words, lists and the lemma collections
    \<open>res_simps\<close> (results of sequenced operations) and \<open>wf_intros\<close> (operations keep an invariant).
  \<^item> \<open>Command_Data\<close>, \<open>Command_Machines\<close>, \<open>Commands_Helper\<close>: \<open>internal_command_state_machine.go\<close>, that is
    ids, states, commands, the twelve machine types with their transitions, and every operation of
    \<open>commandsHelper\<close>.
  \<^item> \<open>Machine_Events\<close>: the locale \<open>machine_event\<close>, the contract of the operations that move a machine
    by an event, with its eleven interpretations; \<open>Helper_Invariant\<close>, \<open>Helper_Operations\<close>, \<open>Task_Commands\<close>,
    \<open>Helper_Steps\<close>, \<open>Helper_Data\<close>: the invariant \<open>wf_helper\<close>, that every operation keeps it, the commands
    of a task, and the data that commands keep; \<open>Event_Ids\<close>: the prediction of event ids; \<open>Task_Run\<close>:
    what workflow code does in one task; \<open>Command_Properties\<close>: the properties.
  \<^item> \<open>Sdk_Flags\<close>: \<open>internal_flags.go\<close>, with its properties.
  \<^item> \<open>Lru_Cache\<close>: \<open>common/cache/lru.go\<close>; the locale \<open>recency_cache\<close> is the contract of a cache without
    pinned entries, interpreted on the linked list and the map.
  \<^item> \<open>Go_Errors\<close>, \<open>Failure_Converter\<close>, \<open>Failure_Properties\<close>: \<open>error.go\<close> and \<open>failure_converter.go\<close>.
  \<^item> \<open>Workflow_Env\<close>, \<open>Workflow_Api\<close>, \<open>Workflow_Recorded\<close>, \<open>Update_Protocol\<close>, \<open>Event_Handlers\<close>:
    \<open>internal_event_handlers.go\<close> and \<open>internal_update.go\<close>, that is the environment, its operations, versions
    and side effects, the update protocol, and \<open>ProcessEvent\<close>, \<open>ProcessMessage\<close> and
    \<open>ProcessLocalActivityResult\<close> for every kind of event.
  \<^item> \<open>Env_Invariant\<close>, \<open>Env_Operations\<close>, \<open>Env_Steps\<close>: the environment as a transition system, the steps of
    workflow code and of the event handler, with the invariant \<open>ok\<close> of all reachable environments;
    \<open>Env_Versions\<close>: that a decided version stays, whatever happens later; \<open>Record_Replay\<close>,
    \<open>Env_Properties\<close>: the properties, \<open>Example_Env\<close>: a concrete configuration.
  \<^item> \<open>Task_History\<close>, \<open>History_Pages\<close>, \<open>History_Tasks\<close>: the type \<open>history\<close> of \<open>internal_task_handlers.go\<close>,
    which loads pages and cuts them into tasks; \<open>Replay_Match\<close>, \<open>Replay_Properties\<close>:
    \<open>matchReplayWithHistory\<close>.
  \<^item> \<open>Task_Completion\<close>: the completion of a task, its pages (\<open>internal_workflow_task_pagination.go\<close>), queries
    and the backoff of local activities; \<open>Workflow_Task\<close>: \<open>workflowExecutionContextImpl\<close>, with
    \<open>ProcessWorkflowTask\<close>; \<open>Task_Termination\<close>, \<open>Task_Replay\<close>, \<open>Completion_Properties\<close>: the properties.
  \<^item> \<open>Local_Tunnel\<close>: \<open>localActivityTunnel\<close> of \<open>internal_task_pollers.go\<close> as an interleaving of goroutines.

  \<^bold>\<open>What is shown.\<close> Across components: a task is completed under the policy
  \<open>BlockWorkflow\<close> only if the commands of its replay match the command events of the history (C1,
  C2), for histories that are cut into tasks without losing or repeating an event (C3, C21), and of which
  nothing behind a gap is handed out (C22); processing a task always returns (C4); the completion closes the
  workflow at most once (C8) and is divided optimally (C19). Commands: the helper stays consistent (C5), returns
  the right commands (C6) and no command that was sent again (C10), predicts event ids over whole tasks (C9,
  C29, C32), and handles the end of timers and activities in every state (C33, C34); duplicates are refused
  (C35, C36). Callbacks are called at most once (C7), a timer calls its own when it fires or is canceled (C11),
  and data has the type the handlers assert (C20). Recorded decisions replay: flags (C14, C39), versions (C15,
  C16), side effects (C17, C18). The tunnel is a queue without lost wake-ups (C12, C13), the cache is bounded
  and keeps recent and pinned entries (C23 to C26), failures and errors survive conversion (C27, C28, where the
  failure of a nexus handler comes back in clear text), memos and messages are handled as specified (C37, C38).
  C30, C31 and C40 describe behaviour that the documentation of the code does not intend.

  \<^bold>\<open>Termination and bounds.\<close> Recursive definitions are total, with two exceptions that use
  \<open>partial_function\<close> where the Go loop has no evident bound: the loop over the tasks (it returns,
  C4), the clearing of the tunnel (it returns, C12). The functions \<open>nextTasks\<close> and
  \<open>tasksUntil\<close>, which only state properties, ask for at most a given number of tasks, and one more
  than the number of events is enough (C3, C22). Pages and histories are of any length; properties that add to
  event ids assume that they do not wrap around.

  \<^bold>\<open>Not modelled.\<close> Coroutines, channels and selectors of workflow code (\<open>internal_workflow.go\<close>: goroutines
  that hand over control and are unwound by panics), the code of workflow functions above the environment
  (\<open>workflow.go\<close>, \<open>session.go\<close>), pollers, workers, clients and their retries (long polls, timers and calls of
  the service), activity execution and registration (reflection), data converters (JSON, protobuf), nexus
  handlers, interceptors, the test environment, metrics and logging. The lookup of contexts in the cache and
  the wait for local activity results in the outer \<open>ProcessWorkflowTask\<close> are left out, since they only
  select and lock what the model describes.
\<close>

end
